(* ===== verification/Prelude.thy ===== *)
theory Prelude
  imports Main "HOL-Library.Word" "HOL-Library.Sublist"
begin

text \<open>
  What every theory of the development shares: Go's error values, the result
  type of a fallible call, the dynamically typed JSON values the control plane
  reads, association lists used as Go maps, and the collections of facts the
  component proofs simplify with.

  Errors.  Go code returns an \<open>error\<close> value beside its result.  The control plane
  compares errors in two ways that differ: \<open>err == sentinel\<close> looks at the
  outermost value only, \<open>errors.Is\<close> walks the chain built by \<open>fmt.Errorf("...%w")\<close>.
  Both are kept: a wrapped error is the constructor \<open>Wrapf\<close> with the text before
  and after the wrapped one.  Numbers and durations formatted into an error text
  are left out of it; the texts themselves are kept because one routine
  inspects them.
\<close>

named_theorems go_lib \<open>rewrite rules of the modelled Go standard library\<close>
named_theorems store_defs \<open>the statements of the SQLite store, to be unfolded\<close>

datatype goerr =
    ErrUnauthorized   \<comment> \<open>control-plane/internal/domain/errors\<close>
  | ErrForbidden
  | ErrInvalidInput
  | ErrNotFound
  | ErrConflict
  | SqlErrNoRows      \<comment> \<open>database/sql\<close>
  | Errorf string     \<comment> \<open>errors.New, or fmt.Errorf without a wrapped error\<close>
  | Wrapf string goerr string \<comment> \<open>fmt.Errorf with a wrapped error: text before, error, text after\<close>

type_synonym 'a res = "goerr + 'a"

text \<open>\<open>errors.Is(err, target)\<close> for a target that is a sentinel value.\<close>

primrec errors_Is :: "goerr \<Rightarrow> goerr \<Rightarrow> bool" where
  "errors_Is ErrUnauthorized t = (t = ErrUnauthorized)"
| "errors_Is ErrForbidden t = (t = ErrForbidden)"
| "errors_Is ErrInvalidInput t = (t = ErrInvalidInput)"
| "errors_Is ErrNotFound t = (t = ErrNotFound)"
| "errors_Is ErrConflict t = (t = ErrConflict)"
| "errors_Is SqlErrNoRows t = (t = SqlErrNoRows)"
| "errors_Is (Errorf s) t = (t = Errorf s)"
| "errors_Is (Wrapf p e s) t = (t = Wrapf p e s \<or> errors_Is e t)"

text \<open>\<open>err.Error()\<close>.\<close>

primrec err_text :: "goerr \<Rightarrow> string" where
  "err_text ErrUnauthorized = ''unauthorized''"
| "err_text ErrForbidden = ''forbidden''"
| "err_text ErrInvalidInput = ''invalid input''"
| "err_text ErrNotFound = ''not found''"
| "err_text ErrConflict = ''conflict''"
| "err_text SqlErrNoRows = ''sql: no rows in result set''"
| "err_text (Errorf s) = s"
| "err_text (Wrapf p e s) = p @ err_text e @ s"

lemma errors_Is_refl [simp]: "errors_Is e e"
  by (cases e) auto

lemma errors_Is_wrap [simp]: "errors_Is e t \<Longrightarrow> errors_Is (Wrapf p e s) t"
  by simp

text \<open>A wrapped error is never equal to the sentinel it wraps.\<close>

lemma wrap_neq_self [simp]: "Wrapf p e s \<noteq> e"
proof (induction e arbitrary: p s)
  case (Wrapf q e r)
  then show ?case by auto
qed auto

text \<open>
  Values of type \<open>any\<close> decoded from JSON.  The number's literal is kept as text,
  since no modelled code computes with one.
\<close>

datatype jval =
    JNull
  | JBool bool
  | JNum string
  | JStr string
  | JArr "jval list"
  | JObj "(string \<times> jval) list"

type_synonym jmap = "string \<rightharpoonup> jval"

subsection \<open>Association lists as Go maps\<close>

text \<open>
  A Go map whose iteration order the code depends on is an association list: the
  order of the list is one order the runtime may choose, and the lemmas below hold
  for every such list.
\<close>

definition al_delete :: "'k \<Rightarrow> ('k \<times> 'v) list \<Rightarrow> ('k \<times> 'v) list" where
  "al_delete k xs = filter (\<lambda>(k', _). k' \<noteq> k) xs"

definition al_put :: "'k \<Rightarrow> 'v \<Rightarrow> ('k \<times> 'v) list \<Rightarrow> ('k \<times> 'v) list" where
  "al_put k v xs = (k, v) # al_delete k xs"

definition al_distinct :: "('k \<times> 'v) list \<Rightarrow> bool" where
  "al_distinct xs = distinct (map fst xs)"

lemma map_of_al_delete [simp]: "map_of (al_delete k xs) = (map_of xs)(k := None)"
  by (induction xs) (auto simp: al_delete_def fun_eq_iff)

lemma map_of_al_put [simp]: "map_of (al_put k v xs) = (map_of xs)(k \<mapsto> v)"
  by (simp add: al_put_def)

lemma keys_al_delete [simp]: "fst ` set (al_delete k xs) = fst ` set xs - {k}"
  by (force simp: al_delete_def)

lemma al_distinct_delete [simp, intro]: "al_distinct xs \<Longrightarrow> al_distinct (al_delete k xs)"
  by (induction xs) (auto simp: al_distinct_def al_delete_def)

lemma al_distinct_put [simp, intro]: "al_distinct xs \<Longrightarrow> al_distinct (al_put k v xs)"
  using keys_al_delete[of k xs] al_distinct_delete[of xs k]
  by (auto simp: al_distinct_def al_put_def)

lemma al_distinct_filter [simp, intro]: "al_distinct xs \<Longrightarrow> al_distinct (filter P xs)"
  by (induction xs) (auto simp: al_distinct_def)

lemma al_distinct_Nil [simp, intro]: "al_distinct []"
  by (simp add: al_distinct_def)

lemma set_al_delete: "set (al_delete k xs) = {p \<in> set xs. fst p \<noteq> k}"
  by (auto simp: al_delete_def)

lemma length_al_delete: "length (al_delete k xs) \<le> length xs"
  by (simp add: al_delete_def)

lemma length_al_delete_present:
  "al_distinct xs \<Longrightarrow> k \<in> fst ` set xs \<Longrightarrow> Suc (length (al_delete k xs)) = length xs"
proof (induction xs)
  case (Cons x xs)
  show ?case
  proof (cases "fst x = k")
    case True
    with Cons.prems have "k \<notin> fst ` set xs" by (auto simp: al_distinct_def)
    then have "al_delete k xs = xs" by (force simp: al_delete_def intro: filter_True)
    with True show ?thesis by (cases x) (auto simp: al_delete_def)
  next
    case False
    with Cons show ?thesis by (cases x) (auto simp: al_distinct_def al_delete_def)
  qed
qed simp

lemma map_of_Some_in: "map_of xs k = Some v \<Longrightarrow> (k, v) \<in> set xs"
  by (rule map_of_SomeD)

lemma map_of_in_distinct: "al_distinct xs \<Longrightarrow> (k, v) \<in> set xs \<Longrightarrow> map_of xs k = Some v"
  by (simp add: al_distinct_def)

lemma al_delete_absent: "k \<notin> fst ` set xs \<Longrightarrow> al_delete k xs = xs"
  by (force simp: al_delete_def intro: filter_True)

subsection \<open>Options and sums\<close>

definition is_ok :: "'e + 'a \<Rightarrow> bool" where
  "is_ok r = (case r of Inl _ \<Rightarrow> False | Inr _ \<Rightarrow> True)"

lemma is_ok_simps [simp]: "is_ok (Inr x)" "\<not> is_ok (Inl e)"
  by (simp_all add: is_ok_def)

text \<open>The first element of a list that satisfies a predicate splits the list.\<close>

lemma find_Some_split:
  "find P xs = Some x \<longleftrightarrow> (\<exists>ys zs. xs = ys @ x # zs \<and> P x \<and> (\<forall>y\<in>set ys. \<not> P y))"
proof (induction xs)
  case (Cons a xs)
  show ?case
  proof (cases "P a")
    case True
    then show ?thesis by (auto simp: Cons_eq_append_conv)
  next
    case False
    with Cons.IH show ?thesis
      by (auto simp: Cons_eq_append_conv) (metis append_Cons set_ConsD)+
  qed
qed simp

lemma find_append: "find P (xs @ ys) = (case find P xs of None \<Rightarrow> find P ys | Some x \<Rightarrow> Some x)"
  by (induction xs) auto

lemma find_filter_same: "(\<And>x. x \<in> set xs \<Longrightarrow> P x \<Longrightarrow> Q x) \<Longrightarrow> find P (filter Q xs) = find P xs"
  by (induction xs) auto

lemma count_filter_le: "length (filter P (filter Q xs)) \<le> length (filter P xs)"
  by (induction xs) auto

end
