(* ===== verification/Go_Strings.thy ===== *)
theory Go_Strings
  imports Prelude
begin

text \<open>
  The functions of Go's \<open>strings\<close>, \<open>strconv\<close>, \<open>fmt\<close> and \<open>net\<close> packages that the code
  calls, on byte strings (a \<open>char\<close> is a byte).  Case folding and white space are
  those of ASCII: Go's functions also fold and trim code points above 127, so on a
  string with such bytes the model leaves unchanged what Go would fold or trim.
  On ASCII strings the functions agree with Go's.
\<close>

subsection \<open>Prefixes, suffixes, searching\<close>

definition HasPrefix :: "string \<Rightarrow> string \<Rightarrow> bool" where
  "HasPrefix s p = (take (length p) s = p)"

definition HasSuffix :: "string \<Rightarrow> string \<Rightarrow> bool" where
  "HasSuffix s p = HasPrefix (rev s) (rev p)"

definition TrimPrefix :: "string \<Rightarrow> string \<Rightarrow> string" where
  "TrimPrefix s p = (if HasPrefix s p then drop (length p) s else s)"

definition TrimSuffix :: "string \<Rightarrow> string \<Rightarrow> string" where
  "TrimSuffix s p = (if HasSuffix s p then take (length s - length p) s else s)"

text \<open>\<open>strings.Cut\<close>: the text before and after the first occurrence of a separator.\<close>

fun Cut :: "string \<Rightarrow> string \<Rightarrow> (string \<times> string) option" where
  "Cut [] sep = (if sep = [] then Some ([], []) else None)"
| "Cut (c # cs) sep =
     (if HasPrefix (c # cs) sep then Some ([], drop (length sep) (c # cs))
      else case Cut cs sep of None \<Rightarrow> None | Some (a, b) \<Rightarrow> Some (c # a, b))"

text \<open>\<open>strings.SplitN(s, sep, 2)\<close> with a non-empty separator: one part, or two.\<close>

definition SplitN2 :: "string \<Rightarrow> string \<Rightarrow> string list" where
  "SplitN2 s sep = (case Cut s sep of None \<Rightarrow> [s] | Some (a, b) \<Rightarrow> [a, b])"

definition Contains :: "string \<Rightarrow> string \<Rightarrow> bool" where
  "Contains s sub = (Cut s sub \<noteq> None)"

text \<open>\<open>strings.Split\<close> by a one-byte separator.\<close>

fun Split1 :: "char \<Rightarrow> string \<Rightarrow> string list" where
  "Split1 c [] = [[]]"
| "Split1 c (x # xs) =
     (if x = c then [] # Split1 c xs
      else (case Split1 c xs of [] \<Rightarrow> [[x]] | p # ps \<Rightarrow> (x # p) # ps))"

text \<open>
  \<open>strings.ReplaceAll(s, old, new)\<close> for a non-empty \<open>old\<close>: the counter skips the
  bytes of an occurrence that was already replaced.
\<close>

fun replace_skip :: "nat \<Rightarrow> string \<Rightarrow> string \<Rightarrow> string \<Rightarrow> string" where
  "replace_skip k old new [] = []"
| "replace_skip (Suc k) old new (c # cs) = replace_skip k old new cs"
| "replace_skip 0 old new (c # cs) =
     (if HasPrefix (c # cs) old then new @ replace_skip (length old - 1) old new cs
      else c # replace_skip 0 old new cs)"

definition ReplaceAll :: "string \<Rightarrow> string \<Rightarrow> string \<Rightarrow> string" where
  "ReplaceAll s old new = replace_skip 0 old new s"

subsection \<open>Case folding and white space\<close>

definition to_lower_char :: "char \<Rightarrow> char" where
  "to_lower_char c = (let n = (of_char c :: nat) in
     if 65 \<le> n \<and> n \<le> 90 then char_of (n + 32) else c)"

definition to_upper_char :: "char \<Rightarrow> char" where
  "to_upper_char c = (let n = (of_char c :: nat) in
     if 97 \<le> n \<and> n \<le> 122 then char_of (n - 32) else c)"

definition ToLower :: "string \<Rightarrow> string" where
  "ToLower s = map to_lower_char s"

definition ToUpper :: "string \<Rightarrow> string" where
  "ToUpper s = map to_upper_char s"

definition EqualFold :: "string \<Rightarrow> string \<Rightarrow> bool" where
  "EqualFold s t = (ToLower s = ToLower t)"

definition is_space :: "char \<Rightarrow> bool" where
  "is_space c = (let n = (of_char c :: nat) in n = 32 \<or> (9 \<le> n \<and> n \<le> 13))"

definition TrimSpace :: "string \<Rightarrow> string" where
  "TrimSpace s = rev (dropWhile is_space (rev (dropWhile is_space s)))"

text \<open>\<open>strings.TrimRight(s, "/")\<close> and \<open>strings.Fields\<close>.\<close>

definition TrimRightSlash :: "string \<Rightarrow> string" where
  "TrimRightSlash s = rev (dropWhile (\<lambda>c. c = CHR ''/'') (rev s))"

fun fields_acc :: "string \<Rightarrow> string \<Rightarrow> string list" where
  "fields_acc acc [] = (if acc = [] then [] else [rev acc])"
| "fields_acc acc (c # cs) =
     (if is_space c then (if acc = [] then fields_acc [] cs else rev acc # fields_acc [] cs)
      else fields_acc (c # acc) cs)"

definition Fields :: "string \<Rightarrow> string list" where
  "Fields s = fields_acc [] s"

subsection \<open>Numbers\<close>

definition is_digit :: "char \<Rightarrow> bool" where
  "is_digit c = (let n = (of_char c :: nat) in 48 \<le> n \<and> n \<le> 57)"

definition digit_val :: "char \<Rightarrow> int" where
  "digit_val c = of_char c - 48"

definition digits_val :: "string \<Rightarrow> int" where
  "digits_val ds = foldl (\<lambda>v d. 10 * v + digit_val d) 0 ds"

definition in_int64 :: "int \<Rightarrow> bool" where
  "in_int64 x = (- (2 ^ 63) \<le> x \<and> x < 2 ^ 63)"

text \<open>
  \<open>strconv.Atoi\<close> and \<open>strconv.ParseInt(s, 10, 64)\<close>: an optional sign, at least one
  decimal digit, nothing else, and a value that fits 64 bits.
\<close>

definition Atoi :: "string \<Rightarrow> int option" where
  "Atoi s =
     (let neg = (case s of c # _ \<Rightarrow> c = CHR ''-'' | [] \<Rightarrow> False);
          ds = (case s of c # cs \<Rightarrow> if c = CHR ''-'' \<or> c = CHR ''+'' then cs else s | [] \<Rightarrow> [])
      in if ds = [] \<or> \<not> list_all is_digit ds then None
         else let v = (if neg then - digits_val ds else digits_val ds)
              in if in_int64 v then Some v else None)"

text \<open>
  \<open>fmt.Sscanf(s, "%d", &n)\<close>: leading white space (but no line break) is skipped, then
  an optional sign and the longest run of digits are read; what follows is ignored.
\<close>

definition is_newline :: "char \<Rightarrow> bool" where
  "is_newline c = ((of_char c :: nat) = 10)"

definition SscanfD :: "string \<Rightarrow> int option" where
  "SscanfD s =
     (let t = dropWhile (\<lambda>c. is_space c \<and> \<not> is_newline c) s;
          sgn = (case t of c # _ \<Rightarrow> if c = CHR ''-'' \<or> c = CHR ''+'' then [c] else [] | [] \<Rightarrow> []);
          ds = takeWhile is_digit (drop (length sgn) t)
      in if ds = [] then None else Atoi (sgn @ ds))"

text \<open>The verb \<open>%d\<close>.\<close>

fun nat_digits :: "nat \<Rightarrow> string" where
  "nat_digits n = (if n < 10 then [char_of (48 + n)]
                   else nat_digits (n div 10) @ [char_of (48 + n mod 10)])"

declare nat_digits.simps [simp del]

definition Itoa :: "int \<Rightarrow> string" where
  "Itoa n = (if n < 0 then CHR ''-'' # nat_digits (nat (- n)) else nat_digits (nat n))"

text \<open>The verb \<open>%x\<close> on a byte slice.\<close>

definition hex_digit :: "nat \<Rightarrow> char" where
  "hex_digit n = (if n < 10 then char_of (48 + n) else char_of (87 + n))"

definition hex_byte :: "8 word \<Rightarrow> string" where
  "hex_byte b = [hex_digit (unat b div 16), hex_digit (unat b mod 16)]"

definition hex_bytes :: "8 word list \<Rightarrow> string" where
  "hex_bytes bs = concat (map hex_byte bs)"

subsection \<open>Host and port\<close>

text \<open>Index of the last occurrence of a byte, as \<open>bytealg.LastIndexByteString\<close>.\<close>

definition last_index :: "char \<Rightarrow> string \<Rightarrow> nat option" where
  "last_index c s =
     (let t = takeWhile (\<lambda>x. x \<noteq> c) (rev s)
      in if length t = length s then None else Some (length s - 1 - length t))"

definition first_index :: "char \<Rightarrow> string \<Rightarrow> nat option" where
  "first_index c s =
     (let t = takeWhile (\<lambda>x. x \<noteq> c) s in if length t = length s then None else Some (length t))"

text \<open>
  \<open>net.SplitHostPort\<close>: the port follows the last colon; a host with colons stands in
  brackets.  \<open>None\<close> is any of its address errors.
\<close>

definition SplitHostPort :: "string \<Rightarrow> (string \<times> string) option" where
  "SplitHostPort hp =
     (case last_index (CHR '':'') hp of
        None \<Rightarrow> None
      | Some i \<Rightarrow>
          if hd hp = CHR ''['' then
            (case first_index (CHR '']'') hp of
               None \<Rightarrow> None
             | Some e \<Rightarrow>
                 if e + 1 = i
                 then (let host = take (e - 1) (drop 1 hp) in
                       if CHR ''['' \<in> set (drop 1 hp) \<or> CHR '']'' \<in> set (drop (e + 1) hp) then None
                       else Some (host, drop (i + 1) hp))
                 else None)
          else
            (let host = take i hp in
             if CHR '':'' \<in> set host then None
             else if CHR ''['' \<in> set hp \<or> CHR '']'' \<in> set hp then None
             else Some (host, drop (i + 1) hp)))"

subsection \<open>Facts about the string functions\<close>

lemma HasPrefix_iff: "HasPrefix s p \<longleftrightarrow> (\<exists>t. s = p @ t)"
  unfolding HasPrefix_def by (metis append_eq_conv_conj append_take_drop_id)

lemma HasPrefix_append [simp, go_lib]: "HasPrefix (p @ s) p"
  by (simp add: HasPrefix_def)

lemma HasPrefix_Nil [simp, go_lib]: "HasPrefix s []"
  by (simp add: HasPrefix_def)

lemma HasPrefix_Cons [simp, go_lib]: "HasPrefix (c # s) (d # p) = (c = d \<and> HasPrefix s p)"
  by (auto simp: HasPrefix_def)

lemma HasPrefix_Nil_left [simp, go_lib]: "HasPrefix [] p = (p = [])"
  by (auto simp: HasPrefix_def)

lemma TrimPrefix_append [simp, go_lib]: "TrimPrefix (p @ s) p = s"
  by (simp add: TrimPrefix_def)

lemma HasSuffix_iff: "HasSuffix s p \<longleftrightarrow> (\<exists>t. s = t @ p)"
proof -
  have "HasSuffix s p \<longleftrightarrow> (\<exists>t. rev s = rev p @ t)"
    by (simp add: HasSuffix_def HasPrefix_iff)
  also have "\<dots> \<longleftrightarrow> (\<exists>t. s = t @ p)"
    by (metis rev_append rev_rev_ident)
  finally show ?thesis .
qed

lemma HasSuffix_append [simp, go_lib]: "HasSuffix (s @ p) p"
  by (auto simp: HasSuffix_iff)

lemma TrimSuffix_append [simp, go_lib]: "TrimSuffix (s @ p) p = s"
  by (simp add: TrimSuffix_def)

lemma Cut_Some: "Cut s sep = Some (a, b) \<Longrightarrow> s = a @ sep @ b"
proof (induction s sep arbitrary: a b rule: Cut.induct)
  case (1 sep)
  then show ?case by (simp split: if_splits)
next
  case (2 c cs sep)
  show ?case
  proof (cases "HasPrefix (c # cs) sep")
    case True
    with 2 show ?thesis by (auto simp: HasPrefix_def) (metis append_take_drop_id)
  next
    case False
    with 2 show ?thesis by (auto split: option.splits)
  qed
qed

lemma Cut_char_None: "Cut s [c] = None \<longleftrightarrow> c \<notin> set s"
proof (induction s)
  case (Cons x xs)
  then show ?case by (auto split: option.splits)
qed simp

lemma Cut_char_append: "c \<notin> set a \<Longrightarrow> Cut (a @ c # b) [c] = Some (a, b)"
  by (induction a) auto

lemma EqualFold_refl [simp]: "EqualFold s s"
  by (simp add: EqualFold_def)

lemma EqualFold_sym: "EqualFold s t \<Longrightarrow> EqualFold t s"
  by (simp add: EqualFold_def)

lemma EqualFold_trans: "EqualFold s t \<Longrightarrow> EqualFold t u \<Longrightarrow> EqualFold s u"
  by (simp add: EqualFold_def)

lemma of_char_lt: "(of_char (c :: char) :: nat) < 256"
  by (rule of_char_mod_256 [THEN subst]) simp

lemma to_lower_char_idem [simp]: "to_lower_char (to_lower_char c) = to_lower_char c"
  using of_char_lt[of c] by (auto simp: to_lower_char_def Let_def)

lemma ToLower_idem [simp]: "ToLower (ToLower s) = ToLower s"
  by (simp add: ToLower_def)

lemma ToLower_Nil [simp]: "ToLower s = [] \<longleftrightarrow> s = []" "ToLower [] = []"
  by (simp_all add: ToLower_def)

lemma EqualFold_ToLower [simp]: "EqualFold (ToLower s) t = EqualFold s t"
  "EqualFold s (ToLower t) = EqualFold s t"
  by (simp_all add: EqualFold_def)

lemma dropWhile_idem': "dropWhile P (dropWhile P xs) = dropWhile P xs"
  by (induction xs) auto

lemma dropWhile_rev_stable:
  "dropWhile P xs = xs \<Longrightarrow> dropWhile P (rev (dropWhile P (rev xs))) = rev (dropWhile P (rev xs))"
proof (cases "rev (dropWhile P (rev xs))")
  case Nil
  then show ?thesis by (simp only: Nil dropWhile.simps)
next
  case (Cons y ys)
  assume a: "dropWhile P xs = xs"
  have "\<exists>zs. xs = rev (dropWhile P (rev xs)) @ zs"
    by (metis rev_append rev_rev_ident takeWhile_dropWhile_id)
  with Cons obtain zs where "xs = y # zs" by auto
  with a have "\<not> P y" by (auto split: if_splits) (metis impossible_Cons length_dropWhile_le)
  with Cons show ?thesis by simp
qed

lemma TrimSpace_idem [simp]: "TrimSpace (TrimSpace s) = TrimSpace s"
proof -
  let ?t = "dropWhile is_space s"
  have "dropWhile is_space (TrimSpace s) = TrimSpace s"
    unfolding TrimSpace_def by (rule dropWhile_rev_stable) (rule dropWhile_idem')
  then show ?thesis
    unfolding TrimSpace_def [of "TrimSpace s"] by (simp add: TrimSpace_def dropWhile_idem')
qed

text \<open>Decimal printing and parsing are inverse.\<close>

lemma is_digit_char_of [simp]: "k < 10 \<Longrightarrow> is_digit (char_of (48 + k :: nat))"
  by (simp add: is_digit_def Let_def)

lemma digit_val_char_of [simp]: "k < 10 \<Longrightarrow> digit_val (char_of (48 + k :: nat)) = int k"
proof -
  assume k: "k < 10"
  have "(of_char (char_of (48 + k :: nat) :: char) :: int) = int ((48 + k) mod 256)"
    by (metis of_char_of of_nat_of_char)
  with k show ?thesis by (simp add: digit_val_def)
qed

lemma digits_val_snoc [simp]: "digits_val (ds @ [d]) = 10 * digits_val ds + digit_val d"
  by (simp add: digits_val_def)

lemma nat_digits_props:
  "nat_digits n \<noteq> [] \<and> list_all is_digit (nat_digits n) \<and> digits_val (nat_digits n) = int n"
proof (induction n rule: nat_digits.induct)
  case (1 n)
  show ?case
  proof (cases "n < 10")
    case True
    then show ?thesis
      by (subst (1 2 3) nat_digits.simps) (simp add: digits_val_def)
  next
    case False
    have "(int (n div 10)) * 10 + int (n mod 10) = int n"
      by (metis div_mult_mod_eq of_nat_add of_nat_mult of_nat_numeral)
    with 1 False show ?thesis
      by (subst (1 2 3) nat_digits.simps) simp
  qed
qed

lemma nat_digits_nonempty [simp]: "nat_digits n \<noteq> []"
  and nat_digits_digits: "list_all is_digit (nat_digits n)"
  and nat_digits_val [simp]: "digits_val (nat_digits n) = int n"
  using nat_digits_props by auto

lemma hd_nat_digits: "nat_digits n = c # cs \<Longrightarrow> c \<noteq> CHR ''-'' \<and> c \<noteq> CHR ''+''"
  using nat_digits_digits[of n] by (auto simp: is_digit_def)

lemma Atoi_digits:
  "ds \<noteq> [] \<Longrightarrow> list_all is_digit ds \<Longrightarrow> in_int64 (digits_val ds) \<Longrightarrow> Atoi ds = Some (digits_val ds)"
  by (cases ds) (auto simp: Atoi_def Let_def is_digit_def)

theorem Atoi_Itoa: "in_int64 n \<Longrightarrow> Atoi (Itoa n) = Some n"
proof (cases "n < 0")
  case True
  assume "in_int64 n"
  with True show ?thesis
    by (simp add: Itoa_def Atoi_def Let_def nat_digits_digits)
next
  case False
  assume "in_int64 n"
  with False show ?thesis
    by (simp add: Itoa_def Atoi_digits nat_digits_digits)
qed

lemma Itoa_inj_int64: "in_int64 m \<Longrightarrow> in_int64 n \<Longrightarrow> Itoa m = Itoa n \<longleftrightarrow> m = n"
  by (metis Atoi_Itoa option.inject)

lemma Itoa_nonempty [simp]: "Itoa n \<noteq> []"
  by (simp add: Itoa_def)

lemma Itoa_chars: "c \<in> set (Itoa n) \<Longrightarrow> is_digit c \<or> c = CHR ''-''"
  using nat_digits_digits[of "nat n"] nat_digits_digits[of "nat (- n)"]
  by (auto simp: Itoa_def list_all_iff split: if_splits)

lemma Itoa_no_sep:
  "CHR '':'' \<notin> set (Itoa n)" "CHR ''|'' \<notin> set (Itoa n)" "CHR ''['' \<notin> set (Itoa n)"
  "CHR '']'' \<notin> set (Itoa n)" "CHR ''*'' \<notin> set (Itoa n)"
  by (auto dest!: Itoa_chars simp: is_digit_def)

lemma takeWhile_all: "list_all P xs \<Longrightarrow> takeWhile P xs = xs"
  by (simp add: list_all_iff takeWhile_eq_all_conv)

lemma SscanfD_Itoa: "in_int64 n \<Longrightarrow> SscanfD (Itoa n) = Some n"
proof -
  assume n: "in_int64 n"
  obtain c cs where c: "Itoa n = c # cs" by (cases "Itoa n") auto
  then have "is_digit c \<or> c = CHR ''-''" using Itoa_chars[of c n] by auto
  then have ns: "\<not> is_space c" by (auto simp: is_digit_def is_space_def Let_def)
  show ?thesis
  proof (cases "n < 0")
    case True
    then show ?thesis
      using n Atoi_Itoa[OF n]
      by (simp add: Itoa_def SscanfD_def Let_def takeWhile_all nat_digits_digits is_space_def)
  next
    case False
    with c have nd: "nat_digits (nat n) = c # cs" by (simp add: Itoa_def)
    have "takeWhile is_digit (c # cs) = c # cs"
      using nat_digits_digits[of "nat n"] nd by (metis takeWhile_all)
    with False c ns hd_nat_digits[OF nd] show ?thesis
      using Atoi_Itoa[OF n] by (simp add: SscanfD_def Let_def)
  qed
qed

text \<open>A host without colons or brackets, joined to a port, is split back.\<close>

lemma last_index_append:
  "c \<notin> set b \<Longrightarrow> last_index c (a @ c # b) = Some (length a)"
proof -
  assume c: "c \<notin> set b"
  have "takeWhile (\<lambda>x. x \<noteq> c) (rev (a @ c # b)) = rev b"
    using c by (simp add: takeWhile_append)
  then show ?thesis by (simp add: last_index_def)
qed

theorem SplitHostPort_join:
  assumes "CHR '':'' \<notin> set h" "CHR ''['' \<notin> set h" "CHR '']'' \<notin> set h"
    and "CHR '':'' \<notin> set p" "CHR ''['' \<notin> set p" "CHR '']'' \<notin> set p"
  shows "SplitHostPort (h @ CHR '':'' # p) = Some (h, p)"
proof -
  have "hd (h @ CHR '':'' # p) \<noteq> CHR ''[''"
    using assms(2) by (cases h) auto
  with assms show ?thesis
    by (simp add: SplitHostPort_def last_index_append)
qed

end
