(* ===== verification/Go_Time.thy ===== *)
theory Go_Time
  imports Go_Strings
begin

text \<open>
  Go's \<open>time\<close> package as the code uses it.  An instant is the number of nanoseconds
  since the Unix epoch, an unbounded integer; a \<open>time.Duration\<close> is a signed 64-bit
  number of nanoseconds, kept as an integer and reduced with \<open>wrap64\<close> wherever the
  code multiplies or adds durations.  Every routine that reads the clock takes the
  instant as an argument.
\<close>

type_synonym time = int        \<comment> \<open>nanoseconds since 1970-01-01T00:00:00Z\<close>
type_synonym timestamp = int   \<comment> \<open>an RFC 3339 text in UTC, as the second it names\<close>
type_synonym duration = int    \<comment> \<open>nanoseconds, within 64 bits\<close>

definition wrap64 :: "int \<Rightarrow> int" where
  "wrap64 x = sint (word_of_int x :: 64 word)"

abbreviation Second :: duration where "Second \<equiv> 1000000000"
abbreviation Minute :: duration where "Minute \<equiv> 60000000000"
abbreviation Hour :: duration where "Hour \<equiv> 3600000000000"

text \<open>\<open>time.Duration(n) * time.Second\<close>: the product wraps.\<close>

definition dur_seconds :: "int \<Rightarrow> duration" where
  "dur_seconds n = wrap64 (n * Second)"

text \<open>The zero \<open>time.Time\<close>, 0001-01-01T00:00:00Z.\<close>

definition zero_time :: time where
  "zero_time = - 62135596800 * Second"

text \<open>\<open>time.Now().UTC().Format(time.RFC3339)\<close>.\<close>

definition rfc3339 :: "time \<Rightarrow> timestamp" where
  "rfc3339 t = t div Second"

text \<open>\<open>now.Hour()*60 + now.Minute()\<close> for an instant in UTC.\<close>

definition utc_minutes :: "time \<Rightarrow> int" where
  "utc_minutes t = (t div Minute) mod 1440"

lemma wrap64_id [simp, go_lib]: "in_int64 x \<Longrightarrow> wrap64 x = x"
  unfolding wrap64_def in_int64_def
  by (simp add: sint_sbintrunc' signed_take_bit_int_eq_self)

lemma wrap64_range: "in_int64 (wrap64 x)"
  using sint_greater_eq[of "word_of_int x :: 64 word"] sint_less[of "word_of_int x :: 64 word"]
  by (simp add: wrap64_def in_int64_def)

lemma dur_seconds_small: "0 \<le> n \<Longrightarrow> n \<le> 9223372036 \<Longrightarrow> dur_seconds n = n * Second"
  unfolding dur_seconds_def by (rule wrap64_id) (simp add: in_int64_def)

lemma utc_minutes_range: "0 \<le> utc_minutes t" "utc_minutes t < 1440"
  by (simp_all add: utc_minutes_def)

lemma rfc3339_mono: "s \<le> t \<Longrightarrow> rfc3339 s \<le> rfc3339 t"
  by (simp add: rfc3339_def zdiv_mono1)

subsection \<open>Parsing durations\<close>

text \<open>
  \<open>time.ParseDuration\<close>: \<open>[-+]?([0-9]*(\.[0-9]*)?[a-z]+)+\<close>, or zero.  Go evaluates the
  fraction of a unit in floating point; the model takes the exact value rounded
  down, which can differ by a nanosecond.
\<close>

definition unit_map :: "(string \<times> int) list" where
  "unit_map =
     [(''ns'', 1), (''us'', 1000), ([CHR 0xC2, CHR 0xB5, CHR ''s''], 1000),
      ([CHR 0xCE, CHR 0xBC, CHR ''s''], 1000), (''ms'', 1000000), (''s'', Second),
      (''m'', Minute), (''h'', Hour)]"

text \<open>One number with its unit: the value in nanoseconds and the rest of the text.\<close>

definition duration_item :: "string \<Rightarrow> (int \<times> string) option" where
  "duration_item s =
     (let ds = takeWhile is_digit s;
          s1 = drop (length ds) s;
          v = digits_val ds;
          dot = (case s1 of c # _ \<Rightarrow> c = CHR ''.'' | [] \<Rightarrow> False);
          fs = (if dot then takeWhile is_digit (tl s1) else []);
          s2 = (if dot then drop (length fs) (tl s1) else s1);
          u = takeWhile (\<lambda>c. c \<noteq> CHR ''.'' \<and> \<not> is_digit c) s2;
          s3 = drop (length u) s2
      in if (s = [] \<or> \<not> (hd s = CHR ''.'' \<or> is_digit (hd s))) \<or> 2 ^ 63 < v then None
         else if ds = [] \<and> fs = [] then None
         else if u = [] then None
         else (case map_of unit_map u of
                 None \<Rightarrow> None
               | Some unit \<Rightarrow>
                   if 2 ^ 63 div unit < v then None
                   else (let w = v * unit + digits_val fs * unit div 10 ^ length fs
                         in if 2 ^ 63 < w then None else Some (w, s3))))"

lemma duration_item_shorter:
  "duration_item s = Some (v, s') \<Longrightarrow> length s' < length s"
proof -
  assume a: "duration_item s = Some (v, s')"
  define ds s1 dot where "ds = takeWhile is_digit s" and "s1 = drop (length ds) s"
    and "dot = (case s1 of c # _ \<Rightarrow> c = CHR ''.'' | [] \<Rightarrow> False)"
  define fs where "fs = (if dot then takeWhile is_digit (tl s1) else [])"
  define s2 where "s2 = (if dot then drop (length fs) (tl s1) else s1)"
  define u where "u = takeWhile (\<lambda>c. c \<noteq> CHR ''.'' \<and> \<not> is_digit c) s2"
  from a have u: "u \<noteq> []" and s': "s' = drop (length u) s2"
    unfolding duration_item_def Let_def ds_def[symmetric] s1_def[symmetric] dot_def[symmetric]
      fs_def[symmetric] s2_def[symmetric] u_def[symmetric]
    by (auto split: if_splits option.splits)
  have "length u \<le> length s2" unfolding u_def by (rule length_takeWhile_le)
  moreover have "length s2 \<le> length s" unfolding s2_def s1_def by auto
  ultimately show ?thesis using u s' by (cases u) auto
qed

function duration_items :: "string \<Rightarrow> int \<Rightarrow> int option" where
  "duration_items s d =
     (if s = [] then Some d
      else case duration_item s of
        None \<Rightarrow> None
      | Some (v, s') \<Rightarrow> if 2 ^ 63 < d + v then None else duration_items s' (d + v))"
  by pat_completeness auto
termination
  by (relation "measure (\<lambda>(s, d). length s)") (auto dest: duration_item_shorter)

declare duration_items.simps [simp del]

definition ParseDuration :: "string \<Rightarrow> duration option" where
  "ParseDuration raw =
     (let neg = (case raw of c # _ \<Rightarrow> c = CHR ''-'' | [] \<Rightarrow> False);
          s = (case raw of c # cs \<Rightarrow> if c = CHR ''-'' \<or> c = CHR ''+'' then cs else raw | [] \<Rightarrow> [])
      in if s = ''0'' then Some 0
         else if s = [] then None
         else (case duration_items s 0 of
                 None \<Rightarrow> None
               | Some d \<Rightarrow> if neg then Some (- d)
                           else if 2 ^ 63 - 1 < d then None else Some d))"

lemma ParseDuration_Nil [simp]: "ParseDuration [] = None"
  by (simp add: ParseDuration_def)

lemma digits_val_acc: "foldl (\<lambda>v d. 10 * v + digit_val d) a ds
  = a * 10 ^ length ds + digits_val ds"
proof (induction ds arbitrary: a)
  case (Cons d ds)
  show ?case
    using Cons.IH[of "10 * a + digit_val d"] Cons.IH[of "digit_val d"]
    by (simp add: digits_val_def algebra_simps)
qed (simp add: digits_val_def)

lemma digit_val_nonneg: "is_digit d \<Longrightarrow> 0 \<le> digit_val d"
  unfolding is_digit_def digit_val_def Let_def
  by (metis diff_ge_0_iff_ge of_nat_le_iff of_nat_numeral of_nat_of_char)

lemma digits_val_nonneg: "list_all is_digit ds \<Longrightarrow> 0 \<le> digits_val ds"
  by (induction ds rule: rev_induct) (auto simp: digits_val_def[of "[]"] digit_val_nonneg)

lemma unit_map_pos: "map_of unit_map u = Some k \<Longrightarrow> 0 < k"
  by (auto simp: unit_map_def split: if_splits)

lemma list_all_takeWhile: "list_all P (takeWhile P xs)"
  by (induction xs) auto

lemma duration_item_nonneg: "duration_item s = Some (v, s') \<Longrightarrow> 0 \<le> v"
  unfolding duration_item_def Let_def
  by (auto split: if_splits option.splits dest!: unit_map_pos
      intro!: add_nonneg_nonneg mult_nonneg_nonneg digits_val_nonneg list_all_takeWhile
        pos_imp_zdiv_nonneg_iff[THEN iffD2])

lemma duration_items_range:
  "duration_items s d = Some r \<Longrightarrow> 0 \<le> d \<Longrightarrow> d \<le> 2 ^ 63 \<Longrightarrow> 0 \<le> r \<and> r \<le> 2 ^ 63"
proof (induction s d rule: duration_items.induct)
  case (1 s d)
  show ?case
  proof (cases "s = []")
    case True
    with "1.prems" show ?thesis by (simp add: duration_items.simps)
  next
    case False
    with "1.prems" obtain v s' where i: "duration_item s = Some (v, s')"
      and le: "\<not> 2 ^ 63 < d + v" and r: "duration_items s' (d + v) = Some r"
      by (subst (asm) duration_items.simps) (auto split: if_splits option.splits)
    then show ?thesis
      using "1.IH"[OF False i refl le r] duration_item_nonneg[OF i] "1.prems" by simp
  qed
qed

text \<open>A parsed duration fits 64 bits, and one without a minus sign is not negative.\<close>

theorem ParseDuration_range: "ParseDuration s = Some d \<Longrightarrow> in_int64 d"
  by (auto simp: ParseDuration_def in_int64_def Let_def split: if_splits option.splits
      dest!: duration_items_range)

end
