(* ===== verification/Go_Http.thy ===== *)
theory Go_Http
  imports Go_Time
begin

text \<open>
  What the HTTP clients of the gateway and of the command-line client share: the request
  they build, what \<open>http.Client.Do\<close> and the reading of the body may give
  back, and how \<open>encoding/json\<close> stores a document into a struct.  The transport is a function
  from requests to results, an argument of every routine that calls it.
\<close>

text \<open>The letters e with an acute, a and e with a grave accent, in UTF-8.\<close>

abbreviation e_acute :: string where "e_acute \<equiv> [CHR 0xC3, CHR 0xA9]"
abbreviation e_grave :: string where "e_grave \<equiv> [CHR 0xC3, CHR 0xA8]"
abbreviation a_grave :: string where "a_grave \<equiv> [CHR 0xC3, CHR 0xA0]"

record http_out =
  ho_method :: string
  ho_url :: string
  ho_headers :: "(string \<times> string) list"
  ho_body :: string

datatype http_result =
    NoResponse goerr           \<comment> \<open>\<open>client.Do\<close> failed\<close>
  | HttpResponse int "string res" \<comment> \<open>status code and the body read, or the read error\<close>

type_synonym transport = "http_out \<Rightarrow> http_result"

abbreviation MaxBody :: nat where "MaxBody \<equiv> 1048576"

text \<open>\<open>io.ReadAll(io.LimitReader(body, 1<<20))\<close>: a longer body is cut, without an error.\<close>

definition limit_body :: "string res \<Rightarrow> string res" where
  "limit_body b = (case b of Inl e \<Rightarrow> Inl e | Inr t \<Rightarrow> Inr (take MaxBody t))"

lemma limit_body_short [simp]: "length t \<le> MaxBody \<Longrightarrow> limit_body (Inr t) = Inr t"
  by (simp add: limit_body_def)

text \<open>Evaluated without writing the bound in unary.\<close>

lemma limit_body_code [code]:
  "limit_body b = (case b of Inl e \<Rightarrow> Inl e
     | Inr t \<Rightarrow> Inr (if int (length t) \<le> 1048576 then t else take MaxBody t))"
  by (auto simp: limit_body_def split: sum.split)

subsection \<open>Storing a JSON value into a struct field\<close>

definition json_str :: "jval \<Rightarrow> string \<Rightarrow> string res" where
  "json_str v old =
     (case v of JStr s \<Rightarrow> Inr s | JNull \<Rightarrow> Inr old | _ \<Rightarrow> Inl (Errorf ''json: cannot unmarshal into string''))"

definition json_int :: "jval \<Rightarrow> int \<Rightarrow> int res" where
  "json_int v old =
     (case v of
        JNum t \<Rightarrow> (case Atoi t of Some n \<Rightarrow> Inr n | None \<Rightarrow> Inl (Errorf ''json: cannot unmarshal number''))
      | JNull \<Rightarrow> Inr old
      | _ \<Rightarrow> Inl (Errorf ''json: cannot unmarshal into int''))"

text \<open>
  The members of an object are stored in order; a key names a field without regard to
  case, and an unknown key is skipped.  \<open>put\<close> stores one member.
\<close>

fun json_members :: "(string \<Rightarrow> jval \<Rightarrow> 'r \<Rightarrow> 'r res) \<Rightarrow> (string \<times> jval) list \<Rightarrow> 'r \<Rightarrow> 'r res" where
  "json_members put [] r = Inr r"
| "json_members put ((k, v) # kvs) r =
     (case put k v r of Inl e \<Rightarrow> Inl e | Inr r' \<Rightarrow> json_members put kvs r')"

definition json_object :: "(string \<Rightarrow> jval \<Rightarrow> 'r \<Rightarrow> 'r res) \<Rightarrow> 'r \<Rightarrow> jval \<Rightarrow> 'r res" where
  "json_object put zero v =
     (case v of
        JObj kvs \<Rightarrow> json_members put kvs zero
      | JNull \<Rightarrow> Inr zero
      | _ \<Rightarrow> Inl (Errorf ''json: cannot unmarshal into struct''))"

definition bind_res :: "'a res \<Rightarrow> ('a \<Rightarrow> 'b) \<Rightarrow> 'b res" where
  "bind_res x f = (case x of Inl e \<Rightarrow> Inl e | Inr a \<Rightarrow> Inr (f a))"

end
