(* ===== verification/Go_Files.thy ===== *)
theory Go_Files
  imports Prelude
begin

text \<open>
  Files as the programs use them: a map from path names to contents, and \<open>os.WriteFile\<close> and
  \<open>os.ReadFile\<close> with the part of the operating system as an argument.
\<close>

type_synonym files = "string \<rightharpoonup> string"

text \<open>A write that succeeds, or fails and leaves the file as it was (\<open>None\<close>) or with some
  contents.\<close>

datatype write_outcome = WriteOK | WriteFails goerr "string option"

definition write_file :: "write_outcome \<Rightarrow> string \<Rightarrow> string \<Rightarrow> files \<Rightarrow> goerr option \<times> files" where
  "write_file o_w name content fs =
     (case o_w of
        WriteOK \<Rightarrow> (None, fs(name \<mapsto> content))
      | WriteFails e left \<Rightarrow> (Some e, (case left of None \<Rightarrow> fs | Some c \<Rightarrow> fs(name \<mapsto> c))))"

text \<open>A read: the absence of the file is told apart from other errors.\<close>

datatype read_result = ReadAbsent | ReadError goerr | ReadOK string

definition read_file :: "goerr option \<Rightarrow> string \<Rightarrow> files \<Rightarrow> read_result" where
  "read_file o_r name fs =
     (case fs name of
        None \<Rightarrow> ReadAbsent
      | Some c \<Rightarrow> (case o_r of Some e \<Rightarrow> ReadError e | None \<Rightarrow> ReadOK c))"

lemma write_file_frame: "write_file w name c fs = (r, fs') \<Longrightarrow> name' \<noteq> name \<Longrightarrow> fs' name' = fs name'"
  by (auto simp: write_file_def split: write_outcome.splits option.splits)

lemma write_file_ok: "write_file w name c fs = (None, fs') \<Longrightarrow> fs' = fs(name \<mapsto> c)"
  by (auto simp: write_file_def split: write_outcome.splits option.splits)

lemma read_after: "fs name = Some c \<Longrightarrow> read_file None name fs = ReadOK c"
  by (simp add: read_file_def)

lemma read_file_OK: "read_file r name fs = ReadOK c \<longleftrightarrow> r = None \<and> fs name = Some c"
  by (auto simp: read_file_def split: option.splits)

end
