(* ===== verification/Go_Cli.thy ===== *)
theory Go_Cli
  imports Go_Http Go_Files
begin

text \<open>
  The parts of Go's standard library that only the superseded client calls: \<open>path/filepath\<close>,
  \<open>encoding/base64\<close>, \<open>flag\<close>, and \<open>strconv.ParseBool\<close>.
\<close>

subsection \<open>Paths\<close>

text \<open>\<open>filepath.Clean\<close> on Unix: the elements of the path on a stack, the last on top.\<close>

fun clean_step :: "bool \<Rightarrow> string list \<Rightarrow> string \<Rightarrow> string list" where
  "clean_step rooted stack part =
     (if part = [] \<or> part = ''.'' then stack
      else if part = ''..'' then
        (case stack of
           [] \<Rightarrow> if rooted then [] else [part]
         | e # rest \<Rightarrow> if e = ''..'' then part # stack else rest)
      else part # stack)"

fun slash_join :: "string list \<Rightarrow> string" where
  "slash_join [] = []"
| "slash_join [p] = p"
| "slash_join (p # q # ps) = p @ ''/'' @ slash_join (q # ps)"

definition path_Clean :: "string \<Rightarrow> string" where
  "path_Clean p =
     (let rooted = HasPrefix p ''/'';
          t = slash_join (rev (foldl (clean_step rooted) [] (Split1 (CHR ''/'') p))) in
      if rooted then CHR ''/'' # t else if t = [] then ''.'' else t)"

definition path_Join :: "string list \<Rightarrow> string" where
  "path_Join elems = (let es = dropWhile (\<lambda>e. e = []) elems in if es = [] then [] else path_Clean (slash_join es))"

definition path_Dir :: "string \<Rightarrow> string" where
  "path_Dir p = path_Clean (case last_index (CHR ''/'') p of None \<Rightarrow> [] | Some i \<Rightarrow> take (Suc i) p)"

lemma path_Join_example: "path_Join [''/home/u'', ''.ztna'', ''config.json''] = ''/home/u/.ztna/config.json''"
  by code_simp

subsection \<open>Base 64\<close>

text \<open>\<open>base64.URLEncoding.DecodeString\<close>: line ends are skipped, padding is required, and the bits left over
  in a last group are not looked at.\<close>

definition b64_val :: "char \<Rightarrow> nat option" where
  "b64_val c =
     (let n = (of_char c :: nat) in
      if 65 \<le> n \<and> n \<le> 90 then Some (n - 65)
      else if 97 \<le> n \<and> n \<le> 122 then Some (n - 71)
      else if 48 \<le> n \<and> n \<le> 57 then Some (n + 4)
      else if c = CHR ''-'' then Some 62 else if c = CHR ''_'' then Some 63 else None)"

definition b64_group :: "char \<Rightarrow> char \<Rightarrow> char \<Rightarrow> char \<Rightarrow> nat \<Rightarrow> string option" where
  "b64_group a b c d keep =
     (case (b64_val a, b64_val b, b64_val c, b64_val d) of
        (Some w, Some x, Some y, Some z) \<Rightarrow>
          Some (take keep [char_of (w * 4 + x div 16), char_of (x mod 16 * 16 + y div 4), char_of (y mod 4 * 64 + z)])
      | _ \<Rightarrow> None)"

fun b64_groups :: "string \<Rightarrow> string option" where
  "b64_groups [] = Some []"
| "b64_groups (a # b # c # d # rest) =
     (if rest = [] \<and> c = CHR ''='' \<and> d = CHR ''='' then b64_group a b (CHR ''A'') (CHR ''A'') 1
      else if rest = [] \<and> d = CHR ''='' then b64_group a b c (CHR ''A'') 2
      else case b64_group a b c d 3 of None \<Rightarrow> None
        | Some x \<Rightarrow> (case b64_groups rest of None \<Rightarrow> None | Some y \<Rightarrow> Some (x @ y)))"
| "b64_groups _ = None"

definition base64_URL_decode :: "string \<Rightarrow> string option" where
  "base64_URL_decode s = b64_groups (filter (\<lambda>c. of_char c \<noteq> (10 :: nat) \<and> of_char c \<noteq> (13 :: nat)) s)"

subsection \<open>Flags\<close>

definition ParseBool :: "string \<Rightarrow> bool option" where
  "ParseBool s =
     (if s \<in> {''1'', ''t'', ''T'', ''TRUE'', ''true'', ''True''} then Some True
      else if s \<in> {''0'', ''f'', ''F'', ''FALSE'', ''false'', ''False''} then Some False else None)"

datatype flag_kind = FlagBool | FlagInt | FlagString

text \<open>Whether a value can be set; \<open>parse_int\<close> is \<open>strconv.ParseInt(s, 0, 64)\<close>.\<close>

definition flag_valid :: "(string \<Rightarrow> int option) \<Rightarrow> flag_kind \<Rightarrow> string \<Rightarrow> bool" where
  "flag_valid parse_int k v =
     (case k of FlagBool \<Rightarrow> ParseBool v \<noteq> None | FlagInt \<Rightarrow> parse_int v \<noteq> None | FlagString \<Rightarrow> True)"

text \<open>The text of a flag without its dashes: its name, and the value after an equals sign.\<close>

definition flag_body :: "string \<Rightarrow> string" where
  "flag_body s = drop (if s ! 1 = CHR ''-'' then 2 else 1) s"

definition flag_split :: "string \<Rightarrow> string \<times> string option" where
  "flag_split b = (case Cut (tl b) ''='' of None \<Rightarrow> (b, None) | Some (a, v) \<Rightarrow> (hd b # a, Some v))"

text \<open>\<open>parseOne\<close>: the parse stops before the argument or after it, or fails, or assigns a value and goes on
  with the arguments behind it.\<close>

datatype flag_turn = FlagStop "string list" | FlagFail goerr | FlagSet string string "string list"

definition flag_put :: "(string \<Rightarrow> int option) \<Rightarrow> string \<Rightarrow> flag_kind \<Rightarrow> string \<Rightarrow> string list \<Rightarrow> flag_turn" where
  "flag_put parse_int name k v args =
     (if flag_valid parse_int k v then FlagSet name v args else FlagFail (Errorf (''invalid value for flag -'' @ name)))"

definition parseOne :: "(string \<Rightarrow> int option) \<Rightarrow> (string \<times> flag_kind) list \<Rightarrow> string \<Rightarrow> string list \<Rightarrow> flag_turn" where
  "parseOne parse_int kinds s rest =
     (if length s < 2 \<or> hd s \<noteq> CHR ''-'' then FlagStop (s # rest)
      else if s = ''--'' then FlagStop rest
      else let b = flag_body s; (name, given) = flag_split b in
        if hd b = CHR ''-'' \<or> hd b = CHR ''='' then FlagFail (Errorf (''bad flag syntax: '' @ s))
        else (case map_of kinds name of
            None \<Rightarrow> FlagFail (Errorf (if name = ''help'' \<or> name = ''h'' then ''flag: help requested''
                                    else ''flag provided but not defined: -'' @ name))
          | Some k \<Rightarrow>
              (case given of
                 Some v \<Rightarrow> flag_put parse_int name k v rest
               | None \<Rightarrow>
                   if k = FlagBool then flag_put parse_int name k ''true'' rest
                   else (case rest of
                      [] \<Rightarrow> FlagFail (Errorf (''flag needs an argument: -'' @ name))
                    | v # args \<Rightarrow> flag_put parse_int name k v args))))"

lemma parseOne_shorter: "parseOne parse_int kinds s rest = FlagSet name v args \<Longrightarrow> length args \<le> length rest"
  by (auto simp: parseOne_def flag_put_def Let_def split: if_splits prod.splits option.splits list.splits)

text \<open>\<open>FlagSet.Parse\<close>: the assignments in their order and the arguments that are left.\<close>

function flag_parse ::
    "(string \<Rightarrow> int option) \<Rightarrow> (string \<times> flag_kind) list \<Rightarrow> string list \<Rightarrow> ((string \<times> string) list \<times> string list) res" where
  "flag_parse parse_int kinds [] = Inr ([], [])"
| "flag_parse parse_int kinds (s # rest) =
     (case parseOne parse_int kinds s rest of
        FlagStop args \<Rightarrow> Inr ([], args)
      | FlagFail e \<Rightarrow> Inl e
      | FlagSet name v args \<Rightarrow>
          (case flag_parse parse_int kinds args of Inl e \<Rightarrow> Inl e | Inr (vals, left) \<Rightarrow> Inr ((name, v) # vals, left)))"
  by pat_completeness auto
termination
  by (relation "measure (\<lambda>(_, _, args). length args)") (auto dest: parseOne_shorter)

text \<open>The value a flag has after parsing: its last assignment, or its default.\<close>

definition flag_str :: "(string \<times> string) list \<Rightarrow> string \<Rightarrow> string \<Rightarrow> string" where
  "flag_str vals name dflt = (case map_of (rev vals) name of None \<Rightarrow> dflt | Some v \<Rightarrow> v)"

definition flag_bool :: "(string \<times> string) list \<Rightarrow> string \<Rightarrow> bool \<Rightarrow> bool" where
  "flag_bool vals name dflt =
     (case map_of (rev vals) name of None \<Rightarrow> dflt | Some v \<Rightarrow> (case ParseBool v of Some b \<Rightarrow> b | None \<Rightarrow> dflt))"

definition flag_int :: "(string \<Rightarrow> int option) \<Rightarrow> (string \<times> string) list \<Rightarrow> string \<Rightarrow> int \<Rightarrow> int" where
  "flag_int parse_int vals name dflt =
     (case map_of (rev vals) name of None \<Rightarrow> dflt | Some v \<Rightarrow> (case parse_int v of Some n \<Rightarrow> n | None \<Rightarrow> dflt))"

end
