(* ===== verification/Lg_World.thy ===== *)
theory Lg_World
  imports Go_Cli
begin

text \<open>
  The superseded client (\<open>ztna-cli_LEGACY/main.go\<close>), first part: its effects and its files.

  A routine is an action: a function from the world to an error or a value, and the new world.  The world
  is the files and a counter of the calls to the operating system and to the network; what
  the \<open>k\<close>-th such call meets (a failure, the instant of the clock, an answer) is \<open>os_...  k\<close>, an argument of the model.
  Paths are compared as texts; directories are not kept, only the failures to create them.
\<close>

subsection \<open>Actions\<close>

record lg_world =
  lw_files :: files
  lw_tick :: nat

type_synonym ('e, 'a) act = "lg_world \<Rightarrow> ('e + 'a) \<times> lg_world"

definition act_ret :: "'a \<Rightarrow> ('e, 'a) act" where
  "act_ret a w = (Inr a, w)"

definition act_fail :: "'e \<Rightarrow> ('e, 'a) act" where
  "act_fail e w = (Inl e, w)"

definition act_bind :: "('e, 'a) act \<Rightarrow> ('a \<Rightarrow> ('e, 'b) act) \<Rightarrow> ('e, 'b) act" where
  "act_bind m f w = (case m w of (Inl e, w') \<Rightarrow> (Inl e, w') | (Inr a, w') \<Rightarrow> f a w')"

text \<open>An error wrapped by the caller, and an error the caller looks at.\<close>

definition act_wrap :: "('e \<Rightarrow> 'f) \<Rightarrow> ('e, 'a) act \<Rightarrow> ('f, 'a) act" where
  "act_wrap g m w = (case m w of (Inl e, w') \<Rightarrow> (Inl (g e), w') | (Inr a, w') \<Rightarrow> (Inr a, w'))"

definition act_catch :: "('e, 'a) act \<Rightarrow> ('f, 'e + 'a) act" where
  "act_catch m w = (let (r, w') = m w in (Inr r, w'))"

definition act_of :: "'e + 'a \<Rightarrow> ('e, 'a) act" where
  "act_of r w = (r, w)"

text \<open>A call to the outside, given by its number.\<close>

definition act_call :: "(nat \<Rightarrow> 'e + 'a) \<Rightarrow> ('e, 'a) act" where
  "act_call f w = (f (lw_tick w), w\<lparr>lw_tick := Suc (lw_tick w)\<rparr>)"

text \<open>How a successful sequence came about.\<close>

named_theorems act_run \<open>the result of an action, by its structure\<close>

lemma act_ret_run [act_run]: "act_ret a w = (r, w') \<longleftrightarrow> r = Inr a \<and> w' = w"
  by (auto simp: act_ret_def)

lemma act_fail_run [act_run]: "act_fail e w = (r, w') \<longleftrightarrow> r = Inl e \<and> w' = w"
  by (auto simp: act_fail_def)

lemma act_bind_Inr [act_run]: "act_bind m f w = (Inr b, w') \<longleftrightarrow> (\<exists>a w1. m w = (Inr a, w1) \<and> f a w1 = (Inr b, w'))"
  by (auto simp: act_bind_def split: prod.splits sum.splits)

lemma act_wrap_Inr [act_run]: "act_wrap g m w = (Inr a, w') \<longleftrightarrow> m w = (Inr a, w')"
  by (auto simp: act_wrap_def split: prod.splits sum.splits)

lemma act_catch_run [act_run]: "act_catch m w = (Inr r, w') \<longleftrightarrow> m w = (r, w')"
  by (auto simp: act_catch_def split: prod.splits)

lemma act_of_run [act_run]: "act_of r w = (r', w') \<longleftrightarrow> r = r' \<and> w' = w"
  by (auto simp: act_of_def)

lemma act_call_run [act_run]:
  "act_call f w = (r, w') \<longleftrightarrow> f (lw_tick w) = r \<and> w' = w\<lparr>lw_tick := Suc (lw_tick w)\<rparr>"
  by (auto simp: act_call_def)

text \<open>What an action keeps of the files, whatever its outcome.\<close>

definition act_keeps :: "(files \<Rightarrow> bool) \<Rightarrow> ('e, 'a) act \<Rightarrow> bool" where
  "act_keeps P m \<longleftrightarrow> (\<forall>w r w'. m w = (r, w') \<longrightarrow> P (lw_files w) \<longrightarrow> P (lw_files w'))"

named_theorems act_keep \<open>the actions that keep a property of the files\<close>

lemma act_keepsI: "(\<And>w r w'. m w = (r, w') \<Longrightarrow> P (lw_files w) \<Longrightarrow> P (lw_files w')) \<Longrightarrow> act_keeps P m"
  by (auto simp: act_keeps_def)

lemma act_keepsD: "act_keeps P m \<Longrightarrow> m w = (r, w') \<Longrightarrow> P (lw_files w) \<Longrightarrow> P (lw_files w')"
  by (auto simp: act_keeps_def)

lemma act_keeps_ret [act_keep]: "act_keeps P (act_ret a)"
  by (simp add: act_keeps_def act_ret_def)

lemma act_keeps_fail [act_keep]: "act_keeps P (act_fail e)"
  by (simp add: act_keeps_def act_fail_def)

lemma act_keeps_of [act_keep]: "act_keeps P (act_of r)"
  by (simp add: act_keeps_def act_of_def)

lemma act_keeps_call [act_keep]: "act_keeps P (act_call f)"
  by (simp add: act_keeps_def act_call_def)

lemma act_keeps_bind [act_keep]: "act_keeps P m \<Longrightarrow> (\<And>a. act_keeps P (f a)) \<Longrightarrow> act_keeps P (act_bind m f)"
  by (rule act_keepsI) (auto simp: act_bind_def split: prod.splits sum.splits dest: act_keepsD)

lemma act_keeps_wrap [act_keep]: "act_keeps P m \<Longrightarrow> act_keeps P (act_wrap g m)"
  by (rule act_keepsI) (auto simp: act_wrap_def split: prod.splits sum.splits dest: act_keepsD)

lemma act_keeps_catch [act_keep]: "act_keeps P m \<Longrightarrow> act_keeps P (act_catch m)"
  by (rule act_keepsI) (auto simp: act_catch_def split: prod.splits dest: act_keepsD)

subsection \<open>The operating system\<close>

record lg_os =
  os_home :: "string res"
  os_getenv :: "string \<Rightarrow> string"
  os_now :: "nat \<Rightarrow> time"
  os_mkdir :: "nat \<Rightarrow> goerr option"
  os_read :: "nat \<Rightarrow> goerr option"
  os_write :: "nat \<Rightarrow> write_outcome"
  os_rename :: "nat \<Rightarrow> goerr option"
  os_remove :: "nat \<Rightarrow> goerr option"
  os_stat :: "nat \<Rightarrow> goerr option"
  os_open :: "nat \<Rightarrow> goerr option"
  os_stdin :: "string res"

definition ErrNotExist :: goerr where "ErrNotExist = Errorf ''file does not exist''"

definition lg_Now :: "lg_os \<Rightarrow> ('e, time) act" where
  "lg_Now os = act_call (\<lambda>k. Inr (os_now os k))"

definition lg_MkdirAll :: "lg_os \<Rightarrow> string \<Rightarrow> (goerr, unit) act" where
  "lg_MkdirAll os dir = act_call (\<lambda>k. case os_mkdir os k of Some e \<Rightarrow> Inl e | None \<Rightarrow> Inr ())"

definition lg_ReadFile :: "lg_os \<Rightarrow> string \<Rightarrow> (goerr, string) act" where
  "lg_ReadFile os path w =
     act_call (\<lambda>k. case read_file (os_read os k) path (lw_files w) of
        ReadAbsent \<Rightarrow> Inl ErrNotExist | ReadError e \<Rightarrow> Inl e | ReadOK c \<Rightarrow> Inr c) w"

definition lg_Stat :: "lg_os \<Rightarrow> string \<Rightarrow> (goerr, unit) act" where
  "lg_Stat os path w =
     act_call (\<lambda>k. case os_stat os k of Some e \<Rightarrow> Inl e
        | None \<Rightarrow> if lw_files w path = None then Inl ErrNotExist else Inr ()) w"

definition lg_WriteFile :: "lg_os \<Rightarrow> string \<Rightarrow> string \<Rightarrow> (goerr, unit) act" where
  "lg_WriteFile os path content w =
     (let (r, fs) = write_file (os_write os (lw_tick w)) path content (lw_files w) in
      (case r of Some e \<Rightarrow> Inl e | None \<Rightarrow> Inr (), \<lparr>lw_files = fs, lw_tick = Suc (lw_tick w)\<rparr>))"

definition lg_Rename :: "lg_os \<Rightarrow> string \<Rightarrow> string \<Rightarrow> (goerr, unit) act" where
  "lg_Rename os src dst w =
     (case (os_rename os (lw_tick w), lw_files w src) of
        (Some e, _) \<Rightarrow> (Inl e, w\<lparr>lw_tick := Suc (lw_tick w)\<rparr>)
      | (None, None) \<Rightarrow> (Inl ErrNotExist, w\<lparr>lw_tick := Suc (lw_tick w)\<rparr>)
      | (None, Some c) \<Rightarrow>
          (Inr (), \<lparr>lw_files = (lw_files w)(src := None, dst \<mapsto> c), lw_tick = Suc (lw_tick w)\<rparr>))"

definition lg_Remove :: "lg_os \<Rightarrow> string \<Rightarrow> (goerr, unit) act" where
  "lg_Remove os path w =
     (case os_remove os (lw_tick w) of
        Some e \<Rightarrow> (Inl e, w\<lparr>lw_tick := Suc (lw_tick w)\<rparr>)
      | None \<Rightarrow> (Inr (), \<lparr>lw_files = (lw_files w)(path := None), lw_tick = Suc (lw_tick w)\<rparr>))"

lemma act_keeps_os [act_keep]:
  "act_keeps P (lg_Now os)" "act_keeps P (lg_MkdirAll os p)" "act_keeps P (lg_ReadFile os p)" "act_keeps P (lg_Stat os p)"
  by (simp_all add: lg_Now_def lg_MkdirAll_def act_keep)
     (simp_all add: act_keeps_def lg_ReadFile_def lg_Stat_def act_call_def)

subsection \<open>Paths and durations\<close>

definition expandPath :: "lg_os \<Rightarrow> string \<Rightarrow> string res" where
  "expandPath os path =
     (if path = [] then Inr []
      else if HasPrefix path ''~/'' \<or> path = ''~'' then
        (case os_home os of
           Inl e \<Rightarrow> Inl e
         | Inr home \<Rightarrow> Inr (if path = ''~'' then home else path_Join [home, drop 2 path]))
      else Inr path)"

definition timeoutDuration :: "int \<Rightarrow> duration \<Rightarrow> duration" where
  "timeoutDuration sec fallback = (if sec \<le> 0 then fallback else dur_seconds sec)"

definition lg_parseDuration :: "string \<Rightarrow> duration \<Rightarrow> duration res" where
  "lg_parseDuration raw fallback =
     (if TrimSpace raw = [] then Inr fallback
      else case ParseDuration raw of Some d \<Rightarrow> Inr d | None \<Rightarrow> Inl (Errorf ''time: invalid duration''))"

definition parseCSV :: "string \<Rightarrow> string list" where
  "parseCSV raw =
     (if TrimSpace raw = [] then [] else filter (\<lambda>p. p \<noteq> []) (map TrimSpace (Split1 (CHR '','') raw)))"

text \<open>\<open>time.Until\<close> saturates at the ends of a 64-bit number.\<close>

definition time_until :: "time \<Rightarrow> time \<Rightarrow> duration" where
  "time_until now t = max (- (2 ^ 63)) (min (2 ^ 63 - 1) (t - now))"

subsection \<open>Atomic writes\<close>

text \<open>\<open>writeFile\<close>: a temporary file beside the target, then a rename; the error of the removal is not
  looked at.\<close>

definition lg_writeFile :: "lg_os \<Rightarrow> string \<Rightarrow> string \<Rightarrow> (goerr, unit) act" where
  "lg_writeFile os path content =
     act_bind (act_of (expandPath os path)) (\<lambda>target.
     act_bind (lg_MkdirAll os (path_Dir target)) (\<lambda>_.
     act_bind (lg_WriteFile os (target @ ''.tmp'') content) (\<lambda>_.
     act_bind (act_catch (lg_Rename os (target @ ''.tmp'') target)) (\<lambda>r.
       case r of
         Inr _ \<Rightarrow> act_ret ()
       | Inl e \<Rightarrow> act_bind (act_catch (lg_Remove os (target @ ''.tmp''))) (\<lambda>_. act_fail e)))))"

text \<open>\<open>writeJSONFile\<close>: the document with a line end behind it.\<close>

definition writeJSONFile :: "lg_os \<Rightarrow> string res \<Rightarrow> string \<Rightarrow> (goerr, unit) act" where
  "writeJSONFile os doc path =
     act_bind (act_of doc) (\<lambda>content. lg_writeFile os path (content @ [char_of (10 :: nat)]))"

lemma tmp_neq [simp]: "p @ ''.tmp'' \<noteq> p" "p \<noteq> p @ ''.tmp''"
  by simp_all

text \<open>What a write may change, when the property does not see temporary files.\<close>

definition blind :: "(files \<Rightarrow> bool) \<Rightarrow> string \<Rightarrow> bool" where
  "blind P path \<longleftrightarrow> (\<forall>fs c. P fs \<longrightarrow> P (fs(path := c)))"

lemma lg_WriteFile_keeps: "blind P p \<Longrightarrow> act_keeps P (lg_WriteFile os p c)"
  by (auto simp: act_keeps_def lg_WriteFile_def blind_def write_file_def Let_def
      split: write_outcome.splits option.splits prod.splits)

lemma lg_Remove_keeps: "blind P p \<Longrightarrow> act_keeps P (lg_Remove os p)"
  by (auto simp: act_keeps_def lg_Remove_def blind_def split: option.splits)

lemma lg_Rename_keeps: "blind P p \<Longrightarrow> blind P q \<Longrightarrow> act_keeps P (lg_Rename os p q)"
  by (auto simp: act_keeps_def lg_Rename_def blind_def split: option.splits)

lemma lg_writeFile_keeps [act_keep]:
  assumes "\<And>target. expandPath os path = Inr target \<Longrightarrow> blind P target \<and> blind P (target @ ''.tmp'')"
  shows "act_keeps P (lg_writeFile os path content)"
proof (cases "expandPath os path")
  case (Inl e)
  then show ?thesis by (simp add: act_keeps_def lg_writeFile_def act_bind_def act_of_def)
next
  case (Inr target)
  then have b: "blind P target" "blind P (target @ ''.tmp'')" using assms by auto
  have "act_keeps P (lg_writeFile os path content) = act_keeps P
     (act_bind (lg_MkdirAll os (path_Dir target)) (\<lambda>_.
     act_bind (lg_WriteFile os (target @ ''.tmp'') content) (\<lambda>_.
     act_bind (act_catch (lg_Rename os (target @ ''.tmp'') target)) (\<lambda>r.
       case r of
         Inr _ \<Rightarrow> act_ret ()
       | Inl e \<Rightarrow> act_bind (act_catch (lg_Remove os (target @ ''.tmp''))) (\<lambda>_. act_fail e)))))"
    using Inr by (simp add: act_keeps_def lg_writeFile_def act_bind_def act_of_def)
  also have "\<dots>"
    using b by (auto intro!: act_keep lg_WriteFile_keeps lg_Rename_keeps lg_Remove_keeps split: sum.split)
  finally show ?thesis .
qed

subsection \<open>Properties\<close>

text \<open>The temporary file decides nothing: a failed write leaves the target as it was, a successful one gives it
  the new contents, and only the target and its temporary file change.\<close>

lemma lg_writeFile_result:
  assumes "expandPath os path = Inr target" "lg_writeFile os path content w = (r, w')"
  shows "lw_files w' target = (case r of Inl _ \<Rightarrow> lw_files w target | Inr _ \<Rightarrow> Some content)
     \<and> (\<forall>n. n \<noteq> target \<longrightarrow> n \<noteq> target @ ''.tmp'' \<longrightarrow> lw_files w' n = lw_files w n)"
  using assms
  by (auto simp: lg_writeFile_def act_bind_def act_of_def act_ret_def act_fail_def act_catch_def lg_MkdirAll_def
      act_call_def lg_WriteFile_def lg_Rename_def lg_Remove_def write_file_def Let_def
      split: prod.splits sum.splits option.splits write_outcome.splits)

lemma lg_writeFile_noexpand: "expandPath os path = Inl e \<Longrightarrow> lg_writeFile os path content w = (Inl e, w)"
  by (simp add: lg_writeFile_def act_bind_def act_of_def)

text \<open>C38: the superseded client replaces a file atomically.  Whatever the operating system refuses on the way, the
  file has its old contents when \<open>writeFile\<close> reports an error and exactly the new ones when it does not, and no other file
  changes but the temporary one beside it.\<close>

theorem lg_write_atomic:
  assumes "lg_writeFile os path content w = (r, w')"
  shows "case expandPath os path of
      Inl e \<Rightarrow> r = Inl e \<and> w' = w
    | Inr target \<Rightarrow>
        lw_files w' target = (case r of Inl _ \<Rightarrow> lw_files w target | Inr _ \<Rightarrow> Some content)
        \<and> (\<forall>n. n \<noteq> target \<longrightarrow> n \<noteq> target @ ''.tmp'' \<longrightarrow> lw_files w' n = lw_files w n)"
  using assms lg_writeFile_result[of os path _ content w r w'] lg_writeFile_noexpand[of os path]
  by (cases "expandPath os path") auto

definition ex_os :: lg_os where
  "ex_os = \<lparr>os_home = Inr ''/home/u'', os_getenv = (\<lambda>_. []), os_now = (\<lambda>k. 1000 * Second + int k),
     os_mkdir = (\<lambda>_. None), os_read = (\<lambda>_. None), os_write = (\<lambda>_. WriteOK), os_rename = (\<lambda>_. None),
     os_remove = (\<lambda>_. None), os_stat = (\<lambda>_. None),
     os_open = (\<lambda>_. None), os_stdin = Inr []\<rparr>"

definition ex_full_os :: lg_os where
  "ex_full_os = ex_os\<lparr>os_write := (\<lambda>_. WriteFails (Errorf ''no space left'') (Some ''ne''))\<rparr>"

theorem lg_write_atomic_witness:
  "lw_files (snd (lg_writeFile ex_full_os ''~/state.json'' ''new'' \<lparr>lw_files = [''/home/u/state.json'' \<mapsto> ''old''], lw_tick = 0\<rparr>))
     ''/home/u/state.json'' = Some ''old''
   \<and> lw_files (snd (lg_writeFile ex_os ''~/state.json'' ''new'' \<lparr>lw_files = [''/home/u/state.json'' \<mapsto> ''old''], lw_tick = 0\<rparr>))
     ''/home/u/state.json'' = Some ''new''"
proof -
  let ?w = "\<lparr>lw_files = [''/home/u/state.json'' \<mapsto> ''old''], lw_tick = 0\<rparr>"
  have x: "expandPath ex_full_os ''~/state.json'' = Inr ''/home/u/state.json''"
    "expandPath ex_os ''~/state.json'' = Inr ''/home/u/state.json''"
    by code_simp+
  have r: "is_ok (fst (lg_writeFile ex_full_os ''~/state.json'' ''new'' ?w)) = False"
    "is_ok (fst (lg_writeFile ex_os ''~/state.json'' ''new'' ?w)) = True"
    by code_simp+
  show ?thesis
    using lg_write_atomic[of ex_full_os "''~/state.json''" "''new''" ?w, OF prod.collapse[symmetric]]
      lg_write_atomic[of ex_os "''~/state.json''" "''new''" ?w, OF prod.collapse[symmetric]] x r
    by (auto simp: is_ok_def split: sum.splits)
qed

end
