(* ===== verification/Cl_Storage.thy ===== *)
theory Cl_Storage
  imports Go_Http Go_Files
begin

text \<open>
  The command-line client's data, configuration and files: \<open>client/internal/core/domain\<close>,
  \<open>client/internal/config\<close>, \<open>client/internal/infra/storage\<close> and
  \<open>client/internal/infra/oidc/token_store.go\<close>.

  The directory \<open>storage.path\<close> is a map from file names to contents.  The operating
  system's part in a call is its argument: the outcome of the directory creation, of
  each write and of each read.  A failed \<open>os.WriteFile\<close> may have truncated the file or
  written a part of it.
\<close>

subsection \<open>Domain and configuration\<close>

record cl_resource =
  cl_type :: string
  cl_host :: string
  cl_port :: int
  cl_name :: string

record cl_subject =
  cs_sub :: string
  cs_username :: string
  cs_groups :: "string list"

definition ErrNotAuthenticated :: goerr where
  "ErrNotAuthenticated = Errorf (''non authentifi'' @ e_acute @ '' : ex'' @ e_acute @ ''cutez '' @ [CHR 0x27] @ ''ztna login'' @ [CHR 0x27])"
definition ErrNoCertificate :: goerr where
  "ErrNoCertificate = Errorf (''pas de certificat mTLS : ex'' @ e_acute @ ''cutez '' @ [CHR 0x27] @ ''ztna cert'' @ [CHR 0x27])"
definition ErrCertExpired :: goerr where
  "ErrCertExpired = Errorf (''certificat mTLS expir'' @ e_acute @ '' : ex'' @ e_acute @ ''cutez '' @ [CHR 0x27] @ ''ztna cert'' @ [CHR 0x27])"
definition ErrConnectionDenied :: goerr where
  "ErrConnectionDenied = Errorf (''connexion refus'' @ e_acute @ ''e par la politique d'acc'' @ e_grave @ ''s'')"
definition ErrGatewayUnreachable :: goerr where
  "ErrGatewayUnreachable = Errorf ''gateway inaccessible''"
definition ErrCPUnreachable :: goerr where
  "ErrCPUnreachable = Errorf ''control plane inaccessible''"
definition ErrInvalidConfig :: goerr where
  "ErrInvalidConfig = Errorf ''configuration invalide''"

definition cl_Resource_Validate :: "cl_resource \<Rightarrow> goerr option" where
  "cl_Resource_Validate r =
     (if cl_host r = [] then Some ErrInvalidConfig
      else if cl_port r < 1 \<or> cl_port r > 65535 then Some ErrInvalidConfig
      else if cl_type r = [] then Some ErrInvalidConfig
      else None)"

definition cl_Subject_Validate :: "cl_subject \<Rightarrow> goerr option" where
  "cl_Subject_Validate s = (if cs_sub s = [] then Some ErrInvalidConfig else None)"

record cl_config =
  cf_issuer :: string
  cf_client_id :: string
  cf_client_secret :: string
  cf_audience :: string
  cf_oidc_ca :: string
  cf_oidc_insecure :: bool
  cf_base_url :: string
  cf_cp_ca :: string
  cf_cp_insecure :: bool
  cf_gateway :: string
  cf_tls_ca :: string
  cf_storage :: string
  cf_allow_http :: bool
  cf_log_level :: string
  cf_log_format :: string

definition cl_applyDefaults :: "cl_config \<Rightarrow> cl_config" where
  "cl_applyDefaults cfg = cfg\<lparr>
     cf_log_level := (if cf_log_level cfg = [] then ''info'' else cf_log_level cfg),
     cf_log_format := (if cf_log_format cfg = [] then ''json'' else cf_log_format cfg),
     cf_storage := (if cf_storage cfg = [] then ''./.ztna'' else cf_storage cfg)\<rparr>"

definition cl_Validate :: "cl_config \<Rightarrow> goerr option" where
  "cl_Validate c =
     (if cf_issuer c = [] then Some (Errorf ''oidc.issuer est requis'')
      else if cf_client_id c = [] then Some (Errorf ''oidc.client_id est requis'')
      else if cf_base_url c = [] then Some (Errorf ''control_plane.base_url est requis'')
      else if cf_gateway c = [] then Some (Errorf ''gateway.address est requis'')
      else if \<not> cf_allow_http c \<and> length (cf_issuer c) \<ge> 7 \<and> take 7 (cf_issuer c) = ''http://''
      then Some (Errorf (''oidc.issuer doit '' @ [CHR 0xC3, CHR 0xAA] @ ''tre HTTPS''))
      else None)"

definition cl_Load :: "string res \<Rightarrow> (string \<Rightarrow> cl_config res) \<Rightarrow> cl_config res" where
  "cl_Load content yaml =
     (case content of
        Inl e \<Rightarrow> Inl (Wrapf ''impossible de lire le fichier de configuration: '' e [])
      | Inr text \<Rightarrow>
          (case yaml text of
             Inl e \<Rightarrow> Inl (Wrapf ''erreur de parsing YAML: '' e [])
           | Inr cfg0 \<Rightarrow>
               (let cfg = cl_applyDefaults cfg0 in
                case cl_Validate cfg of
                  Some e \<Rightarrow> Inl (Wrapf ''configuration invalide: '' e [])
                | None \<Rightarrow> Inr cfg)))"

definition tokenExpiryMargin :: duration where
  "tokenExpiryMargin = 30 * Second"

abbreviation msg_write :: "string \<Rightarrow> string" where
  "msg_write what \<equiv> ''impossible d'' @ [CHR 0x27] @ e_acute @ ''crire '' @ what"

subsection \<open>Files\<close>

definition clientCertFileName :: string where "clientCertFileName = ''client.crt''"
definition clientKeyFileName :: string where "clientKeyFileName = ''client.key''"
definition clientCAFileName :: string where "clientCAFileName = ''client-ca.crt''"
definition tokenFileName :: string where "tokenFileName = ''tokens.json''"
definition resourceCatalogFileName :: string where "resourceCatalogFileName = ''resources.json''"

lemmas file_names = clientCertFileName_def clientKeyFileName_def clientCAFileName_def tokenFileName_def
  resourceCatalogFileName_def

definition SaveCertAndKey ::
    "goerr option \<Rightarrow> write_outcome \<Rightarrow> write_outcome \<Rightarrow> string \<Rightarrow> string \<Rightarrow> files \<Rightarrow> goerr option \<times> files" where
  "SaveCertAndKey mk w1 w2 certPEM keyPEM fs =
     (case mk of
        Some e \<Rightarrow> (Some (Wrapf (''impossible de cr'' @ e_acute @ ''er le dossier de stockage: '') e []), fs)
      | None \<Rightarrow>
          (case write_file w1 clientCertFileName certPEM fs of
             (Some e, fs1) \<Rightarrow> (Some (Wrapf (msg_write ''le certificat: '') e []), fs1)
           | (None, fs1) \<Rightarrow>
               (case write_file w2 clientKeyFileName keyPEM fs1 of
                  (Some e, fs2) \<Rightarrow> (Some (Wrapf (msg_write (''la cl'' @ e_acute @ '' priv'' @ e_acute @ ''e: '')) e []), fs2)
                | (None, fs2) \<Rightarrow> (None, fs2))))"

definition SaveCACert :: "goerr option \<Rightarrow> write_outcome \<Rightarrow> string \<Rightarrow> files \<Rightarrow> goerr option \<times> files" where
  "SaveCACert mk w caCertPEM fs =
     (if caCertPEM = [] then (None, fs)
      else case mk of
        Some e \<Rightarrow> (Some (Wrapf (''impossible de cr'' @ e_acute @ ''er le dossier de stockage: '') e []), fs)
      | None \<Rightarrow>
          (case write_file w clientCAFileName caCertPEM fs of
             (Some e, fs1) \<Rightarrow> (Some (Wrapf (msg_write ''le certificat CA: '') e []), fs1)
           | (None, fs1) \<Rightarrow> (None, fs1)))"

definition store_LoadCertAndKey :: "goerr option \<Rightarrow> goerr option \<Rightarrow> files \<Rightarrow> (string \<times> string) res" where
  "store_LoadCertAndKey r1 r2 fs =
     (case read_file r1 clientCertFileName fs of
        ReadAbsent \<Rightarrow> Inl ErrNoCertificate
      | ReadError e \<Rightarrow> Inl (Wrapf ''impossible de lire le certificat: '' e [])
      | ReadOK certPEM \<Rightarrow>
          (case read_file r2 clientKeyFileName fs of
             ReadAbsent \<Rightarrow> Inl ErrNoCertificate
           | ReadError e \<Rightarrow> Inl (Wrapf (''impossible de lire la cl'' @ e_acute @ '' priv'' @ e_acute @ ''e: '') e [])
           | ReadOK keyPEM \<Rightarrow> Inr (certPEM, keyPEM)))"

text \<open>\<open>credentials.Client.LoadCertAndKey\<close>: \<open>not_after\<close> is the expiry of the certificate in a PEM text,
  where it can be parsed.\<close>

definition LoadCertAndKey ::
    "(string \<Rightarrow> time option) \<Rightarrow> goerr option \<Rightarrow> goerr option \<Rightarrow> time \<Rightarrow> files \<Rightarrow> (string \<times> string) res" where
  "LoadCertAndKey not_after r1 r2 now fs =
     (case store_LoadCertAndKey r1 r2 fs of
        Inl e \<Rightarrow> Inl e
      | Inr (certPEM, keyPEM) \<Rightarrow>
          (case not_after certPEM of
             Some t \<Rightarrow> if t < now then Inl ErrCertExpired else Inr (certPEM, keyPEM)
           | None \<Rightarrow> Inr (certPEM, keyPEM)))"

text \<open>\<open>credentials.Client.SaveCertAndKey\<close>: \<open>pair_error\<close> is \<open>tls.X509KeyPair\<close>.\<close>

definition creds_SaveCertAndKey ::
    "(string \<Rightarrow> string \<Rightarrow> goerr option) \<Rightarrow> goerr option \<Rightarrow> write_outcome \<Rightarrow> write_outcome \<Rightarrow> string \<Rightarrow> string
     \<Rightarrow> files \<Rightarrow> goerr option \<times> files" where
  "creds_SaveCertAndKey pair_error mk w1 w2 certPEM keyPEM fs =
     (case pair_error certPEM keyPEM of
        Some e \<Rightarrow> (Some (Wrapf (''certificat et cl'' @ e_acute @ '' ne correspondent pas: '') e []), fs)
      | None \<Rightarrow> SaveCertAndKey mk w1 w2 certPEM keyPEM fs)"

subsection \<open>The token store\<close>

record token_set =
  ts_access :: string
  ts_refresh :: string
  ts_id :: string
  ts_type :: string
  ts_expires :: time

text \<open>The JSON codec of a \<open>TokenSet\<close> is a pair of functions.\<close>

record token_codec =
  tc_encode :: "token_set \<Rightarrow> string res"
  tc_decode :: "string \<Rightarrow> token_set res"

definition tokens_Save ::
    "token_codec \<Rightarrow> goerr option \<Rightarrow> write_outcome \<Rightarrow> token_set \<Rightarrow> files \<Rightarrow> goerr option \<times> files" where
  "tokens_Save T mk w tokens fs =
     (case mk of
        Some e \<Rightarrow> (Some (Wrapf (''impossible de cr'' @ e_acute @ ''er le r'' @ e_acute @ ''pertoire de stockage: '') e []), fs)
      | None \<Rightarrow>
          (case tc_encode T tokens of
             Inl e \<Rightarrow> (Some (Wrapf (''impossible de s'' @ e_acute @ ''rialiser les tokens: '') e []), fs)
           | Inr text \<Rightarrow>
               (case write_file w tokenFileName text fs of
                  (Some e, fs') \<Rightarrow> (Some (Wrapf (msg_write ''les tokens: '') e []), fs')
                | (None, fs') \<Rightarrow> (None, fs'))))"

definition tokens_Load :: "token_codec \<Rightarrow> goerr option \<Rightarrow> files \<Rightarrow> token_set res" where
  "tokens_Load T r fs =
     (case read_file r tokenFileName fs of
        ReadAbsent \<Rightarrow> Inl (Errorf (''aucun token stock'' @ e_acute))
      | ReadError e \<Rightarrow> Inl (Wrapf ''impossible de lire les tokens: '' e [])
      | ReadOK text \<Rightarrow>
          (case tc_decode T text of
             Inl e \<Rightarrow> Inl (Wrapf (''impossible de parser les tokens stock'' @ e_acute @ ''s: '') e [])
           | Inr tokens \<Rightarrow> Inr tokens))"

definition tokens_Delete :: "goerr option \<Rightarrow> files \<Rightarrow> goerr option \<times> files" where
  "tokens_Delete rm fs =
     (case fs tokenFileName of
        None \<Rightarrow> (None, fs)
      | Some _ \<Rightarrow>
          (case rm of
             Some e \<Rightarrow> (Some (Wrapf ''impossible de supprimer les tokens: '' e []), fs)
           | None \<Rightarrow> (None, fs(tokenFileName := None))))"

definition token_codec_ok :: "token_codec \<Rightarrow> token_set \<Rightarrow> bool" where
  "token_codec_ok T tokens = (case tc_encode T tokens of Inl _ \<Rightarrow> False | Inr t \<Rightarrow> tc_decode T t = Inr tokens)"

subsection \<open>Facts\<close>

lemma tokens_Save_Load:
  "tokens_Save T mk w tokens fs = (None, fs') \<Longrightarrow> token_codec_ok T tokens \<Longrightarrow> tokens_Load T None fs' = Inr tokens"
  by (auto simp: tokens_Save_def tokens_Load_def token_codec_ok_def read_after
      split: option.splits sum.splits prod.splits dest!: write_file_ok)

lemma SaveCertAndKey_ok:
  "SaveCertAndKey mk w1 w2 c k fs = (None, fs') \<Longrightarrow>
     fs' = fs(clientCertFileName \<mapsto> c, clientKeyFileName \<mapsto> k)"
  by (auto simp: SaveCertAndKey_def split: option.splits prod.splits dest!: write_file_ok)

lemma store_Load_after:
  "store_LoadCertAndKey None None (fs(clientCertFileName \<mapsto> c, clientKeyFileName \<mapsto> k)) = Inr (c, k)"
  by (simp add: store_LoadCertAndKey_def read_file_def file_names)

subsection \<open>Properties\<close>

text \<open>A certificate and a key that were saved are the ones loaded, until the certificate
  expires, whatever is saved under the other names; a save that is interrupted after the
  certificate leaves the new certificate beside the old key, and loading gives this pair
  without an error.\<close>

theorem cert_store_roundtrip:
  assumes "SaveCertAndKey None w1 w2 certPEM keyPEM fs = (None, fs')"
    and "tokens_Save T mk w tokens fs' = (r, fs'')"
    and "not_after certPEM = Some t" and "SaveCertAndKey None WriteOK (WriteFails e None) cert2 key2 fs'' = (r2, fs3)"
  shows "LoadCertAndKey not_after None None now fs'' =
           (if t < now then Inl ErrCertExpired else Inr (certPEM, keyPEM))
    \<and> store_LoadCertAndKey None None fs3 = Inr (cert2, keyPEM)"
proof -
  have 1: "fs' = fs(clientCertFileName \<mapsto> certPEM, clientKeyFileName \<mapsto> keyPEM)"
    using SaveCertAndKey_ok[OF assms(1)] .
  have 2: "fs'' n = fs' n" if "n \<noteq> tokenFileName" for n
    using assms(2) that
    by (auto simp: tokens_Save_def write_file_frame split: option.splits sum.splits prod.splits)
  have c: "fs'' clientCertFileName = Some certPEM" "fs'' clientKeyFileName = Some keyPEM"
    using 1 2[of clientCertFileName] 2[of clientKeyFileName] by (simp_all add: file_names)
  have "fs3 = fs''(clientCertFileName \<mapsto> cert2)"
    using assms(4) by (auto simp: SaveCertAndKey_def write_file_def)
  with c show ?thesis
    using assms(3)
    by (simp add: LoadCertAndKey_def store_LoadCertAndKey_def read_file_def file_names)
qed

definition ex_tokens :: token_set where
  "ex_tokens = \<lparr>ts_access = ''at'', ts_refresh = ''rt'', ts_id = [], ts_type = ''Bearer'', ts_expires = 300 * Second\<rparr>"

definition ex_codec :: token_codec where
  "ex_codec = \<lparr>tc_encode = (\<lambda>_. Inr ''json''), tc_decode = (\<lambda>_. Inr ex_tokens)\<rparr>"

theorem cert_store_roundtrip_witness:
  "\<exists>fs2 fs3. LoadCertAndKey (\<lambda>_. Some 900) None None 800 fs2 = Inr (''C1'', ''K1'')
     \<and> SaveCertAndKey None WriteOK (WriteFails (Errorf ''disk full'') None) ''C2'' ''K2'' fs2
         = (Some (Wrapf (msg_write (''la cl'' @ e_acute @ '' priv'' @ e_acute @ ''e: '')) (Errorf ''disk full'') []), fs3)
     \<and> store_LoadCertAndKey None None fs3 = Inr (''C2'', ''K1'')"
proof -
  obtain fs1 where s: "SaveCertAndKey None WriteOK WriteOK ''C1'' ''K1'' Map.empty = (None, fs1)"
    by (auto simp: SaveCertAndKey_def write_file_def)
  obtain fs2 where t: "tokens_Save ex_codec None WriteOK ex_tokens fs1 = (None, fs2)"
    by (auto simp: tokens_Save_def ex_codec_def write_file_def)
  obtain fs3 where f: "SaveCertAndKey None WriteOK (WriteFails (Errorf ''disk full'') None) ''C2'' ''K2'' fs2
      = (Some (Wrapf (msg_write (''la cl'' @ e_acute @ '' priv'' @ e_acute @ ''e: '')) (Errorf ''disk full'') []), fs3)"
    by (auto simp: SaveCertAndKey_def write_file_def)
  show ?thesis
    using cert_store_roundtrip[OF s t, of "\<lambda>_. Some 900" 900, OF refl f, of 800] f by auto
qed

end
