(* ===== verification/Gw_Protocol.thy ===== *)
theory Gw_Protocol
  imports Go_Http
begin

text \<open>
  The framing of the CONNECT protocol (\<open>gateway/internal/usecase/connect/connect.go\<close>):
  four bytes of length, most significant first, then the message in JSON.  The JSON
  codec is a parameter: \<open>marshal\<close> and \<open>unmarshal\<close> of the type of the message.

  The reading side of a connection is the text of all the bytes the peer sends
  before it closes; a write is given its outcome, an error or none.
\<close>

record resource_target =
  rt_type :: string
  rt_host :: string
  rt_port :: int
  rt_name :: string

record connect_request =
  cr_version :: int
  cr_action :: string
  cr_resource :: resource_target
  cr_timestamp :: string

record connect_response =
  cp_decision :: string
  cp_reason :: string
  cp_decision_id :: string
  cp_ttl :: int

definition MaxMessageSize :: nat where
  "MaxMessageSize = 1048576"

text \<open>\<open>binary.BigEndian.PutUint32\<close> and \<open>Uint32\<close>.\<close>

definition PutUint32 :: "nat \<Rightarrow> string" where
  "PutUint32 n = [char_of (n div 16777216 mod 256), char_of (n div 65536 mod 256),
                  char_of (n div 256 mod 256), char_of (n mod 256)]"

definition Uint32 :: "string \<Rightarrow> nat" where
  "Uint32 bs = foldl (\<lambda>v c. 256 * v + of_char c) 0 bs"

text \<open>\<open>io.ReadFull\<close>.\<close>

definition ReadFull :: "nat \<Rightarrow> string \<Rightarrow> string res \<times> string" where
  "ReadFull n input =
     (if length input < n
      then (Inl (Errorf (if input = [] then ''EOF'' else ''unexpected EOF'')), [])
      else (Inr (take n input), drop n input))"

definition WriteMessage ::
    "('a \<Rightarrow> string res) \<Rightarrow> goerr option \<Rightarrow> goerr option \<Rightarrow> 'a \<Rightarrow> goerr option \<times> string" where
  "WriteMessage marshal w1 w2 msg =
     (case marshal msg of
        Inl e \<Rightarrow> (Some (Wrapf (''s'' @ e_acute @ ''rialisation JSON: '') e []), [])
      | Inr payload \<Rightarrow>
          if length payload > MaxMessageSize then (Some (Errorf ''message trop grand''), [])
          else (let header = PutUint32 (length payload mod 2 ^ 32) in
                case w1 of
                  Some e \<Rightarrow> (Some (Wrapf (e_acute @ ''criture header: '') e []), [])
                | None \<Rightarrow>
                    (case w2 of
                       Some e \<Rightarrow> (Some (Wrapf (e_acute @ ''criture payload: '') e []), header)
                     | None \<Rightarrow> (None, header @ payload))))"

definition ReadMessage :: "(string \<Rightarrow> 'a res) \<Rightarrow> string \<Rightarrow> 'a res \<times> string" where
  "ReadMessage unmarshal input =
     (case ReadFull 4 input of
        (Inl e, rest) \<Rightarrow> (Inl (Wrapf ''lecture header: '' e []), rest)
      | (Inr header, rest) \<Rightarrow>
          (let size = Uint32 header in
           if size > MaxMessageSize then (Inl (Errorf ''message trop grand''), rest)
           else if size = 0 then (Inl (Errorf (''message vide re'' @ [CHR 0xC3, CHR 0xA7] @ ''u'')), rest)
           else (case ReadFull size rest of
                   (Inl e, rest') \<Rightarrow> (Inl (Wrapf ''lecture payload: '' e []), rest')
                 | (Inr buf, rest') \<Rightarrow>
                     (case unmarshal buf of
                        Inl e \<Rightarrow> (Inl (Wrapf (''d'' @ e_acute @ ''s'' @ e_acute @ ''rialisation JSON: '') e []), rest')
                      | Inr msg \<Rightarrow> (Inr msg, rest')))))"

subsection \<open>Facts about the frame\<close>

lemma Uint32_PutUint32: "n < 2 ^ 32 \<Longrightarrow> Uint32 (PutUint32 n) = n"
proof -
  assume n: "n < 2 ^ 32"
  have c: "(of_char (char_of (k mod 256) :: char) :: nat) = k mod 256" for k :: nat
    by simp
  have 1: "n div 16777216 mod 256 = n div 16777216" using n by simp
  have 2: "256 * (n div 16777216) + n div 65536 mod 256 = n div 65536"
    using div_mult_mod_eq[of "n div 65536" 256] by (simp add: div_mult2_eq[symmetric])
  have 3: "256 * (n div 65536) + n div 256 mod 256 = n div 256"
    using div_mult_mod_eq[of "n div 256" 256] by (simp add: div_mult2_eq[symmetric])
  have 4: "256 * (n div 256) + n mod 256 = n" by simp
  show ?thesis unfolding Uint32_def PutUint32_def by (simp add: c 1 2 3 4)
qed

lemma length_PutUint32 [simp]: "length (PutUint32 n) = 4"
  by (simp add: PutUint32_def)

lemma ReadFull_append [simp]: "length bs = n \<Longrightarrow> ReadFull n (bs @ rest) = (Inr bs, rest)"
  by (simp add: ReadFull_def)

lemma ReadMessage_frame:
  "payload \<noteq> [] \<Longrightarrow> length payload \<le> MaxMessageSize \<Longrightarrow>
     ReadMessage unmarshal (PutUint32 (length payload) @ payload @ rest) =
       (case unmarshal payload of
          Inl e \<Rightarrow> (Inl (Wrapf (''d'' @ e_acute @ ''s'' @ e_acute @ ''rialisation JSON: '') e []), rest)
        | Inr msg \<Rightarrow> (Inr msg, rest))"
proof -
  assume p: "payload \<noteq> []" "length payload \<le> MaxMessageSize"
  then have "Uint32 (PutUint32 (length payload)) = length payload"
    by (intro Uint32_PutUint32) (simp add: MaxMessageSize_def)
  with p show ?thesis by (simp add: ReadMessage_def Let_def)
qed

lemma WriteMessage_ok:
  "marshal msg = Inr payload \<Longrightarrow> length payload \<le> MaxMessageSize \<Longrightarrow>
     WriteMessage marshal None None msg = (None, PutUint32 (length payload) @ payload)"
  by (simp add: WriteMessage_def Let_def MaxMessageSize_def)

text \<open>What the writer sends for a list of messages, and the reader's loop over it.\<close>

fun write_all :: "('a \<Rightarrow> string res) \<Rightarrow> 'a list \<Rightarrow> string" where
  "write_all marshal [] = []"
| "write_all marshal (m # ms) = snd (WriteMessage marshal None None m) @ write_all marshal ms"

fun read_n :: "(string \<Rightarrow> 'a res) \<Rightarrow> nat \<Rightarrow> string \<Rightarrow> 'a list res \<times> string" where
  "read_n unmarshal 0 input = (Inr [], input)"
| "read_n unmarshal (Suc n) input =
     (case ReadMessage unmarshal input of
        (Inl e, rest) \<Rightarrow> (Inl e, rest)
      | (Inr m, rest) \<Rightarrow>
          (case read_n unmarshal n rest of
             (Inl e, rest') \<Rightarrow> (Inl e, rest')
           | (Inr ms, rest') \<Rightarrow> (Inr (m # ms), rest')))"

text \<open>The documented behaviour of the codec on a message: it encodes to at least one byte
  and at most the maximum, and decoding gives the message back.\<close>

definition codec_ok :: "('a \<Rightarrow> string res) \<Rightarrow> (string \<Rightarrow> 'a res) \<Rightarrow> 'a \<Rightarrow> bool" where
  "codec_ok marshal unmarshal m =
     (case marshal m of
        Inl _ \<Rightarrow> False
      | Inr payload \<Rightarrow> payload \<noteq> [] \<and> length payload \<le> MaxMessageSize \<and> unmarshal payload = Inr m)"

lemma read_write_one:
  "codec_ok marshal unmarshal m \<Longrightarrow>
     ReadMessage unmarshal (snd (WriteMessage marshal None None m) @ rest) = (Inr m, rest)"
  by (auto simp: codec_ok_def WriteMessage_ok ReadMessage_frame split: sum.splits)

subsection \<open>Properties\<close>

text \<open>Messages written one after the other on a connection are read back one by one, in
  order and unchanged, and the reader stops exactly at the first byte after them: the bytes
  that follow the handshake belong to the relayed stream.\<close>

theorem frames_roundtrip:
  assumes "list_all (codec_ok marshal unmarshal) ms"
  shows "read_n unmarshal (length ms) (write_all marshal ms @ rest) = (Inr ms, rest)"
  using assms by (induction ms) (auto simp: read_write_one)

definition ex_marshal :: "string \<Rightarrow> string res" where
  "ex_marshal s = Inr (CHR 0x22 # s @ [CHR 0x22])"

definition ex_unmarshal :: "string \<Rightarrow> string res" where
  "ex_unmarshal s = Inr (butlast (tl s))"

lemma ex_codec: "length s < 100 \<Longrightarrow> codec_ok ex_marshal ex_unmarshal s"
  by (simp add: codec_ok_def ex_marshal_def ex_unmarshal_def MaxMessageSize_def)

theorem frames_roundtrip_witness:
  "read_n ex_unmarshal 2 (write_all ex_marshal [''connect'', ''allow''] @ ''SSH-2.0'') =
     (Inr [''connect'', ''allow''], ''SSH-2.0'')"
  using frames_roundtrip[of ex_marshal ex_unmarshal "[''connect'', ''allow'']" "''SSH-2.0''"]
  by (simp add: ex_codec numeral_2_eq_2)

end
