(* ===== verification/Cl_Tunnel.thy ===== *)
theory Cl_Tunnel
  imports Cl_Storage Gw_Protocol
begin

text \<open>
  The client's side of the tunnel and of the control-plane API:
  \<open>client/internal/infra/tunnel\<close>, \<open>infra/storage/resource_catalog.go\<close>, \<open>infra/tls\<close>,
  \<open>infra/credentials\<close> and \<open>infra/cpapi\<close>.

  Arguments stand for what is not in the repository: \<open>url_parse\<close> for \<open>url.Parse\<close>, the
  reading of a CA file, \<open>pem_ok\<close> for \<open>AppendCertsFromPEM\<close>, \<open>pair_error\<close> for \<open>tls.X509KeyPair\<close>, and
  the JSON text of a value and its parser.
\<close>

subsection \<open>TLS configurations\<close>

text \<open>\<open>roots\<close>: \<open>None\<close> is the system's pool, \<open>Some\<close> the texts of the certificates in a pool of its own.\<close>

record tls_conf =
  tl_min :: nat
  tl_insecure :: bool
  tl_roots :: "string list option"
  tl_server :: string
  tl_certs :: "(string \<times> string) list"

definition buildTLSConfigFromCA ::
    "(string \<Rightarrow> string res) \<Rightarrow> (string \<Rightarrow> bool) \<Rightarrow> string \<Rightarrow> bool \<Rightarrow> tls_conf res" where
  "buildTLSConfigFromCA read_path pem_ok caFile insecure =
     (let conf = \<lparr>tl_min = 13, tl_insecure = insecure, tl_roots = None, tl_server = [], tl_certs = []\<rparr> in
      if caFile = [] then Inr conf
      else case read_path caFile of
        Inl e \<Rightarrow> Inl (Wrapf (''impossible de lire ca_file '' @ caFile @ '': '') e [])
      | Inr caData \<Rightarrow>
          if \<not> pem_ok caData then Inl (Errorf (''ca_file invalide (PEM): '' @ caFile))
          else Inr (conf\<lparr>tl_roots := Some [caData]\<rparr>))"

definition buildControlPlaneTLSConfig ::
    "(string \<Rightarrow> string res) \<Rightarrow> (string \<Rightarrow> bool) \<Rightarrow> cl_config \<Rightarrow> tls_conf res" where
  "buildControlPlaneTLSConfig read_path pem_ok cfg =
     buildTLSConfigFromCA read_path pem_ok (cf_cp_ca cfg) (cf_cp_insecure cfg)"

definition buildOIDCTLSConfig ::
    "(string \<Rightarrow> string res) \<Rightarrow> (string \<Rightarrow> bool) \<Rightarrow> cl_config \<Rightarrow> tls_conf res" where
  "buildOIDCTLSConfig read_path pem_ok cfg =
     buildTLSConfigFromCA read_path pem_ok (cf_oidc_ca cfg) (cf_oidc_insecure cfg)"

text \<open>An HTTP client: its TLS settings, the limit of a handshake and that of a whole request (0: none).\<close>

record cl_http_client =
  ch_tls :: tls_conf
  ch_handshake :: duration
  ch_timeout :: duration

definition newHTTPClientWithTLS :: "tls_conf \<Rightarrow> cl_http_client" where
  "newHTTPClientWithTLS conf = \<lparr>ch_tls = conf, ch_handshake = 10 * Second, ch_timeout = 20 * Second\<rparr>"

definition cl_NewControlPlaneHTTPClient ::
    "(string \<Rightarrow> string res) \<Rightarrow> (string \<Rightarrow> bool) \<Rightarrow> cl_config \<Rightarrow> cl_http_client res" where
  "cl_NewControlPlaneHTTPClient read_path pem_ok cfg =
     (case buildControlPlaneTLSConfig read_path pem_ok cfg of Inl e \<Rightarrow> Inl e | Inr conf \<Rightarrow> Inr (newHTTPClientWithTLS conf))"

definition cl_NewOIDCHTTPClient ::
    "(string \<Rightarrow> string res) \<Rightarrow> (string \<Rightarrow> bool) \<Rightarrow> cl_config \<Rightarrow> cl_http_client res" where
  "cl_NewOIDCHTTPClient read_path pem_ok cfg =
     (case buildOIDCTLSConfig read_path pem_ok cfg of Inl e \<Rightarrow> Inl e | Inr conf \<Rightarrow> Inr (newHTTPClientWithTLS conf))"

text \<open>
  The OIDC and the credentials client fall back to \<open>http.DefaultClient\<close> when theirs cannot be built: the
  system's certificates, TLS 1.2, the handshake limit of \<open>http.DefaultTransport\<close>, and no limit of a request.
\<close>

definition default_conf :: tls_conf where
  "default_conf = \<lparr>tl_min = 12, tl_insecure = False, tl_roots = None, tl_server = [], tl_certs = []\<rparr>"

definition DefaultClient :: cl_http_client where
  "DefaultClient = \<lparr>ch_tls = default_conf, ch_handshake = 10 * Second, ch_timeout = 0\<rparr>"

definition oidc_NewClient :: "(string \<Rightarrow> string res) \<Rightarrow> (string \<Rightarrow> bool) \<Rightarrow> cl_config \<Rightarrow> cl_http_client" where
  "oidc_NewClient read_path pem_ok cfg =
     (case cl_NewOIDCHTTPClient read_path pem_ok cfg of Inl _ \<Rightarrow> DefaultClient | Inr c \<Rightarrow> c)"

definition credentials_NewClient :: "(string \<Rightarrow> string res) \<Rightarrow> (string \<Rightarrow> bool) \<Rightarrow> cl_config \<Rightarrow> cl_http_client" where
  "credentials_NewClient read_path pem_ok cfg =
     (case cl_NewControlPlaneHTTPClient read_path pem_ok cfg of Inl _ \<Rightarrow> DefaultClient | Inr c \<Rightarrow> c)"

text \<open>The listing client builds its own: TLS 1.2, and a CA file with no certificate leaves an
  empty pool.\<close>

definition cpapi_NewClient :: "(string \<Rightarrow> string res) \<Rightarrow> (string \<Rightarrow> bool) \<Rightarrow> cl_config \<Rightarrow> cl_http_client" where
  "cpapi_NewClient read_path pem_ok cfg =
     \<lparr>ch_tls =
        \<lparr>tl_min = 12, tl_insecure = cf_cp_insecure cfg,
         tl_roots = (if cf_cp_ca cfg = [] then None
                     else case read_path (cf_cp_ca cfg) of
                       Inl _ \<Rightarrow> None
                     | Inr caCert \<Rightarrow> Some (if pem_ok caCert then [caCert] else [])),
         tl_server = [], tl_certs = []\<rparr>,
      ch_handshake = 0, ch_timeout = 15 * Second\<rparr>"

lemmas http_client_defs = oidc_NewClient_def credentials_NewClient_def cpapi_NewClient_def cl_NewOIDCHTTPClient_def
  cl_NewControlPlaneHTTPClient_def newHTTPClientWithTLS_def DefaultClient_def buildOIDCTLSConfig_def
  buildControlPlaneTLSConfig_def buildTLSConfigFromCA_def default_conf_def

definition buildTLSConfig ::
    "(string \<Rightarrow> string \<Rightarrow> goerr option) \<Rightarrow> (string \<Rightarrow> string res) \<Rightarrow> (string \<Rightarrow> bool) \<Rightarrow> cl_config
     \<Rightarrow> string \<Rightarrow> string \<Rightarrow> tls_conf res" where
  "buildTLSConfig pair_error read_path pem_ok cfg certPEM keyPEM =
     (case pair_error certPEM keyPEM of
        Some e \<Rightarrow> Inl (Wrapf ''impossible de charger le certificat client: '' e [])
      | None \<Rightarrow>
          (let serverName = (case SplitHostPort (cf_gateway cfg) of Some (h, _) \<Rightarrow> h | None \<Rightarrow> cf_gateway cfg);
               conf = (\<lambda>roots. \<lparr>tl_min = 13, tl_insecure = False, tl_roots = roots, tl_server = serverName,
                               tl_certs = [(certPEM, keyPEM)]\<rparr>)
           in if cf_tls_ca cfg = [] then Inr (conf None)
              else case read_path (cf_tls_ca cfg) of
                Inl e \<Rightarrow> Inl (Wrapf (''impossible de lire le fichier CA '' @ cf_tls_ca cfg @ '': '') e [])
              | Inr caCert \<Rightarrow>
                  if \<not> pem_ok caCert
                  then Inl (Errorf (''impossible de parser le certificat CA depuis '' @ cf_tls_ca cfg))
                  else Inr (conf (Some [caCert]))))"

subsection \<open>Messages\<close>

record cl_target =
  ct_type :: string
  ct_host :: string
  ct_port :: int
  ct_name :: string

record cl_context =
  cx_src_ip :: string
  cx_device_info :: "(string \<times> string) list"
  cx_timestamp :: string

record cl_request =
  cq_version :: int
  cq_action :: string
  cq_resource :: cl_target
  cq_context :: cl_context

record cl_response =
  cz_decision :: string
  cz_reason :: string
  cz_decision_id :: string
  cz_ttl :: int

definition CurrentProtocolVersion :: int where "CurrentProtocolVersion = 1"
definition cl_MaxMessageSize :: nat where "cl_MaxMessageSize = 1048576"

text \<open>The document \<open>json.Marshal\<close> builds; \<open>omitempty\<close> leaves out an empty text or map.\<close>

definition omit_empty :: "string \<Rightarrow> string \<Rightarrow> (string \<times> jval) list" where
  "omit_empty k v = (if v = [] then [] else [(k, JStr v)])"

definition target_json :: "cl_target \<Rightarrow> jval" where
  "target_json r =
     JObj ([(''type'', JStr (ct_type r)), (''host'', JStr (ct_host r)), (''port'', JNum (Itoa (ct_port r)))]
           @ omit_empty ''name'' (ct_name r))"

definition context_json :: "cl_context \<Rightarrow> jval" where
  "context_json c =
     JObj (omit_empty ''src_ip'' (cx_src_ip c)
           @ (if cx_device_info c = [] then []
              else [(''device_info'', JObj (map (\<lambda>(k, v). (k, JStr v)) (cx_device_info c)))])
           @ omit_empty ''timestamp'' (cx_timestamp c))"

definition request_json :: "cl_request \<Rightarrow> jval" where
  "request_json r =
     JObj [(''protocol_version'', JNum (Itoa (cq_version r))), (''action'', JStr (cq_action r)),
           (''resource'', target_json (cq_resource r)), (''context'', context_json (cq_context r))]"

definition response_zero :: cl_response where
  "response_zero = \<lparr>cz_decision = [], cz_reason = [], cz_decision_id = [], cz_ttl = 0\<rparr>"

definition response_put :: "string \<Rightarrow> jval \<Rightarrow> cl_response \<Rightarrow> cl_response res" where
  "response_put k v r =
     (if EqualFold k ''decision'' then bind_res (json_str v (cz_decision r)) (\<lambda>x. r\<lparr>cz_decision := x\<rparr>)
      else if EqualFold k ''reason'' then bind_res (json_str v (cz_reason r)) (\<lambda>x. r\<lparr>cz_reason := x\<rparr>)
      else if EqualFold k ''decision_id'' then bind_res (json_str v (cz_decision_id r)) (\<lambda>x. r\<lparr>cz_decision_id := x\<rparr>)
      else if EqualFold k ''ttl_seconds'' then bind_res (json_int v (cz_ttl r)) (\<lambda>x. r\<lparr>cz_ttl := x\<rparr>)
      else Inr r)"

definition cl_WriteMessage ::
    "('a \<Rightarrow> string res) \<Rightarrow> goerr option \<Rightarrow> goerr option \<Rightarrow> 'a \<Rightarrow> goerr option \<times> string" where
  "cl_WriteMessage marshal w1 w2 msg =
     (case marshal msg of
        Inl e \<Rightarrow> (Some (Wrapf (''impossible de s'' @ e_acute @ ''rialiser le message: '') e []), [])
      | Inr payload \<Rightarrow>
          if length payload > cl_MaxMessageSize then (Some (Errorf ''message trop grand''), [])
          else (let header = PutUint32 (length payload mod 2 ^ 32) in
                case w1 of
                  Some e \<Rightarrow> (Some (Wrapf (msg_write ''le header du message: '') e []), [])
                | None \<Rightarrow>
                    (case w2 of
                       Some e \<Rightarrow> (Some (Wrapf (msg_write ''le payload du message: '') e []), header)
                     | None \<Rightarrow> (None, header @ payload))))"

definition cl_ReadMessage :: "(string \<Rightarrow> 'a res) \<Rightarrow> string \<Rightarrow> 'a res \<times> string" where
  "cl_ReadMessage unmarshal input =
     (case ReadFull 4 input of
        (Inl e, rest) \<Rightarrow> (Inl (Wrapf ''impossible de lire le header du message: '' e []), rest)
      | (Inr header, rest) \<Rightarrow>
          (let size = Uint32 header in
           if size > cl_MaxMessageSize then (Inl (Errorf ''message trop grand''), rest)
           else if size = 0 then (Inl (Errorf (''message vide re'' @ [CHR 0xC3, CHR 0xA7] @ ''u'')), rest)
           else (case ReadFull size rest of
                   (Inl e, rest') \<Rightarrow> (Inl (Wrapf ''impossible de lire le payload du message: '' e []), rest')
                 | (Inr buf, rest') \<Rightarrow>
                     (case unmarshal buf of
                        Inl e \<Rightarrow> (Inl (Wrapf (''impossible de d'' @ e_acute @ ''s'' @ e_acute @ ''rialiser le message: '') e []), rest')
                      | Inr msg \<Rightarrow> (Inr msg, rest')))))"

subsection \<open>The name of a resource\<close>

text \<open>\<open>n, _ := strconv.Atoi(s)\<close>: zero for a malformed number, the nearest 64-bit value for one out of
  range.\<close>

definition Atoi_value :: "string \<Rightarrow> int" where
  "Atoi_value s =
     (case Atoi s of
        Some n \<Rightarrow> n
      | None \<Rightarrow>
          (let neg = (case s of c # _ \<Rightarrow> c = CHR ''-'' | [] \<Rightarrow> False);
               ds = (case s of c # cs \<Rightarrow> if c = CHR ''-'' \<or> c = CHR ''+'' then cs else s | [] \<Rightarrow> [])
           in if ds = [] \<or> \<not> list_all is_digit ds then 0
              else if neg then - (2 ^ 63) else 2 ^ 63 - 1))"

record parsed_url =
  pu_scheme :: string
  pu_hostname :: string
  pu_port :: string

definition ParseResource :: "(string \<Rightarrow> parsed_url option) \<Rightarrow> string \<Rightarrow> cl_target" where
  "ParseResource url_parse resource =
     (let uri = (if Contains resource ''://'' then
                   (case url_parse resource of
                      Some u \<Rightarrow> if pu_hostname u \<noteq> [] then Some u else None
                    | None \<Rightarrow> None)
                 else None)
      in case uri of
           Some u \<Rightarrow> \<lparr>ct_type = pu_scheme u, ct_host = pu_hostname u, ct_port = Atoi_value (pu_port u), ct_name = []\<rparr>
         | None \<Rightarrow>
             (case SplitHostPort resource of
                Some (host, port) \<Rightarrow> \<lparr>ct_type = ''tcp'', ct_host = host, ct_port = Atoi_value port, ct_name = []\<rparr>
              | None \<Rightarrow> \<lparr>ct_type = [], ct_host = [], ct_port = 0, ct_name = resource\<rparr>))"

definition parseURIResource :: "string \<Rightarrow> cl_resource res" where
  "parseURIResource raw =
     (case SplitN2 raw ''://'' of
        [scheme, endpoint] \<Rightarrow>
          (let resourceType = ToLower (TrimSpace scheme) in
           if resourceType = [] then Inl (Errorf ''type de ressource vide'')
           else case SplitHostPort endpoint of
             None \<Rightarrow> Inl (Errorf ''endpoint URI invalide: '')
           | Some (host, portString) \<Rightarrow>
               (case Atoi portString of
                  None \<Rightarrow> Inl (Errorf ''port URI invalide: '')
                | Some port \<Rightarrow>
                    (let ref = \<lparr>cl_type = resourceType, cl_host = host, cl_port = port, cl_name = raw\<rparr> in
                     case cl_Resource_Validate ref of Some e \<Rightarrow> Inl e | None \<Rightarrow> Inr ref)))
      | _ \<Rightarrow> Inl (Errorf (''URI ressource invalide: '' @ raw)))"

definition cl_resource_zero :: cl_resource where
  "cl_resource_zero = \<lparr>cl_type = [], cl_host = [], cl_port = 0, cl_name = []\<rparr>"

definition cl_resource_put :: "string \<Rightarrow> jval \<Rightarrow> cl_resource \<Rightarrow> cl_resource res" where
  "cl_resource_put k v r =
     (if EqualFold k ''type'' then bind_res (json_str v (cl_type r)) (\<lambda>x. r\<lparr>cl_type := x\<rparr>)
      else if EqualFold k ''host'' then bind_res (json_str v (cl_host r)) (\<lambda>x. r\<lparr>cl_host := x\<rparr>)
      else if EqualFold k ''port'' then bind_res (json_int v (cl_port r)) (\<lambda>x. r\<lparr>cl_port := x\<rparr>)
      else if EqualFold k ''name'' then bind_res (json_str v (cl_name r)) (\<lambda>x. r\<lparr>cl_name := x\<rparr>)
      else Inr r)"

text \<open>A document read into a \<open>map[string]ResourceRef\<close>: the last of equal keys counts.\<close>

fun json_map :: "(jval \<Rightarrow> 'v res) \<Rightarrow> (string \<times> jval) list \<Rightarrow> (string \<rightharpoonup> 'v) \<Rightarrow> (string \<rightharpoonup> 'v) res" where
  "json_map decode [] m = Inr m"
| "json_map decode ((k, v) # kvs) m =
     (case decode v of Inl e \<Rightarrow> Inl e | Inr x \<Rightarrow> json_map decode kvs (m(k \<mapsto> x)))"

definition loadCatalog ::
    "(string \<Rightarrow> jval res) \<Rightarrow> goerr option \<Rightarrow> files \<Rightarrow> (string \<rightharpoonup> cl_resource) res" where
  "loadCatalog parse_json o_r fs =
     (case read_file o_r resourceCatalogFileName fs of
        ReadAbsent \<Rightarrow> Inl (Errorf (''catalogue de ressources absent: ajoutez ce fichier ou utilisez une URI directe''))
      | ReadError e \<Rightarrow> Inl (Wrapf ''impossible de lire le catalogue de ressources: '' e [])
      | ReadOK data \<Rightarrow>
          (case (case parse_json data of
                   Inl e \<Rightarrow> Inl e
                 | Inr (JObj kvs) \<Rightarrow> json_map (json_object cl_resource_put cl_resource_zero) kvs Map.empty
                 | Inr JNull \<Rightarrow> Inr Map.empty
                 | Inr _ \<Rightarrow> Inl (Errorf ''json: cannot unmarshal into map'')) of
             Inl e \<Rightarrow> Inl (Wrapf ''catalogue de ressources invalide: '' e [])
           | Inr m \<Rightarrow> Inr m))"

definition catalog_Resolve ::
    "(string \<Rightarrow> jval res) \<Rightarrow> goerr option \<Rightarrow> files \<Rightarrow> string \<Rightarrow> cl_resource res" where
  "catalog_Resolve parse_json o_r fs resourceName =
     (if resourceName = [] then Inl ErrInvalidConfig
      else if Contains resourceName ''://'' then parseURIResource resourceName
      else case SplitHostPort resourceName of
        Some (host, port) \<Rightarrow>
          (case Atoi port of
             None \<Rightarrow> Inl (Errorf ''port invalide: '')
           | Some n \<Rightarrow> Inr \<lparr>cl_type = ''tcp'', cl_host = host, cl_port = n, cl_name = resourceName\<rparr>)
      | None \<Rightarrow>
          (case loadCatalog parse_json o_r fs of
             Inl e \<Rightarrow> Inl e
           | Inr resources \<Rightarrow>
               (case resources resourceName of
                  None \<Rightarrow> Inl (Errorf (''ressource inconnue: '' @ resourceName))
                | Some ref \<Rightarrow>
                    (case cl_Resource_Validate ref of
                       Some e \<Rightarrow> Inl (Wrapf (''ressource invalide ('' @ resourceName @ ''): '') e [])
                     | None \<Rightarrow> Inr (if cl_name ref = [] then ref\<lparr>cl_name := resourceName\<rparr> else ref)))))"

end
