(* ===== verification/Cl_Oidc.thy ===== *)
theory Cl_Oidc
  imports Cl_Storage
begin

text \<open>
  The OpenID Connect client (\<open>client/internal/infra/oidc/oidc.go\<close> and \<open>adapter.go\<close>): the
  password grant, the device flow with its polling loop, the refresh and the choice of
  a valid access token.

  A form is the list of its fields, encoded by \<open>form_encode\<close>.  The transport is an
  argument; \<open>parse_json\<close> reads a JSON document.
\<close>

subsection \<open>Forms (\<open>url.Values.Encode\<close>)\<close>

definition unreserved :: "char \<Rightarrow> bool" where
  "unreserved c = (let n = (of_char c :: nat) in
     (48 \<le> n \<and> n \<le> 57) \<or> (65 \<le> n \<and> n \<le> 90) \<or> (97 \<le> n \<and> n \<le> 122)
     \<or> c \<in> {CHR ''-'', CHR ''_'', CHR ''.'', CHR ''~''})"

definition query_escape :: "string \<Rightarrow> string" where
  "query_escape s = concat (map (\<lambda>c.
     if unreserved c then [c] else if c = CHR '' '' then ''+''
     else CHR ''%'' # ToUpper (hex_byte (word_of_nat (of_char c)))) s)"

text \<open>The fields in the order of their keys, which is how \<open>Encode\<close> writes them; the code sets
  each key once.\<close>

definition form_encode :: "(string \<times> string) list \<Rightarrow> string" where
  "form_encode kvs = concat (case map (\<lambda>(k, v). query_escape k @ ''='' @ query_escape v) kvs of
     [] \<Rightarrow> [] | f # fs \<Rightarrow> f # map (\<lambda>x. CHR ''&'' # x) fs)"

definition secret_field :: "cl_config \<Rightarrow> (string \<times> string) list" where
  "secret_field cfg = (if cf_client_secret cfg = [] then [] else [(''client_secret'', cf_client_secret cfg)])"

definition token_endpoint :: "cl_config \<Rightarrow> string" where
  "token_endpoint cfg = TrimRightSlash (cf_issuer cfg) @ ''/protocol/openid-connect/token''"

definition device_endpoint :: "cl_config \<Rightarrow> string" where
  "device_endpoint cfg = TrimRightSlash (cf_issuer cfg) @ ''/protocol/openid-connect/auth/device''"

definition form_post :: "string \<Rightarrow> (string \<times> string) list \<Rightarrow> http_out" where
  "form_post url kvs =
     \<lparr>ho_method = ''POST'', ho_url = url,
      ho_headers = [(''Content-Type'', ''application/x-www-form-urlencoded'')], ho_body = form_encode kvs\<rparr>"

subsection \<open>Token responses\<close>

record token_response =
  tr_access :: string
  tr_refresh :: string
  tr_id :: string
  tr_type :: string
  tr_expires_in :: int
  tr_error :: string

definition token_zero :: token_response where
  "token_zero = \<lparr>tr_access = [], tr_refresh = [], tr_id = [], tr_type = [], tr_expires_in = 0, tr_error = []\<rparr>"

definition token_put :: "bool \<Rightarrow> string \<Rightarrow> jval \<Rightarrow> token_response \<Rightarrow> token_response res" where
  "token_put with_error k v r =
     (if EqualFold k ''access_token'' then bind_res (json_str v (tr_access r)) (\<lambda>x. r\<lparr>tr_access := x\<rparr>)
      else if EqualFold k ''refresh_token'' then bind_res (json_str v (tr_refresh r)) (\<lambda>x. r\<lparr>tr_refresh := x\<rparr>)
      else if EqualFold k ''id_token'' then bind_res (json_str v (tr_id r)) (\<lambda>x. r\<lparr>tr_id := x\<rparr>)
      else if EqualFold k ''token_type'' then bind_res (json_str v (tr_type r)) (\<lambda>x. r\<lparr>tr_type := x\<rparr>)
      else if EqualFold k ''expires_in'' then bind_res (json_int v (tr_expires_in r)) (\<lambda>x. r\<lparr>tr_expires_in := x\<rparr>)
      else if with_error \<and> EqualFold k ''error'' then bind_res (json_str v (tr_error r)) (\<lambda>x. r\<lparr>tr_error := x\<rparr>)
      else Inr r)"

definition decode_token :: "(string \<Rightarrow> jval res) \<Rightarrow> bool \<Rightarrow> string res \<Rightarrow> token_response res" where
  "decode_token parse_json with_error body =
     (case body of
        Inl e \<Rightarrow> Inl e
      | Inr text \<Rightarrow>
          (case parse_json text of
             Inl e \<Rightarrow> Inl e
           | Inr v \<Rightarrow> json_object (token_put with_error) token_zero v))"

definition tokens_of :: "time \<Rightarrow> token_response \<Rightarrow> token_set" where
  "tokens_of now r =
     \<lparr>ts_access = tr_access r, ts_refresh = tr_refresh r, ts_id = tr_id r, ts_type = tr_type r,
      ts_expires = now + dur_seconds (tr_expires_in r)\<rparr>"

definition is_2xx :: "int \<Rightarrow> bool" where
  "is_2xx status = (200 \<le> status \<and> status < 300)"

text \<open>The text of an error body, read without a look at the read error.\<close>

definition error_body :: "string res \<Rightarrow> string" where
  "error_body b = (case b of Inl _ \<Rightarrow> [] | Inr t \<Rightarrow> TrimSpace t)"

text \<open>The environment of the OIDC client: configuration, codecs, and the outcomes of the
  operating system's calls on the token file.\<close>

record oidc_env =
  oe_cfg :: cl_config
  oe_parse :: "string \<Rightarrow> jval res"
  oe_codec :: token_codec
  oe_mkdir :: "goerr option"
  oe_write :: write_outcome
  oe_read :: "goerr option"

abbreviation oe_save :: "oidc_env \<Rightarrow> token_set \<Rightarrow> files \<Rightarrow> goerr option \<times> files" where
  "oe_save env t fs \<equiv> tokens_Save (oe_codec env) (oe_mkdir env) (oe_write env) t fs"

abbreviation oe_load :: "oidc_env \<Rightarrow> files \<Rightarrow> token_set res" where
  "oe_load env fs \<equiv> tokens_Load (oe_codec env) (oe_read env) fs"

text \<open>A successful token answer: check the access token, build the set, store it.  The text
  names the flow.\<close>

definition accept_tokens ::
    "oidc_env \<Rightarrow> string \<Rightarrow> string \<Rightarrow> (token_set \<Rightarrow> token_set) \<Rightarrow> time \<Rightarrow> token_response \<Rightarrow> files \<Rightarrow> token_set res \<times> files" where
  "accept_tokens env missing saving adjust now r fs =
     (if tr_access r = [] then (Inl (Errorf missing), fs)
      else (let tokens = adjust (tokens_of now r) in
            case oe_save env tokens fs of
              (Some e, fs') \<Rightarrow> (Inl (Wrapf saving e []), fs')
            | (None, fs') \<Rightarrow> (Inr tokens, fs')))"

definition msg_missing :: string where
  "msg_missing = ''r'' @ e_acute @ ''ponse token OIDC invalide: access_token manquant''"

definition msg_saving :: string where
  "msg_saving = ''impossible de stocker les tokens OIDC: ''"

subsection \<open>The password grant\<close>

definition LoginPasswordGrantLAB ::
    "oidc_env \<Rightarrow> transport \<Rightarrow> time \<Rightarrow> string \<Rightarrow> string \<Rightarrow> files \<Rightarrow> token_set res \<times> files" where
  "LoginPasswordGrantLAB env send now username password fs =
     (let form = [(''client_id'', cf_client_id (oe_cfg env))] @ secret_field (oe_cfg env) @
                 [(''grant_type'', ''password''), (''password'', password), (''scope'', ''openid profile''),
                  (''username'', username)]
      in case send (form_post (token_endpoint (oe_cfg env)) form) of
           NoResponse e \<Rightarrow> (Inl (Wrapf (e_acute @ ''chec de l'' @ [CHR 0x27] @ ''appel '' @ a_grave @ '' l'' @ [CHR 0x27] @ ''endpoint token OIDC: '') e []), fs)
         | HttpResponse status body \<Rightarrow>
             if \<not> is_2xx status then (Inl (Errorf (e_acute @ ''chec OIDC token endpoint: '' @ error_body body)), fs)
             else (case decode_token (oe_parse env) False body of
                     Inl e \<Rightarrow> (Inl (Wrapf (''impossible de parser la r'' @ e_acute @ ''ponse token OIDC: '') e []), fs)
                   | Inr r \<Rightarrow> accept_tokens env msg_missing msg_saving (\<lambda>t. t) now r fs))"

subsection \<open>The device flow\<close>

record device_code_response =
  dr_device :: string
  dr_user :: string
  dr_uri :: string
  dr_uri_complete :: string
  dr_expires_in :: int
  dr_interval :: int

definition device_zero :: device_code_response where
  "device_zero = \<lparr>dr_device = [], dr_user = [], dr_uri = [], dr_uri_complete = [], dr_expires_in = 0, dr_interval = 0\<rparr>"

definition device_put :: "string \<Rightarrow> jval \<Rightarrow> device_code_response \<Rightarrow> device_code_response res" where
  "device_put k v r =
     (if EqualFold k ''device_code'' then bind_res (json_str v (dr_device r)) (\<lambda>x. r\<lparr>dr_device := x\<rparr>)
      else if EqualFold k ''user_code'' then bind_res (json_str v (dr_user r)) (\<lambda>x. r\<lparr>dr_user := x\<rparr>)
      else if EqualFold k ''verification_uri'' then bind_res (json_str v (dr_uri r)) (\<lambda>x. r\<lparr>dr_uri := x\<rparr>)
      else if EqualFold k ''verification_uri_complete'' then
        bind_res (json_str v (dr_uri_complete r)) (\<lambda>x. r\<lparr>dr_uri_complete := x\<rparr>)
      else if EqualFold k ''expires_in'' then bind_res (json_int v (dr_expires_in r)) (\<lambda>x. r\<lparr>dr_expires_in := x\<rparr>)
      else if EqualFold k ''interval'' then bind_res (json_int v (dr_interval r)) (\<lambda>x. r\<lparr>dr_interval := x\<rparr>)
      else Inr r)"

text \<open>
  What the polling loop meets, by turn: the transport to the token endpoint, how much longer
  than the poll interval the turn takes, and whether the context ends during the wait.
\<close>

record poll_world =
  pw_send :: "nat \<Rightarrow> transport"
  pw_delay :: "nat \<Rightarrow> nat"
  pw_cancel :: "nat \<Rightarrow> goerr option"

definition poll_form :: "cl_config \<Rightarrow> string \<Rightarrow> (string \<times> string) list" where
  "poll_form cfg device =
     [(''client_id'', cf_client_id cfg)] @ secret_field cfg @
     [(''device_code'', device), (''grant_type'', ''urn:ietf:params:oauth:grant-type:device_code'')]"

text \<open>
  One turn: an error or tokens (\<open>Inl\<close>), or the next poll interval (\<open>Inr\<close>).
\<close>

definition poll_turn ::
    "oidc_env \<Rightarrow> http_result \<Rightarrow> time \<Rightarrow> duration \<Rightarrow> files \<Rightarrow> (token_set res \<times> files) + duration" where
  "poll_turn env answer now interval fs =
     (case answer of
        NoResponse e \<Rightarrow> Inl (Inl (Wrapf (e_acute @ ''chec polling token endpoint OIDC: '') e []), fs)
      | HttpResponse status body \<Rightarrow>
          (case decode_token (oe_parse env) True body of
             Inl e \<Rightarrow> Inl (Inl (Wrapf (''impossible de parser la r'' @ e_acute @ ''ponse de polling OIDC: '') e []), fs)
           | Inr r \<Rightarrow>
               if is_2xx status then Inl (accept_tokens env msg_missing msg_saving (\<lambda>t. t) now r fs)
               else if tr_error r = ''authorization_pending'' then Inr interval
               else if tr_error r = ''slow_down'' then Inr (wrap64 (interval + 2 * Second))
               else if tr_error r = ''expired_token''
               then Inl (Inl (Errorf (''device_code expir'' @ e_acute @ '', relancez ztna login'')), fs)
               else Inl (Inl (Errorf (e_acute @ ''chec device flow token endpoint: '' @ tr_error r)), fs)))"

text \<open>
  The loop.  \<open>None\<close>: the fuel ran out.  \<open>time.After\<close> of a negative interval fires at once.
\<close>

fun poll_loop ::
    "nat \<Rightarrow> oidc_env \<Rightarrow> string \<Rightarrow> poll_world \<Rightarrow> nat \<Rightarrow> time \<Rightarrow> time \<Rightarrow> duration \<Rightarrow> files \<Rightarrow> (token_set res \<times> files) option" where
  "poll_loop 0 env device P n now deadline interval fs = None"
| "poll_loop (Suc fuel) env device P n now deadline interval fs =
     (if deadline < now
      then Some (Inl (Errorf (''device_code expir'' @ e_acute @ '' avant autorisation utilisateur'')), fs)
      else case pw_cancel P n of
        Some e \<Rightarrow> Some (Inl e, fs)
      | None \<Rightarrow>
          (let now' = now + max 0 interval + int (pw_delay P n) in
           case poll_turn env (pw_send P n (form_post (token_endpoint (oe_cfg env)) (poll_form (oe_cfg env) device))) now' interval fs of
             Inl r \<Rightarrow> Some r
           | Inr interval' \<Rightarrow> poll_loop fuel env device P (Suc n) now' deadline interval' fs))"

definition poll_interval :: "device_code_response \<Rightarrow> duration" where
  "poll_interval r = (let i = dur_seconds (dr_interval r) in if i \<le> 0 then 5 * Second else i)"

definition device_lifetime :: "device_code_response \<Rightarrow> duration" where
  "device_lifetime r = (let e = dur_seconds (dr_expires_in r) in if e \<le> 0 then 10 * Minute else e)"

definition DeviceFlowLogin ::
    "nat \<Rightarrow> oidc_env \<Rightarrow> transport \<Rightarrow> poll_world \<Rightarrow> time \<Rightarrow> files \<Rightarrow> (token_set res \<times> files) option" where
  "DeviceFlowLogin fuel env send P now fs =
     (let form = [(''client_id'', cf_client_id (oe_cfg env))] @ secret_field (oe_cfg env) @ [(''scope'', ''openid profile'')]
      in case send (form_post (device_endpoint (oe_cfg env)) form) of
           NoResponse e \<Rightarrow> Some (Inl (Wrapf (e_acute @ ''chec de l'' @ [CHR 0x27] @ ''appel device authorization OIDC: '') e []), fs)
         | HttpResponse status body \<Rightarrow>
             if \<not> is_2xx status
             then Some (Inl (Errorf (e_acute @ ''chec device authorization endpoint: '' @ error_body body)), fs)
             else (case (case body of Inl e \<Rightarrow> Inl e | Inr t \<Rightarrow> (case oe_parse env t of Inl e \<Rightarrow> Inl e
                            | Inr v \<Rightarrow> json_object device_put device_zero v)) of
                     Inl e \<Rightarrow> Some (Inl (Wrapf (''impossible de parser la r'' @ e_acute @ ''ponse device authorization: '') e []), fs)
                   | Inr r \<Rightarrow>
                       if dr_device r = [] \<or> dr_user r = []
                       then Some (Inl (Errorf (''r'' @ e_acute @ ''ponse device authorization invalide: device_code/user_code manquant'')), fs)
                       else poll_loop fuel env (dr_device r) P 0 now (now + device_lifetime r) (poll_interval r) fs))"

subsection \<open>Refresh and the choice of a token\<close>

definition RefreshAccessToken ::
    "oidc_env \<Rightarrow> transport \<Rightarrow> time \<Rightarrow> files \<Rightarrow> token_set res \<times> files" where
  "RefreshAccessToken env send now fs =
     (case oe_load env fs of
        Inl e \<Rightarrow> (Inl (Wrapf ''impossible de charger les tokens pour refresh: '' e []), fs)
      | Inr tokens \<Rightarrow>
          if ts_refresh tokens = [] then (Inl (Errorf (''pas de refresh_token stock'' @ e_acute @ '': relancez '' @ [CHR 0x27] @ ''ztna login'' @ [CHR 0x27])), fs)
          else
            (let form = [(''client_id'', cf_client_id (oe_cfg env))] @ secret_field (oe_cfg env) @
                        [(''grant_type'', ''refresh_token''), (''refresh_token'', ts_refresh tokens),
                         (''scope'', ''openid profile'')]
             in case send (form_post (token_endpoint (oe_cfg env)) form) of
                  NoResponse e \<Rightarrow> (Inl (Wrapf (e_acute @ ''chec de l'' @ [CHR 0x27] @ ''appel refresh token OIDC: '') e []), fs)
                | HttpResponse status body \<Rightarrow>
                    if \<not> is_2xx status
                    then (Inl (Errorf (e_acute @ ''chec refresh token endpoint: '' @ error_body body)), fs)
                    else (case decode_token (oe_parse env) False body of
                            Inl e \<Rightarrow> (Inl (Wrapf (''impossible de parser la r'' @ e_acute @ ''ponse refresh token: '') e []), fs)
                          | Inr r \<Rightarrow>
                              accept_tokens env (''r'' @ e_acute @ ''ponse refresh token invalide: access_token manquant'')
                                (''impossible de stocker les tokens rafra'' @ [CHR 0xC3, CHR 0xAE] @ ''chis: '')
                                (\<lambda>t. if ts_refresh t = [] then t\<lparr>ts_refresh := ts_refresh tokens\<rparr> else t) now r fs)))"

definition GetValidAccessToken ::
    "oidc_env \<Rightarrow> transport \<Rightarrow> (nat \<Rightarrow> time) \<Rightarrow> files \<Rightarrow> string res \<times> files" where
  "GetValidAccessToken env send clk fs =
     (case oe_load env fs of
        Inl e \<Rightarrow> (Inl (Wrapf (''impossible de charger les tokens stock'' @ e_acute @ ''s: '') e []), fs)
      | Inr tokens \<Rightarrow>
          if ts_access tokens = [] then (Inl (Errorf (''token stock'' @ e_acute @ '' invalide: access_token manquant'')), fs)
          else if ts_expires tokens = zero_time \<or> clk 0 < ts_expires tokens - tokenExpiryMargin
          then (Inr (ts_access tokens), fs)
          else if ts_refresh tokens = []
          then (Inl (Errorf (''access_token expir'' @ e_acute @ '' et refresh_token absent: relancez '' @ [CHR 0x27] @ ''ztna login'' @ [CHR 0x27])), fs)
          else (case RefreshAccessToken env send (clk 1) fs of
                  (Inl e, fs') \<Rightarrow> (Inl (Wrapf (''access_token expir'' @ e_acute @ '' et rafraichissement impossible: '') e []), fs')
                | (Inr refreshed, fs') \<Rightarrow>
                    if ts_access refreshed = []
                    then (Inl (Errorf (''rafra'' @ [CHR 0xC3, CHR 0xAE] @ ''chissement token invalide: access_token manquant'')), fs')
                    else (Inr (ts_access refreshed), fs')))"

subsection \<open>The adapter and the login use case\<close>

record login_result =
  lr_access :: string
  lr_refresh :: string
  lr_expires :: time
  lr_subject :: cl_subject

definition coalesceTime :: "time \<Rightarrow> time \<Rightarrow> time" where
  "coalesceTime now t = (if t = zero_time then now else t)"

definition toLoginResult :: "time \<Rightarrow> token_set \<Rightarrow> login_result" where
  "toLoginResult now tokens =
     \<lparr>lr_access = ts_access tokens, lr_refresh = ts_refresh tokens, lr_expires = coalesceTime now (ts_expires tokens),
      lr_subject = \<lparr>cs_sub = [], cs_username = [], cs_groups = []\<rparr>\<rparr>"

text \<open>\<open>usecase/login\<close>: the two flows are the operations of the identity provider.\<close>

record login_options =
  lo_mode :: string
  lo_username :: string
  lo_password :: string

definition login_Run ::
    "('s \<Rightarrow> login_result res \<times> 's) \<Rightarrow> (string \<Rightarrow> string \<Rightarrow> 's \<Rightarrow> login_result res \<times> 's) \<Rightarrow> login_options \<Rightarrow> 's
     \<Rightarrow> login_result res \<times> 's" where
  "login_Run device_flow password_grant opts s =
     (let mode = (if lo_mode opts = [] then ''auto'' else lo_mode opts) in
      if mode = ''auto'' \<or> mode = ''device_flow'' then
        (case device_flow s of
           (Inl e, s') \<Rightarrow> (Inl (Wrapf (e_acute @ ''chec login device flow: '') e []), s')
         | (Inr r, s') \<Rightarrow> (Inr r, s'))
      else if mode = ''password_grant_lab'' then
        (if lo_username opts = [] \<or> lo_password opts = []
         then (Inl (Errorf ''username/password requis pour le mode password_grant_lab''), s)
         else case password_grant (lo_username opts) (lo_password opts) s of
                (Inl e, s') \<Rightarrow> (Inl (Wrapf (e_acute @ ''chec login password grant lab: '') e []), s')
              | (Inr r, s') \<Rightarrow> (Inr r, s'))
      else (Inl (Errorf (''mode de login non support'' @ e_acute @ '': '' @ mode)), s))"

text \<open>\<open>App.RunLogin\<close>.\<close>

definition RunLogin :: "('s \<Rightarrow> login_result res \<times> 's) \<Rightarrow> (string \<Rightarrow> string \<Rightarrow> 's \<Rightarrow> login_result res \<times> 's)
    \<Rightarrow> (goerr \<Rightarrow> bool) \<Rightarrow> 's \<Rightarrow> goerr option \<times> 's" where
  "RunLogin device_flow password_grant is_ctx s =
     (case login_Run device_flow password_grant \<lparr>lo_mode = ''auto'', lo_username = [], lo_password = []\<rparr> s of
        (Inl e, s') \<Rightarrow>
          (if is_ctx e then (Some (Wrapf ''flux login OIDC interrompu: '' e []), s')
           else (Some (Wrapf (e_acute @ ''chec du flux login OIDC: '') e []), s'))
      | (Inr r, s') \<Rightarrow>
          if lr_access r = [] then (Some (Errorf (e_acute @ ''chec du flux login OIDC: access_token manquant'')), s')
          else (None, s'))"

subsection \<open>The polling loop ends\<close>

lemma poll_loop_mono:
  "poll_loop fuel env device P n now deadline i fs = Some r \<Longrightarrow>
     poll_loop (fuel + k) env device P n now deadline i fs = Some r"
  by (induction fuel env device P n now deadline i fs rule: poll_loop.induct)
    (auto simp: Let_def split: option.splits sum.splits if_splits)

lemma poll_turn_interval:
  "poll_turn env answer now i fs = Inr i' \<Longrightarrow> i' = i \<or> i' = wrap64 (i + 2 * Second)"
  by (auto simp: poll_turn_def split: http_result.splits sum.splits if_splits)

text \<open>An argument common to the two bounds: a step that returns or reaches a state with less
  fuel needed.\<close>

lemma poll_loop_step:
  assumes "\<And>now' i'. now \<le> deadline \<Longrightarrow> now' = now + max 0 i + int (pw_delay P n) \<Longrightarrow>
             i' = i \<or> i' = wrap64 (i + 2 * Second) \<Longrightarrow>
             \<exists>r. poll_loop fuel env device P (Suc n) now' deadline i' fs = Some r"
  shows "\<exists>r. poll_loop (Suc fuel) env device P n now deadline i fs = Some r"
proof -
  let ?now' = "now + max 0 i + int (pw_delay P n)"
  let ?turn = "poll_turn env (pw_send P n (form_post (token_endpoint (oe_cfg env)) (poll_form (oe_cfg env) device)))
                 ?now' i fs"
  show ?thesis
  proof (cases ?turn)
    case (Inl r)
    then show ?thesis by (auto simp: Let_def split: option.splits)
  next
    case (Inr i')
    show ?thesis
    proof (cases "deadline < now \<or> pw_cancel P n \<noteq> None")
      case True
      then show ?thesis by (auto split: option.splits)
    next
      case False
      then show ?thesis
        using assms[of ?now' i'] poll_turn_interval[OF Inr] Inr by (auto simp: Let_def)
    qed
  qed
qed

lemma poll_loop_delayed:
  "\<lbrakk>\<forall>n. 0 < pw_delay P n; nat (deadline - now) + 2 \<le> fuel\<rbrakk> \<Longrightarrow>
     \<exists>r. poll_loop fuel env device P n now deadline i fs = Some r"
proof (induction fuel arbitrary: n now i)
  case 0
  then show ?case by simp
next
  case (Suc fuel)
  show ?case
  proof (rule poll_loop_step)
    fix now' i' assume now: "now \<le> deadline" and n': "now' = now + max 0 i + int (pw_delay P n)"
    have "now < now'" using n' Suc.prems(1) by (simp add: add_nonneg_pos)
    show "\<exists>r. poll_loop fuel env device P (Suc n) now' deadline i' fs = Some r"
    proof (cases "now' \<le> deadline")
      case True
      then show ?thesis using \<open>now < now'\<close> Suc.prems now by (intro Suc.IH) auto
    next
      case False
      moreover from Suc.prems obtain f where "fuel = Suc f" by (cases fuel) auto
      ultimately show ?thesis by auto
    qed
  qed
qed

lemma div_drop: "0 < (i0::int) \<Longrightarrow> i0 \<le> d \<Longrightarrow> (r - d) div i0 \<le> r div i0 - 1"
proof -
  assume i: "0 < i0" "i0 \<le> d"
  have "(r - d) div i0 \<le> (r - i0) div i0"
    using i by (intro zdiv_mono1) auto
  also have "(r - i0) div i0 = r div i0 - 1"
    using i div_mult_self1[of i0 r "-1"] by simp
  finally show ?thesis .
qed

lemma poll_loop_interval:
  "\<lbrakk>0 < i0; i0 \<le> i; in_int64 i; deadline - now \<le> 2 ^ 62; nat ((deadline - now) div i0) + 2 \<le> fuel\<rbrakk> \<Longrightarrow>
     \<exists>r. poll_loop fuel env device P n now deadline i fs = Some r"
proof (induction fuel arbitrary: n now i)
  case 0
  then show ?case by simp
next
  case (Suc fuel)
  show ?case
  proof (rule poll_loop_step)
    fix now' i'
    assume now: "now \<le> deadline" and n': "now' = now + max 0 i + int (pw_delay P n)"
      and i': "i' = i \<or> i' = wrap64 (i + 2 * Second)"
    from Suc.prems have "i0 \<le> now' - now" using n' by simp
    show "\<exists>r. poll_loop fuel env device P (Suc n) now' deadline i' fs = Some r"
    proof (cases "now' \<le> deadline")
      case True
      with n' Suc.prems have "i \<le> 2 ^ 62" by simp
      then have "in_int64 (i + 2 * Second)" using Suc.prems by (simp add: in_int64_def)
      with i' Suc.prems have "i0 \<le> i'" "in_int64 i'" by auto
      moreover have "(deadline - now') div i0 \<le> (deadline - now) div i0 - 1"
        using div_drop[OF Suc.prems(1) \<open>i0 \<le> now' - now\<close>, of "deadline - now"] by (simp add: algebra_simps)
      moreover have "0 \<le> (deadline - now') div i0" "0 \<le> (deadline - now) div i0"
        using True now Suc.prems(1) by (simp_all add: pos_imp_zdiv_nonneg_iff)
      ultimately show ?thesis
        using Suc.prems True \<open>i0 \<le> now' - now\<close> by (intro Suc.IH) auto
    next
      case False
      moreover from Suc.prems obtain f where "fuel = Suc f" by (cases fuel) auto
      ultimately show ?thesis by auto
    qed
  qed
qed

subsection \<open>What a login stores\<close>

lemma accept_tokens_Inr:
  "accept_tokens env m s adjust now r fs = (Inr tokens, fs') \<Longrightarrow>
     tr_access r \<noteq> [] \<and> tokens = adjust (tokens_of now r) \<and> oe_save env tokens fs = (None, fs')"
  by (auto simp: accept_tokens_def Let_def split: if_splits prod.splits option.splits)

lemma tokens_of_access [simp]: "ts_access (tokens_of now r) = tr_access r"
  by (simp add: tokens_of_def)

lemma poll_turn_tokens:
  "poll_turn env answer now i fs = Inl (Inr tokens, fs') \<Longrightarrow>
     ts_access tokens \<noteq> [] \<and> oe_save env tokens fs = (None, fs')"
  by (auto simp: poll_turn_def dest!: accept_tokens_Inr split: http_result.splits sum.splits if_splits)

lemma poll_loop_tokens:
  "poll_loop fuel env device P n now deadline i fs = Some (Inr tokens, fs') \<Longrightarrow>
     ts_access tokens \<noteq> [] \<and> oe_save env tokens fs = (None, fs')"
  by (induction fuel env device P n now deadline i fs rule: poll_loop.induct)
    (auto simp: Let_def split: option.splits sum.splits if_splits dest: poll_turn_tokens)

lemma DeviceFlowLogin_tokens:
  "DeviceFlowLogin fuel env send P now fs = Some (Inr tokens, fs') \<Longrightarrow>
     ts_access tokens \<noteq> [] \<and> oe_save env tokens fs = (None, fs')"
  by (auto simp: DeviceFlowLogin_def Let_def dest!: poll_loop_tokens
      split: http_result.splits sum.splits if_splits)

lemma LoginPasswordGrantLAB_tokens:
  "LoginPasswordGrantLAB env send now u p fs = (Inr tokens, fs') \<Longrightarrow>
     ts_access tokens \<noteq> [] \<and> oe_save env tokens fs = (None, fs')"
  by (auto simp: LoginPasswordGrantLAB_def Let_def dest!: accept_tokens_Inr
      split: http_result.splits sum.splits if_splits)

lemma RefreshAccessToken_tokens:
  "RefreshAccessToken env send now fs = (Inr tokens, fs') \<Longrightarrow> oe_load env fs = Inr old \<Longrightarrow>
     ts_access tokens \<noteq> [] \<and> ts_refresh tokens \<noteq> [] \<and> oe_save env tokens fs = (None, fs')
     \<and> (\<exists>n. ts_expires tokens = now + dur_seconds n)"
  by (auto simp: RefreshAccessToken_def Let_def dest!: accept_tokens_Inr
      split: http_result.splits sum.splits if_splits) (auto simp: tokens_of_def)

definition codec_faithful :: "token_codec \<Rightarrow> bool" where
  "codec_faithful T = (\<forall>t s. tc_encode T t = Inr s \<longrightarrow> tc_decode T s = Inr t)"

lemma codec_faithful_load:
  "codec_faithful (oe_codec env) \<Longrightarrow> oe_read env = None \<Longrightarrow> oe_save env tokens fs = (None, fs') \<Longrightarrow>
     oe_load env fs' = Inr tokens"
  using tokens_Save_Load[of "oe_codec env" "oe_mkdir env" "oe_write env" tokens fs fs']
  by (auto simp: token_codec_ok_def codec_faithful_def tokens_Save_def split: option.splits sum.splits)

subsection \<open>Properties\<close>

definition ex_cl_config :: cl_config where
  "ex_cl_config = \<lparr>cf_issuer = ''https://idp/realms/z/'', cf_client_id = ''ztna'', cf_client_secret = [],
     cf_audience = [], cf_oidc_ca = [], cf_oidc_insecure = False, cf_base_url = ''https://cp'', cf_cp_ca = ''/etc/ztna/cp.pem'',
     cf_cp_insecure = False, cf_gateway = ''gw:8443'', cf_tls_ca = ''/etc/ztna/ca.pem'', cf_storage = ''./.ztna'',
     cf_allow_http = False, cf_log_level = ''info'', cf_log_format = ''json''\<rparr>"

definition ex_oidc_parse :: "string \<Rightarrow> jval res" where
  "ex_oidc_parse t =
     (if t = ''device'' then Inr (JObj [(''device_code'', JStr ''dc''), (''user_code'', JStr ''AB-CD''),
                                        (''interval'', JNum ''5''), (''expires_in'', JNum ''600'')])
      else if t = ''pending'' then Inr (JObj [(''error'', JStr ''authorization_pending'')])
      else if t = ''tokens'' then Inr (JObj [(''access_token'', JStr ''at''), (''refresh_token'', JStr ''rt''),
                                            (''token_type'', JStr ''Bearer''), (''expires_in'', JNum ''300'')])
      else Inl (Errorf ''invalid character''))"

definition ex_oidc_codec :: token_codec where
  "ex_oidc_codec = \<lparr>tc_encode = (\<lambda>t. if t = ex_tokens then Inr ''new'' else Inl (Errorf ''json'')),
     tc_decode = (\<lambda>s. if s = ''new'' then Inr ex_tokens
                      else if s = ''old'' then Inr (ex_tokens\<lparr>ts_access := ''at0'', ts_expires := 1\<rparr>)
                      else Inl (Errorf ''json''))\<rparr>"

definition ex_oidc :: oidc_env where
  "ex_oidc = \<lparr>oe_cfg = ex_cl_config, oe_parse = ex_oidc_parse, oe_codec = ex_oidc_codec, oe_mkdir = None,
     oe_write = WriteOK, oe_read = None\<rparr>"

definition ex_idp :: transport where
  "ex_idp r = (if ho_url r = ''https://idp/realms/z/protocol/openid-connect/auth/device''
               then HttpResponse 200 (Inr ''device'') else HttpResponse 200 (Inr ''tokens''))"

text \<open>The user confirms after the first poll; a poll takes no more than the interval here.\<close>

definition ex_poll :: "nat \<Rightarrow> poll_world" where
  "ex_poll delay = \<lparr>pw_send = (\<lambda>n r. if n = 0 then HttpResponse 400 (Inr ''pending'') else HttpResponse 200 (Inr ''tokens'')),
     pw_delay = (\<lambda>_. delay), pw_cancel = (\<lambda>_. None)\<rparr>"

lemma ex_codec_faithful: "codec_faithful ex_oidc_codec"
  by (auto simp: codec_faithful_def ex_oidc_codec_def split: if_splits)

text \<open>C32: the device flow always ends: as every exchange with the token endpoint takes time, the
  polling loop returns tokens or an error, whatever the provider answers.\<close>

theorem device_flow_returns:
  assumes "\<forall>n. 0 < pw_delay P n"
  shows "\<exists>fuel r. DeviceFlowLogin fuel env send P now fs = Some r"
proof -
  define F :: nat where "F = nat (2 ^ 63) + 2"
  have loop: "\<exists>a b. poll_loop F env d P 0 now (now + device_lifetime r) i fs = Some (a, b)" for d r i
  proof -
    have "device_lifetime r < 2 ^ 63"
      using wrap64_range by (simp add: device_lifetime_def dur_seconds_def Let_def in_int64_def)
    then show ?thesis
      using poll_loop_delayed[OF assms, of "now + device_lifetime r" now F env d 0 i fs] by (simp add: F_def)
  qed
  have "\<exists>x. DeviceFlowLogin F env send P now fs = Some x"
    by (auto simp: DeviceFlowLogin_def Let_def loop split: http_result.split sum.split)
  then show ?thesis by blast
qed

theorem device_flow_returns_witness:
  "\<exists>fuel r. DeviceFlowLogin fuel ex_oidc ex_idp (ex_poll 7) 0 Map.empty = Some r"
  using device_flow_returns[of "ex_poll 7"] by (simp add: ex_poll_def)

text \<open>The number of polls is bounded by the lifetime of the device code divided by the poll
  interval, plus two, also when the provider asks to slow down.\<close>

theorem poll_count_bound:
  assumes "device_lifetime r \<le> 2 ^ 62"
  shows "\<exists>x. poll_loop (nat (device_lifetime r div poll_interval r) + 2) env (dr_device r) P 0 now
           (now + device_lifetime r) (poll_interval r) fs = Some x"
proof (rule poll_loop_interval)
  show "0 < poll_interval r" by (simp add: poll_interval_def Let_def)
  show "in_int64 (poll_interval r)"
    using wrap64_range by (simp add: poll_interval_def dur_seconds_def Let_def in_int64_def)
qed (use assms in auto)

theorem poll_count_bound_witness:
  "\<exists>x. poll_loop 122 ex_oidc ''dc'' (ex_poll 0) 0 0 (600 * Second) (5 * Second) Map.empty = Some x"
proof -
  let ?r = "device_zero\<lparr>dr_device := ''dc'', dr_interval := 5, dr_expires_in := 600\<rparr>"
  have "device_lifetime ?r = 600 * Second" "poll_interval ?r = 5 * Second" "dr_device ?r = ''dc''"
    by (simp_all add: device_lifetime_def poll_interval_def device_zero_def dur_seconds_def in_int64_def)
  then show ?thesis
    using poll_count_bound[of ?r ex_oidc "ex_poll 0" 0 Map.empty] by (simp del: poll_loop.simps)
qed

text \<open>After a login by either flow that reports success, the stored access token is the one
  obtained, and it is the one handed out, without a request to the provider, until thirty
  seconds before it expires.\<close>

theorem login_then_valid:
  assumes "DeviceFlowLogin fuel env send P now fs = Some (Inr tokens, fs')
             \<or> LoginPasswordGrantLAB env send now username password fs = (Inr tokens, fs')"
    and "codec_faithful (oe_codec env)" and "oe_read env = None"
    and "clk 0 < ts_expires tokens - tokenExpiryMargin"
  shows "ts_access tokens \<noteq> [] \<and> GetValidAccessToken env send' clk fs' = (Inr (ts_access tokens), fs')"
proof -
  have t: "ts_access tokens \<noteq> []" "oe_save env tokens fs = (None, fs')"
    using assms(1) DeviceFlowLogin_tokens LoginPasswordGrantLAB_tokens by blast+
  then have "oe_load env fs' = Inr tokens" using codec_faithful_load assms(2,3) by blast
  with t assms(4) show ?thesis by (simp add: GetValidAccessToken_def)
qed

theorem login_then_valid_witness:
  "\<exists>fs'. DeviceFlowLogin 3 ex_oidc ex_idp (ex_poll 0) (- 10 * Second) Map.empty = Some (Inr ex_tokens, fs')
     \<and> GetValidAccessToken ex_oidc (\<lambda>_. NoResponse (Errorf ''offline'')) (\<lambda>_. 100 * Second) fs' = (Inr ''at'', fs')"
proof -
  obtain fs' where l: "DeviceFlowLogin 3 ex_oidc ex_idp (ex_poll 0) (- 10 * Second) Map.empty = Some (Inr ex_tokens, fs')"
  proof -
    have "map_option fst (DeviceFlowLogin 3 ex_oidc ex_idp (ex_poll 0) (- 10 * Second) Map.empty) = Some (Inr ex_tokens)"
      by code_simp
    then show ?thesis using that by (auto simp: map_option_case split: option.splits)
  qed
  show ?thesis
    using l login_then_valid[OF disjI1, OF l, of "\<lambda>_. 100 * Second" "\<lambda>_. NoResponse (Errorf ''offline'')"]
    by (simp add: ex_oidc_def ex_codec_faithful tokenExpiryMargin_def ex_tokens_def)
qed

text \<open>C33: an access token that is handed out is the stored one, not within thirty seconds of its
  expiry, or one just refreshed and stored, beside a refresh token, so that the next refresh
  is possible also when the provider did not send a new one.\<close>

theorem valid_token_sound:
  assumes "GetValidAccessToken env send clk fs = (Inr token, fs')" and "oe_load env fs = Inr old"
    and "codec_faithful (oe_codec env)" and "oe_read env = None"
  shows "token \<noteq> []
    \<and> (if ts_expires old = zero_time \<or> clk 0 < ts_expires old - tokenExpiryMargin
       then token = ts_access old \<and> fs' = fs
       else ts_refresh old \<noteq> [] \<and> (\<exists>new. oe_load env fs' = Inr new \<and> ts_access new = token \<and> ts_refresh new \<noteq> []
              \<and> (\<exists>n. ts_expires new = clk 1 + dur_seconds n)))"
proof (cases "ts_expires old = zero_time \<or> clk 0 < ts_expires old - tokenExpiryMargin")
  case True
  with assms show ?thesis by (auto simp: GetValidAccessToken_def split: if_splits)
next
  case False
  with assms obtain new where r: "RefreshAccessToken env send (clk 1) fs = (Inr new, fs')"
    and new: "token = ts_access new" "ts_access new \<noteq> []" "ts_refresh old \<noteq> []"
    by (auto simp: GetValidAccessToken_def split: if_splits sum.splits prod.splits)
  with RefreshAccessToken_tokens[OF r assms(2)] codec_faithful_load[OF assms(3,4)] False
  show ?thesis by auto
qed

theorem valid_token_sound_witness:
  "\<exists>fs'. GetValidAccessToken ex_oidc ex_idp (\<lambda>_. 0) [tokenFileName \<mapsto> ''old''] = (Inr ''at'', fs')
     \<and> (\<exists>new. oe_load ex_oidc fs' = Inr new \<and> ts_access new = ''at'' \<and> ts_refresh new \<noteq> [])"
proof -
  obtain fs' where g: "GetValidAccessToken ex_oidc ex_idp (\<lambda>_. 0) [tokenFileName \<mapsto> ''old''] = (Inr ''at'', fs')"
  proof -
    have "fst (GetValidAccessToken ex_oidc ex_idp (\<lambda>_. 0) [tokenFileName \<mapsto> ''old'']) = Inr ''at''"
      by code_simp
    then show ?thesis using that by (cases "GetValidAccessToken ex_oidc ex_idp (\<lambda>_. 0) [tokenFileName \<mapsto> ''old'']") auto
  qed
  have "oe_load ex_oidc [tokenFileName \<mapsto> ''old''] = Inr (ex_tokens\<lparr>ts_access := ''at0'', ts_expires := 1\<rparr>)"
    by (simp add: tokens_Load_def read_file_def ex_oidc_def ex_oidc_codec_def)
  from valid_token_sound[OF g this] g show ?thesis
    by (auto simp: ex_oidc_def ex_codec_faithful tokenExpiryMargin_def zero_time_def)
qed

end
