(* ===== verification/Cl_Usecases.thy ===== *)
theory Cl_Usecases
  imports Cl_Tunnel Cl_Oidc
begin

text \<open>
  The operations of the client: opening a tunnel, requesting a certificate, listing the
  resources, and the use cases that compose them (\<open>client/internal/usecase\<close> and
  \<open>client/internal/bootstrap\<close>).

  A peer is a function from the bytes it received to the bytes it answers; a tunnel that
  is open has bytes already sent by the gateway, the start of the relayed stream.
\<close>

subsection \<open>Opening a tunnel\<close>

record tunnel_env =
  te_cfg :: cl_config
  te_pair_error :: "string \<Rightarrow> string \<Rightarrow> goerr option"
  te_read_path :: "string \<Rightarrow> string res"
  te_pem_ok :: "string \<Rightarrow> bool"
  te_render :: "jval \<Rightarrow> string"
  te_parse :: "string \<Rightarrow> jval res"
  te_url_parse :: "string \<Rightarrow> parsed_url option"
  te_timestamp :: "time \<Rightarrow> string"

text \<open>Where the connection of an attempt stands: none was made, it was closed after the bytes
  sent, or it is open, with the bytes received and not yet read.\<close>

datatype conn_end = NotDialled | ConnClosed string | ConnOpen string string

definition connect_request_of :: "tunnel_env \<Rightarrow> time \<Rightarrow> string \<Rightarrow> cl_request" where
  "connect_request_of T now resource =
     \<lparr>cq_version = CurrentProtocolVersion, cq_action = ''connect'',
      cq_resource = ParseResource (te_url_parse T) resource,
      cq_context = \<lparr>cx_src_ip = [], cx_device_info = [], cx_timestamp = te_timestamp T now\<rparr>\<rparr>"

definition decode_response :: "tunnel_env \<Rightarrow> string \<Rightarrow> cl_response res" where
  "decode_response T buf =
     (case te_parse T buf of Inl e \<Rightarrow> Inl e | Inr v \<Rightarrow> json_object response_put response_zero v)"

text \<open>\<open>dial\<close> is \<open>tls.DialWithDialer\<close>: an error, or the peer and the outcomes of the two writes.\<close>

definition tunnel_Connect ::
    "tunnel_env \<Rightarrow> (string \<Rightarrow> tls_conf \<Rightarrow> goerr + ((string \<Rightarrow> string) \<times> goerr option \<times> goerr option)) \<Rightarrow> time
     \<Rightarrow> string \<Rightarrow> string \<Rightarrow> string \<Rightarrow> cl_response res \<times> conn_end" where
  "tunnel_Connect T dial now certPEM keyPEM resource =
     (case buildTLSConfig (te_pair_error T) (te_read_path T) (te_pem_ok T) (te_cfg T) certPEM keyPEM of
        Inl e \<Rightarrow> (Inl (Wrapf ''erreur de configuration TLS: '' e []), NotDialled)
      | Inr conf \<Rightarrow>
          (case dial (cf_gateway (te_cfg T)) conf of
             Inl e \<Rightarrow>
               (Inl (Wrapf [] ErrGatewayUnreachable ('': impossible de se connecter '' @ a_grave @ '' la Gateway ''
                      @ cf_gateway (te_cfg T) @ '': '' @ err_text e)), NotDialled)
           | Inr (peer, w1, w2) \<Rightarrow>
               (case cl_WriteMessage (\<lambda>r. Inr (te_render T (request_json r))) w1 w2 (connect_request_of T now resource) of
                  (Some e, sent) \<Rightarrow>
                    (Inl (Wrapf (''impossible d'' @ [CHR 0x27] @ ''envoyer la requ'' @ [CHR 0xC3, CHR 0xAA] @ ''te CONNECT: '') e []),
                     ConnClosed sent)
                | (None, sent) \<Rightarrow>
                    (case cl_ReadMessage (decode_response T) (peer sent) of
                       (Inl e, _) \<Rightarrow>
                         (Inl (Wrapf (''impossible de lire la r'' @ e_acute @ ''ponse CONNECT: '') e []), ConnClosed sent)
                     | (Inr resp, rest) \<Rightarrow>
                         if cz_decision resp \<noteq> ''allow''
                         then (Inl (Wrapf [] ErrConnectionDenied
                                 ('': '' @ (if cz_reason resp = [] then ''raison non communiqu'' @ e_acute @ ''e'' else cz_reason resp)
                                  @ '' (decision_id='' @ cz_decision_id resp @ '')'')), ConnClosed sent)
                         else (Inr resp, ConnOpen sent rest)))))"

text \<open>
  \<open>RelayTraffic\<close> and \<open>access.relay\<close>.  A direction ends by itself when its reader sees the end or an
  error (\<open>Some\<close>, with the result of \<open>io.Copy\<close>) or goes on until a connection is closed (\<open>None\<close>).
  \<open>RelayTraffic\<close> closes both connections after the first end; \<open>relay\<close> waits for both.
  \<open>None\<close> as a result: the call does not return.
\<close>

definition RelayTraffic :: "goerr option option \<Rightarrow> goerr option option \<Rightarrow> bool \<Rightarrow> goerr option option" where
  "RelayTraffic from_tunnel from_local tunnel_first =
     (case (from_tunnel, from_local) of
        (None, None) \<Rightarrow> None
      | (Some e, None) \<Rightarrow> Some e
      | (None, Some e) \<Rightarrow> Some e
      | (Some e1, Some e2) \<Rightarrow> Some (if tunnel_first then e1 else e2))"

definition access_relay :: "goerr option option \<Rightarrow> goerr option option \<Rightarrow> unit option" where
  "access_relay from_tunnel from_local =
     (if from_tunnel \<noteq> None \<and> from_local \<noteq> None then Some () else None)"

subsection \<open>Requesting a certificate\<close>

text \<open>\<open>keygen\<close>: the request and the key in PEM, or the text and cause of the step that failed.\<close>

record cert_answer =
  ca_certificate :: string
  ca_ca :: string

definition cert_zero :: cert_answer where
  "cert_zero = \<lparr>ca_certificate = [], ca_ca = []\<rparr>"

text \<open>The three fields that are only logged have to be text as well.\<close>

definition cert_put :: "string \<Rightarrow> jval \<Rightarrow> cert_answer \<Rightarrow> cert_answer res" where
  "cert_put k v r =
     (if EqualFold k ''certificate_pem'' then bind_res (json_str v (ca_certificate r)) (\<lambda>x. r\<lparr>ca_certificate := x\<rparr>)
      else if EqualFold k ''ca_cert_pem'' then bind_res (json_str v (ca_ca r)) (\<lambda>x. r\<lparr>ca_ca := x\<rparr>)
      else if EqualFold k ''serial'' \<or> EqualFold k ''expires_at'' \<or> EqualFold k ''fingerprint''
      then bind_res (json_str v []) (\<lambda>_. r)
      else Inr r)"

definition cert_request :: "tunnel_env \<Rightarrow> string \<Rightarrow> string \<Rightarrow> http_out" where
  "cert_request T accessToken csrPEM =
     \<lparr>ho_method = ''POST'', ho_url = TrimRightSlash (cf_base_url (te_cfg T)) @ ''/api/v1/credentials/device-cert'',
      ho_headers = [(''Content-Type'', ''application/json''), (''Authorization'', ''Bearer '' @ accessToken)],
      ho_body = te_render T (JObj [(''csr_pem'', JStr csrPEM)])\<rparr>"

definition RequestMTLSCertFromCP ::
    "tunnel_env \<Rightarrow> goerr + (string \<times> string) \<Rightarrow> transport \<Rightarrow> goerr option \<Rightarrow> write_outcome \<Rightarrow> write_outcome
     \<Rightarrow> write_outcome \<Rightarrow> string \<Rightarrow> files \<Rightarrow> goerr option \<times> files" where
  "RequestMTLSCertFromCP T keygen send mk w1 w2 w3 accessToken fs =
     (case keygen of
        Inl e \<Rightarrow> (Some e, fs)
      | Inr (csrPEM, keyPEM) \<Rightarrow>
          (case send (cert_request T accessToken csrPEM) of
             NoResponse e \<Rightarrow> (Some (Wrapf [] ErrCPUnreachable ('': impossible de joindre le Control Plane: '' @ err_text e)), fs)
           | HttpResponse status body \<Rightarrow>
               if \<not> is_2xx status
               then (Some (Errorf (e_acute @ ''chec de demande de certificat: '' @ error_body body)), fs)
               else (case (case body of Inl e \<Rightarrow> Inl e | Inr t \<Rightarrow> (case te_parse T t of Inl e \<Rightarrow> Inl e
                              | Inr v \<Rightarrow> json_object cert_put cert_zero v)) of
                       Inl e \<Rightarrow> (Some (Wrapf (''impossible de parser la r'' @ e_acute @ ''ponse du CP: '') e []), fs)
                     | Inr answer \<Rightarrow>
                         if ca_certificate answer = []
                         then (Some (Errorf (''r'' @ e_acute @ ''ponse du CP invalide: certificat manquant'')), fs)
                         else (case te_pair_error T (ca_certificate answer) keyPEM of
                           Some e \<Rightarrow>
                             (Some (Wrapf (''le certificat re'' @ [CHR 0xC3, CHR 0xA7] @ ''u ne correspond pas '' @ a_grave
                                @ '' la cl'' @ e_acute @ '' g'' @ e_acute @ ''n'' @ e_acute @ ''r'' @ e_acute @ ''e: '') e []), fs)
                         | None \<Rightarrow>
                             (case SaveCertAndKey mk w1 w2 (ca_certificate answer) keyPEM fs of
                                (Some e, fs') \<Rightarrow> (Some (Wrapf ''impossible de sauvegarder le certificat: '' e []), fs')
                              | (None, fs') \<Rightarrow>
                                  (None, if ca_ca answer = [] then fs' else snd (SaveCACert mk w3 (ca_ca answer) fs')))))))"

subsection \<open>Listing the resources\<close>

record cl_published =
  cb_name :: string
  cb_display :: string
  cb_type :: string
  cb_mode :: string
  cb_description :: string

definition published_zero :: cl_published where
  "published_zero = \<lparr>cb_name = [], cb_display = [], cb_type = [], cb_mode = [], cb_description = []\<rparr>"

definition published_put :: "string \<Rightarrow> jval \<Rightarrow> cl_published \<Rightarrow> cl_published res" where
  "published_put k v r =
     (if EqualFold k ''name'' then bind_res (json_str v (cb_name r)) (\<lambda>x. r\<lparr>cb_name := x\<rparr>)
      else if EqualFold k ''display_name'' then bind_res (json_str v (cb_display r)) (\<lambda>x. r\<lparr>cb_display := x\<rparr>)
      else if EqualFold k ''type'' then bind_res (json_str v (cb_type r)) (\<lambda>x. r\<lparr>cb_type := x\<rparr>)
      else if EqualFold k ''access_mode'' then bind_res (json_str v (cb_mode r)) (\<lambda>x. r\<lparr>cb_mode := x\<rparr>)
      else if EqualFold k ''description'' then bind_res (json_str v (cb_description r)) (\<lambda>x. r\<lparr>cb_description := x\<rparr>)
      else Inr r)"

fun json_list :: "(jval \<Rightarrow> 'v res) \<Rightarrow> jval list \<Rightarrow> 'v list res" where
  "json_list decode [] = Inr []"
| "json_list decode (v # vs) =
     (case decode v of Inl e \<Rightarrow> Inl e
      | Inr x \<Rightarrow> (case json_list decode vs of Inl e \<Rightarrow> Inl e | Inr xs \<Rightarrow> Inr (x # xs)))"

definition json_array :: "(jval \<Rightarrow> 'v res) \<Rightarrow> jval \<Rightarrow> 'v list res" where
  "json_array decode v =
     (case v of JArr vs \<Rightarrow> json_list decode vs | JNull \<Rightarrow> Inr []
      | _ \<Rightarrow> Inl (Errorf ''json: cannot unmarshal into slice''))"

definition cpapi_ListResources :: "tunnel_env \<Rightarrow> transport \<Rightarrow> string \<Rightarrow> cl_published list res" where
  "cpapi_ListResources T send accessToken =
     (case send \<lparr>ho_method = ''GET'', ho_url = cf_base_url (te_cfg T) @ ''/api/v1/resources'',
                 ho_headers = [(''Authorization'', ''Bearer '' @ accessToken)], ho_body = []\<rparr> of
        NoResponse e \<Rightarrow> Inl (Wrapf ''appel CP: '' e [])
      | HttpResponse status body \<Rightarrow>
          (case limit_body body of
             Inl e \<Rightarrow> Inl (Wrapf (''lecture r'' @ e_acute @ ''ponse: '') e [])
           | Inr text \<Rightarrow>
               if status = 401
               then Inl (Errorf (''non authentifi'' @ e_acute @ '' (401) '' @ [CHR 0xE2, CHR 0x80, CHR 0x94] @ '' ex'' @ e_acute
                          @ ''cutez '' @ [CHR 0x27] @ ''ztna login'' @ [CHR 0x27]))
               else if status \<noteq> 200 then Inl (Errorf (''r'' @ e_acute @ ''ponse CP inattendue: body='' @ text))
               else (case (case te_parse T text of Inl e \<Rightarrow> Inl e
                       | Inr v \<Rightarrow> json_array (json_object published_put published_zero) v) of
                       Inl e \<Rightarrow> Inl (Wrapf (''d'' @ e_acute @ ''s'' @ e_acute @ ''rialisation r'' @ e_acute @ ''ponse: '') e [])
                     | Inr resources \<Rightarrow> Inr resources)))"

subsection \<open>The use cases\<close>

definition formatResource :: "cl_resource \<Rightarrow> string" where
  "formatResource r =
     (if cl_name r \<noteq> [] then cl_name r
      else cl_type r @ ''://'' @ cl_host r @ '':'' @ Itoa (cl_port r))"

text \<open>\<open>connect.Service.Run\<close>: the resolver, the certificate store and the tunnel are arguments.  The
  tunnel is closed before the return.  Beside the result, the attempts to open a tunnel.\<close>

definition connect_Run ::
    "(string \<Rightarrow> cl_resource res) \<Rightarrow> (string \<times> string) res \<Rightarrow> (string \<Rightarrow> string \<Rightarrow> string \<Rightarrow> cl_response res \<times> conn_end)
     \<Rightarrow> string \<Rightarrow> goerr option \<times> (cl_response res \<times> conn_end) list" where
  "connect_Run resolve creds connect resourceName =
     (case resolve resourceName of
        Inl e \<Rightarrow> (Some (Wrapf (''r'' @ e_acute @ ''solution de ressource impossible: '') e []), [])
      | Inr resource \<Rightarrow>
          (case cl_Resource_Validate resource of
             Some e \<Rightarrow> (Some (Wrapf ''ressource invalide: '' e []), [])
           | None \<Rightarrow>
               (case creds of
                  Inl e \<Rightarrow>
                    (Some (Wrapf [] ErrNoCertificate ('': impossible de charger le certificat mTLS ('' @ err_text e @ '')'')), [])
                | Inr (certPEM, keyPEM) \<Rightarrow>
                    (let attempt = connect certPEM keyPEM (formatResource resource) in
                     case fst attempt of
                       Inl e \<Rightarrow>
                         (Some (Wrapf (e_acute @ ''chec d'' @ [CHR 0x27] @ ''ouverture du tunnel vers la gateway: '') e []), [attempt])
                     | Inr _ \<Rightarrow> (None, [attempt])))))"

definition issuecert_Run ::
    "('s \<Rightarrow> string res \<times> 's) \<Rightarrow> (string \<Rightarrow> 's \<Rightarrow> goerr option \<times> 's) \<Rightarrow> 's \<Rightarrow> goerr option \<times> 's" where
  "issuecert_Run valid_token request s =
     (case valid_token s of
        (Inl e, s') \<Rightarrow>
          (Some (Wrapf [] ErrNotAuthenticated ('': impossible d'' @ [CHR 0x27] @ ''obtenir un access token valide: '' @ err_text e)), s')
      | (Inr token, s') \<Rightarrow>
          (case request token s' of
             (Some e, s'') \<Rightarrow> (Some (Wrapf (e_acute @ ''chec de demande du certificat mTLS: '') e []), s'')
           | (None, s'') \<Rightarrow> (None, s'')))"

definition listresources_Run ::
    "('s \<Rightarrow> string res \<times> 's) \<Rightarrow> (string \<Rightarrow> cl_published list res) \<Rightarrow> 's \<Rightarrow> cl_published list res \<times> 's" where
  "listresources_Run valid_token list_resources s =
     (case valid_token s of
        (Inl e, s') \<Rightarrow> (Inl (Wrapf (''impossible d'' @ [CHR 0x27] @ ''obtenir un access token valide: '') e []), s')
      | (Inr token, s') \<Rightarrow>
          (case list_resources token of
             Inl e \<Rightarrow> (Inl (Wrapf (''erreur lors de la r'' @ e_acute @ ''cup'' @ e_acute @ ''ration des ressources: '') e []), s')
           | Inr resources \<Rightarrow> (Inr resources, s')))"

text \<open>
  \<open>access.Service.Run\<close>: what the listener meets is a list of events; the attempts to open a
  tunnel are listed with their results.  \<open>None\<close>: the service still waits for a connection.
\<close>

datatype accept_event = AcceptOK | AcceptErr goerr bool \<comment> \<open>the flag: the context has ended\<close>

fun accept_loop ::
    "(nat \<Rightarrow> cl_response res \<times> conn_end) \<Rightarrow> nat \<Rightarrow> accept_event list \<Rightarrow> goerr option option \<times> (cl_response res \<times> conn_end) list" where
  "accept_loop attempt n [] = (None, [])"
| "accept_loop attempt n (AcceptOK # evs) =
     (let (r, attempts) = accept_loop attempt (Suc n) evs in (r, attempt n # attempts))"
| "accept_loop attempt n (AcceptErr e ended # evs) =
     (if ended then (Some None, []) else (Some (Some (Wrapf ''erreur accept: '' e [])), []))"

definition access_Run ::
    "(string \<times> string) res \<Rightarrow> goerr option \<Rightarrow> (nat \<Rightarrow> string \<Rightarrow> string \<Rightarrow> string \<Rightarrow> cl_response res \<times> conn_end)
     \<Rightarrow> accept_event list \<Rightarrow> string \<Rightarrow> string \<Rightarrow> goerr option option \<times> (cl_response res \<times> conn_end) list" where
  "access_Run creds listen connect evs resourceName localAddr =
     (case creds of
        Inl e \<Rightarrow> (Some (Some (Wrapf [] ErrNoCertificate ('': '' @ err_text e))), [])
      | Inr (certPEM, keyPEM) \<Rightarrow>
          (case listen of
             Some e \<Rightarrow> (Some (Some (Wrapf (''impossible d'' @ [CHR 0x27] @ e_acute @ ''couter sur '' @ localAddr @ '': '') e [])), [])
           | None \<Rightarrow> accept_loop (\<lambda>n. connect n certPEM keyPEM resourceName) 0 evs))"

subsection \<open>Facts\<close>

lemma buildTLSConfig_Inr:
  "buildTLSConfig pe rp po cfg c k = Inr conf \<Longrightarrow>
     pe c k = None \<and> tl_min conf = 13 \<and> \<not> tl_insecure conf \<and> tl_certs conf = [(c, k)]
     \<and> tl_server conf = (case SplitHostPort (cf_gateway cfg) of Some (h, _) \<Rightarrow> h | None \<Rightarrow> cf_gateway cfg)
     \<and> (tl_roots conf = None \<longleftrightarrow> cf_tls_ca cfg = [])"
  by (auto simp: buildTLSConfig_def Let_def split: option.splits sum.splits if_splits)

lemma cl_WriteMessage_None:
  "cl_WriteMessage marshal w1 w2 msg = (None, sent) \<Longrightarrow>
     \<exists>payload. marshal msg = Inr payload \<and> length payload \<le> cl_MaxMessageSize
       \<and> sent = PutUint32 (length payload) @ payload"
  by (auto simp: cl_WriteMessage_def Let_def cl_MaxMessageSize_def split: sum.splits option.splits if_splits)

lemma Atoi_value_Some [simp]: "Atoi s = Some n \<Longrightarrow> Atoi_value s = n"
  by (simp add: Atoi_value_def)

text \<open>Verification is switched off only by its own flag in the configuration.\<close>

lemma tls_insecure_flag:
  "tl_insecure (ch_tls (oidc_NewClient rp po cfg)) \<Longrightarrow> cf_oidc_insecure cfg"
  "tl_insecure (ch_tls (credentials_NewClient rp po cfg)) \<Longrightarrow> cf_cp_insecure cfg"
  "tl_insecure (ch_tls (cpapi_NewClient rp po cfg)) \<Longrightarrow> cf_cp_insecure cfg"
  by (auto simp: http_client_defs Let_def split: sum.splits if_splits)

text \<open>A CA file that cannot be read or has no certificate costs the limit of a request too: with the client that takes
  over, a login or an enrolment may wait for ever.\<close>

lemma fallback_has_no_timeout:
  "ch_timeout (oidc_NewClient rp po cfg) = 0 \<longleftrightarrow> \<not> is_ok (buildOIDCTLSConfig rp po cfg)"
  "ch_timeout (credentials_NewClient rp po cfg) = 0 \<longleftrightarrow> \<not> is_ok (buildControlPlaneTLSConfig rp po cfg)"
  by (auto simp: oidc_NewClient_def credentials_NewClient_def cl_NewOIDCHTTPClient_def cl_NewControlPlaneHTTPClient_def
      newHTTPClientWithTLS_def DefaultClient_def split: sum.splits)

text \<open>An expired certificate is reported as a missing one.\<close>

lemma connect_expired_as_missing:
  assumes "resolve name = Inr r" and "cl_Resource_Validate r = None"
  shows "\<exists>e. connect_Run resolve (Inl ErrCertExpired) connect name = (Some e, [])
           \<and> errors_Is e ErrNoCertificate \<and> \<not> errors_Is e ErrCertExpired"
  using assms by (auto simp: connect_Run_def ErrCertExpired_def ErrNoCertificate_def)

text \<open>The relay of \<open>access\<close> keeps a tunnel whose gateway side has ended; \<open>RelayTraffic\<close> would not.\<close>

lemma relay_half_closed:
  "access_relay (Some e) None = None" "RelayTraffic (Some e) None first = Some e"
  by (simp_all add: access_relay_def RelayTraffic_def)

lemma SaveCACert_frame:
  "SaveCACert mk w ca fs = (r, fs') \<Longrightarrow> n \<noteq> clientCAFileName \<Longrightarrow> fs' n = fs n"
  by (auto simp: SaveCACert_def write_file_frame split: option.splits prod.splits if_splits)

subsection \<open>Properties\<close>

text \<open>C34: a tunnel is handed out only after the gateway at the configured address was verified under
  TLS 1.3 for its own name, was sent the client's certificate and one complete request, and
  answered \<open>allow\<close>; what the gateway sent after that answer is left for the relay.  Every error
  leaves no connection open.\<close>

theorem tunnel_only_on_allow:
  "case tunnel_Connect T dial now certPEM keyPEM resource of
     (Inl e, c) \<Rightarrow> (\<forall>sent rest. c \<noteq> ConnOpen sent rest)
   | (Inr resp, c) \<Rightarrow>
       cz_decision resp = ''allow'' \<and> te_pair_error T certPEM keyPEM = None
       \<and> (\<exists>conf peer w1 w2 rest.
            dial (cf_gateway (te_cfg T)) conf = Inr (peer, w1, w2)
          \<and> tl_min conf = 13 \<and> \<not> tl_insecure conf \<and> tl_certs conf = [(certPEM, keyPEM)]
          \<and> tl_server conf = (case SplitHostPort (cf_gateway (te_cfg T)) of Some (h, _) \<Rightarrow> h
                              | None \<Rightarrow> cf_gateway (te_cfg T))
          \<and> (let payload = te_render T (request_json (connect_request_of T now resource));
                 sent = PutUint32 (length payload) @ payload
             in c = ConnOpen sent rest
                \<and> cl_ReadMessage (decode_response T) (peer sent) = (Inr resp, rest)))"
proof (cases "tunnel_Connect T dial now certPEM keyPEM resource")
  case (Pair r c)
  show ?thesis
  proof (cases r)
    case (Inl e)
    with Pair show ?thesis
      by (auto simp: tunnel_Connect_def split: sum.splits prod.splits option.splits if_splits)
  next
    case (Inr resp)
    with Pair obtain conf peer w1 w2 sent rest where
      conf: "buildTLSConfig (te_pair_error T) (te_read_path T) (te_pem_ok T) (te_cfg T) certPEM keyPEM = Inr conf"
      and dial: "dial (cf_gateway (te_cfg T)) conf = Inr (peer, w1, w2)"
      and wr: "cl_WriteMessage (\<lambda>r. Inr (te_render T (request_json r))) w1 w2 (connect_request_of T now resource)
                    = (None, sent)"
      and rd: "cl_ReadMessage (decode_response T) (peer sent) = (Inr resp, rest)"
      and allow: "cz_decision resp = ''allow''" and c: "c = ConnOpen sent rest"
      by (auto simp: tunnel_Connect_def split: sum.splits prod.splits option.splits if_splits)
    from buildTLSConfig_Inr[OF conf] cl_WriteMessage_None[OF wr] dial rd allow c Pair Inr
    show ?thesis by (auto simp: Let_def)
  qed
qed

text \<open>What the gateway is asked for.  A \<open>host:port\<close> given by the user is sent as the resolver read
  it; for a logical name only the name is sent, whatever endpoint the local catalogue gave
  for it.\<close>

theorem connect_target_sent:
  assumes "catalog_Resolve parse_json o_r fs name = Inr ref" and "\<not> Contains name ''://''"
    and "cl_name ref = name"
  shows "ParseResource url_parse (formatResource ref) =
           (case SplitHostPort name of
              Some _ \<Rightarrow> \<lparr>ct_type = ''tcp'', ct_host = cl_host ref, ct_port = cl_port ref, ct_name = []\<rparr>
            | None \<Rightarrow> \<lparr>ct_type = [], ct_host = [], ct_port = 0, ct_name = name\<rparr>)"
proof -
  have "name \<noteq> []" using assms(1) by (auto simp: catalog_Resolve_def)
  then have f: "formatResource ref = name" using assms(3) by (simp add: formatResource_def)
  show ?thesis
  proof (cases "SplitHostPort name")
    case None
    then show ?thesis using assms(2) f by (simp add: ParseResource_def)
  next
    case (Some hp)
    then obtain h p n where "hp = (h, p)" "Atoi p = Some n" "ref = \<lparr>cl_type = ''tcp'', cl_host = h, cl_port = n, cl_name = name\<rparr>"
      using assms(1,2) \<open>name \<noteq> []\<close> by (auto simp: catalog_Resolve_def split: option.splits prod.splits)
    then show ?thesis using Some assms(2) f by (simp add: ParseResource_def)
  qed
qed

definition ex_catalog_parse :: "string \<Rightarrow> jval res" where
  "ex_catalog_parse _ = Inr (JObj [(''backend-ssh'', JObj [(''type'', JStr ''ssh''), (''host'', JStr ''10.0.20.10''),
                                                        (''port'', JNum ''22'')])])"

theorem connect_target_sent_witness:
  "catalog_Resolve ex_catalog_parse None [resourceCatalogFileName \<mapsto> ''json''] ''backend-ssh'' =
     Inr \<lparr>cl_type = ''ssh'', cl_host = ''10.0.20.10'', cl_port = 22, cl_name = ''backend-ssh''\<rparr>
   \<and> ParseResource (\<lambda>_. None) ''backend-ssh'' = \<lparr>ct_type = [], ct_host = [], ct_port = 0, ct_name = ''backend-ssh''\<rparr>"
proof -
  let ?ref = "\<lparr>cl_type = ''ssh'', cl_host = ''10.0.20.10'', cl_port = 22, cl_name = ''backend-ssh''\<rparr>"
  have r: "catalog_Resolve ex_catalog_parse None [resourceCatalogFileName \<mapsto> ''json''] ''backend-ssh'' = Inr ?ref"
    and n: "\<not> Contains ''backend-ssh'' ''://''" and s: "SplitHostPort ''backend-ssh'' = None"
    by code_simp+
  from connect_target_sent[OF r n, of "\<lambda>_. None"] r s show ?thesis
    by (simp add: formatResource_def)
qed

text \<open>A certificate request that succeeds stores a certificate that matches the key generated for
  it, beside this key, and changes no other file but the authority's certificate; the key is no
  part of what was sent.\<close>

theorem cert_request_sound:
  assumes "RequestMTLSCertFromCP T (Inr (csrPEM, keyPEM)) send mk w1 w2 w3 token fs = (None, fs')"
  shows "\<exists>certPEM status body. send (cert_request T token csrPEM) = HttpResponse status body \<and> is_2xx status
     \<and> te_pair_error T certPEM keyPEM = None
     \<and> store_LoadCertAndKey None None fs' = Inr (certPEM, keyPEM)
     \<and> (\<forall>n. fs' n \<noteq> fs n \<longrightarrow> n \<in> {clientCertFileName, clientKeyFileName, clientCAFileName})"
proof -
  from assms obtain status body fs1 and answer :: cert_answer where
    s: "send (cert_request T token csrPEM) = HttpResponse status body" "is_2xx status"
    and p: "te_pair_error T (ca_certificate answer) keyPEM = None"
    and w: "SaveCertAndKey mk w1 w2 (ca_certificate answer) keyPEM fs = (None, fs1)"
    and fs': "fs' = fs1 \<or> fs' = snd (SaveCACert mk w3 (ca_ca answer) fs1)"
    by (auto simp: RequestMTLSCertFromCP_def split: http_result.splits sum.splits prod.splits option.splits if_splits)
  have frame: "fs' n = fs1 n" if "n \<noteq> clientCAFileName" for n
    using fs' that SaveCACert_frame[of mk w3 "ca_ca answer" fs1] by (auto simp: prod_eq_iff split: if_splits)
  from SaveCertAndKey_ok[OF w] frame
  have "store_LoadCertAndKey None None fs' = Inr (ca_certificate answer, keyPEM)"
    "\<forall>n. fs' n \<noteq> fs n \<longrightarrow> n \<in> {clientCertFileName, clientKeyFileName, clientCAFileName}"
    by (auto simp: store_LoadCertAndKey_def read_file_def file_names split: if_splits)
  with s p show ?thesis by blast
qed

definition ex_tunnel_env :: tunnel_env where
  "ex_tunnel_env = \<lparr>te_cfg = ex_cl_config, te_pair_error = (\<lambda>c k. if c = ''CERT'' \<and> k = ''KEY'' then None else Some (Errorf ''tls'')),
     te_read_path = (\<lambda>_. Inr ''PEM''), te_pem_ok = (\<lambda>_. True), te_render = (\<lambda>_. ''json''),
     te_parse = (\<lambda>_. Inr (JObj [(''certificate_pem'', JStr ''CERT''), (''ca_cert_pem'', JStr ''CA'')])),
     te_url_parse = (\<lambda>_. None), te_timestamp = (\<lambda>_. [])\<rparr>"

theorem cert_request_sound_witness:
  "\<exists>fs'. RequestMTLSCertFromCP ex_tunnel_env (Inr (''CSR'', ''KEY'')) (\<lambda>_. HttpResponse 201 (Inr ''json'')) None WriteOK
            WriteOK WriteOK ''at'' Map.empty = (None, fs')
     \<and> (\<exists>c. store_LoadCertAndKey None None fs' = Inr (c, ''KEY''))"
proof -
  have "fst (RequestMTLSCertFromCP ex_tunnel_env (Inr (''CSR'', ''KEY'')) (\<lambda>_. HttpResponse 201 (Inr ''json'')) None
            WriteOK WriteOK WriteOK ''at'' Map.empty) = None" by code_simp
  then obtain fs' where "RequestMTLSCertFromCP ex_tunnel_env (Inr (''CSR'', ''KEY'')) (\<lambda>_. HttpResponse 201 (Inr ''json''))
      None WriteOK WriteOK WriteOK ''at'' Map.empty = (None, fs')" by (metis prod.collapse)
  with cert_request_sound[OF this] show ?thesis by blast
qed

end
