(* ===== verification/Lg_State.thy ===== *)
theory Lg_State
  imports Lg_World Cl_Usecases
begin

text \<open>
  The superseded client (\<open>ztna-cli_LEGACY/main.go\<close>), second part: its configuration, its state file, its HTTP
  clients, and the tokens of the identity provider.

  The record \<open>lg_env\<close> holds the libraries: JSON, PEM, X.509, keys, revocation lists and the network.  The \<open>k\<close>-th
  exchange on the network is \<open>le_send k\<close>, which also sees the TLS settings of the client that makes it.  A response body that
  cannot be read to its end is the text read before, because the code ignores that error.
\<close>

subsection \<open>Errors\<close>

text \<open>\<open>cliError\<close>, an error without an exit code, and a run-time panic.\<close>

datatype lg_error = Cli int string "goerr option" | Plain goerr | Panicked string

definition exitGeneric :: int where "exitGeneric = 1"
definition exitConfig :: int where "exitConfig = 2"
definition exitAuth :: int where "exitAuth = 3"
definition exitEnroll :: int where "exitEnroll = 4"
definition exitConnect :: int where "exitConnect = 5"
definition exitPolicyDenied :: int where "exitPolicyDenied = 6"
definition exitRevoked :: int where "exitRevoked = 7"
definition exitExpired :: int where "exitExpired = 8"
definition exitNetwork :: int where "exitNetwork = 9"

lemmas exit_codes = exitGeneric_def exitConfig_def exitAuth_def exitEnroll_def exitConnect_def exitPolicyDenied_def
  exitRevoked_def exitExpired_def exitNetwork_def

definition lg_fail :: "int \<Rightarrow> string \<Rightarrow> string \<Rightarrow> (lg_error, 'a) act" where
  "lg_fail code msg cause = act_fail (Cli code msg (Some (Errorf cause)))"

definition failing :: "int \<Rightarrow> string \<Rightarrow> (goerr, 'a) act \<Rightarrow> (lg_error, 'a) act" where
  "failing code msg m = act_wrap (\<lambda>e. Cli code msg (Some e)) m"

text \<open>A \<open>cliError\<close> as the cause of another error.\<close>

fun lg_cause :: "lg_error \<Rightarrow> goerr" where
  "lg_cause (Cli _ msg None) = Errorf msg"
| "lg_cause (Cli _ msg (Some e)) = Wrapf (msg @ '': '') e []"
| "lg_cause (Plain e) = e"
| "lg_cause (Panicked s) = Errorf s"

subsection \<open>Data\<close>

record lg_config =
  lc_version :: int
  lc_profile :: string
  lc_state_dir :: string
  lc_cp_url :: string
  lc_cp_ca :: string
  lc_cp_insecure :: bool
  lc_cp_timeout :: int
  lc_gw_addr :: string
  lc_gw_server_name :: string
  lc_gw_ca :: string
  lc_gw_insecure :: bool
  lc_gw_timeout :: int
  lc_idp_base :: string
  lc_idp_realm :: string
  lc_idp_token_url :: string
  lc_idp_client_id :: string
  lc_idp_client_secret :: string
  lc_idp_insecure :: bool
  lc_idp_timeout :: int
  lc_token_renew :: string
  lc_cert_renew :: string
  lc_auto_rotate :: bool
  lc_log_level :: string
  lc_log_format :: string
  lc_log_file :: string

record lg_token =
  lt_access :: string
  lt_refresh :: string
  lt_type :: string
  lt_expires :: time
  lt_username :: string
  lt_updated :: time

record lg_device =
  ld_key :: string
  ld_cert :: string
  ld_ca :: string
  ld_serial :: string
  ld_fingerprint :: string
  ld_expires :: time
  ld_updated :: time

record lg_state =
  ls_token :: "lg_token option"
  ls_device :: "lg_device option"

record lg_client =
  hc_min :: nat
  hc_insecure :: bool
  hc_roots :: "string option"
  hc_timeout :: duration

record lg_gw_tls =
  gt_min :: nat
  gt_cert :: "string \<times> string"
  gt_insecure :: bool
  gt_roots :: "string option"
  gt_server_name :: string

text \<open>\<open>le_gateway\<close>: the failure to connect, or what the handshake with these settings gives: a failure, or
  the outcome of the one write and what the peer answers to the bytes it received.  \<open>le_listen\<close> is the opening of a local
  port, \<open>le_probe\<close> the outcomes of the write and of the copy of a probe, \<open>le_bridge\<close> those of the two copies of a relay in the
  order they end.\<close>

record ('c, 's) lg_env =
  le_os :: lg_os
  le_parse :: "string \<Rightarrow> jval res"
  le_render :: "jval \<Rightarrow> string"
  le_config_decode :: "string \<Rightarrow> lg_config res"
  le_config_encode :: "lg_config \<Rightarrow> string res"
  le_state_decode :: "string \<Rightarrow> lg_state res"
  le_state_encode :: "lg_state \<Rightarrow> string res"
  le_time :: "string \<Rightarrow> time res"
  le_number :: "string \<Rightarrow> int"
  le_int :: "string \<Rightarrow> int option"
  le_status_text :: "int \<Rightarrow> string"
  le_url_error :: "string \<Rightarrow> goerr option"
  le_pool_ok :: "string \<Rightarrow> bool"
  le_pem_decode :: "string \<Rightarrow> (string \<times> string) option"
  le_pem_encode :: "string \<Rightarrow> string \<Rightarrow> string"
  le_parse_cert :: "string \<Rightarrow> 'c res"
  le_serial :: "'c \<Rightarrow> nat"
  le_not_after :: "'c \<Rightarrow> time"
  le_parse_ec :: "string \<Rightarrow> 's res"
  le_parse_pkcs8 :: "string \<Rightarrow> 's option res"
  le_ec_bytes :: "'s \<Rightarrow> string res"
  le_new_key :: "nat \<Rightarrow> 's res"
  le_csr :: "'s \<Rightarrow> string \<Rightarrow> string list \<Rightarrow> string res"
  le_parse_crl :: "string \<Rightarrow> (nat list \<times> time \<times> time) res"
  le_pair_error :: "string \<Rightarrow> string \<Rightarrow> goerr option"
  le_send :: "nat \<Rightarrow> lg_client \<Rightarrow> http_out \<Rightarrow> http_result"
  le_gateway :: "nat \<Rightarrow> string \<Rightarrow> goerr + (lg_gw_tls \<Rightarrow> goerr + (goerr option \<times> (string \<Rightarrow> string)))"
  le_listen :: "nat \<Rightarrow> string \<Rightarrow> goerr option"
  le_probe :: "nat \<Rightarrow> goerr option \<times> goerr option"
  le_bridge :: "nat \<Rightarrow> goerr option list"

subsection \<open>Configuration\<close>

definition defaultConfig :: "string \<Rightarrow> lg_config" where
  "defaultConfig stateDir = \<lparr>lc_version = 1, lc_profile = ''lab'', lc_state_dir = stateDir,
     lc_cp_url = ''https://10.10.20.30:8080'', lc_cp_ca = [], lc_cp_insecure = True, lc_cp_timeout = 10,
     lc_gw_addr = ''10.10.10.20:4433'', lc_gw_server_name = [], lc_gw_ca = [], lc_gw_insecure = True, lc_gw_timeout = 10,
     lc_idp_base = ''http://10.10.20.30:8081'', lc_idp_realm = ''ztna'', lc_idp_token_url = [],
     lc_idp_client_id = ''ztna-control-plane'', lc_idp_client_secret = [], lc_idp_insecure = True, lc_idp_timeout = 10,
     lc_token_renew = ''2m'', lc_cert_renew = ''24h'', lc_auto_rotate = True,
     lc_log_level = ''info'', lc_log_format = ''text'', lc_log_file = []\<rparr>"

definition deriveTokenURL :: "string \<Rightarrow> string \<Rightarrow> string" where
  "deriveTokenURL baseURL realm0 =
     (let base = TrimRightSlash baseURL; realm1 = TrimPrefix (TrimSpace realm0) ''/'';
          realm = (if realm1 = [] then ''ztna'' else realm1) in
      base @ ''/realms/'' @ realm @ ''/protocol/openid-connect/token'')"

definition loadConfig :: "('c, 's) lg_env \<Rightarrow> string \<Rightarrow> (lg_error, lg_config) act" where
  "loadConfig E path =
     act_bind (failing exitConfig ''expand config path'' (act_of (expandPath (le_os E) path))) (\<lambda>expanded.
     act_bind (failing exitConfig ''read config'' (lg_ReadFile (le_os E) expanded)) (\<lambda>data.
     act_bind (failing exitConfig ''parse config'' (act_of (le_config_decode E data))) (\<lambda>cfg0.
     let dir = (if lc_state_dir cfg0 = [] then path_Join [path_Dir expanded, []] else lc_state_dir cfg0) in
     act_bind (failing exitConfig ''expand state dir'' (act_of (expandPath (le_os E) dir))) (\<lambda>dir'.
       if lc_cp_url cfg0 = [] \<or> lc_gw_addr cfg0 = [] then
         lg_fail exitConfig ''invalid config'' ''cp.url and gw.addr are required''
       else act_ret (cfg0\<lparr>lc_state_dir := dir',
         lc_idp_token_url := (if lc_idp_token_url cfg0 = [] then deriveTokenURL (lc_idp_base cfg0) (lc_idp_realm cfg0)
                              else lc_idp_token_url cfg0),
         lc_idp_client_id := (if lc_idp_client_id cfg0 = [] then ''ztna-control-plane'' else lc_idp_client_id cfg0)\<rparr>)))))"

subsection \<open>The state file\<close>

definition statePath :: "lg_config \<Rightarrow> string" where
  "statePath cfg = path_Join [lc_state_dir cfg, ''state.json'']"

definition fill_paths :: "lg_config \<Rightarrow> lg_device \<Rightarrow> lg_device" where
  "fill_paths cfg d = d\<lparr>
     ld_key := (if ld_key d = [] then path_Join [lc_state_dir cfg, ''device.key''] else ld_key d),
     ld_cert := (if ld_cert d = [] then path_Join [lc_state_dir cfg, ''device.crt''] else ld_cert d),
     ld_ca := (if ld_ca d = [] then path_Join [lc_state_dir cfg, ''device-ca.crt''] else ld_ca d)\<rparr>"

definition loadState :: "('c, 's) lg_env \<Rightarrow> lg_config \<Rightarrow> (lg_error, lg_state) act" where
  "loadState E cfg =
     act_bind (failing exitConfig ''create state dir'' (lg_MkdirAll (le_os E) (lc_state_dir cfg))) (\<lambda>_.
     act_bind (act_catch (lg_ReadFile (le_os E) (statePath cfg))) (\<lambda>r.
       case r of
         Inl e \<Rightarrow> if errors_Is e ErrNotExist then act_ret \<lparr>ls_token = None, ls_device = None\<rparr>
                  else act_fail (Cli exitConfig ''read state'' (Some e))
       | Inr data \<Rightarrow>
           act_bind (failing exitConfig ''parse state'' (act_of (le_state_decode E data))) (\<lambda>st.
             act_ret (st\<lparr>ls_device := map_option (fill_paths cfg) (ls_device st)\<rparr>))))"

definition saveState :: "('c, 's) lg_env \<Rightarrow> lg_config \<Rightarrow> lg_state \<Rightarrow> (lg_error, unit) act" where
  "saveState E cfg st =
     act_bind (failing exitConfig ''create state dir'' (lg_MkdirAll (le_os E) (lc_state_dir cfg))) (\<lambda>_.
       failing exitConfig ''write state'' (writeJSONFile (le_os E) (le_state_encode E st) (statePath cfg)))"

subsection \<open>HTTP clients\<close>

definition certPoolFromFile :: "('c, 's) lg_env \<Rightarrow> string \<Rightarrow> (goerr, string) act" where
  "certPoolFromFile E path =
     act_bind (act_of (expandPath (le_os E) path)) (\<lambda>exp.
     act_bind (lg_ReadFile (le_os E) exp) (\<lambda>data.
       if le_pool_ok E data then act_ret data else act_fail (Errorf ''invalid PEM CA certificate'')))"

definition newHTTPClient :: "('c, 's) lg_env \<Rightarrow> bool \<Rightarrow> string \<Rightarrow> duration \<Rightarrow> (goerr, lg_client) act" where
  "newHTTPClient E insecure caPath timeout =
     (let conf = \<lparr>hc_min = 12, hc_insecure = insecure, hc_roots = None, hc_timeout = timeout\<rparr> in
      if \<not> insecure \<and> TrimSpace caPath \<noteq> []
      then act_bind (certPoolFromFile E caPath) (\<lambda>pool. act_ret (conf\<lparr>hc_roots := Some pool\<rparr>))
      else act_ret conf)"

definition cp_http_client :: "('c, 's) lg_env \<Rightarrow> lg_config \<Rightarrow> duration \<Rightarrow> (lg_error, lg_client) act" where
  "cp_http_client E cfg fallback =
     failing exitConfig ''build CP client''
       (newHTTPClient E (lc_cp_insecure cfg) (lc_cp_ca cfg) (timeoutDuration (lc_cp_timeout cfg) fallback))"

text \<open>\<open>http.NewRequest\<close> fails on a malformed address only; \<open>client.Do\<close> and the reading of the body.\<close>

definition lg_NewRequest :: "('c, 's) lg_env \<Rightarrow> string \<Rightarrow> string \<Rightarrow> (string \<times> string) list \<Rightarrow> string \<Rightarrow> (goerr, http_out) act" where
  "lg_NewRequest E mth url headers body =
     (case le_url_error E url of
        Some e \<Rightarrow> act_fail e
      | None \<Rightarrow> act_ret \<lparr>ho_method = mth, ho_url = url, ho_headers = headers, ho_body = body\<rparr>)"

definition lg_Do :: "('c, 's) lg_env \<Rightarrow> lg_client \<Rightarrow> http_out \<Rightarrow> (goerr, int \<times> string) act" where
  "lg_Do E client req =
     act_call (\<lambda>k. case le_send E k client req of
        NoResponse e \<Rightarrow> Inl e
      | HttpResponse status body \<Rightarrow> Inr (status, case body of Inl _ \<Rightarrow> [] | Inr t \<Rightarrow> t))"

definition decode_json :: "('c, 's) lg_env \<Rightarrow> (string \<Rightarrow> jval \<Rightarrow> 'r \<Rightarrow> 'r res) \<Rightarrow> 'r \<Rightarrow> string \<Rightarrow> 'r res" where
  "decode_json E put zero text =
     (case le_parse E text of Inl e \<Rightarrow> Inl e | Inr v \<Rightarrow> json_object put zero v)"

text \<open>A document stored into a \<open>map[string]any\<close>: the last member of a name counts.\<close>

definition decode_map :: "('c, 's) lg_env \<Rightarrow> string \<Rightarrow> (string \<rightharpoonup> jval) res" where
  "decode_map E text =
     (case le_parse E text of
        Inl e \<Rightarrow> Inl e
      | Inr (JObj kvs) \<Rightarrow> Inr (map_of (rev kvs))
      | Inr JNull \<Rightarrow> Inr Map.empty
      | Inr _ \<Rightarrow> Inl (Errorf ''json: cannot unmarshal into map''))"

definition decodeAPIError :: "('c, 's) lg_env \<Rightarrow> int \<Rightarrow> string \<Rightarrow> goerr" where
  "decodeAPIError E code body =
     (let member = (\<lambda>n. case decode_map E body of
            Inl _ \<Rightarrow> None
          | Inr m \<Rightarrow> (case m n of Some (JStr s) \<Rightarrow> if s = [] then None else Some s | _ \<Rightarrow> None));
          trim = TrimSpace body;
          msg = (case member ''error'' of Some s \<Rightarrow> s
                 | None \<Rightarrow> (case member ''message'' of Some s \<Rightarrow> s
                   | None \<Rightarrow> if trim = [] then le_status_text E code else trim)) in
      Errorf (''HTTP '' @ Itoa code @ '': '' @ msg))"

subsection \<open>Tokens\<close>

record lg_token_response =
  lr_access_token :: string
  lr_refresh_token :: string
  lr_token_type :: string
  lr_expires_in :: int
  lr_error :: string
  lr_error_description :: string

definition lg_token_zero :: lg_token_response where
  "lg_token_zero = \<lparr>lr_access_token = [], lr_refresh_token = [], lr_token_type = [], lr_expires_in = 0,
     lr_error = [], lr_error_description = []\<rparr>"

definition lg_token_put :: "string \<Rightarrow> jval \<Rightarrow> lg_token_response \<Rightarrow> lg_token_response res" where
  "lg_token_put k v r =
     (if EqualFold k ''access_token'' then bind_res (json_str v (lr_access_token r)) (\<lambda>x. r\<lparr>lr_access_token := x\<rparr>)
      else if EqualFold k ''refresh_token'' then bind_res (json_str v (lr_refresh_token r)) (\<lambda>x. r\<lparr>lr_refresh_token := x\<rparr>)
      else if EqualFold k ''token_type'' then bind_res (json_str v (lr_token_type r)) (\<lambda>x. r\<lparr>lr_token_type := x\<rparr>)
      else if EqualFold k ''expires_in'' then bind_res (json_int v (lr_expires_in r)) (\<lambda>x. r\<lparr>lr_expires_in := x\<rparr>)
      else if EqualFold k ''error'' then bind_res (json_str v (lr_error r)) (\<lambda>x. r\<lparr>lr_error := x\<rparr>)
      else if EqualFold k ''error_description'' then
        bind_res (json_str v (lr_error_description r)) (\<lambda>x. r\<lparr>lr_error_description := x\<rparr>)
      else Inr r)"

definition requestOIDCToken ::
    "('c, 's) lg_env \<Rightarrow> lg_config \<Rightarrow> (string \<times> string) list \<Rightarrow> (lg_error, lg_token_response) act" where
  "requestOIDCToken E cfg values =
     act_bind (failing exitAuth ''build IdP client''
       (newHTTPClient E (lc_idp_insecure cfg) [] (timeoutDuration (lc_idp_timeout cfg) (10 * Second)))) (\<lambda>client.
     act_bind (failing exitAuth ''build token request'' (lg_NewRequest E ''POST'' (lc_idp_token_url cfg)
         [(''Content-Type'', ''application/x-www-form-urlencoded'')] (form_encode values))) (\<lambda>req.
     act_bind (failing exitNetwork ''IdP token request failed'' (lg_Do E client req)) (\<lambda>(status, body).
     act_bind (failing exitAuth ''decode token response'' (act_of (decode_json E lg_token_put lg_token_zero body))) (\<lambda>token.
       if status \<noteq> 200 then
         lg_fail exitAuth ''OIDC login failed''
           (if lr_error_description token \<noteq> [] then lr_error_description token
            else if lr_error token \<noteq> [] then lr_error token else TrimSpace body)
       else if lr_access_token token = [] then act_fail (Cli exitAuth ''OIDC token missing access_token'' None)
       else act_ret token))))"

definition decodeBase64URL :: "string \<Rightarrow> string option" where
  "decodeBase64URL s =
     (let m = length s mod 4 in base64_URL_decode (if m \<noteq> 0 then s @ replicate (4 - m) (CHR ''='') else s))"

definition tokenExpiry :: "('c, 's) lg_env \<Rightarrow> string \<Rightarrow> time res" where
  "tokenExpiry E jwt =
     (let parts = Split1 (CHR ''.'') jwt in
      if length parts < 2 then Inl (Errorf ''invalid jwt format'')
      else (case decodeBase64URL (parts ! 1) of
          None \<Rightarrow> Inl (Errorf ''illegal base64 data'')
        | Some payload \<Rightarrow>
            (case decode_map E payload of
               Inl e \<Rightarrow> Inl e
             | Inr claims \<Rightarrow>
                 (case claims ''exp'' of
                    None \<Rightarrow> Inl (Errorf ''jwt exp claim not found'')
                  | Some (JNum t) \<Rightarrow> Inr (le_number E t * Second)
                  | Some _ \<Rightarrow> Inl (Errorf ''jwt exp claim not numeric'')))))"

definition buildTokenState :: "('c, 's) lg_env \<Rightarrow> lg_token_response \<Rightarrow> string \<Rightarrow> (lg_error, lg_token) act" where
  "buildTokenState E resp username =
     act_bind (if lr_expires_in resp > 0
        then act_bind (lg_Now (le_os E)) (\<lambda>now. act_ret (now + dur_seconds (lr_expires_in resp)))
        else failing exitAuth ''resolve token expiration'' (act_of (tokenExpiry E (lr_access_token resp)))) (\<lambda>expiresAt.
     act_bind (lg_Now (le_os E)) (\<lambda>now.
       act_ret \<lparr>lt_access = lr_access_token resp, lt_refresh = lr_refresh_token resp, lt_type = lr_token_type resp,
         lt_expires = expiresAt, lt_username = username, lt_updated = now\<rparr>))"

definition lg_secret :: "lg_config \<Rightarrow> (string \<times> string) list" where
  "lg_secret cfg = (if lc_idp_client_secret cfg = [] then [] else [(''client_secret'', lc_idp_client_secret cfg)])"

definition requestPasswordToken ::
    "('c, 's) lg_env \<Rightarrow> lg_config \<Rightarrow> string \<Rightarrow> string \<Rightarrow> (lg_error, lg_token) act" where
  "requestPasswordToken E cfg username password =
     act_bind (requestOIDCToken E cfg ([(''client_id'', lc_idp_client_id cfg)] @ lg_secret cfg
         @ [(''grant_type'', ''password''), (''password'', password), (''username'', username)])) (\<lambda>resp.
       buildTokenState E resp username)"

definition lg_refreshAccessToken ::
    "('c, 's) lg_env \<Rightarrow> lg_config \<Rightarrow> string \<Rightarrow> string \<Rightarrow> (lg_error, lg_token) act" where
  "lg_refreshAccessToken E cfg refreshToken username =
     act_bind (requestOIDCToken E cfg ([(''client_id'', lc_idp_client_id cfg)] @ lg_secret cfg
         @ [(''grant_type'', ''refresh_token''), (''refresh_token'', refreshToken)])) (\<lambda>resp.
       buildTokenState E (if lr_refresh_token resp = [] then resp\<lparr>lr_refresh_token := refreshToken\<rparr> else resp) username)"

text \<open>\<open>ensureAccessToken\<close> changes the state it is given; the changed state is part of the result.  After an error no
  caller looks at it.\<close>

definition ensureAccessToken ::
    "('c, 's) lg_env \<Rightarrow> lg_config \<Rightarrow> lg_state \<Rightarrow> (lg_error, string \<times> lg_state) act" where
  "ensureAccessToken E cfg st =
     (case ls_token st of
        None \<Rightarrow> lg_fail exitAuth ''no access token'' ''run: ztna login''
      | Some t0 \<Rightarrow>
          if lt_access t0 = [] then lg_fail exitAuth ''no access token'' ''run: ztna login''
          else
          act_bind (failing exitConfig ''invalid runtime.token_renew_before''
              (act_of (lg_parseDuration (lc_token_renew cfg) (2 * Minute)))) (\<lambda>renewBefore.
          let t = (if lt_expires t0 = zero_time
                   then (case tokenExpiry E (lt_access t0) of Inr x \<Rightarrow> t0\<lparr>lt_expires := x\<rparr> | Inl _ \<Rightarrow> t0) else t0);
              st1 = st\<lparr>ls_token := Some t\<rparr> in
          act_bind (lg_Now (le_os E)) (\<lambda>now.
            if time_until now (lt_expires t) > renewBefore then act_ret (lt_access t, st1)
            else if lt_refresh t = [] then
              lg_fail exitExpired ''access token expired'' ''refresh token not available; run: ztna login''
            else
              act_bind (act_wrap (\<lambda>e. Cli exitAuth ''refresh token failed'' (Some (lg_cause e)))
                  (lg_refreshAccessToken E cfg (lt_refresh t) (lt_username t))) (\<lambda>new.
              let st2 = st\<lparr>ls_token := Some new\<rparr> in
              act_bind (saveState E cfg st2) (\<lambda>_. act_ret (lt_access new, st2))))))"

end
