(* ===== verification/Lg_Device.thy ===== *)
theory Lg_Device
  imports Lg_State
begin

text \<open>
  The superseded client (\<open>ztna-cli_LEGACY/main.go\<close>), third part: the device's key and certificate, their renewal, and
  the check of the revocation list.
\<close>

subsection \<open>Who the user is\<close>

record lg_whoami =
  wh_sub :: string
  wh_username :: string
  wh_email :: string
  wh_groups :: "string list"

definition whoami_zero :: lg_whoami where
  "whoami_zero = \<lparr>wh_sub = [], wh_username = [], wh_email = [], wh_groups = []\<rparr>"

definition whoami_put :: "string \<Rightarrow> jval \<Rightarrow> lg_whoami \<Rightarrow> lg_whoami res" where
  "whoami_put k v r =
     (if EqualFold k ''sub'' then bind_res (json_str v (wh_sub r)) (\<lambda>x. r\<lparr>wh_sub := x\<rparr>)
      else if EqualFold k ''username'' then bind_res (json_str v (wh_username r)) (\<lambda>x. r\<lparr>wh_username := x\<rparr>)
      else if EqualFold k ''email'' then bind_res (json_str v (wh_email r)) (\<lambda>x. r\<lparr>wh_email := x\<rparr>)
      else if EqualFold k ''groups'' then
        bind_res (json_array (\<lambda>g. json_str g []) v) (\<lambda>x. r\<lparr>wh_groups := x\<rparr>)
      else Inr r)"

definition fetchWhoami :: "('c, 's) lg_env \<Rightarrow> lg_config \<Rightarrow> string \<Rightarrow> (lg_error, lg_whoami) act" where
  "fetchWhoami E cfg accessToken =
     act_bind (cp_http_client E cfg (10 * Second)) (\<lambda>cli.
     act_bind (failing exitNetwork ''build whoami request'' (lg_NewRequest E ''GET'' (lc_cp_url cfg @ ''/api/v1/whoami'')
         [(''Authorization'', ''Bearer '' @ accessToken)] [])) (\<lambda>req.
     act_bind (failing exitNetwork ''whoami request failed'' (lg_Do E cli req)) (\<lambda>(status, body).
       if status \<noteq> 200 then act_fail (Cli exitAuth ''whoami failed'' (Some (decodeAPIError E status body)))
       else
         act_bind (failing exitGeneric ''decode whoami response'' (act_of (decode_json E whoami_put whoami_zero body))) (\<lambda>s.
           act_ret (if wh_username s = [] then s\<lparr>wh_username := wh_sub s\<rparr> else s)))))"

subsection \<open>Key and certificate files\<close>

definition devicePaths :: "lg_config \<Rightarrow> lg_state \<Rightarrow> string \<times> string \<times> string" where
  "devicePaths cfg st =
     (let path = (\<lambda>field name. case ls_device st of
            None \<Rightarrow> path_Join [lc_state_dir cfg, name]
          | Some d \<Rightarrow> if field d = [] then path_Join [lc_state_dir cfg, name] else field d) in
      (path ld_key ''device.key'', path ld_cert ''device.crt'', path ld_ca ''device-ca.crt''))"

definition readSigner :: "('c, 's) lg_env \<Rightarrow> string \<Rightarrow> (goerr, 's) act" where
  "readSigner E path =
     act_bind (lg_ReadFile (le_os E) path) (\<lambda>data.
       case le_pem_decode E data of
         None \<Rightarrow> act_fail (Errorf ''invalid PEM private key'')
       | Some (typ, bytes) \<Rightarrow>
           if typ = ''EC PRIVATE KEY'' then act_of (le_parse_ec E bytes)
           else if typ = ''PRIVATE KEY'' then
             (case le_parse_pkcs8 E bytes of
                Inl e \<Rightarrow> act_fail e
              | Inr None \<Rightarrow> act_fail (Errorf ''unsupported private key type'')
              | Inr (Some s) \<Rightarrow> act_ret s)
           else act_fail (Errorf (''unsupported private key type: '' @ typ)))"

definition new_device_key :: "('c, 's) lg_env \<Rightarrow> string \<Rightarrow> (goerr, 's) act" where
  "new_device_key E path =
     act_bind (lg_MkdirAll (le_os E) (path_Dir path)) (\<lambda>_.
     act_bind (act_call (le_new_key E)) (\<lambda>key.
     act_bind (act_of (le_ec_bytes E key)) (\<lambda>der.
     act_bind (lg_writeFile (le_os E) path (le_pem_encode E ''EC PRIVATE KEY'' der)) (\<lambda>_. act_ret key))))"

definition ensureDeviceKey :: "('c, 's) lg_env \<Rightarrow> string \<Rightarrow> bool \<Rightarrow> (goerr, 's) act" where
  "ensureDeviceKey E path forceNew =
     (if forceNew then new_device_key E path
      else act_bind (act_catch (readSigner E path)) (\<lambda>r.
        case r of Inr signer \<Rightarrow> act_ret signer | Inl _ \<Rightarrow> new_device_key E path))"

definition buildCSRPEM :: "('c, 's) lg_env \<Rightarrow> 's \<Rightarrow> string \<Rightarrow> string list \<Rightarrow> string res" where
  "buildCSRPEM E key username groups =
     (case le_csr E key username groups of
        Inl e \<Rightarrow> Inl e | Inr der \<Rightarrow> Inr (le_pem_encode E ''CERTIFICATE REQUEST'' der))"

definition loadPEMCert :: "('c, 's) lg_env \<Rightarrow> string \<Rightarrow> (goerr, 'c) act" where
  "loadPEMCert E path =
     act_bind (lg_ReadFile (le_os E) path) (\<lambda>data.
       case le_pem_decode E data of
         None \<Rightarrow> act_fail (Errorf ''invalid PEM certificate'')
       | Some (_, bytes) \<Rightarrow> act_of (le_parse_cert E bytes))"

subsection \<open>Enrolment\<close>

record lg_enrolled =
  en_certificate :: string
  en_ca :: string
  en_serial :: string
  en_expires :: time
  en_fingerprint :: string

definition enrolled_zero :: lg_enrolled where
  "enrolled_zero = \<lparr>en_certificate = [], en_ca = [], en_serial = [], en_expires = zero_time, en_fingerprint = []\<rparr>"

definition enrolled_put :: "('c, 's) lg_env \<Rightarrow> string \<Rightarrow> jval \<Rightarrow> lg_enrolled \<Rightarrow> lg_enrolled res" where
  "enrolled_put E k v r =
     (if EqualFold k ''certificate_pem'' then bind_res (json_str v (en_certificate r)) (\<lambda>x. r\<lparr>en_certificate := x\<rparr>)
      else if EqualFold k ''ca_cert_pem'' then bind_res (json_str v (en_ca r)) (\<lambda>x. r\<lparr>en_ca := x\<rparr>)
      else if EqualFold k ''serial'' then bind_res (json_str v (en_serial r)) (\<lambda>x. r\<lparr>en_serial := x\<rparr>)
      else if EqualFold k ''expires_at'' then
        (case v of
           JStr s \<Rightarrow> bind_res (le_time E s) (\<lambda>x. r\<lparr>en_expires := x\<rparr>)
         | JNull \<Rightarrow> Inr r
         | _ \<Rightarrow> Inl (Errorf ''Time.UnmarshalJSON: input is not a JSON string''))
      else if EqualFold k ''fingerprint'' then bind_res (json_str v (en_fingerprint r)) (\<lambda>x. r\<lparr>en_fingerprint := x\<rparr>)
      else Inr r)"

definition enroll_body :: "('c, 's) lg_env \<Rightarrow> string \<Rightarrow> int \<Rightarrow> string" where
  "enroll_body E csrPEM ttl =
     le_render E (JObj ([(''csr_pem'', JStr csrPEM)] @ (if ttl > 0 then [(''ttl_seconds'', JNum (Itoa ttl))] else [])))"

text \<open>The files of a new certificate, and the state that names them.\<close>

definition store_device ::
    "('c, 's) lg_env \<Rightarrow> string \<times> string \<times> string \<Rightarrow> lg_enrolled \<Rightarrow> (lg_error, lg_device) act" where
  "store_device E paths answer =
     (let (keyPath, certPath, caPath) = paths in
      act_bind (failing exitEnroll ''write device certificate'' (lg_writeFile (le_os E) certPath (en_certificate answer))) (\<lambda>_.
      act_bind (if en_ca answer = [] then act_ret ()
                else failing exitEnroll ''write device CA'' (lg_writeFile (le_os E) caPath (en_ca answer))) (\<lambda>_.
      act_bind (if en_expires answer \<noteq> zero_time then act_ret (en_expires answer)
                else act_bind (act_catch (loadPEMCert E certPath)) (\<lambda>r.
                  act_ret (case r of Inr cert \<Rightarrow> le_not_after E cert | Inl _ \<Rightarrow> en_expires answer))) (\<lambda>expiresAt.
      act_bind (lg_Now (le_os E)) (\<lambda>now.
        act_ret \<lparr>ld_key = keyPath, ld_cert = certPath, ld_ca = caPath, ld_serial = en_serial answer,
          ld_fingerprint = en_fingerprint answer, ld_expires = expiresAt, ld_updated = now\<rparr>)))))"

definition enrollDeviceCert ::
    "('c, 's) lg_env \<Rightarrow> lg_config \<Rightarrow> lg_state \<Rightarrow> string \<Rightarrow> string list \<Rightarrow> int \<Rightarrow> bool
     \<Rightarrow> (lg_error, lg_device \<times> lg_whoami \<times> lg_state) act" where
  "enrollDeviceCert E cfg st token groupOverride ttl forceNewKey =
     act_bind (fetchWhoami E cfg token) (\<lambda>subject.
     let groups = (if groupOverride \<noteq> [] then groupOverride else wh_groups subject);
         paths = devicePaths cfg st in
     act_bind (failing exitEnroll ''prepare device key'' (ensureDeviceKey E (fst paths) forceNewKey)) (\<lambda>signer.
     act_bind (failing exitEnroll ''build CSR'' (act_of (buildCSRPEM E signer (wh_username subject) groups))) (\<lambda>csrPEM.
     act_bind (cp_http_client E cfg (12 * Second)) (\<lambda>cli.
     act_bind (failing exitNetwork ''build enroll request''
         (lg_NewRequest E ''POST'' (lc_cp_url cfg @ ''/api/v1/credentials/device-cert'')
            [(''Authorization'', ''Bearer '' @ token), (''Content-Type'', ''application/json'')] (enroll_body E csrPEM ttl))) (\<lambda>req.
     act_bind (failing exitNetwork ''device cert enrollment failed'' (lg_Do E cli req)) (\<lambda>(status, body).
       if status \<noteq> 200 then act_fail (Cli exitEnroll ''device cert enrollment denied'' (Some (decodeAPIError E status body)))
       else
         act_bind (failing exitEnroll ''decode enrollment response''
             (act_of (decode_json E (enrolled_put E) enrolled_zero body))) (\<lambda>answer.
         if en_certificate answer = [] then act_fail (Cli exitEnroll ''certificate_pem missing'' None)
         else
           act_bind (store_device E paths answer) (\<lambda>dev.
             act_ret (dev, subject,
               \<lparr>ls_token = map_option (\<lambda>t. if lt_username t = [] then t\<lparr>lt_username := wh_username subject\<rparr> else t) (ls_token st),
                ls_device = Some dev\<rparr>)))))))))"

subsection \<open>Renewal\<close>

text \<open>Every renewal goes through here.\<close>

definition re_enroll :: "('c, 's) lg_env \<Rightarrow> lg_config \<Rightarrow> lg_state \<Rightarrow> bool \<Rightarrow> (lg_error, lg_state) act" where
  "re_enroll E cfg st forceNewKey =
     act_bind (ensureAccessToken E cfg st) (\<lambda>(token, st1).
     act_bind (enrollDeviceCert E cfg st1 token [] 0 forceNewKey) (\<lambda>(_, _, st2). act_ret st2))"

text \<open>\<open>big.Int.Text(16)\<close>, which has no upper-case letters.\<close>

fun hex_text :: "nat \<Rightarrow> string" where
  "hex_text n = (if n < 16 then [hex_digit n] else hex_text (n div 16) @ [hex_digit (n mod 16)])"

declare hex_text.simps [simp del]

definition ensureDeviceCert ::
    "('c, 's) lg_env \<Rightarrow> lg_config \<Rightarrow> lg_state \<Rightarrow> bool \<Rightarrow> (lg_error, lg_state) act" where
  "ensureDeviceCert E cfg st autoRotate =
     (let (keyPath, certPath, caPath) = devicePaths cfg st;
          dev0 = (case ls_device st of Some d \<Rightarrow> d
                  | None \<Rightarrow> \<lparr>ld_key = keyPath, ld_cert = certPath, ld_ca = caPath, ld_serial = [], ld_fingerprint = [],
                             ld_expires = zero_time, ld_updated = zero_time\<rparr>);
          st0 = st\<lparr>ls_device := Some dev0\<rparr> in
      act_bind (act_catch (loadPEMCert E certPath)) (\<lambda>r.
        case r of
          Inl _ \<Rightarrow> if autoRotate then re_enroll E cfg st0 False
                   else lg_fail exitExpired ''device certificate missing'' ''run: ztna enroll''
        | Inr cert \<Rightarrow>
            (let st1 = st\<lparr>ls_device := Some (dev0\<lparr>
                   ld_serial := (if ld_serial dev0 = [] then hex_text (le_serial E cert) else ld_serial dev0),
                   ld_expires := (if ld_expires dev0 = zero_time then le_not_after E cert else ld_expires dev0)\<rparr>)\<rparr> in
             act_bind (act_catch (lg_Stat (le_os E) keyPath)) (\<lambda>k.
               case k of
                 Inl _ \<Rightarrow> if autoRotate then re_enroll E cfg st1 True
                          else lg_fail exitExpired ''device private key missing'' ''run: ztna enroll --force-new-key''
               | Inr _ \<Rightarrow>
                   act_bind (failing exitConfig ''invalid runtime.cert_renew_before''
                       (act_of (lg_parseDuration (lc_cert_renew cfg) (24 * Hour)))) (\<lambda>renewBefore.
                   act_bind (lg_Now (le_os E)) (\<lambda>now.
                     let until = time_until now (le_not_after E cert) in
                     if until \<le> 0 then
                       (if \<not> autoRotate then lg_fail exitExpired ''device certificate expired'' ''run: ztna enroll''
                        else re_enroll E cfg st1 False)
                     else if until \<le> renewBefore \<and> autoRotate then re_enroll E cfg st1 False
                     else act_ret st1))))))"

subsection \<open>Revocation\<close>

record lg_revocation =
  rs_serial :: string
  rs_revoked :: bool
  rs_this_update :: time
  rs_next_update :: time

text \<open>The request is built without a look at the error: a malformed address gives a nil request, which \<open>Do\<close>
  dereferences.\<close>

definition checkRevocationStatus ::
    "('c, 's) lg_env \<Rightarrow> lg_config \<Rightarrow> lg_state \<Rightarrow> (lg_error, bool \<times> lg_revocation) act" where
  "checkRevocationStatus E cfg st =
     (case ls_device st of
        None \<Rightarrow> lg_fail exitRevoked ''device state missing'' ''run: ztna enroll''
      | Some d \<Rightarrow>
          act_bind (failing exitRevoked ''read local certificate'' (loadPEMCert E (ld_cert d))) (\<lambda>cert.
          act_bind (cp_http_client E cfg (10 * Second)) (\<lambda>cli.
          act_bind (act_wrap (\<lambda>_. Panicked ''nil pointer dereference'')
              (lg_NewRequest E ''GET'' (lc_cp_url cfg @ ''/pki/device-ca/crl'') [] [])) (\<lambda>req.
          act_bind (failing exitNetwork ''fetch CRL'' (lg_Do E cli req)) (\<lambda>(status, body).
            if status \<noteq> 200 then act_fail (Cli exitNetwork ''fetch CRL failed'' (Some (decodeAPIError E status body)))
            else
              act_bind (failing exitGeneric ''parse CRL'' (act_of (le_parse_crl E body))) (\<lambda>(serials, this, next).
                let revoked = list_ex (\<lambda>n. n = le_serial E cert) serials in
                act_ret (revoked, \<lparr>rs_serial = hex_text (le_serial E cert), rs_revoked = revoked,
                  rs_this_update = this, rs_next_update = next\<rparr>)))))))"

end
