(* ===== verification/Lg_Commands.thy ===== *)
theory Lg_Commands
  imports Lg_Device
begin

text \<open>
  The superseded client (\<open>ztna-cli_LEGACY/main.go\<close>), last part: the connection to the gateway, and the
  commands.
\<close>

subsection \<open>The connection to the gateway\<close>

record lg_connect_request =
  cq_resource_type :: string
  cq_resource_match :: string
  cq_requested :: string

record lg_connect_response =
  cs_allowed :: bool
  cs_decision_id :: string
  cs_reason :: string

definition lg_request_json :: "lg_connect_request \<Rightarrow> jval" where
  "lg_request_json r =
     JObj [(''resource_type'', JStr (cq_resource_type r)), (''resource_match'', JStr (cq_resource_match r)),
           (''action'', JStr (cq_requested r))]"

definition lg_response_zero :: lg_connect_response where
  "lg_response_zero = \<lparr>cs_allowed = False, cs_decision_id = [], cs_reason = []\<rparr>"

definition lg_response_put :: "string \<Rightarrow> jval \<Rightarrow> lg_connect_response \<Rightarrow> lg_connect_response res" where
  "lg_response_put k v r =
     (if EqualFold k ''allowed'' then
        (case v of JBool b \<Rightarrow> Inr (r\<lparr>cs_allowed := b\<rparr>) | JNull \<Rightarrow> Inr r
         | _ \<Rightarrow> Inl (Errorf ''json: cannot unmarshal into bool''))
      else if EqualFold k ''decision_id'' then bind_res (json_str v (cs_decision_id r)) (\<lambda>x. r\<lparr>cs_decision_id := x\<rparr>)
      else if EqualFold k ''reason'' then bind_res (json_str v (cs_reason r)) (\<lambda>x. r\<lparr>cs_reason := x\<rparr>)
      else Inr r)"

text \<open>\<open>json.Encoder\<close> ends its document with a line end; \<open>ReadBytes\<close> gives the bytes up to the first line end, and
  fails where there is none.\<close>

abbreviation newline :: char where "newline \<equiv> char_of (10 :: nat)"

definition ReadLine :: "string \<Rightarrow> (string \<times> string) res" where
  "ReadLine input =
     (case first_index newline input of
        None \<Rightarrow> Inl (Errorf ''EOF'')
      | Some i \<Rightarrow> Inr (take (Suc i) input, drop (Suc i) input))"

definition LoadX509KeyPair :: "('c, 's) lg_env \<Rightarrow> string \<Rightarrow> string \<Rightarrow> (goerr, string \<times> string) act" where
  "LoadX509KeyPair E certPath keyPath =
     act_bind (lg_ReadFile (le_os E) certPath) (\<lambda>certPEM.
     act_bind (lg_ReadFile (le_os E) keyPath) (\<lambda>keyPEM.
       case le_pair_error E certPEM keyPEM of Some e \<Rightarrow> act_fail e | None \<Rightarrow> act_ret (certPEM, keyPEM)))"

definition gw_tls_conf :: "('c, 's) lg_env \<Rightarrow> lg_config \<Rightarrow> string \<times> string \<Rightarrow> (lg_error, lg_gw_tls) act" where
  "gw_tls_conf E cfg pair =
     (let conf = \<lparr>gt_min = 13, gt_cert = pair, gt_insecure = lc_gw_insecure cfg, gt_roots = None,
                  gt_server_name = lc_gw_server_name cfg\<rparr> in
      if \<not> lc_gw_insecure cfg \<and> lc_gw_ca cfg \<noteq> []
      then act_bind (failing exitConfig ''load gateway CA cert'' (certPoolFromFile E (lc_gw_ca cfg))) (\<lambda>pool.
        act_ret (conf\<lparr>gt_roots := Some pool\<rparr>))
      else act_ret conf)"

text \<open>\<open>tls.Client\<close> has no host name of its own: without a server name the handshake is refused unless the
  verification is off.\<close>

definition handshake ::
    "lg_gw_tls \<Rightarrow> (lg_gw_tls \<Rightarrow> goerr + (goerr option \<times> (string \<Rightarrow> string))) \<Rightarrow> goerr + (goerr option \<times> (string \<Rightarrow> string))" where
  "handshake conf peer =
     (if gt_server_name conf = [] \<and> \<not> gt_insecure conf
      then Inl (Errorf ''tls: either ServerName or InsecureSkipVerify must be specified in the tls.Config'')
      else peer conf)"

text \<open>The result: the answer, the bytes sent, and the bytes of the stream received behind the answer.\<close>

definition openAuthorizedGWConn ::
    "('c, 's) lg_env \<Rightarrow> lg_config \<Rightarrow> lg_state \<Rightarrow> lg_connect_request
     \<Rightarrow> (lg_error, lg_connect_response \<times> string \<times> string) act" where
  "openAuthorizedGWConn E cfg st req =
     (case ls_device st of
        None \<Rightarrow> lg_fail exitConnect ''device identity missing'' ''run: ztna enroll''
      | Some d \<Rightarrow>
          act_bind (failing exitConnect ''load device keypair'' (LoadX509KeyPair E (ld_cert d) (ld_key d))) (\<lambda>pair.
          act_bind (gw_tls_conf E cfg pair) (\<lambda>conf.
          act_bind (failing exitNetwork ''dial gateway'' (act_call (\<lambda>k. le_gateway E k (lc_gw_addr cfg)))) (\<lambda>peer.
          act_bind (failing exitConnect ''gateway TLS handshake failed'' (act_of (handshake conf peer))) (\<lambda>(write, answers).
            (let sent = le_render E (lg_request_json req) @ [newline] in
             case write of
               Some e \<Rightarrow> act_fail (Cli exitConnect ''send connect request'' (Some e))
             | None \<Rightarrow>
                 act_bind (failing exitConnect ''read connect response'' (act_of (ReadLine (answers sent)))) (\<lambda>(line, rest).
                 act_bind (failing exitConnect ''decode connect response''
                     (act_of (decode_json E lg_response_put lg_response_zero line))) (\<lambda>resp.
                   if \<not> cs_allowed resp
                   then act_fail (Cli exitPolicyDenied ''gateway denied access'' (Some (Errorf (cs_reason resp))))
                   else act_ret (resp, sent, rest)))))))))"

subsection \<open>Relaying\<close>

text \<open>Each accepted connection makes an attempt of its own, whose failure is only logged; an accept error ends the
  service when the context has ended and is skipped otherwise.  The second part of the result lists the attempts.
  \<open>None\<close>: the service still waits.\<close>

fun forward_loop ::
    "('e, 'a) act \<Rightarrow> accept_event list \<Rightarrow> lg_world \<Rightarrow> (unit option \<times> ('e + 'a) list) \<times> lg_world" where
  "forward_loop attempt [] w = ((None, []), w)"
| "forward_loop attempt (AcceptOK # evs) w =
     (let (r, w1) = attempt w; ((end, rs), w2) = forward_loop attempt evs w1 in ((end, r # rs), w2))"
| "forward_loop attempt (AcceptErr e ended # evs) w =
     (if ended then ((Some (), []), w) else forward_loop attempt evs w)"

definition runPortForward ::
    "('c, 's) lg_env \<Rightarrow> lg_config \<Rightarrow> lg_state \<Rightarrow> lg_connect_request \<Rightarrow> string \<Rightarrow> int \<Rightarrow> accept_event list
     \<Rightarrow> (lg_error, unit option \<times> (lg_error + lg_connect_response \<times> string \<times> string) list) act" where
  "runPortForward E cfg st req listenHost localPort evs =
     act_bind (failing exitConnect ''listen local port''
         (act_call (\<lambda>k. case le_listen E k (listenHost @ '':'' @ Itoa localPort) of Some e \<Rightarrow> Inl e | None \<Rightarrow> Inr ()))) (\<lambda>_.
       (\<lambda>w. let (r, w') = forward_loop (openAuthorizedGWConn E cfg st req) evs w in (Inr r, w')))"

definition http_probe_text :: "string \<Rightarrow> string \<Rightarrow> string" where
  "http_probe_text resourceMatch path =
     (let host0 = TrimPrefix resourceMatch ''http:'';
          host = (case first_index (CHR '':'') host0 of Some (Suc i) \<Rightarrow> take (Suc i) host0 | _ \<Rightarrow> host0);
          p = (if HasPrefix path ''/'' then path else CHR ''/'' # path);
          crlf = [char_of (13 :: nat), newline] in
      ''GET '' @ p @ '' HTTP/1.1'' @ crlf @ ''Host: '' @ host @ crlf @ ''Connection: close'' @ crlf @ crlf)"

definition ErrDeadlineExceeded :: goerr where "ErrDeadlineExceeded = Errorf ''i/o timeout''"
definition NetErrClosed :: goerr where "NetErrClosed = Errorf ''use of closed network connection''"

definition runHTTPProbe :: "('c, 's) lg_env \<Rightarrow> (lg_error, unit) act" where
  "runHTTPProbe E =
     act_bind (act_call (\<lambda>k. Inr (le_probe E k))) (\<lambda>(write, copy).
       case write of
         Some e \<Rightarrow> act_fail (Cli exitConnect ''send HTTP probe'' (Some e))
       | None \<Rightarrow>
           (case copy of
              Some e \<Rightarrow> if errors_Is e ErrDeadlineExceeded then act_ret ()
                        else act_fail (Cli exitConnect ''read HTTP response'' (Some e))
            | None \<Rightarrow> act_ret ()))"

definition bridgeStdio :: "('c, 's) lg_env \<Rightarrow> (lg_error, unit) act" where
  "bridgeStdio E =
     act_bind (act_call (\<lambda>k. Inr (le_bridge E k))) (\<lambda>errs.
       case find (\<lambda>e. \<not> errors_Is e NetErrClosed) (List.map_filter id errs) of
         Some e \<Rightarrow> act_fail (Cli exitConnect ''stream relay failed'' (Some e))
       | None \<Rightarrow> act_ret ())"

subsection \<open>Arguments\<close>

definition resourceTypeFromMatch :: "string \<Rightarrow> string res" where
  "resourceTypeFromMatch resource =
     (if HasPrefix resource ''http:'' then Inr ''http''
      else if HasPrefix resource ''ssh:'' then Inr ''ssh''
      else Inl (Errorf ''resource must start with http: or ssh:''))"

definition needsValue :: "string \<Rightarrow> bool" where
  "needsValue name \<longleftrightarrow> name \<in> {''--config'', ''--action'', ''--local-port'', ''--listen-host'', ''--http-path''}"

text \<open>Whether an argument takes the next one as its value.\<close>

definition takes_next :: "string \<Rightarrow> bool" where
  "takes_next arg \<longleftrightarrow> HasPrefix arg ''--'' \<and> Cut arg ''='' = None \<and> needsValue arg"

fun split_args :: "string \<Rightarrow> string list \<Rightarrow> (string \<times> string list) res" where
  "split_args resource [] = Inr (resource, [])"
| "split_args resource (arg # rest) =
     (if takes_next arg then
        (case rest of
           [] \<Rightarrow> Inl (Errorf (''flag '' @ arg @ '' requires a value''))
         | v # rest' \<Rightarrow>
             (case split_args resource rest' of Inl e \<Rightarrow> Inl e | Inr (r, filtered) \<Rightarrow> Inr (r, arg # v # filtered)))
      else if HasPrefix arg ''-'' then
        (case split_args resource rest of Inl e \<Rightarrow> Inl e | Inr (r, filtered) \<Rightarrow> Inr (r, arg # filtered))
      else if resource = [] then split_args arg rest
      else (case split_args resource rest of Inl e \<Rightarrow> Inl e | Inr (r, filtered) \<Rightarrow> Inr (r, arg # filtered)))"

definition splitConnectArgs :: "string list \<Rightarrow> (string \<times> string list) res" where
  "splitConnectArgs args = split_args [] args"

subsection \<open>Commands\<close>

definition lg_log_level :: "lg_config \<Rightarrow> bool \<Rightarrow> string" where
  "lg_log_level cfg verbose =
     (if verbose then ''debug''
      else let l = ToLower (lc_log_level cfg) in if l \<in> {''debug'', ''warn'', ''error''} then l else ''info'')"

text \<open>\<open>newLogger\<close>: the level and whether the lines are JSON.  The contents of the log file are not kept.\<close>

definition newLogger :: "('c, 's) lg_env \<Rightarrow> lg_config \<Rightarrow> bool \<Rightarrow> (goerr, string \<times> bool) act" where
  "newLogger E cfg verbose =
     act_bind (if lc_log_file cfg = [] then act_ret ()
       else act_bind (act_of (expandPath (le_os E) (lc_log_file cfg))) (\<lambda>path.
            act_bind (lg_MkdirAll (le_os E) (path_Dir path)) (\<lambda>_.
              act_call (\<lambda>k. case os_open (le_os E) k of Some e \<Rightarrow> Inl e | None \<Rightarrow> Inr ())))) (\<lambda>_.
       act_ret (lg_log_level cfg verbose, EqualFold (lc_log_format cfg) ''json''))"

definition default_config_path :: "('c, 's) lg_env \<Rightarrow> string" where
  "default_config_path E =
     path_Join [(case os_home (le_os E) of Inr h \<Rightarrow> h | Inl _ \<Rightarrow> []), ''.ztna'', ''config.json'']"

text \<open>What every command but \<open>init\<close> starts with, once its flags are parsed.\<close>

definition lg_setup ::
    "('c, 's) lg_env \<Rightarrow> (string \<times> string) list \<Rightarrow> (lg_error, lg_config \<times> lg_state) act" where
  "lg_setup E vals =
     act_bind (loadConfig E (flag_str vals ''config'' (default_config_path E))) (\<lambda>cfg.
     act_bind (failing exitConfig ''configure logger'' (newLogger E cfg (flag_bool vals ''verbose'' False))) (\<lambda>_.
     act_bind (loadState E cfg) (\<lambda>st. act_ret (cfg, st))))"

definition parse_flags ::
    "('c, 's) lg_env \<Rightarrow> string \<Rightarrow> (string \<times> flag_kind) list \<Rightarrow> string list
     \<Rightarrow> (lg_error, (string \<times> string) list \<times> string list) act" where
  "parse_flags E cmd kinds args =
     failing exitConfig (''parse '' @ cmd @ '' flags'') (act_of (flag_parse (le_int E) kinds args))"

text \<open>\<open>init\<close>.  The configuration is built from the flags; the authority of the devices is fetched when asked
  for, and a failure to do so is a warning.\<close>

definition init_flags :: "(string \<times> flag_kind) list" where
  "init_flags = map (\<lambda>n. (n, FlagString)) [''config'', ''state-dir'', ''profile'', ''cp-url'', ''cp-ca'', ''gw-addr'', ''gw-ca'',
       ''gw-server-name'', ''idp-base'', ''idp-realm'', ''idp-token-url'', ''idp-client-id'', ''idp-client-secret'',
       ''token-renew-before'', ''cert-renew-before'', ''log-level'', ''log-format'', ''log-file'']
     @ map (\<lambda>n. (n, FlagBool)) [''cp-insecure'', ''gw-insecure'', ''idp-insecure'', ''auto-rotate-cert'', ''fetch-device-ca'']"

definition init_config :: "(string \<times> string) list \<Rightarrow> string \<Rightarrow> lg_config" where
  "init_config vals stateDir =
     (let str = flag_str vals; bool = flag_bool vals; d = defaultConfig stateDir in
      d\<lparr>lc_profile := str ''profile'' ''lab'',
        lc_cp_url := TrimRightSlash (str ''cp-url'' (lc_cp_url d)),
        lc_cp_ca := str ''cp-ca'' [],
        lc_cp_insecure := bool ''cp-insecure'' True,
        lc_gw_addr := str ''gw-addr'' (lc_gw_addr d),
        lc_gw_ca := str ''gw-ca'' [],
        lc_gw_insecure := bool ''gw-insecure'' True,
        lc_gw_server_name := str ''gw-server-name'' [],
        lc_idp_base := TrimRightSlash (str ''idp-base'' (lc_idp_base d)),
        lc_idp_realm := str ''idp-realm'' ''ztna'',
        lc_idp_client_id := str ''idp-client-id'' (lc_idp_client_id d),
        lc_idp_client_secret := str ''idp-client-secret'' [],
        lc_idp_insecure := bool ''idp-insecure'' True,
        lc_auto_rotate := bool ''auto-rotate-cert'' True,
        lc_token_renew := str ''token-renew-before'' ''2m'',
        lc_cert_renew := str ''cert-renew-before'' ''24h'',
        lc_log_level := ToLower (str ''log-level'' ''info''),
        lc_log_format := ToLower (str ''log-format'' ''text''),
        lc_log_file := str ''log-file'' [],
        lc_idp_token_url := (if str ''idp-token-url'' [] = [] then lc_idp_token_url d else str ''idp-token-url'' [])\<rparr>)"

definition duration_ok :: "string \<Rightarrow> (goerr, unit) act" where
  "duration_ok s = (case ParseDuration s of None \<Rightarrow> act_fail (Errorf ''time: invalid duration'') | Some _ \<Rightarrow> act_ret ())"

definition fetch_device_ca :: "('c, 's) lg_env \<Rightarrow> lg_config \<Rightarrow> string \<Rightarrow> (lg_error, unit) act" where
  "fetch_device_ca E cfg stateDir =
     act_bind (cp_http_client E cfg (10 * Second)) (\<lambda>cli.
     act_bind (act_catch (act_bind (lg_NewRequest E ''GET'' (lc_cp_url cfg @ ''/pki/device-ca/cert'') [] []) (lg_Do E cli))) (\<lambda>r.
       case r of
         Inl _ \<Rightarrow> act_ret ()
       | Inr (status, body) \<Rightarrow>
           if status = 200
           then act_bind (act_catch (lg_writeFile (le_os E) (path_Join [stateDir, ''device-ca.crt'']) body)) (\<lambda>_. act_ret ())
           else act_ret ()))"

definition runInit :: "('c, 's) lg_env \<Rightarrow> string list \<Rightarrow> (lg_error, unit) act" where
  "runInit E args =
     act_bind (failing exitConfig ''resolve home directory'' (act_of (os_home (le_os E)))) (\<lambda>home.
     let defaultState = path_Join [home, ''.ztna''] in
     act_bind (parse_flags E ''init'' init_flags args) (\<lambda>(vals, _).
     act_bind (failing exitConfig ''expand state dir''
         (act_of (expandPath (le_os E) (flag_str vals ''state-dir'' defaultState)))) (\<lambda>stateDir.
     act_bind (failing exitConfig ''expand config path''
         (act_of (expandPath (le_os E) (flag_str vals ''config'' (path_Join [defaultState, ''config.json'']))))) (\<lambda>configPath.
     act_bind (failing exitConfig ''create state dir'' (lg_MkdirAll (le_os E) stateDir)) (\<lambda>_.
     act_bind (failing exitConfig ''create config parent dir'' (lg_MkdirAll (le_os E) (path_Dir configPath))) (\<lambda>_.
     let cfg = init_config vals stateDir in
     act_bind (failing exitConfig ''invalid token-renew-before'' (duration_ok (lc_token_renew cfg))) (\<lambda>_.
     act_bind (failing exitConfig ''invalid cert-renew-before'' (duration_ok (lc_cert_renew cfg))) (\<lambda>_.
     act_bind (failing exitConfig ''write config'' (writeJSONFile (le_os E) (le_config_encode E cfg) configPath)) (\<lambda>_.
       if flag_bool vals ''fetch-device-ca'' False then fetch_device_ca E cfg stateDir else act_ret ())))))))))"

definition common_flags :: "(string \<times> flag_kind) list" where
  "common_flags = [(''config'', FlagString), (''verbose'', FlagBool)]"

definition login_user :: "('c, 's) lg_env \<Rightarrow> string \<Rightarrow> lg_state \<Rightarrow> string" where
  "login_user E username st =
     (let user = TrimSpace username; env = os_getenv (le_os E) ''ZTNA_USER'' in
      if user \<noteq> [] then user
      else if env \<noteq> [] then env
      else (case ls_token st of Some t \<Rightarrow> lt_username t | None \<Rightarrow> []))"

definition login_pass :: "('c, 's) lg_env \<Rightarrow> (string \<times> string) list \<Rightarrow> (lg_error, string) act" where
  "login_pass E vals =
     act_bind (if flag_bool vals ''password-stdin'' False
        then failing exitAuth ''read password from stdin'' (act_of (map_sum (\<lambda>e. e) TrimSpace (os_stdin (le_os E))))
        else act_ret (flag_str vals ''password'' [])) (\<lambda>pass.
     let pass' = (if pass = [] then os_getenv (le_os E) ''ZTNA_PASS'' else pass) in
       if pass' = [] then lg_fail exitAuth ''missing password'' ''provide --password, --password-stdin or ZTNA_PASS''
       else act_ret pass')"

definition runLogin :: "('c, 's) lg_env \<Rightarrow> string list \<Rightarrow> (lg_error, lg_token) act" where
  "runLogin E args =
     act_bind (parse_flags E ''login''
       (common_flags @ [(''username'', FlagString), (''password'', FlagString), (''password-stdin'', FlagBool)]) args) (\<lambda>(vals, _).
     act_bind (lg_setup E vals) (\<lambda>(cfg, st).
     let user = login_user E (flag_str vals ''username'' []) st in
       if user = [] then lg_fail exitAuth ''missing username'' ''provide --username or ZTNA_USER''
       else
         act_bind (login_pass E vals) (\<lambda>pass.
         act_bind (requestPasswordToken E cfg user pass) (\<lambda>tok.
         act_bind (saveState E cfg (st\<lparr>ls_token := Some tok\<rparr>)) (\<lambda>_. act_ret tok)))))"

definition runEnroll :: "('c, 's) lg_env \<Rightarrow> string list \<Rightarrow> (lg_error, lg_device \<times> lg_whoami) act" where
  "runEnroll E args =
     act_bind (parse_flags E ''enroll''
       (common_flags @ [(''ttl-seconds'', FlagInt), (''force-new-key'', FlagBool), (''groups'', FlagString)]) args) (\<lambda>(vals, _).
     act_bind (lg_setup E vals) (\<lambda>(cfg, st).
     act_bind (ensureAccessToken E cfg st) (\<lambda>(token, st1).
     let ttl = flag_int (le_int E) vals ''ttl-seconds'' 0 in
     act_bind (enrollDeviceCert E cfg st1 token (parseCSV (flag_str vals ''groups'' [])) (if ttl > 0 then ttl else 0)
         (flag_bool vals ''force-new-key'' False)) (\<lambda>(device, subject, st2).
     act_bind (saveState E cfg st2) (\<lambda>_. act_ret (device, subject))))))"

text \<open>The failure to save the name is not looked at.\<close>

definition runWhoami :: "('c, 's) lg_env \<Rightarrow> string list \<Rightarrow> (lg_error, lg_whoami) act" where
  "runWhoami E args =
     act_bind (parse_flags E ''whoami'' common_flags args) (\<lambda>(vals, _).
     act_bind (lg_setup E vals) (\<lambda>(cfg, st).
     act_bind (ensureAccessToken E cfg st) (\<lambda>(token, st1).
     act_bind (fetchWhoami E cfg token) (\<lambda>subject.
       case ls_token st1 of
         Some t \<Rightarrow>
           if lt_username t = []
           then act_bind (act_catch (saveState E cfg (st1\<lparr>ls_token := Some (t\<lparr>lt_username := wh_username subject\<rparr>)\<rparr>)))
                  (\<lambda>_. act_ret subject)
           else act_ret subject
       | None \<Rightarrow> act_ret subject))))"

subsection \<open>Connect\<close>

text \<open>The certificate, the saved state, and the revocation check, which lets every failure of its own pass.\<close>

definition connect_prepare ::
    "('c, 's) lg_env \<Rightarrow> lg_config \<Rightarrow> lg_state \<Rightarrow> bool \<Rightarrow> (lg_error, lg_state) act" where
  "connect_prepare E cfg st autoRotate =
     act_bind (ensureDeviceCert E cfg st autoRotate) (\<lambda>st1.
     act_bind (saveState E cfg st1) (\<lambda>_.
     act_bind (act_catch (checkRevocationStatus E cfg st1)) (\<lambda>r.
       case r of
         Inl (Panicked s) \<Rightarrow> act_fail (Panicked s)
       | Inl _ \<Rightarrow> act_ret st1
       | Inr (revoked, _) \<Rightarrow>
           if revoked then act_fail (Cli exitRevoked ''device certificate revoked'' None) else act_ret st1)))"

definition lg_tunnel ::
    "('c, 's) lg_env \<Rightarrow> lg_config \<Rightarrow> lg_state \<Rightarrow> bool \<Rightarrow> lg_connect_request
     \<Rightarrow> (lg_error, lg_connect_response \<times> string \<times> string) act" where
  "lg_tunnel E cfg st autoRotate req =
     act_bind (connect_prepare E cfg st autoRotate) (\<lambda>st1. openAuthorizedGWConn E cfg st1 req)"

definition connect_flags :: "(string \<times> flag_kind) list" where
  "connect_flags = common_flags @ [(''action'', FlagString), (''local-port'', FlagInt), (''listen-host'', FlagString),
     (''http-probe'', FlagBool), (''http-path'', FlagString), (''no-auto-rotate'', FlagBool)]"

definition connect_resource :: "string \<Rightarrow> string list \<Rightarrow> (lg_error, string \<times> string) act" where
  "connect_resource resourceArg0 left =
     (let resourceArg = (if resourceArg0 = [] \<and> left \<noteq> [] then hd left else resourceArg0) in
      if resourceArg = [] then lg_fail exitConnect ''missing resource'' ''usage: ztna connect <resource>''
      else if length left > 1 then act_fail (Cli exitConnect ''unexpected extra arguments''
        (Some (Errorf (concat (hd (tl left) # map (\<lambda>a. CHR '' '' # a) (tl (tl left)))))))
      else act_bind (failing exitConnect ''invalid resource'' (act_of (resourceTypeFromMatch resourceArg))) (\<lambda>typ.
        act_ret (resourceArg, typ)))"

text \<open>The result: whether the port forwarding has ended (\<open>None\<close> when it still waits).\<close>

definition lg_runConnect ::
    "('c, 's) lg_env \<Rightarrow> accept_event list \<Rightarrow> string list \<Rightarrow> (lg_error, unit option) act" where
  "lg_runConnect E evs args =
     act_bind (failing exitConnect ''parse connect args'' (act_of (splitConnectArgs args))) (\<lambda>(resourceArg0, parsedArgs).
     act_bind (parse_flags E ''connect'' connect_flags parsedArgs) (\<lambda>(vals, left).
     act_bind (connect_resource resourceArg0 left) (\<lambda>(resourceMatch, resourceType).
     act_bind (lg_setup E vals) (\<lambda>(cfg, st).
     let autoRotate = (lc_auto_rotate cfg \<and> \<not> flag_bool vals ''no-auto-rotate'' False);
         req = \<lparr>cq_resource_type = resourceType, cq_resource_match = resourceMatch,
                cq_requested = flag_str vals ''action'' ''connect''\<rparr>;
         port = flag_int (le_int E) vals ''local-port'' 0 in
     if port > 0 then
       act_bind (connect_prepare E cfg st autoRotate) (\<lambda>st1.
       act_bind (runPortForward E cfg st1 req (flag_str vals ''listen-host'' ''127.0.0.1'') port evs) (\<lambda>(ended, _). act_ret ended))
     else
       act_bind (lg_tunnel E cfg st autoRotate req) (\<lambda>_.
       act_bind (if flag_bool vals ''http-probe'' False then runHTTPProbe E else bridgeStdio E) (\<lambda>_. act_ret (Some ())))))))"

subsection \<open>Status\<close>

text \<open>\<open>Duration.Round(time.Second)\<close>: halves are rounded away from zero.\<close>

definition round_second :: "duration \<Rightarrow> duration" where
  "round_second d =
     (let r = (\<bar>d\<bar> + 500000000) div Second * Second in max (- (2 ^ 63)) (min (2 ^ 63 - 1) (if d < 0 then - r else r)))"

record lg_item_status =
  it_present :: bool
  it_name :: string
  it_expires_in :: duration
  it_rotate :: bool

record lg_status =
  su_profile :: string
  su_config :: string
  su_state_dir :: string
  su_token :: lg_item_status
  su_device :: lg_item_status
  su_cp_health :: string
  su_gw :: string

definition item_missing :: lg_item_status where
  "item_missing = \<lparr>it_present = False, it_name = [], it_expires_in = 0, it_rotate = False\<rparr>"

definition item_status :: "('c, 's) lg_env \<Rightarrow> string \<Rightarrow> time \<Rightarrow> duration \<Rightarrow> (lg_error, lg_item_status) act" where
  "item_status E name expires before =
     act_bind (lg_Now (le_os E)) (\<lambda>now1.
     act_bind (lg_Now (le_os E)) (\<lambda>now2.
       act_ret \<lparr>it_present = True, it_name = name, it_expires_in = round_second (time_until now1 expires),
         it_rotate = (time_until now2 expires \<le> before)\<rparr>))"

definition cp_health :: "('c, 's) lg_env \<Rightarrow> lg_config \<Rightarrow> (lg_error, string) act" where
  "cp_health E cfg =
     act_bind (act_catch (newHTTPClient E (lc_cp_insecure cfg) (lc_cp_ca cfg) (4 * Second))) (\<lambda>c.
       case c of
         Inl e \<Rightarrow> act_ret (''client_error: '' @ err_text e)
       | Inr cli \<Rightarrow>
           act_bind (act_catch (act_bind (lg_NewRequest E ''GET'' (lc_cp_url cfg @ ''/healthz'') [] []) (lg_Do E cli))) (\<lambda>r.
             act_ret (case r of Inl e \<Rightarrow> ''down: '' @ err_text e | Inr (status, _) \<Rightarrow> ''http_'' @ Itoa status)))"

definition runStatus :: "('c, 's) lg_env \<Rightarrow> string list \<Rightarrow> (lg_error, lg_status) act" where
  "runStatus E args =
     act_bind (parse_flags E ''status'' (common_flags @ [(''json'', FlagBool)]) args) (\<lambda>(vals, _).
     act_bind (lg_setup E vals) (\<lambda>(cfg, st).
     let or_zero = (\<lambda>r. case r of Inr d \<Rightarrow> d | Inl _ \<Rightarrow> 0) in
     act_bind (case ls_token st of None \<Rightarrow> act_ret item_missing
       | Some t \<Rightarrow> item_status E (lt_username t) (lt_expires t) (or_zero (lg_parseDuration (lc_token_renew cfg) (2 * Minute)))) (\<lambda>tok.
     act_bind (case ls_device st of None \<Rightarrow> act_ret item_missing
       | Some d \<Rightarrow> item_status E (ld_serial d) (ld_expires d) (or_zero (lg_parseDuration (lc_cert_renew cfg) (24 * Hour)))) (\<lambda>dev.
     act_bind (cp_health E cfg) (\<lambda>health.
     act_bind (act_catch (act_call (\<lambda>k. le_gateway E k (lc_gw_addr cfg)))) (\<lambda>dial.
       act_ret \<lparr>su_profile = lc_profile cfg, su_config = flag_str vals ''config'' (default_config_path E),
         su_state_dir = lc_state_dir cfg, su_token = tok, su_device = dev, su_cp_health = health,
         su_gw = (case dial of Inl e \<Rightarrow> ''down: '' @ err_text e | Inr _ \<Rightarrow> ''up'')\<rparr>))))))"

definition runRevokeStatus :: "('c, 's) lg_env \<Rightarrow> string list \<Rightarrow> (lg_error, lg_revocation) act" where
  "runRevokeStatus E args =
     act_bind (parse_flags E ''revoke-status'' common_flags args) (\<lambda>(vals, _).
     act_bind (lg_setup E vals) (\<lambda>(cfg, st).
     act_bind (checkRevocationStatus E cfg st) (\<lambda>(revoked, details).
       if revoked then act_fail (Cli exitRevoked ''certificate revoked'' None) else act_ret details)))"

subsection \<open>The program\<close>

text \<open>The exit code.  A panic of the runtime exits with 2.\<close>

definition exit_code :: "lg_error + 'a \<Rightarrow> int" where
  "exit_code r =
     (case r of
        Inr _ \<Rightarrow> 0
      | Inl (Cli code _ _) \<Rightarrow> code
      | Inl (Plain _) \<Rightarrow> exitGeneric
      | Inl (Panicked _) \<Rightarrow> 2)"

definition exits :: "(lg_error, 'a) act \<Rightarrow> lg_world \<Rightarrow> int \<times> lg_world" where
  "exits m w = (let (r, w') = m w in (exit_code r, w'))"

definition lg_main :: "('c, 's) lg_env \<Rightarrow> accept_event list \<Rightarrow> string list \<Rightarrow> lg_world \<Rightarrow> int \<times> lg_world" where
  "lg_main E evs argv w =
     (case argv of
        [] \<Rightarrow> (exitGeneric, w)
      | cmd # args \<Rightarrow>
          if cmd = ''init'' then exits (runInit E args) w
          else if cmd = ''login'' then exits (runLogin E args) w
          else if cmd = ''enroll'' then exits (runEnroll E args) w
          else if cmd = ''connect'' then exits (lg_runConnect E evs args) w
          else if cmd = ''whoami'' then exits (runWhoami E args) w
          else if cmd = ''status'' then exits (runStatus E args) w
          else if cmd = ''revoke-status'' then exits (runRevokeStatus E args) w
          else if cmd \<in> {''help'', ''-h'', ''--help''} then (0, w)
          else (exitGeneric, w))"

end
