(* ===== verification/Lg_Relay.thy ===== *)
theory Lg_Relay
  imports Lg_Commands
begin

text \<open>
  The relays of the legacy client (\<open>proxyBothWays\<close>, \<open>closeWrite\<close>): two goroutines copy between the local connection and
  the one to the gateway, and each tells the peer of its destination that no more will come, where the destination's type
  has a \<open>CloseWrite\<close>.  The connection to the gateway is a \<open>bufferedConn\<close>: it embeds the interface \<open>net.Conn\<close>, whose
  methods do not include \<open>CloseWrite\<close>.
\<close>

datatype conn_kind = TCPConn | TLSConn | BufferedConn

fun has_CloseWrite :: "conn_kind \<Rightarrow> bool" where
  "has_CloseWrite BufferedConn = False"
| "has_CloseWrite _ = True"

text \<open>What one end of a relay has been sent, and whether it was told that nothing follows.\<close>

record relay_peer =
  rp_kind :: conn_kind
  rp_sent :: string
  rp_half_closed :: bool

definition closeWrite :: "relay_peer \<Rightarrow> relay_peer" where
  "closeWrite p = (if has_CloseWrite (rp_kind p) then p\<lparr>rp_half_closed := True\<rparr> else p)"

text \<open>What the two copies meet: bytes, or the end of a source (its end of file, or an error of the copy).\<close>

datatype copy_event = FromA string | FromB string | EndA | EndB

record relay_pair =
  rl_a :: relay_peer
  rl_b :: relay_peer
  rl_a_done :: bool
  rl_b_done :: bool

fun copy_step :: "copy_event \<Rightarrow> relay_pair \<Rightarrow> relay_pair" where
  "copy_step (FromA bs) r =
     (if rl_a_done r then r else r\<lparr>rl_b := (rl_b r)\<lparr>rp_sent := rp_sent (rl_b r) @ bs\<rparr>\<rparr>)"
| "copy_step (FromB bs) r =
     (if rl_b_done r then r else r\<lparr>rl_a := (rl_a r)\<lparr>rp_sent := rp_sent (rl_a r) @ bs\<rparr>\<rparr>)"
| "copy_step EndA r = (if rl_a_done r then r else r\<lparr>rl_b := closeWrite (rl_b r), rl_a_done := True\<rparr>)"
| "copy_step EndB r = (if rl_b_done r then r else r\<lparr>rl_a := closeWrite (rl_a r), rl_b_done := True\<rparr>)"

definition new_pair :: "conn_kind \<Rightarrow> conn_kind \<Rightarrow> relay_pair" where
  "new_pair a b =
     \<lparr>rl_a = \<lparr>rp_kind = a, rp_sent = [], rp_half_closed = False\<rparr>,
      rl_b = \<lparr>rp_kind = b, rp_sent = [], rp_half_closed = False\<rparr>, rl_a_done = False, rl_b_done = False\<rparr>"

text \<open>The call returns after both copies; the flag says whether it has.\<close>

definition proxyBothWays :: "conn_kind \<Rightarrow> conn_kind \<Rightarrow> copy_event list \<Rightarrow> relay_pair \<times> bool" where
  "proxyBothWays a b evs = (let r = fold copy_step evs (new_pair a b) in (r, rl_a_done r \<and> rl_b_done r))"

text \<open>The bytes that a source gave before its end.\<close>

fun given_by_a :: "copy_event list \<Rightarrow> string" where
  "given_by_a [] = []"
| "given_by_a (FromA bs # es) = bs @ given_by_a es"
| "given_by_a (EndA # es) = []"
| "given_by_a (_ # es) = given_by_a es"

lemma copy_step_kinds: "rp_kind (rl_a (copy_step e r)) = rp_kind (rl_a r) \<and> rp_kind (rl_b (copy_step e r)) = rp_kind (rl_b r)"
  by (cases e) (auto simp: closeWrite_def)

lemma copy_steps_a:
  "rp_sent (rl_b (fold copy_step evs r)) = rp_sent (rl_b r) @ (if rl_a_done r then [] else given_by_a evs)
   \<and> rl_a_done (fold copy_step evs r) = (rl_a_done r \<or> EndA \<in> set evs)"
proof (induction evs arbitrary: r)
  case (Cons e evs)
  show ?case by (cases e) (auto simp: Cons.IH closeWrite_def)
qed simp

lemma copy_steps_b_done: "rl_b_done (fold copy_step evs r) = (rl_b_done r \<or> EndB \<in> set evs)"
proof (induction evs arbitrary: r)
  case (Cons e evs)
  show ?case by (cases e) (auto simp: Cons.IH closeWrite_def)
qed simp

text \<open>The relay passes on what the local side gives before its end, in order and unchanged, and returns exactly when both
  sides have ended.\<close>

lemma relay_copies:
  "rp_sent (rl_b (fst (proxyBothWays a b evs))) = given_by_a evs"
  "snd (proxyBothWays a b evs) \<longleftrightarrow> EndA \<in> set evs \<and> EndB \<in> set evs"
  by (simp_all add: proxyBothWays_def Let_def new_pair_def copy_steps_a copy_steps_b_done)

text \<open>The gateway is never told that the local side has ended, so a service that waits for the end of its input waits on.\<close>

lemma half_close_lost: "\<not> rp_half_closed (rl_b (fst (proxyBothWays a BufferedConn evs)))"
proof -
  have "\<not> rp_half_closed (rl_b (fold copy_step evs r))"
    if "rp_kind (rl_b r) = BufferedConn" "\<not> rp_half_closed (rl_b r)" for r
    using that
  proof (induction evs arbitrary: r)
    case (Cons e evs)
    have "rp_kind (rl_b (copy_step e r)) = BufferedConn" "\<not> rp_half_closed (rl_b (copy_step e r))"
      using Cons.prems copy_step_kinds[of e r] by (cases e; auto simp: closeWrite_def)+
    then show ?case using Cons.IH by simp
  qed simp
  then show ?thesis by (simp add: proxyBothWays_def Let_def new_pair_def)
qed

text \<open>With a plain connection there it would be told.\<close>

lemma half_close_kept: "EndA \<in> set evs \<Longrightarrow> rp_half_closed (rl_b (fst (proxyBothWays a TLSConn evs)))"
proof -
  assume "EndA \<in> set evs"
  moreover have "rp_half_closed (rl_b (fold copy_step evs r))"
    if "rp_kind (rl_b r) = TLSConn" "EndA \<in> set evs \<and> \<not> rl_a_done r \<or> rp_half_closed (rl_b r)" for r
    using that
  proof (induction evs arbitrary: r)
    case (Cons e evs)
    have "rp_kind (rl_b (copy_step e r)) = TLSConn" using Cons.prems(1) copy_step_kinds[of e r] by simp
    moreover have "EndA \<in> set evs \<and> \<not> rl_a_done (copy_step e r) \<or> rp_half_closed (rl_b (copy_step e r))"
      using Cons.prems by (cases e) (auto simp: closeWrite_def)
    ultimately show ?case using Cons.IH by simp
  qed simp
  ultimately show ?thesis by (simp add: proxyBothWays_def Let_def new_pair_def)
qed

end
