(* ===== verification/Step_Systems.thy ===== *)
theory Step_Systems
  imports Prelude
begin

text \<open>
  What the transition systems of the development share: the store under its mutating calls, the API under its requests, the
  session manager and the gateway under their critical sections, and the control plane and the gateway together.  A
  locale names what one has to show of the steps, and its lemmas say what then holds of every run.
\<close>

subsection \<open>Invariants\<close>

locale step_system =
  fixes step :: "'s \<Rightarrow> 's \<Rightarrow> bool" and inv :: "'s \<Rightarrow> bool"
  assumes keeps: "step s s' \<Longrightarrow> inv s \<Longrightarrow> inv s'"
begin

lemma steps_keep: "step\<^sup>*\<^sup>* s s' \<Longrightarrow> inv s \<Longrightarrow> inv s'"
  by (induction rule: rtranclp_induct) (auto intro: keeps)

end

locale started_system = step_system +
  fixes start :: 's
  assumes starts: "inv start"
begin

lemma reached_inv: "step\<^sup>*\<^sup>* start s \<Longrightarrow> inv s"
  by (rule steps_keep[OF _ starts])

end

subsection \<open>Simulations\<close>

text \<open>A call reports what it did as a list of events, and a run the events of all its calls in their order.\<close>

inductive traced :: "('s \<Rightarrow> 'e list \<Rightarrow> 's \<Rightarrow> bool) \<Rightarrow> 's \<Rightarrow> 'e list \<Rightarrow> 's \<Rightarrow> bool" for call where
  traced_refl: "traced call s [] s"
| traced_call: "traced call s es s1 \<Longrightarrow> call s1 es' s2 \<Longrightarrow> traced call s (es @ es') s2"

text \<open>What the abstraction shows of a state is what the events make of it.\<close>

locale simulation =
  fixes call :: "'s \<Rightarrow> 'e list \<Rightarrow> 's \<Rightarrow> bool" and inv :: "'s \<Rightarrow> bool" and abs :: "'s \<Rightarrow> 'a" and effect :: "'e \<Rightarrow> 'a \<Rightarrow> 'a"
  assumes call_keeps: "call s es s' \<Longrightarrow> inv s \<Longrightarrow> inv s'"
    and simulates: "call s es s' \<Longrightarrow> inv s \<Longrightarrow> abs s' = fold effect es (abs s)"
begin

lemma traced_keeps: "traced call s es s' \<Longrightarrow> inv s \<Longrightarrow> inv s'"
  by (induction rule: traced.induct) (auto intro: call_keeps)

lemma traced_abs: "traced call s es s' \<Longrightarrow> inv s \<Longrightarrow> abs s' = fold effect es (abs s)"
  by (induction rule: traced.induct) (auto simp: simulates traced_keeps)

end

subsection \<open>Observations that only grow\<close>

locale growing =
  fixes step :: "'s \<Rightarrow> 's \<Rightarrow> bool" and seen :: "'s \<Rightarrow> 'a set"
  assumes grows: "step s s' \<Longrightarrow> seen s \<subseteq> seen s'"
begin

lemma steps_grow: "step\<^sup>*\<^sup>* s s' \<Longrightarrow> seen s \<subseteq> seen s'"
  by (induction rule: rtranclp_induct) (auto dest: grows)

end

text \<open>What was seen once is an invariant.\<close>

sublocale growing \<subseteq> kept: step_system step "\<lambda>s. x \<in> seen s" for x
  by unfold_locales (use grows in blast)

locale append_only =
  fixes step :: "'s \<Rightarrow> 's \<Rightarrow> bool" and log :: "'s \<Rightarrow> 'a list"
  assumes appends: "step s s' \<Longrightarrow> \<exists>new. log s' = log s @ new"
begin

lemma steps_append: "step\<^sup>*\<^sup>* s s' \<Longrightarrow> \<exists>new. log s' = log s @ new"
  by (induction rule: rtranclp_induct) (auto dest: appends)

end

sublocale append_only \<subseteq> growing step "\<lambda>s. set (log s)"
  by unfold_locales (use appends in fastforce)

end
