(* ===== verification/Gw_Sessions.thy ===== *)
theory Gw_Sessions
  imports Go_Http Step_Systems
begin

text \<open>
  The session manager of the gateway (\<open>gateway/internal/infra/session/manager.go\<close>):
  the table of connections being relayed, the limit per subject, and the ways a
  session ends: its handler unregisters it, an administrator kills it, its
  certificate is revoked, or its time to live has passed.

  A \<open>*Session\<close> is shared between the table and the connection handler, and
  \<open>EndReason\<close> is written to it after it left the table: \<open>m_left\<close> holds the
  sessions that left the table, as their holders still see them.  A
  \<open>context.CancelFunc\<close> is the number of its context; \<open>m_cancelled\<close> lists the
  contexts whose function was called, in order.
\<close>

record gw_session =
  gs_id :: string
  gs_sub :: string
  gs_username :: string
  gs_type :: string
  gs_name :: string
  gs_host :: string
  gs_port :: int
  gs_started :: time
  gs_source_ip :: string
  gs_decision :: string
  gs_ttl :: int
  gs_expires :: time
  gs_cancel :: "nat option"
  gs_bytes_in :: int
  gs_bytes_out :: int
  gs_end_reason :: string
  gs_cert_serial :: string

record session_manager =
  m_sessions :: "(string \<times> gw_session) list"
  m_max :: int
  m_left :: "gw_session list"
  m_cancelled :: "nat list"

definition NewManager :: session_manager where
  "NewManager = \<lparr>m_sessions = [], m_max = 10, m_left = [], m_cancelled = []\<rparr>"

definition NewManagerWithLimits :: "int \<Rightarrow> session_manager" where
  "NewManagerWithLimits mx = (if mx > 0 then NewManager\<lparr>m_max := mx\<rparr> else NewManager)"

text \<open>\<open>generateUUID\<close> on the 16 bytes read from \<open>crypto/rand\<close>.\<close>

definition generateUUID :: "8 word list \<Rightarrow> string" where
  "generateUUID b0 =
     (let b1 = b0[6 := or (and (b0 ! 6) 0x0F) 0x40];
          b = b1[8 := or (and (b1 ! 8) 0x3F) 0x80];
          sl = (\<lambda>i j. hex_bytes (take (j - i) (drop i b)))
      in sl 0 4 @ ''-'' @ sl 4 6 @ ''-'' @ sl 6 8 @ ''-'' @ sl 8 10 @ ''-'' @ sl 10 16)"

text \<open>The loops over the table that count, collect or delete.\<close>

fun count_sub :: "string \<Rightarrow> (string \<times> gw_session) list \<Rightarrow> int" where
  "count_sub sub [] = 0"
| "count_sub sub ((_, existing) # xs) =
     (if gs_sub existing = sub then 1 else 0) + count_sub sub xs"

definition Register ::
    "time \<Rightarrow> 8 word list \<Rightarrow> gw_session \<Rightarrow> session_manager \<Rightarrow> string res \<times> session_manager" where
  "Register now bs s m =
     (if m_max m > 0 \<and> count_sub (gs_sub s) (m_sessions m) \<ge> m_max m
      then (Inl (Errorf (''limite de sessions atteinte pour '' @ gs_sub s)), m)
      else
        (let sessionID = generateUUID bs;
             s1 = s\<lparr>gs_id := sessionID, gs_started := now\<rparr>;
             s2 = (if gs_ttl s1 > 0
                   then s1\<lparr>gs_expires := gs_started s1 + dur_seconds (gs_ttl s1)\<rparr> else s1)
         in (Inr sessionID, m\<lparr>m_sessions := al_put sessionID s2 (m_sessions m)\<rparr>)))"

definition leave :: "string \<Rightarrow> gw_session \<Rightarrow> session_manager \<Rightarrow> session_manager" where
  "leave sid s m = m\<lparr>m_sessions := al_delete sid (m_sessions m), m_left := m_left m @ [s]\<rparr>"

definition call_cancel :: "gw_session \<Rightarrow> session_manager \<Rightarrow> session_manager" where
  "call_cancel s m =
     (case gs_cancel s of None \<Rightarrow> m | Some c \<Rightarrow> m\<lparr>m_cancelled := m_cancelled m @ [c]\<rparr>)"

definition Unregister :: "string \<Rightarrow> session_manager \<Rightarrow> session_manager" where
  "Unregister sessionID m =
     (case map_of (m_sessions m) sessionID of
        None \<Rightarrow> m
      | Some s \<Rightarrow> leave sessionID s m)"

definition KillSession :: "string \<Rightarrow> session_manager \<Rightarrow> goerr option \<times> session_manager" where
  "KillSession sessionID m =
     (case map_of (m_sessions m) sessionID of
        None \<Rightarrow> (Some (Errorf (''session '' @ sessionID @ '' non trouv'' @ e_acute @ ''e'')), m)
      | Some s \<Rightarrow>
          (let s' = s\<lparr>gs_end_reason := ''admin_kill''\<rparr>
           in (None, call_cancel s' (leave sessionID s' m))))"

text \<open>\<open>KillBySerial\<close>: one pass over the table under the lock, then the cancellations.\<close>

fun collect_serial :: "string \<Rightarrow> (string \<times> gw_session) list \<Rightarrow> session_manager \<Rightarrow> gw_session list \<times> session_manager" where
  "collect_serial serial [] m = ([], m)"
| "collect_serial serial ((sid, s) # xs) m =
     (if gs_cert_serial s = serial
      then (let s' = s\<lparr>gs_end_reason := ''cert_revoked''\<rparr>;
                (toKill, m') = collect_serial serial xs (leave sid s' m)
            in (s' # toKill, m'))
      else collect_serial serial xs m)"

fun cancel_all :: "gw_session list \<Rightarrow> session_manager \<Rightarrow> session_manager" where
  "cancel_all [] m = m"
| "cancel_all (s # ss) m = cancel_all ss (call_cancel s m)"

definition KillBySerial :: "string \<Rightarrow> session_manager \<Rightarrow> nat \<times> session_manager" where
  "KillBySerial serial m =
     (if serial = [] then (0, m)
      else (let (toKill, m') = collect_serial serial (m_sessions m) m
            in (length toKill, cancel_all toKill m')))"

definition ActiveCount :: "session_manager \<Rightarrow> nat" where
  "ActiveCount m = length (m_sessions m)"

definition ActiveCountForSubject :: "string \<Rightarrow> session_manager \<Rightarrow> int" where
  "ActiveCountForSubject sub m = count_sub sub (m_sessions m)"

definition ListActive :: "session_manager \<Rightarrow> gw_session list" where
  "ListActive m = map snd (m_sessions m)"

definition GetSession :: "string \<Rightarrow> session_manager \<Rightarrow> gw_session option" where
  "GetSession sessionID m = map_of (m_sessions m) sessionID"

definition SetEndStats :: "string \<Rightarrow> int \<Rightarrow> int \<Rightarrow> string \<Rightarrow> session_manager \<Rightarrow> session_manager" where
  "SetEndStats sessionID bytesIn bytesOut reason m =
     (case map_of (m_sessions m) sessionID of
        None \<Rightarrow> m
      | Some s \<Rightarrow>
          (let s1 = s\<lparr>gs_bytes_in := bytesIn, gs_bytes_out := bytesOut\<rparr>;
               s2 = (if reason \<noteq> [] then s1\<lparr>gs_end_reason := reason\<rparr> else s1)
           in m\<lparr>m_sessions := map (\<lambda>(k, v). (k, if k = sessionID then s2 else v)) (m_sessions m)\<rparr>))"

text \<open>
  \<open>reapExpired\<close>: the expired identifiers are read under a first lock; each is then
  looked up again, since another goroutine may have removed it in between.
\<close>

definition is_expired :: "time \<Rightarrow> gw_session \<Rightarrow> bool" where
  "is_expired now s = (gs_ttl s > 0 \<and> gs_expires s < now)"

definition expired_ids :: "time \<Rightarrow> session_manager \<Rightarrow> string list" where
  "expired_ids now m = map fst (filter (\<lambda>(_, s). is_expired now s) (m_sessions m))"

definition reap_one :: "string \<Rightarrow> session_manager \<Rightarrow> session_manager" where
  "reap_one sid m =
     (case map_of (m_sessions m) sid of
        None \<Rightarrow> m
      | Some s \<Rightarrow> (let s' = s\<lparr>gs_end_reason := ''ttl_expired''\<rparr> in call_cancel s' (leave sid s' m)))"

definition reapExpired :: "time \<Rightarrow> session_manager \<Rightarrow> session_manager" where
  "reapExpired now m = fold reap_one (expired_ids now m) m"

subsection \<open>What the table holds after each operation\<close>

lemmas gw_session_defs = leave_def call_cancel_def Unregister_def KillSession_def SetEndStats_def
  reap_one_def

lemma call_cancel_sessions [simp]:
  "m_sessions (call_cancel s m) = m_sessions m" "m_max (call_cancel s m) = m_max m"
  "m_left (call_cancel s m) = m_left m"
  by (simp_all add: call_cancel_def split: option.splits)

lemma leave_simps [simp]:
  "m_sessions (leave sid s m) = al_delete sid (m_sessions m)" "m_max (leave sid s m) = m_max m"
  "m_left (leave sid s m) = m_left m @ [s]" "m_cancelled (leave sid s m) = m_cancelled m"
  by (simp_all add: leave_def)

lemma al_delete_map_of_None: "map_of xs k = None \<Longrightarrow> al_delete k xs = xs"
  by (simp add: map_of_eq_None_iff al_delete_absent)

lemma Unregister_sessions [simp]:
  "m_sessions (Unregister sid m) = al_delete sid (m_sessions m)" "m_max (Unregister sid m) = m_max m"
  "m_cancelled (Unregister sid m) = m_cancelled m"
  by (simp_all add: Unregister_def al_delete_map_of_None split: option.splits)

lemma KillSession_sessions [simp]:
  "m_sessions (snd (KillSession sid m)) = al_delete sid (m_sessions m)"
  "m_max (snd (KillSession sid m)) = m_max m"
  by (simp_all add: KillSession_def Let_def al_delete_map_of_None split: option.splits)

lemma reap_one_sessions [simp]:
  "m_sessions (reap_one sid m) = al_delete sid (m_sessions m)" "m_max (reap_one sid m) = m_max m"
  by (simp_all add: reap_one_def Let_def al_delete_map_of_None split: option.splits)

lemma cancel_all_simps [simp]:
  "m_sessions (cancel_all ss m) = m_sessions m" "m_max (cancel_all ss m) = m_max m"
  "m_left (cancel_all ss m) = m_left m"
  by (induction ss arbitrary: m) simp_all

definition cancels :: "gw_session list \<Rightarrow> nat list" where
  "cancels ss = List.map_filter gs_cancel ss"

lemma cancels_simps [simp]:
  "cancels [] = []"
  "cancels (s # ss) = (case gs_cancel s of None \<Rightarrow> [] | Some c \<Rightarrow> [c]) @ cancels ss"
  "cancels (ss @ ts) = cancels ss @ cancels ts"
  by (auto simp: cancels_def List.map_filter_def split: option.splits)

lemma cancels_update [simp]: "cancels (map (gs_end_reason_update f) ss) = cancels ss"
  by (induction ss) (auto split: option.splits)

lemma cancels_update_comp [simp]: "cancels (map (gs_end_reason_update f \<circ> g) ss) = cancels (map g ss)"
  using cancels_update[of f "map g ss"] by simp

lemma call_cancel_cancelled:
  "m_cancelled (call_cancel s m) = m_cancelled m @ (case gs_cancel s of None \<Rightarrow> [] | Some c \<Rightarrow> [c])"
  by (simp add: call_cancel_def split: option.splits)

lemma cancel_all_cancelled [simp]: "m_cancelled (cancel_all ss m) = m_cancelled m @ cancels ss"
  by (induction ss arbitrary: m) (simp_all add: call_cancel_cancelled)

lemma al_delete_filter: "al_delete k (filter P xs) = filter (\<lambda>p. P p \<and> fst p \<noteq> k) xs"
  by (auto simp: al_delete_def intro!: filter_cong)

lemma collect_serial_result:
  "fst (collect_serial serial xs m) =
     map (gs_end_reason_update (\<lambda>_. ''cert_revoked''))
       (map snd (filter (\<lambda>(_, s). gs_cert_serial s = serial) xs))"
  by (induction serial xs m rule: collect_serial.induct) (auto simp: Let_def split: prod.splits)

lemma collect_serial_sessions:
  "m_sessions (snd (collect_serial serial xs m)) =
     filter (\<lambda>p. fst p \<notin> fst ` set (filter (\<lambda>(_, s). gs_cert_serial s = serial) xs)) (m_sessions m)"
proof (induction serial xs m rule: collect_serial.induct)
  case (2 serial sid s xs m)
  then show ?case
    by (auto simp: Let_def al_delete_def case_prod_beta split: prod.splits intro!: filter_cong)
qed simp

lemma collect_serial_frame:
  "m_max (snd (collect_serial serial xs m)) = m_max m
   \<and> m_cancelled (snd (collect_serial serial xs m)) = m_cancelled m"
  by (induction serial xs m rule: collect_serial.induct) (auto simp: Let_def split: prod.splits)

lemma filter_keys_distinct:
  "al_distinct xs \<Longrightarrow>
     filter (\<lambda>p. fst p \<notin> fst ` set (filter (\<lambda>(_, s). P s) xs)) xs = filter (\<lambda>(_, s). \<not> P s) xs"
  by (rule filter_cong) (auto simp: al_distinct_def dest: eq_key_imp_eq_value)

lemma KillBySerial_sessions:
  assumes "al_distinct (m_sessions m)" and "serial \<noteq> []"
  shows "m_sessions (snd (KillBySerial serial m)) =
           filter (\<lambda>(_, s). gs_cert_serial s \<noteq> serial) (m_sessions m)"
  using assms filter_keys_distinct[OF assms(1), of "\<lambda>s. gs_cert_serial s = serial"]
  by (simp add: KillBySerial_def case_prod_beta' collect_serial_sessions Let_def)

lemma KillBySerial_frame [simp]: "m_max (snd (KillBySerial serial m)) = m_max m"
  by (simp add: KillBySerial_def case_prod_beta collect_serial_frame Let_def)

lemma KillBySerial_cancelled:
  "serial \<noteq> [] \<Longrightarrow> m_cancelled (snd (KillBySerial serial m)) = m_cancelled m @
     cancels (map snd (filter (\<lambda>(_, s). gs_cert_serial s = serial) (m_sessions m)))"
  by (simp add: KillBySerial_def case_prod_beta collect_serial_frame collect_serial_result Let_def)

lemma KillBySerial_count:
  "serial \<noteq> [] \<Longrightarrow> fst (KillBySerial serial m) =
     length (filter (\<lambda>(_, s). gs_cert_serial s = serial) (m_sessions m))"
  by (simp add: KillBySerial_def case_prod_beta collect_serial_result Let_def)

lemma fold_reap_sessions:
  "m_sessions (fold reap_one ids m) = filter (\<lambda>p. fst p \<notin> set ids) (m_sessions m)"
proof (induction ids arbitrary: m)
  case (Cons sid ids)
  have "(\<lambda>p. fst p \<notin> set ids \<and> fst p \<noteq> sid) = (\<lambda>p. fst p \<noteq> sid \<and> fst p \<notin> set ids)" by auto
  with Cons show ?case by (simp add: al_delete_def case_prod_beta')
qed simp

lemma fold_reap_max [simp]: "m_max (fold reap_one ids m) = m_max m"
  by (induction ids arbitrary: m) simp_all

lemma reapExpired_sessions:
  "al_distinct (m_sessions m) \<Longrightarrow>
     m_sessions (reapExpired now m) = filter (\<lambda>(_, s). \<not> is_expired now s) (m_sessions m)"
  using filter_keys_distinct[of "m_sessions m" "is_expired now"]
  by (simp add: reapExpired_def fold_reap_sessions expired_ids_def)

lemma fold_reap_cancelled:
  "al_distinct ys \<Longrightarrow> (\<And>k v. (k, v) \<in> set ys \<Longrightarrow> map_of (m_sessions m) k = Some v) \<Longrightarrow>
     m_cancelled (fold reap_one (map fst ys) m) = m_cancelled m @ cancels (map snd ys)"
proof (induction ys arbitrary: m)
  case (Cons y ys)
  obtain k v where y: "y = (k, v)" by (cases y)
  have v: "map_of (m_sessions m) k = Some v" using Cons.prems(2)[of k v] y by simp
  have "m_cancelled (fold reap_one (map fst ys) (reap_one k m)) =
          m_cancelled (reap_one k m) @ cancels (map snd ys)"
  proof (rule Cons.IH)
    show "al_distinct ys" using Cons.prems(1) by (simp add: al_distinct_def)
    fix k' v' assume "(k', v') \<in> set ys"
    with Cons.prems y show "map_of (m_sessions (reap_one k m)) k' = Some v'"
      by (force simp: al_distinct_def)
  qed
  with y v show ?case by (simp add: reap_one_def[of k m] Let_def call_cancel_cancelled)
qed simp

lemma reapExpired_cancelled:
  assumes "al_distinct (m_sessions m)"
  shows "m_cancelled (reapExpired now m) = m_cancelled m @
           cancels (map snd (filter (\<lambda>(_, s). is_expired now s) (m_sessions m)))"
  unfolding reapExpired_def expired_ids_def
  by (rule fold_reap_cancelled) (auto intro: assms map_of_in_distinct)

subsection \<open>Every reachable table\<close>

text \<open>One call of the manager, by whichever goroutine gets the lock.\<close>

inductive session_step :: "session_manager \<Rightarrow> session_manager \<Rightarrow> bool" where
  step_register: "session_step m (snd (Register now bs s m))"
| step_unregister: "session_step m (Unregister sid m)"
| step_kill: "session_step m (snd (KillSession sid m))"
| step_serial: "session_step m (snd (KillBySerial serial m))"
| step_stats: "session_step m (SetEndStats sid bin bout reason m)"
| step_reap: "session_step m (reapExpired now m)"

inductive_cases session_stepE: "session_step m m'"

text \<open>
  The invariant: identifiers are unique and are those the sessions carry, and no
  subject has more sessions than the limit.
\<close>

definition sm_wf :: "session_manager \<Rightarrow> bool" where
  "sm_wf m = (al_distinct (m_sessions m) \<and> list_all (\<lambda>p. gs_id (snd p) = fst p) (m_sessions m)
     \<and> 0 < m_max m \<and> (\<forall>sub. count_sub sub (m_sessions m) \<le> m_max m))"

lemma count_sub_filter_le: "count_sub sub (filter P xs) \<le> count_sub sub xs"
  by (induction sub xs rule: count_sub.induct) auto

lemma count_sub_delete_le: "count_sub sub (al_delete k xs) \<le> count_sub sub xs"
  by (simp add: al_delete_def count_sub_filter_le)

lemma count_sub_map_same:
  "(\<And>k v. (k, v) \<in> set xs \<Longrightarrow> gs_sub (f k v) = gs_sub v) \<Longrightarrow>
     count_sub sub (map (\<lambda>(k, v). (k, f k v)) xs) = count_sub sub xs"
  by (induction sub xs rule: count_sub.induct) auto

lemma sm_wf_filter:
  assumes "sm_wf m" and "m_sessions m' = filter P (m_sessions m)" and "m_max m' = m_max m"
  shows "sm_wf m'"
  using assms count_sub_filter_le[of _ P "m_sessions m"]
  by (auto simp: sm_wf_def list_all_iff intro: order_trans)

lemma sm_wf_delete:
  "sm_wf m \<Longrightarrow> m_sessions m' = al_delete k (m_sessions m) \<Longrightarrow> m_max m' = m_max m \<Longrightarrow> sm_wf m'"
  by (rule sm_wf_filter) (simp_all add: al_delete_def)

lemma count_sub_put:
  "count_sub sub (al_put k v xs) \<le> (if gs_sub v = sub then 1 else 0) + count_sub sub xs"
  using count_sub_delete_le[of sub k xs] by (simp add: al_put_def)

lemma Register_cases:
  obtains (full) "m_max m > 0" "count_sub (gs_sub s) (m_sessions m) \<ge> m_max m"
      "\<exists>e. Register now bs s m = (Inl e, m)"
  | (new) s2 where "\<not> (m_max m > 0 \<and> count_sub (gs_sub s) (m_sessions m) \<ge> m_max m)"
      "gs_id s2 = generateUUID bs" "gs_sub s2 = gs_sub s" "gs_cert_serial s2 = gs_cert_serial s"
      "gs_cancel s2 = gs_cancel s" "gs_ttl s2 = gs_ttl s"
      "gs_ttl s > 0 \<Longrightarrow> gs_expires s2 = now + dur_seconds (gs_ttl s)"
      "Register now bs s m =
         (Inr (generateUUID bs), m\<lparr>m_sessions := al_put (generateUUID bs) s2 (m_sessions m)\<rparr>)"
proof (cases "m_max m > 0 \<and> count_sub (gs_sub s) (m_sessions m) \<ge> m_max m")
  case False
  let ?s1 = "s\<lparr>gs_id := generateUUID bs, gs_started := now\<rparr>"
  let ?s2 = "if gs_ttl ?s1 > 0 then ?s1\<lparr>gs_expires := gs_started ?s1 + dur_seconds (gs_ttl ?s1)\<rparr> else ?s1"
  show ?thesis
    by (rule new[of ?s2]) (use False in \<open>simp_all add: Register_def Let_def\<close>)
qed (auto simp: Register_def intro: full)

lemma list_all_al_put: "list_all P xs \<Longrightarrow> P (k, v) \<Longrightarrow> list_all P (al_put k v xs)"
  by (auto simp: al_put_def list_all_iff set_al_delete)

lemma Register_wf: "sm_wf m \<Longrightarrow> sm_wf (snd (Register now bs s m))"
proof -
  assume wf: "sm_wf m"
  show ?thesis
  proof (cases rule: Register_cases[of m s now bs])
    case (new s2)
    have "count_sub sub (al_put (generateUUID bs) s2 (m_sessions m)) \<le> m_max m" for sub
    proof -
      have "count_sub sub (m_sessions m) \<le> m_max m" "0 < m_max m" using wf by (auto simp: sm_wf_def)
      then show ?thesis
        using new(1,3) count_sub_put[of sub "generateUUID bs" s2 "m_sessions m"]
        by (cases "gs_sub s = sub") auto
    qed
    with wf new show ?thesis
      by (simp add: sm_wf_def list_all_al_put)
  qed (use wf in auto)
qed

lemma KillBySerial_wf: "sm_wf m \<Longrightarrow> sm_wf (snd (KillBySerial serial m))"
proof (cases "serial = []")
  case False
  assume wf: "sm_wf m"
  with False show ?thesis
    by (intro sm_wf_filter[OF wf KillBySerial_sessions]) (auto simp: sm_wf_def)
qed (simp add: KillBySerial_def)

lemma SetEndStats_wf: "sm_wf m \<Longrightarrow> sm_wf (SetEndStats sid bin bout reason m)"
proof (cases "map_of (m_sessions m) sid")
  case (Some s)
  assume wf: "sm_wf m"
  let ?m = "SetEndStats sid bin bout reason m"
  let ?s = "(if reason \<noteq> [] then s\<lparr>gs_bytes_in := bin, gs_bytes_out := bout, gs_end_reason := reason\<rparr>
             else s\<lparr>gs_bytes_in := bin, gs_bytes_out := bout\<rparr>)"
  let ?f = "\<lambda>k v. if k = sid then ?s else v"
  have e: "m_sessions ?m = map (\<lambda>(k, v). (k, ?f k v)) (m_sessions m)" "m_max ?m = m_max m"
    using Some by (simp_all add: SetEndStats_def Let_def)
  have in1: "\<And>v. (sid, v) \<in> set (m_sessions m) \<Longrightarrow> v = s"
    using wf Some by (auto simp: sm_wf_def dest: map_of_in_distinct)
  have "count_sub sub (m_sessions ?m) = count_sub sub (m_sessions m)" for sub
    unfolding e(1) by (rule count_sub_map_same) (auto dest: in1)
  moreover have "map fst (m_sessions ?m) = map fst (m_sessions m)" unfolding e(1) by auto
  moreover have "gs_id s = sid"
    using wf Some by (force simp: sm_wf_def list_all_iff dest: map_of_SomeD)
  then have "list_all (\<lambda>p. gs_id (snd p) = fst p) (m_sessions ?m)"
    using wf unfolding e(1) by (auto simp: sm_wf_def list_all_iff)
  ultimately show ?thesis using wf e(2) by (simp add: sm_wf_def al_distinct_def)
qed (simp add: SetEndStats_def)

lemma reapExpired_wf: "sm_wf m \<Longrightarrow> sm_wf (reapExpired now m)"
  by (rule sm_wf_filter[OF _ reapExpired_sessions]) (auto simp: sm_wf_def reapExpired_def)

lemma session_step_wf: "session_step m m' \<Longrightarrow> sm_wf m \<Longrightarrow> sm_wf m' \<and> m_max m' = m_max m"
  by (induction rule: session_step.induct)
     (auto simp: Register_wf KillBySerial_wf SetEndStats_wf reapExpired_wf
       intro: sm_wf_delete,
      auto simp: Register_def SetEndStats_def reapExpired_def Let_def split: option.splits)

lemma NewManager_wf: "sm_wf (NewManagerWithLimits mx)"
  by (simp add: sm_wf_def NewManagerWithLimits_def NewManager_def)

interpretation manager: started_system session_step
    "\<lambda>m. sm_wf m \<and> m_max m = m_max (NewManagerWithLimits mx)" "NewManagerWithLimits mx" for mx
  by unfold_locales (auto dest: session_step_wf simp: NewManager_wf)

lemma reachable_manager_wf: "session_step\<^sup>*\<^sup>* (NewManagerWithLimits mx) m \<Longrightarrow> sm_wf m"
  using manager.reached_inv by blast

subsection \<open>Properties\<close>

text \<open>C12: whatever sequence of registrations, ends, kills and collections the goroutines
  perform, no subject ever has more live sessions than the configured limit (ten when
  none is configured).\<close>

theorem session_limit:
  assumes "session_step\<^sup>*\<^sup>* (NewManagerWithLimits mx) m"
  shows "ActiveCountForSubject sub m \<le> (if mx > 0 then mx else 10)"
proof -
  have "sm_wf m" "m_max m = m_max (NewManagerWithLimits mx)"
    using manager.reached_inv[OF assms] by auto
  then show ?thesis
    by (auto simp: sm_wf_def ActiveCountForSubject_def NewManagerWithLimits_def NewManager_def)
qed

definition ex_gs :: gw_session where
  "ex_gs = \<lparr>gs_id = [], gs_sub = ''u1'', gs_username = ''alice'', gs_type = ''ssh'', gs_name = ''lab'',
     gs_host = ''10.0.0.5'', gs_port = 22, gs_started = zero_time, gs_source_ip = ''192.0.2.1:5000'',
     gs_decision = ''d1'', gs_ttl = 60, gs_expires = zero_time, gs_cancel = Some 7, gs_bytes_in = 0,
     gs_bytes_out = 0, gs_end_reason = [], gs_cert_serial = ''42''\<rparr>"

definition ex_mgr :: session_manager where
  "ex_mgr = snd (Register (1000 * Second) (replicate 16 0) ex_gs (NewManagerWithLimits 1))"

lemma ex_mgr_reachable: "session_step\<^sup>*\<^sup>* (NewManagerWithLimits 1) ex_mgr"
  unfolding ex_mgr_def by (rule r_into_rtranclp) (rule step_register)

theorem session_limit_witness:
  "ActiveCountForSubject ''u1'' ex_mgr \<le> (if (1::int) > 0 then 1 else 10)
   \<and> ActiveCountForSubject ''u1'' ex_mgr = 1
   \<and> \<not> is_ok (fst (Register (1001 * Second) (replicate 16 1) ex_gs ex_mgr))"
  by (rule conjI[OF session_limit[OF ex_mgr_reachable]], rule conjI) code_simp+

text \<open>One pass of the collector removes exactly the sessions whose time to live was
  granted and has passed, leaves every other session as it is, and calls the cancel
  function of each session it removes.\<close>

theorem session_expiry:
  assumes "session_step\<^sup>*\<^sup>* (NewManagerWithLimits mx) m"
  shows "GetSession sid (reapExpired now m) =
           (case GetSession sid m of None \<Rightarrow> None
            | Some s \<Rightarrow> if gs_ttl s > 0 \<and> gs_expires s < now then None else Some s)
         \<and> m_cancelled (reapExpired now m) = m_cancelled m @
             cancels (filter (\<lambda>s. gs_ttl s > 0 \<and> gs_expires s < now) (ListActive m))"
proof
  have wf: "al_distinct (m_sessions m)" using reachable_manager_wf[OF assms] by (simp add: sm_wf_def)
  have f: "map_of (filter (\<lambda>p. \<not> is_expired now (snd p)) xs) sid =
      (case map_of xs sid of None \<Rightarrow> None | Some s \<Rightarrow> if is_expired now s then None else Some s)"
    if "al_distinct xs" for xs
    using that by (induction xs)
      (auto simp: al_distinct_def map_of_eq_None_iff image_iff split: option.splits dest: map_of_SomeD)
  show "GetSession sid (reapExpired now m) =
           (case GetSession sid m of None \<Rightarrow> None
            | Some s \<Rightarrow> if gs_ttl s > 0 \<and> gs_expires s < now then None else Some s)"
    using f[OF wf, unfolded is_expired_def]
    unfolding GetSession_def reapExpired_sessions[OF wf] case_prod_beta' is_expired_def .
  show "m_cancelled (reapExpired now m) = m_cancelled m @
             cancels (filter (\<lambda>s. gs_ttl s > 0 \<and> gs_expires s < now) (ListActive m))"
    by (simp add: reapExpired_cancelled[OF wf] ListActive_def is_expired_def filter_map o_def
        case_prod_beta')
qed

theorem session_expiry_witness:
  "GetSession (generateUUID (replicate 16 0)) (reapExpired (1061 * Second) ex_mgr) = None
   \<and> GetSession (generateUUID (replicate 16 0)) (reapExpired (1060 * Second) ex_mgr) \<noteq> None
   \<and> m_cancelled (reapExpired (1061 * Second) ex_mgr) = [7]"
proof -
  have s: "GetSession (generateUUID (replicate 16 0)) ex_mgr =
      Some (ex_gs\<lparr>gs_id := generateUUID (replicate 16 0), gs_started := 1000 * Second,
        gs_expires := 1060 * Second\<rparr>)"
    and l: "ListActive ex_mgr = [ex_gs\<lparr>gs_id := generateUUID (replicate 16 0),
        gs_started := 1000 * Second, gs_expires := 1060 * Second\<rparr>]"
    and c: "m_cancelled ex_mgr = []"
    by code_simp+
  show ?thesis
    unfolding conjunct1[OF session_expiry[OF ex_mgr_reachable]]
      conjunct2[OF session_expiry[OF ex_mgr_reachable]] s l c by (simp add: ex_gs_def)
qed

end
