(* ===== verification/Gw_Crl.thy ===== *)
theory Gw_Crl
  imports Gw_Sessions
begin

text \<open>
  The revocation store of the gateway (\<open>gateway/internal/infra/revocation/crl.go\<close>), the
  callback that \<open>bootstrap/app.go\<close> attaches to it, and the interleavings of a refresh
  with connections being opened.

  PEM and X.509 decoding are the parameter \<open>crl_lib\<close>: \<open>cl_pem\<close> gives the type and the
  bytes of the first PEM block, \<open>cl_parse\<close> the serial numbers of a DER list.
\<close>

record crl_lib =
  cl_pem :: "string \<Rightarrow> (string \<times> string) option"
  cl_parse :: "string \<Rightarrow> int list res"

record crl_store =
  c_revoked :: "string set"
  c_last_fetch :: time
  c_url :: string

definition NewStoreWithConfig :: "string \<Rightarrow> crl_store" where
  "NewStoreWithConfig url = \<lparr>c_revoked = {}, c_last_fetch = zero_time, c_url = url\<rparr>"

definition NewStore :: crl_store where
  "NewStore = \<lparr>c_revoked = {}, c_last_fetch = zero_time, c_url = []\<rparr>"

definition LastFetch :: "crl_store \<Rightarrow> time" where
  "LastFetch st = c_last_fetch st"

definition IsRevoked :: "crl_store \<Rightarrow> string \<Rightarrow> bool" where
  "IsRevoked st serial = (serial \<in> c_revoked st)"

definition Replace :: "string list \<Rightarrow> crl_store \<Rightarrow> crl_store" where
  "Replace serials st = st\<lparr>c_revoked := set serials\<rparr>"

definition Snapshot :: "crl_store \<Rightarrow> string set" where
  "Snapshot st = c_revoked st"

definition crl_Count :: "crl_store \<Rightarrow> nat" where
  "crl_Count st = card (c_revoked st)"

definition parseCRLSerials :: "crl_lib \<Rightarrow> string \<Rightarrow> string list res" where
  "parseCRLSerials L input =
     (let derBytes = (case cl_pem L input of
                        Some (ty, bs) \<Rightarrow> if ty = ''X509 CRL'' then bs else input
                      | None \<Rightarrow> input)
      in case cl_parse L derBytes of
           Inl e \<Rightarrow> Inl (Wrapf ''parse CRL: '' e [])
         | Inr serials \<Rightarrow> Inr (map Itoa serials))"

text \<open>
  \<open>fetchAndUpdate\<close>: download, parse, compute the serials that were not revoked before,
  replace the set, then call back with the new ones.  The callback's state is \<open>'m\<close>.
\<close>

definition fetch_crl :: "crl_lib \<Rightarrow> transport \<Rightarrow> crl_store \<Rightarrow> string list res" where
  "fetch_crl L send st =
     (case send \<lparr>ho_method = ''GET'', ho_url = c_url st, ho_headers = [], ho_body = []\<rparr> of
        NoResponse e \<Rightarrow> Inl (Wrapf (''t'' @ e_acute @ ''l'' @ e_acute @ ''chargement CRL: '') e [])
      | HttpResponse status body \<Rightarrow>
          if status \<noteq> 200 then Inl (Errorf ''CRL endpoint retourne status'')
          else (case limit_body body of
                  Inl e \<Rightarrow> Inl (Wrapf ''lecture body CRL: '' e [])
                | Inr t \<Rightarrow>
                    (case parseCRLSerials L t of
                       Inl e \<Rightarrow> Inl (Wrapf ''parsing CRL: '' e [])
                     | Inr serials \<Rightarrow> Inr serials)))"

definition fetchAndUpdate ::
    "crl_lib \<Rightarrow> transport \<Rightarrow> time \<Rightarrow> (string list \<Rightarrow> 'm \<Rightarrow> 'm) option \<Rightarrow> crl_store \<Rightarrow> 'm
     \<Rightarrow> goerr option \<times> crl_store \<times> 'm" where
  "fetchAndUpdate L send now onUpdate st m =
     (case fetch_crl L send st of
        Inl e \<Rightarrow> (Some e, st, m)
      | Inr serials \<Rightarrow>
          (let newlyRevoked = (if onUpdate \<noteq> None then filter (\<lambda>s. \<not> IsRevoked st s) serials else []);
               st' = (Replace serials st)\<lparr>c_last_fetch := now\<rparr>
           in case onUpdate of
                None \<Rightarrow> (None, st', m)
              | Some cb \<Rightarrow> if newlyRevoked \<noteq> [] then (None, st', cb newlyRevoked m) else (None, st', m)))"

lemma fetch_crl_serials: "fetch_crl L send st = Inr serials \<Longrightarrow> [] \<notin> set serials"
  by (auto simp: fetch_crl_def parseCRLSerials_def Let_def
      split: http_result.splits sum.splits if_splits dest!: arg_cong[of "[]" _ length])

text \<open>Only a refresh that succeeds moves the time of the last one.\<close>

lemma LastFetch_refresh:
  "fetchAndUpdate L send now cb st m = (r, st', m') \<Longrightarrow> LastFetch st' = (if r = None then now else LastFetch st)"
  by (auto simp: fetchAndUpdate_def LastFetch_def Let_def split: sum.splits option.splits if_splits)

subsection \<open>The contract of the callback\<close>

text \<open>
  What the store relies on: the callback ends exactly the sessions whose certificate
  carries one of the serials it is given.  \<open>live m x\<close> says that a live session
  presented the serial \<open>x\<close>.
\<close>

locale revocation_listener =
  fixes onUpdate :: "string list \<Rightarrow> 'm \<Rightarrow> 'm"
    and live :: "'m \<Rightarrow> string \<Rightarrow> bool"
    and good :: "'m \<Rightarrow> bool"
  assumes kills: "good m \<Longrightarrow> [] \<notin> set xs \<Longrightarrow> live (onUpdate xs m) x \<longleftrightarrow> live m x \<and> x \<notin> set xs"
    and keeps_good: "good m \<Longrightarrow> good (onUpdate xs m)"
begin

lemma refresh_error:
  "fetchAndUpdate L send now cb st m = (Some e, st', m') \<Longrightarrow> st' = st \<and> m' = m"
  by (auto simp: fetchAndUpdate_def Let_def split: sum.splits option.splits if_splits)

lemma refresh_live:
  assumes "good m" and "fetchAndUpdate L send now (Some onUpdate) st m = (r, st', m')"
  shows "live m' x \<longleftrightarrow> live m x \<and> (r = None \<longrightarrow> IsRevoked st x \<or> \<not> IsRevoked st' x)"
proof (cases "fetch_crl L send st")
  case (Inr serials)
  let ?new = "filter (\<lambda>s. \<not> IsRevoked st s) serials"
  have ne: "[] \<notin> set ?new" using fetch_crl_serials[OF Inr] by auto
  have 1: "r = None" "c_revoked st' = set serials" "m' = (if ?new \<noteq> [] then onUpdate ?new m else m)"
    using assms(2) Inr by (auto simp: fetchAndUpdate_def Replace_def Let_def split: if_splits)
  then show ?thesis
    using kills[OF assms(1) ne] by (cases "?new = []") (auto simp: IsRevoked_def filter_empty_conv)
qed (use assms in \<open>auto simp: fetchAndUpdate_def\<close>)

end

subsection \<open>The callback of the application\<close>

definition kill_revoked :: "string list \<Rightarrow> session_manager \<Rightarrow> session_manager" where
  "kill_revoked newlyRevoked m = fold (\<lambda>serial m. snd (KillBySerial serial m)) newlyRevoked m"

definition live_serial :: "session_manager \<Rightarrow> string \<Rightarrow> bool" where
  "live_serial m x = list_ex (\<lambda>p. gs_cert_serial (snd p) = x) (m_sessions m)"

lemma kill_revoked_sessions:
  "sm_wf m \<Longrightarrow> [] \<notin> set xs \<Longrightarrow>
     m_sessions (kill_revoked xs m) = filter (\<lambda>p. gs_cert_serial (snd p) \<notin> set xs) (m_sessions m)"
proof (induction xs arbitrary: m)
  case (Cons x xs)
  have "m_sessions (snd (KillBySerial x m)) = filter (\<lambda>(_, s). gs_cert_serial s \<noteq> x) (m_sessions m)"
    by (rule KillBySerial_sessions) (use Cons.prems in \<open>auto simp: sm_wf_def\<close>)
  with Cons KillBySerial_wf[OF Cons.prems(1), of x] show ?case
    by (auto simp: kill_revoked_def case_prod_beta' intro!: filter_cong)
qed (simp add: kill_revoked_def)

lemma kill_revoked_wf: "sm_wf m \<Longrightarrow> sm_wf (kill_revoked xs m)"
  by (induction xs arbitrary: m) (auto simp: kill_revoked_def KillBySerial_wf)

lemma live_serial_kill:
  "sm_wf m \<Longrightarrow> [] \<notin> set xs \<Longrightarrow> live_serial (kill_revoked xs m) x = (live_serial m x \<and> x \<notin> set xs)"
  by (force simp: live_serial_def kill_revoked_sessions list_ex_iff)

interpretation rv: revocation_listener kill_revoked live_serial sm_wf
  by unfold_locales
     (simp_all add: live_serial_kill kill_revoked_wf)

subsection \<open>Refreshes beside connections being opened\<close>

text \<open>
  The goroutines of the gateway that touch the store and the table.  A connection
  checks its serial against the store (in the listener and again at the start of
  \<open>HandleConnection\<close>), then reads a request, asks the control plane, and only then
  registers its session: \<open>r_pending\<close> holds the serials of the connections between the
  two.  A refresh replaces the set and then calls back, serial by serial, with the ones
  that are new: \<open>r_todo\<close> holds those the callback has still to end.  Only the one
  goroutine of the refresh writes the set, so that the new serials it computes before it
  writes are those of the set it replaces.  \<open>ok\<close> limits the refreshes of a run, by the
  pending connections and the downloaded list.
\<close>

record gateway_run =
  r_crl :: crl_store
  r_mgr :: session_manager
  r_pending :: "string list"
  r_todo :: "string list"

definition gateway_start :: "string \<Rightarrow> int \<Rightarrow> gateway_run" where
  "gateway_start url mx =
     \<lparr>r_crl = NewStoreWithConfig url, r_mgr = NewManagerWithLimits mx, r_pending = [], r_todo = []\<rparr>"

text \<open>The two halves of a refresh whose download gave \<open>serials\<close>, and a refresh that nothing disturbs.\<close>

definition crl_replace :: "time \<Rightarrow> string list \<Rightarrow> gateway_run \<Rightarrow> gateway_run" where
  "crl_replace now serials g =
     g\<lparr>r_crl := (Replace serials (r_crl g))\<lparr>c_last_fetch := now\<rparr>, r_todo := filter (\<lambda>s. \<not> IsRevoked (r_crl g) s) serials\<rparr>"

definition crl_callback :: "gateway_run \<Rightarrow> gateway_run" where
  "crl_callback g =
     (case r_todo g of
        [] \<Rightarrow> g
      | serial # rest \<Rightarrow> g\<lparr>r_todo := rest, r_mgr := snd (KillBySerial serial (r_mgr g))\<rparr>)"

definition crl_refresh :: "crl_lib \<Rightarrow> transport \<Rightarrow> time \<Rightarrow> gateway_run \<Rightarrow> goerr option \<times> gateway_run" where
  "crl_refresh L send now g =
     (let (r, st', m') = fetchAndUpdate L send now (Some kill_revoked) (r_crl g) (r_mgr g)
      in (r, g\<lparr>r_crl := st', r_mgr := m'\<rparr>))"

inductive gw_step :: "(string list \<Rightarrow> string list \<Rightarrow> bool) \<Rightarrow> gateway_run \<Rightarrow> gateway_run \<Rightarrow> bool" for ok where
  gw_check: "\<not> IsRevoked (r_crl g) serial \<Longrightarrow> gw_step ok g (g\<lparr>r_pending := serial # r_pending g\<rparr>)"
| gw_register: "gs_cert_serial s \<in> set (r_pending g) \<Longrightarrow>
     gw_step ok g (g\<lparr>r_pending := remove1 (gs_cert_serial s) (r_pending g),
                     r_mgr := snd (Register now bs s (r_mgr g))\<rparr>)"
| gw_abandon: "gw_step ok g (g\<lparr>r_pending := remove1 serial (r_pending g)\<rparr>)"
| gw_unregister: "gw_step ok g (g\<lparr>r_mgr := Unregister sid (r_mgr g)\<rparr>)"
| gw_kill: "gw_step ok g (g\<lparr>r_mgr := snd (KillSession sid (r_mgr g))\<rparr>)"
| gw_stats: "gw_step ok g (g\<lparr>r_mgr := SetEndStats sid bin bout reason (r_mgr g)\<rparr>)"
| gw_reap: "gw_step ok g (g\<lparr>r_mgr := reapExpired now (r_mgr g)\<rparr>)"
| gw_replace: "r_todo g = [] \<Longrightarrow> fetch_crl L send (r_crl g) = Inr serials \<Longrightarrow> ok (r_pending g) serials \<Longrightarrow>
     gw_step ok g (crl_replace now serials g)"
| gw_callback: "gw_step ok g (crl_callback g)"

text \<open>No limit; and no connection between its check and its registration.\<close>

abbreviation any_refresh :: "string list \<Rightarrow> string list \<Rightarrow> bool" where "any_refresh pending serials \<equiv> True"
abbreviation calm_refresh :: "string list \<Rightarrow> string list \<Rightarrow> bool" where "calm_refresh pending serials \<equiv> pending = []"

lemma crl_replace_simps [simp]:
  "r_mgr (crl_replace now serials g) = r_mgr g" "r_pending (crl_replace now serials g) = r_pending g"
  "IsRevoked (r_crl (crl_replace now serials g)) x \<longleftrightarrow> x \<in> set serials"
  "x \<in> set (r_todo (crl_replace now serials g)) \<longleftrightarrow> x \<in> set serials \<and> \<not> IsRevoked (r_crl g) x"
  by (auto simp: crl_replace_def IsRevoked_def Replace_def)

lemma crl_callback_simps [simp]:
  "r_pending (crl_callback g) = r_pending g" "r_crl (crl_callback g) = r_crl g"
  by (simp_all add: crl_callback_def split: list.split)

lemma live_serial_iff:
  "live_serial m x \<longleftrightarrow> (\<exists>k s. (k, s) \<in> set (m_sessions m) \<and> gs_cert_serial s = x)"
  by (force simp: live_serial_def list_ex_iff)

lemma live_serial_subset:
  "set (m_sessions m') \<subseteq> set (m_sessions m) \<Longrightarrow> live_serial m' x \<Longrightarrow> live_serial m x"
  by (auto simp: live_serial_def list_ex_iff)

lemma live_serial_Register:
  assumes "live_serial (snd (Register now bs s m)) x"
  shows "live_serial m x \<or> x = gs_cert_serial s"
proof (cases rule: Register_cases[of m s now bs])
  case full
  with assms show ?thesis by auto
next
  case (new s2)
  with assms show ?thesis by (force simp: live_serial_iff al_put_def set_al_delete)
qed

lemma live_serial_SetEndStats: "live_serial (SetEndStats sid bin bout reason m) x \<Longrightarrow> live_serial m x"
proof (cases "map_of (m_sessions m) sid")
  case (Some s)
  assume "live_serial (SetEndStats sid bin bout reason m) x"
  with Some show ?thesis
    by (force simp: SetEndStats_def Let_def live_serial_iff split: if_splits dest: map_of_SomeD)
qed (simp add: SetEndStats_def)

lemma crl_refresh_state:
  "fetchAndUpdate L send now (Some kill_revoked) (r_crl g) (r_mgr g) =
     (fst (crl_refresh L send now g), r_crl (snd (crl_refresh L send now g)),
      r_mgr (snd (crl_refresh L send now g)))"
  by (simp add: crl_refresh_def split: prod.splits)

lemma gw_step_wf: "gw_step ok g g' \<Longrightarrow> sm_wf (r_mgr g) \<Longrightarrow> sm_wf (r_mgr g')"
proof (induction rule: gw_step.induct)
  case (gw_callback g)
  then show ?case by (simp add: crl_callback_def KillBySerial_wf split: list.split)
qed (auto simp: Register_wf SetEndStats_wf reapExpired_wf intro: sm_wf_delete)

interpretation gateway: started_system "gw_step ok" "\<lambda>g. sm_wf (r_mgr g)" "gateway_start url mx" for ok url mx
  by unfold_locales (auto simp: gateway_start_def NewManager_wf gw_step_wf)

lemmas gw_steps_wf = gateway.reached_inv

text \<open>An undisturbed refresh is the one half after the other.\<close>

lemma callbacks_run: "r_todo g = xs \<Longrightarrow> (gw_step ok)\<^sup>*\<^sup>* g (g\<lparr>r_todo := [], r_mgr := kill_revoked xs (r_mgr g)\<rparr>)"
proof (induction xs arbitrary: g)
  case Nil
  then have "g\<lparr>r_todo := [], r_mgr := kill_revoked [] (r_mgr g)\<rparr> = g" by (simp add: kill_revoked_def)
  then show ?case by simp
next
  case (Cons x xs)
  let ?g1 = "g\<lparr>r_todo := xs, r_mgr := snd (KillBySerial x (r_mgr g))\<rparr>"
  have "gw_step ok g ?g1" using gw_callback[of ok g] Cons.prems by (simp add: crl_callback_def)
  moreover have "(gw_step ok)\<^sup>*\<^sup>* ?g1 (?g1\<lparr>r_todo := [], r_mgr := kill_revoked xs (r_mgr ?g1)\<rparr>)" by (rule Cons.IH) simp
  ultimately show ?case by (simp add: kill_revoked_def converse_rtranclp_into_rtranclp)
qed

lemma crl_refresh_callbacks:
  assumes "r_todo g = []" "fetch_crl L send (r_crl g) = Inr serials"
  shows "(gw_step ok)\<^sup>*\<^sup>* (crl_replace now serials g) (snd (crl_refresh L send now g))"
proof -
  let ?g1 = "crl_replace now serials g"
  have "(gw_step ok)\<^sup>*\<^sup>* ?g1 (?g1\<lparr>r_todo := [], r_mgr := kill_revoked (r_todo ?g1) (r_mgr ?g1)\<rparr>)"
    by (rule callbacks_run) simp
  moreover have "?g1\<lparr>r_todo := [], r_mgr := kill_revoked (r_todo ?g1) (r_mgr ?g1)\<rparr> = snd (crl_refresh L send now g)"
    using assms by (simp add: crl_refresh_def fetchAndUpdate_def crl_replace_def kill_revoked_def Let_def)
  ultimately show ?thesis by simp
qed

lemma crl_refresh_run:
  assumes "r_todo g = []" "fetch_crl L send (r_crl g) = Inr serials"
  shows "(gw_step any_refresh)\<^sup>*\<^sup>* g (snd (crl_refresh L send now g))"
  using gw_replace[OF assms, of any_refresh] crl_refresh_callbacks[OF assms]
  by (meson converse_rtranclp_into_rtranclp)

text \<open>The certificates in \<open>X\<close> that the store lists have no pending connection, and their sessions are those the callback has
  still to end.\<close>

definition tracked :: "string set \<Rightarrow> gateway_run \<Rightarrow> bool" where
  "tracked X g \<longleftrightarrow> sm_wf (r_mgr g) \<and> [] \<notin> set (r_todo g)
     \<and> (\<forall>x\<in>X. IsRevoked (r_crl g) x \<longrightarrow> x \<notin> set (r_pending g) \<and> (live_serial (r_mgr g) x \<longrightarrow> x \<in> set (r_todo g)))"

lemma tracked_mgr:
  assumes "tracked X g" "sm_wf m" "\<And>x. live_serial m x \<Longrightarrow> live_serial (r_mgr g) x"
  shows "tracked X (g\<lparr>r_mgr := m\<rparr>)"
  using assms by (auto simp: tracked_def)

lemma tracked_subset:
  "tracked X g \<Longrightarrow> set (m_sessions m) \<subseteq> set (m_sessions (r_mgr g)) \<Longrightarrow> sm_wf m \<Longrightarrow> tracked X (g\<lparr>r_mgr := m\<rparr>)"
  by (rule tracked_mgr) (auto dest: live_serial_subset)

lemma tracked_wf: "tracked X g \<Longrightarrow> sm_wf (r_mgr g)"
  by (simp add: tracked_def)

lemma tracked_callback:
  assumes "tracked X g"
  shows "tracked X (crl_callback g)"
proof (cases "r_todo g")
  case (Cons serial rest)
  then have "serial \<noteq> []" "sm_wf (r_mgr g)" using assms by (auto simp: tracked_def)
  then have "live_serial (snd (KillBySerial serial (r_mgr g))) x \<longleftrightarrow> live_serial (r_mgr g) x \<and> x \<noteq> serial" for x
    using rv.kills[of "r_mgr g" "[serial]" x] by (simp add: kill_revoked_def)
  with assms Cons show ?thesis by (auto simp: tracked_def crl_callback_def KillBySerial_wf)
qed (simp add: crl_callback_def assms)

lemma tracked_replace:
  assumes "tracked X g" "r_todo g = []" "fetch_crl L send (r_crl g) = Inr serials"
    and "\<And>x. x \<in> X \<Longrightarrow> x \<in> set serials \<Longrightarrow> \<not> IsRevoked (r_crl g) x \<Longrightarrow> x \<notin> set (r_pending g)"
  shows "tracked X (crl_replace now serials g)"
  using assms fetch_crl_serials[OF assms(3)] by (auto simp: tracked_def)

lemma tracked_step:
  assumes "gw_step ok g g'" "tracked X g"
    and "\<And>pending serials x. ok pending serials \<Longrightarrow> x \<in> X \<Longrightarrow> x \<in> set serials \<Longrightarrow> IsRevoked (r_crl g) x \<or> x \<notin> set pending"
  shows "tracked X g'"
  using assms
proof (induction rule: gw_step.induct)
  case (gw_check g serial)
  then show ?case by (auto simp: tracked_def)
next
  case (gw_register s g now bs)
  then show ?case
    by (auto simp: tracked_def Register_wf dest!: live_serial_Register dest: notin_set_remove1)
next
  case (gw_abandon g serial)
  then show ?case by (auto simp: tracked_def dest: notin_set_remove1)
next
  case (gw_unregister g sid)
  then show ?case
    by (intro tracked_subset) (auto simp: set_al_delete intro: sm_wf_delete[of "r_mgr g"] dest: tracked_wf)
next
  case (gw_kill g sid)
  then show ?case
    by (intro tracked_subset) (auto simp: set_al_delete intro: sm_wf_delete[of "r_mgr g"] dest: tracked_wf)
next
  case (gw_stats g sid bin bout reason)
  then show ?case by (intro tracked_mgr) (auto simp: SetEndStats_wf dest: tracked_wf live_serial_SetEndStats)
next
  case (gw_reap g now)
  then have wf: "sm_wf (r_mgr g)" by (simp add: tracked_wf)
  then have "al_distinct (m_sessions (r_mgr g))" by (simp add: sm_wf_def)
  with gw_reap wf show ?case by (intro tracked_subset) (auto simp: reapExpired_sessions intro: reapExpired_wf)
next
  case (gw_replace g L send serials now)
  then show ?case by (intro tracked_replace) auto
next
  case (gw_callback g)
  then show ?case by (simp add: tracked_callback)
qed

interpretation calm_gateway: started_system "gw_step calm_refresh" "tracked UNIV" "gateway_start url mx" for url mx
proof unfold_locales
  show "tracked UNIV (gateway_start url mx)"
    by (simp add: tracked_def gateway_start_def NewManager_wf NewStoreWithConfig_def IsRevoked_def)
  show "gw_step calm_refresh g g' \<Longrightarrow> tracked UNIV g \<Longrightarrow> tracked UNIV g'" for g g'
    by (erule tracked_step) auto
qed

text \<open>Once the store lists a certificate that has no pending connection, and as long as the later lists name it, its sessions
  are the ones the callback of a refresh has still to end.\<close>

interpretation listed_gateway: step_system "gw_step (\<lambda>_ serials. x \<in> set serials)" "\<lambda>g. tracked {x} g \<and> IsRevoked (r_crl g) x" for x
proof unfold_locales
  fix g g'
  assume g: "gw_step (\<lambda>_ serials. x \<in> set serials) g g'" and inv: "tracked {x} g \<and> IsRevoked (r_crl g) x"
  then have "tracked {x} g'" by (intro tracked_step[OF g]) auto
  moreover have "IsRevoked (r_crl g') x" using g inv by (cases rule: gw_step.cases) auto
  ultimately show "tracked {x} g' \<and> IsRevoked (r_crl g') x" ..
qed

lemma fetch_success:
  "fetchAndUpdate L send now (Some kill_revoked) st m = (None, st', m') \<Longrightarrow> sm_wf m \<Longrightarrow>
     m_sessions m' = filter (\<lambda>p. IsRevoked st (gs_cert_serial (snd p))
                               \<or> \<not> IsRevoked st' (gs_cert_serial (snd p))) (m_sessions m)"
proof -
  assume f: "fetchAndUpdate L send now (Some kill_revoked) st m = (None, st', m')" and wf: "sm_wf m"
  then obtain serials where Inr: "fetch_crl L send st = Inr serials"
    by (auto simp: fetchAndUpdate_def split: sum.splits)
  let ?new = "filter (\<lambda>s. \<not> IsRevoked st s) serials"
  have ne: "[] \<notin> set ?new" using fetch_crl_serials[OF Inr] by auto
  have "c_revoked st' = set serials" "m' = (if ?new \<noteq> [] then kill_revoked ?new m else m)"
    using f Inr by (auto simp: fetchAndUpdate_def Replace_def Let_def split: if_splits)
  then show ?thesis
    using kill_revoked_sessions[OF wf ne]
    by (cases "?new = []") (auto simp: IsRevoked_def filter_empty_conv intro!: filter_cong filter_True[symmetric])
qed

subsection \<open>Properties\<close>

definition ex_crl_lib :: crl_lib where
  "ex_crl_lib = \<lparr>cl_pem = (\<lambda>_. None), cl_parse = (\<lambda>t. Inr (List.map_filter Atoi (Fields t)))\<rparr>"

definition ex_crl_send :: "string \<Rightarrow> transport" where
  "ex_crl_send t = (\<lambda>_. HttpResponse 200 (Inr t))"

lemma ex_fetch:
  "length t \<le> MaxBody \<Longrightarrow>
     fetch_crl ex_crl_lib (ex_crl_send t) st = Inr (map Itoa (List.map_filter Atoi (Fields t)))"
  by (simp add: fetch_crl_def ex_crl_send_def parseCRLSerials_def ex_crl_lib_def)

lemma ex_crl_texts:
  "map Itoa (List.map_filter Atoi (Fields ''42'')) = [''42'']"
  "map Itoa (List.map_filter Atoi (Fields ''41'')) = [''41'']"
  "map Itoa (List.map_filter Atoi (Fields ''41 42'')) = [''41'', ''42'']"
  by code_simp+

definition ex_live :: gateway_run where
  "ex_live =
     (let g0 = gateway_start ''https://cp/pki/device-ca/crl'' 10;
          g1 = g0\<lparr>r_pending := [''42'']\<rparr>
      in g1\<lparr>r_pending := [], r_mgr := snd (Register (1000 * Second) (replicate 16 0) ex_gs (r_mgr g1))\<rparr>)"

lemma gw_path2: "gw_step c a b \<Longrightarrow> gw_step c b d \<Longrightarrow> (gw_step c)\<^sup>*\<^sup>* a d"
  by (meson converse_rtranclp_into_rtranclp r_into_rtranclp)

lemma fetch_Inr:
  "fetch_crl L send st = Inr serials \<Longrightarrow> fetchAndUpdate L send now (Some cb) st m = (r, st', m') \<Longrightarrow>
     r = None \<and> c_revoked st' = set serials"
  by (auto simp: fetchAndUpdate_def Replace_def Let_def split: if_splits)

lemma ex_live_reachable: "(gw_step ok)\<^sup>*\<^sup>* (gateway_start ''https://cp/pki/device-ca/crl'' 10) ex_live"
proof -
  let ?g0 = "gateway_start ''https://cp/pki/device-ca/crl'' 10"
  let ?g1 = "?g0\<lparr>r_pending := ''42'' # r_pending ?g0\<rparr>"
  have "gw_step ok ?g0 ?g1"
    by (rule gw_check) (simp add: gateway_start_def NewStoreWithConfig_def IsRevoked_def)
  moreover have "gw_step ok ?g1 (?g1\<lparr>r_pending := remove1 (gs_cert_serial ex_gs) (r_pending ?g1),
      r_mgr := snd (Register (1000 * Second) (replicate 16 0) ex_gs (r_mgr ?g1))\<rparr>)"
    by (rule gw_register) (simp add: ex_gs_def)
  then have "gw_step ok ?g1 ex_live"
    by (simp add: ex_live_def Let_def gateway_start_def ex_gs_def)
  ultimately show ?thesis by (rule gw_path2)
qed

text \<open>A successful refresh ends the sessions whose certificate is listed now and was not
  listed before, and no other session; the new set is the list that was downloaded.  A
  failed refresh changes nothing.\<close>

theorem crl_refresh_exact:
  assumes "(gw_step ok)\<^sup>*\<^sup>* (gateway_start url mx) g"
    and "crl_refresh L send now g = (r, g')"
  shows "(case fetch_crl L send (r_crl g) of
            Inl e \<Rightarrow> r = Some e \<and> g' = g
          | Inr serials \<Rightarrow> r = None
              \<and> (\<forall>x. IsRevoked (r_crl g') x = (x \<in> set serials))
              \<and> ListActive (r_mgr g') = filter (\<lambda>s. IsRevoked (r_crl g) (gs_cert_serial s)
                    \<or> \<not> IsRevoked (r_crl g') (gs_cert_serial s)) (ListActive (r_mgr g)))"
proof -
  note wf = gw_steps_wf[OF assms(1)]
  have f: "fetchAndUpdate L send now (Some kill_revoked) (r_crl g) (r_mgr g) = (r, r_crl g', r_mgr g')"
    using crl_refresh_state[of L send now g] assms(2) by simp
  show ?thesis
  proof (cases "fetch_crl L send (r_crl g)")
    case (Inl e)
    with assms(2) show ?thesis by (auto simp: crl_refresh_def fetchAndUpdate_def)
  next
    case (Inr serials)
    then have "r = None" "c_revoked (r_crl g') = set serials" using fetch_Inr[OF _ f] by auto
    moreover from this f have "m_sessions (r_mgr g') = filter (\<lambda>p. IsRevoked (r_crl g) (gs_cert_serial (snd p))
        \<or> \<not> IsRevoked (r_crl g') (gs_cert_serial (snd p))) (m_sessions (r_mgr g))"
      using fetch_success[of L send now "r_crl g" "r_mgr g" "r_crl g'" "r_mgr g'"] wf by simp
    ultimately show ?thesis using Inr by (simp add: IsRevoked_def ListActive_def filter_map o_def)
  qed
qed

theorem crl_refresh_exact_witness:
  "ListActive (r_mgr ex_live) \<noteq> []
   \<and> ListActive (r_mgr (snd (crl_refresh ex_crl_lib (ex_crl_send ''41 42'') 0 ex_live))) = []
   \<and> ListActive (r_mgr (snd (crl_refresh ex_crl_lib (ex_crl_send ''41'') 0 ex_live)))
        = ListActive (r_mgr ex_live)"
proof -
  have f: "fetch_crl ex_crl_lib (ex_crl_send ''41 42'') (r_crl ex_live) = Inr [''41'', ''42'']"
    "fetch_crl ex_crl_lib (ex_crl_send ''41'') (r_crl ex_live) = Inr [''41'']"
    by (subst ex_fetch; simp add: ex_crl_texts)+
  have l: "map gs_cert_serial (ListActive (r_mgr ex_live)) = [''42'']"
    "c_revoked (r_crl ex_live) = {}"
    by code_simp+
  then obtain s where s: "ListActive (r_mgr ex_live) = [s]" "gs_cert_serial s = ''42''" by auto
  show ?thesis
    using crl_refresh_exact[OF ex_live_reachable surjective_pairing, of ex_crl_lib "ex_crl_send ''41 42''" 0]
      crl_refresh_exact[OF ex_live_reachable surjective_pairing, of ex_crl_lib "ex_crl_send ''41''" 0]
    unfolding f s by (simp add: s IsRevoked_def l)
qed

text \<open>C11: as long as no refresh falls between a connection's revocation check and its
  registration, no live session ever carries a certificate that the store lists, except, while the callback of a refresh is
  at work, those it is about to end.\<close>

theorem revocation_calm:
  assumes "(gw_step calm_refresh)\<^sup>*\<^sup>* (gateway_start url mx) g"
  shows "list_all (\<lambda>s. \<not> IsRevoked (r_crl g) (gs_cert_serial s) \<or> gs_cert_serial s \<in> set (r_todo g)) (ListActive (r_mgr g))"
  using calm_gateway.reached_inv[OF assms] by (fastforce simp: tracked_def live_serial_iff ListActive_def list_all_iff)

theorem revocation_calm_witness:
  "list_all (\<lambda>s. \<not> IsRevoked (r_crl ex_live) (gs_cert_serial s) \<or> gs_cert_serial s \<in> set (r_todo ex_live)) (ListActive (r_mgr ex_live))
   \<and> r_todo ex_live = [] \<and> ListActive (r_mgr ex_live) \<noteq> []"
  by (rule conjI[OF revocation_calm[OF ex_live_reachable]]) code_simp

text \<open>A session whose serial is in the list already is passed over by every refresh.\<close>

lemma refresh_passes_over:
  assumes "sm_wf m" "GetSession sid m = Some s" "IsRevoked st (gs_cert_serial s)"
    and "fetchAndUpdate L send now (Some kill_revoked) st m = (r, st', m')"
  shows "GetSession sid m' = Some s"
proof (cases r)
  case None
  with assms(4) have "m_sessions m' = filter (\<lambda>p. IsRevoked st (gs_cert_serial (snd p))
      \<or> \<not> IsRevoked st' (gs_cert_serial (snd p))) (m_sessions m)"
    using fetch_success assms(1) by blast
  moreover have "distinct (map fst (m_sessions m))" using assms(1) by (simp add: sm_wf_def al_distinct_def)
  ultimately have "distinct (map fst (m_sessions m'))" "(sid, s) \<in> set (m_sessions m')"
    using assms(2,3) by (auto simp: distinct_map_filter GetSession_def dest: map_of_SomeD)
  then show ?thesis by (simp add: GetSession_def)
next
  case (Some e)
  then show ?thesis using rv.refresh_error assms(2,4) by metis
qed

text \<open>A refresh that falls between the check of a connection and its registration lets
  a revoked certificate open a session, and no later refresh ends that session, whatever
  list it downloads, because its serial is not new any more.\<close>

theorem revocation_race:
  "\<exists>g sid s. (gw_step any_refresh)\<^sup>*\<^sup>* (gateway_start ''https://cp/pki/device-ca/crl'' 10) g
     \<and> GetSession sid (r_mgr g) = Some s \<and> IsRevoked (r_crl g) (gs_cert_serial s)
     \<and> (\<forall>L send now. GetSession sid (r_mgr (snd (crl_refresh L send now g))) = Some s)"
proof -
  let ?g0 = "gateway_start ''https://cp/pki/device-ca/crl'' 10"
  let ?g1 = "?g0\<lparr>r_pending := ''42'' # r_pending ?g0\<rparr>"
  let ?g2 = "snd (crl_refresh ex_crl_lib (ex_crl_send ''42'') 0 ?g1)"
  let ?g3 = "?g2\<lparr>r_pending := remove1 (gs_cert_serial ex_gs) (r_pending ?g2),
      r_mgr := snd (Register (1000 * Second) (replicate 16 0) ex_gs (r_mgr ?g2))\<rparr>"
  let ?id = "generateUUID (replicate 16 0)"
  have 1: "gw_step any_refresh ?g0 ?g1"
    by (rule gw_check) (simp add: gateway_start_def NewStoreWithConfig_def IsRevoked_def)
  have listed: "fetch_crl ex_crl_lib (ex_crl_send ''42'') (r_crl ?g1) = Inr [''42'']"
    by (subst ex_fetch; simp add: ex_crl_texts)
  have "(gw_step any_refresh)\<^sup>*\<^sup>* ?g1 ?g2" by (rule crl_refresh_run[OF _ listed]) (simp add: gateway_start_def)
  with 1 have 2: "(gw_step any_refresh)\<^sup>*\<^sup>* ?g0 ?g2" by (rule converse_rtranclp_into_rtranclp)
  have 3: "gw_step any_refresh ?g2 ?g3"
    by (rule gw_register) (simp add: ex_gs_def gateway_start_def crl_refresh_def split: prod.split)
  from 2 3 have reach: "(gw_step any_refresh)\<^sup>*\<^sup>* ?g0 ?g3" by (rule rtranclp.rtrancl_into_rtrancl)
  note f = fetch_Inr[OF listed crl_refresh_state]
  from f have rev: "IsRevoked (r_crl ?g3) ''42''" by (simp add: IsRevoked_def)
  have wf2: "sm_wf (r_mgr ?g2)" by (rule gw_steps_wf[OF 2])
  have "m_sessions (r_mgr ?g1) = []"
    by (simp add: gateway_start_def NewManagerWithLimits_def NewManager_def)
  then have m2: "m_sessions (r_mgr ?g2) = []"
    using fetch_success[OF crl_refresh_state[of ex_crl_lib "ex_crl_send ''42''" 0 ?g1, unfolded conjunct1[OF f]]]
      gw_steps_wf[OF r_into_rtranclp[of "gw_step any_refresh", OF 1]] by simp
  obtain s where s: "m_sessions (r_mgr ?g3) = [(?id, s)]" "gs_cert_serial s = ''42''"
  proof (cases rule: Register_cases[of "r_mgr ?g2" ex_gs "1000 * Second" "replicate 16 0"])
    case full
    with m2 wf2 show ?thesis by (simp add: sm_wf_def)
  next
    case (new s2)
    show ?thesis by (rule that[of s2]) (use new m2 in \<open>simp_all add: al_put_def al_delete_def ex_gs_def\<close>)
  qed
  then have g: "GetSession ?id (r_mgr ?g3) = Some s" "IsRevoked (r_crl ?g3) (gs_cert_serial s)"
    using rev by (simp_all add: GetSession_def)
  from refresh_passes_over[OF gw_steps_wf[OF reach] g crl_refresh_state]
  have "GetSession ?id (r_mgr (snd (crl_refresh L send now ?g3))) = Some s" for L send now .
  with g show ?thesis
    by (intro exI[of _ ?g3] exI[of _ ?id] exI[of _ s] conjI allI reach)
qed

end
