(* ===== verification/Gw_Cache.thy ===== *)
theory Gw_Cache
  imports Go_Time
begin

text \<open>
  The cache of authorization decisions of the gateway
  (\<open>gateway/internal/infra/cache/cache.go\<close>).  When the cache is full, \<open>Put\<close> deletes the
  key that the runtime's map iteration yields first: the argument \<open>pick\<close> chooses it.
\<close>

record decision_entry =
  de_decision :: string
  de_reason :: string
  de_version :: int

record cache_item =
  it_entry :: decision_entry
  it_expires :: time

record decision_cache =
  dc_items :: "(string \<times> cache_item) list"
  dc_max :: int

definition new_cache :: "int \<Rightarrow> decision_cache" where
  "new_cache maxEntries =
     (let m = (if maxEntries \<le> 0 then 5000 else maxEntries) in \<lparr>dc_items = [], dc_max = m\<rparr>)"

definition cache_Get :: "string \<Rightarrow> time \<Rightarrow> decision_cache \<Rightarrow> decision_entry option \<times> decision_cache" where
  "cache_Get key now c =
     (case map_of (dc_items c) key of
        None \<Rightarrow> (None, c)
      | Some it \<Rightarrow>
          if it_expires it < now then (None, c\<lparr>dc_items := al_delete key (dc_items c)\<rparr>)
          else (Some (it_entry it), c))"

definition evict :: "nat \<Rightarrow> decision_cache \<Rightarrow> decision_cache" where
  "evict pick c =
     (if int (length (dc_items c)) \<ge> dc_max c \<and> dc_items c \<noteq> []
      then c\<lparr>dc_items := al_delete (fst (dc_items c ! (pick mod length (dc_items c)))) (dc_items c)\<rparr>
      else c)"

definition cache_Put ::
    "nat \<Rightarrow> time \<Rightarrow> string \<Rightarrow> decision_entry \<Rightarrow> duration \<Rightarrow> decision_cache \<Rightarrow> decision_cache" where
  "cache_Put pick now key entry ttl c =
     (if ttl \<le> 0 then c
      else (let c' = evict pick c in
            c'\<lparr>dc_items := al_put key \<lparr>it_entry = entry, it_expires = now + ttl\<rparr> (dc_items c')\<rparr>))"

definition cache_Clear :: "decision_cache \<Rightarrow> decision_cache" where
  "cache_Clear c = c\<lparr>dc_items := []\<rparr>"

subsection \<open>Histories of a cache\<close>

datatype cache_op =
    OpPut nat time string decision_entry duration
  | OpGet string time
  | OpClear

primrec cache_do :: "cache_op \<Rightarrow> decision_cache \<Rightarrow> decision_cache" where
  "cache_do (OpPut pick now key e ttl) c = cache_Put pick now key e ttl c"
| "cache_do (OpGet key now) c = snd (cache_Get key now c)"
| "cache_do OpClear c = cache_Clear c"

definition cache_wf :: "decision_cache \<Rightarrow> bool" where
  "cache_wf c = (al_distinct (dc_items c) \<and> 0 < dc_max c \<and> int (length (dc_items c)) \<le> dc_max c)"

lemma evict_simps [simp]: "dc_max (evict pick c) = dc_max c"
  by (simp add: evict_def)

lemma evict_distinct: "al_distinct (dc_items c) \<Longrightarrow> al_distinct (dc_items (evict pick c))"
  by (simp add: evict_def)

lemma evict_room:
  assumes "cache_wf c" shows "int (length (dc_items (evict pick c))) < dc_max c"
proof (cases "int (length (dc_items c)) \<ge> dc_max c \<and> dc_items c \<noteq> []")
  case True
  let ?k = "fst (dc_items c ! (pick mod length (dc_items c)))"
  have "?k \<in> fst ` set (dc_items c)" using True by simp
  then have "Suc (length (al_delete ?k (dc_items c))) = length (dc_items c)"
    using assms by (intro length_al_delete_present) (auto simp: cache_wf_def)
  with True assms show ?thesis by (simp add: evict_def cache_wf_def)
next
  case False
  with assms have "int (length (dc_items c)) < dc_max c" by (cases "dc_items c = []") (auto simp: cache_wf_def)
  with False show ?thesis by (simp add: evict_def)
qed

lemma cache_Put_wf: "cache_wf c \<Longrightarrow> cache_wf (cache_Put pick now key e ttl c)"
  using evict_room[of c pick] length_al_delete[of key "dc_items (evict pick c)"]
    evict_distinct[of c pick]
  by (auto simp: cache_Put_def cache_wf_def Let_def al_put_def intro: al_distinct_put[unfolded al_put_def])

lemma cache_delete_wf: "cache_wf c \<Longrightarrow> cache_wf (c\<lparr>dc_items := al_delete k (dc_items c)\<rparr>)"
  using of_nat_mono[OF length_al_delete[of k "dc_items c"], where ?'a = int]
  by (auto simp: cache_wf_def)

lemma cache_do_wf: "cache_wf c \<Longrightarrow> cache_wf (cache_do op c)"
proof (cases op)
  case OpClear
  assume "cache_wf c"
  with OpClear show ?thesis by (auto simp: cache_wf_def cache_Clear_def)
qed (auto simp: cache_Put_wf cache_Get_def cache_delete_wf split: option.splits)

lemma cache_run_wf: "cache_wf c \<Longrightarrow> cache_wf (fold cache_do ops c)"
  by (induction ops arbitrary: c) (auto simp: cache_do_wf)

lemma new_cache_wf: "cache_wf (new_cache mx)"
  by (simp add: cache_wf_def new_cache_def Let_def)

lemma cache_run_max: "dc_max (fold cache_do ops c) = dc_max c"
proof (induction ops arbitrary: c)
  case (Cons op ops)
  have "dc_max (cache_do op c) = dc_max c"
    by (cases op) (auto simp: cache_Put_def cache_Get_def cache_Clear_def Let_def split: option.splits)
  with Cons show ?case by simp
qed simp

text \<open>An item of the cache was put there by the last operation on its key.\<close>

definition put_since :: "cache_op list \<Rightarrow> string \<Rightarrow> cache_item \<Rightarrow> bool" where
  "put_since ops key it =
     (\<exists>pre post pick t ttl. ops = pre @ OpPut pick t key (it_entry it) ttl # post
        \<and> 0 < ttl \<and> it_expires it = t + ttl \<and> OpClear \<notin> set post
        \<and> (\<forall>pick' t' e' ttl'. OpPut pick' t' key e' ttl' \<in> set post \<longrightarrow> ttl' \<le> 0))"

lemma put_since_snoc:
  assumes "put_since ops key it" and "op \<noteq> OpClear"
    and "\<And>pick t e ttl. op = OpPut pick t key e ttl \<Longrightarrow> ttl \<le> 0"
  shows "put_since (ops @ [op]) key it"
proof -
  from assms(1) obtain pre post pick t ttl where
    "ops = pre @ OpPut pick t key (it_entry it) ttl # post" "0 < ttl" "it_expires it = t + ttl"
    "OpClear \<notin> set post" "\<forall>pick' t' e' ttl'. OpPut pick' t' key e' ttl' \<in> set post \<longrightarrow> ttl' \<le> 0"
    unfolding put_since_def by blast
  with assms(2,3) show ?thesis
    unfolding put_since_def
    by (intro exI[of _ pre] exI[of _ "post @ [op]"] exI[of _ pick] exI[of _ t] exI[of _ ttl]) auto
qed

lemma evict_subset: "map_of (dc_items (evict pick c)) key = Some it \<Longrightarrow> map_of (dc_items c) key = Some it"
  by (auto simp: evict_def split: if_splits)

lemma cache_items_put:
  "map_of (dc_items (fold cache_do ops (new_cache mx))) key = Some it \<Longrightarrow> put_since ops key it"
proof (induction ops arbitrary: it rule: rev_induct)
  case Nil
  then show ?case by (simp add: new_cache_def Let_def)
next
  case (snoc op ops)
  let ?c = "fold cache_do ops (new_cache mx)"
  have m: "map_of (dc_items (cache_do op ?c)) key = Some it" using snoc.prems by simp
  show ?case
  proof (cases op)
    case (OpPut pick t k e ttl)
    show ?thesis
    proof (cases "0 < ttl \<and> k = key")
      case True
      with m OpPut have "it = \<lparr>it_entry = e, it_expires = t + ttl\<rparr>"
        by (simp add: cache_Put_def Let_def)
      with True OpPut show ?thesis
        unfolding put_since_def
        by (intro exI[of _ ops] exI[of _ "[]"] exI[of _ pick] exI[of _ t] exI[of _ ttl]) simp
    next
      case False
      with m OpPut have "map_of (dc_items ?c) key = Some it"
        by (auto simp: cache_Put_def Let_def split: if_splits dest: evict_subset)
      with False OpPut show ?thesis by (intro put_since_snoc snoc.IH) auto
    qed
  next
    case (OpGet k t)
    with m have "map_of (dc_items ?c) key = Some it"
      by (auto simp: cache_Get_def split: option.splits if_splits)
    with OpGet show ?thesis by (intro put_since_snoc snoc.IH) auto
  next
    case OpClear
    with m show ?thesis by (simp add: cache_Clear_def)
  qed
qed

subsection \<open>What the handler relies on\<close>

text \<open>
  The interface \<open>DecisionCache\<close> of \<open>core/ports\<close>: a lookup answers with something that was put under its key, and
  nothing else ever enters.  It may forget.
\<close>

locale decision_store =
  fixes get :: "string \<Rightarrow> time \<Rightarrow> 'c \<Rightarrow> decision_entry option \<times> 'c"
    and put :: "nat \<Rightarrow> time \<Rightarrow> string \<Rightarrow> decision_entry \<Rightarrow> duration \<Rightarrow> 'c \<Rightarrow> 'c"
    and clear :: "'c \<Rightarrow> 'c"
    and entries :: "'c \<Rightarrow> (string \<times> decision_entry) set"
  assumes get_hit: "fst (get k now c) = Some e \<Longrightarrow> (k, e) \<in> entries c"
    and get_frame: "entries (snd (get k now c)) \<subseteq> entries c"
    and put_frame: "entries (put p now k e ttl c) \<subseteq> insert (k, e) (entries c)"
    and clear_frame: "entries (clear c) \<subseteq> entries c"
begin

lemma get_then_put: "entries (put p n k e ttl (snd (get k now c))) \<subseteq> insert (k, e) (entries c)"
  using put_frame[of p n k e ttl "snd (get k now c)"] get_frame[of k now c] by blast

text \<open>Whatever holds of the entries keeps holding, provided it holds of what is put.\<close>

lemma entries_kept:
  assumes "\<forall>(k, e)\<in>entries c. P k e"
  shows "\<forall>(k, e)\<in>entries (snd (get k' now c)). P k e"
    and "P k' e' \<Longrightarrow> \<forall>(k, e)\<in>entries (put p now k' e' ttl c). P k e"
    and "\<forall>(k, e)\<in>entries (clear c). P k e"
  using assms get_frame[of k' now c] put_frame[of p now k' e' ttl c] clear_frame[of c] by blast+

lemma get_holds: "\<forall>(k, e)\<in>entries c. P k e \<Longrightarrow> fst (get k now c) = Some e \<Longrightarrow> P k e"
  using get_hit by fast

end

definition cache_entries :: "decision_cache \<Rightarrow> (string \<times> decision_entry) set" where
  "cache_entries c = (\<lambda>(k, it). (k, it_entry it)) ` set (dc_items c)"

lemma cache_entries_new [simp]: "cache_entries (new_cache m) = {}"
  by (simp add: cache_entries_def new_cache_def Let_def)

lemma evict_items: "set (dc_items (evict pick c)) \<subseteq> set (dc_items c)"
  by (auto simp: evict_def set_al_delete)

interpretation cached: decision_store cache_Get cache_Put cache_Clear cache_entries
proof unfold_locales
  show "fst (cache_Get k now c) = Some e \<Longrightarrow> (k, e) \<in> cache_entries c" for k now c e
    by (force simp: cache_Get_def cache_entries_def split: option.splits if_splits dest: map_of_SomeD)
  show "cache_entries (snd (cache_Get k now c)) \<subseteq> cache_entries c" for k now c
    by (auto simp: cache_Get_def cache_entries_def set_al_delete split: option.splits)
  show "cache_entries (cache_Put p now k e ttl c) \<subseteq> insert (k, e) (cache_entries c)" for p now k e ttl c
  proof -
    have "set (dc_items (cache_Put p now k e ttl c)) \<subseteq> insert (k, \<lparr>it_entry = e, it_expires = now + ttl\<rparr>) (set (dc_items c))"
      using evict_items[of p c] by (auto simp: cache_Put_def Let_def al_put_def set_al_delete)
    from image_mono[OF this, of "\<lambda>(k, it). (k, it_entry it)"] show ?thesis by (simp add: cache_entries_def)
  qed
qed (simp add: cache_Clear_def cache_entries_def)

subsection \<open>Properties\<close>

text \<open>C28: whatever the history of the cache, a decision it serves is the one of the last
  effective \<open>Put\<close> of its key, made no longer ago than the time to live given then, with no
  \<open>Clear\<close> since; and the cache never holds more entries than its bound.\<close>

theorem cache_fresh:
  assumes "fst (cache_Get key now (fold cache_do ops (new_cache mx))) = Some e"
  shows "\<exists>it. it_entry it = e \<and> now \<le> it_expires it \<and> put_since ops key it
     \<and> int (length (dc_items (fold cache_do ops (new_cache mx)))) \<le> (if mx \<le> 0 then 5000 else mx)"
proof -
  let ?c = "fold cache_do ops (new_cache mx)"
  obtain it where it: "map_of (dc_items ?c) key = Some it" "it_entry it = e" "now \<le> it_expires it"
    using assms by (auto simp: cache_Get_def split: option.splits if_splits)
  have "int (length (dc_items ?c)) \<le> dc_max (new_cache mx)"
    using cache_run_wf[OF new_cache_wf, of ops mx] cache_run_max[of ops "new_cache mx"]
    by (simp add: cache_wf_def)
  with it cache_items_put[OF it(1)] show ?thesis
    by (intro exI[of _ it]) (simp add: new_cache_def Let_def split: if_splits)
qed

definition ex_entry :: decision_entry where
  "ex_entry = \<lparr>de_decision = ''allow'', de_reason = [], de_version = 3\<rparr>"

theorem cache_fresh_witness:
  "(\<exists>it. it_entry it = ex_entry \<and> 60 \<le> it_expires it
       \<and> put_since [OpPut 0 10 ''a'' ex_entry 50, OpPut 0 20 ''b'' ex_entry 50] ''a'' it
       \<and> int (length (dc_items (fold cache_do [OpPut 0 10 ''a'' ex_entry 50, OpPut 0 20 ''b'' ex_entry 50]
                 (new_cache 2)))) \<le> (if (2::int) \<le> 0 then 5000 else 2))
   \<and> fst (cache_Get ''a'' 61 (fold cache_do [OpPut 0 10 ''a'' ex_entry 50] (new_cache 2))) = None"
proof
  have "fst (cache_Get ''a'' 60 (fold cache_do [OpPut 0 10 ''a'' ex_entry 50, OpPut 0 20 ''b'' ex_entry 50]
      (new_cache 2))) = Some ex_entry" by code_simp
  from cache_fresh[OF this] show "\<exists>it. it_entry it = ex_entry \<and> 60 \<le> it_expires it
       \<and> put_since [OpPut 0 10 ''a'' ex_entry 50, OpPut 0 20 ''b'' ex_entry 50] ''a'' it
       \<and> int (length (dc_items (fold cache_do [OpPut 0 10 ''a'' ex_entry 50, OpPut 0 20 ''b'' ex_entry 50]
                 (new_cache 2)))) \<le> (if (2::int) \<le> 0 then 5000 else 2)" .
  show "fst (cache_Get ''a'' 61 (fold cache_do [OpPut 0 10 ''a'' ex_entry 50] (new_cache 2))) = None"
    by code_simp
qed

end
