(* ===== verification/Gw_Config.thy ===== *)
theory Gw_Config
  imports Go_Http
begin

text \<open>
  The configuration of the gateway (\<open>gateway/internal/config/config.go\<close>): loading,
  defaults, validation, and the table of routes, with the identity records and their
  checks (\<open>gateway/internal/core/domain/model.go\<close>).  The YAML decoder is a parameter.
\<close>

record gw_route =
  gr_type :: string
  gr_match :: string
  gr_target :: string

record gw_config =
  gc_listen :: string
  gc_cert_file :: string
  gc_key_file :: string
  gc_client_ca :: string
  gc_base_url :: string
  gc_ca_file :: string
  gc_insecure :: bool
  gc_auth_mode :: string
  gc_client_cert :: string
  gc_client_key :: string
  gc_pep_id :: string
  gc_pep_token :: string
  gc_dial_timeout :: string
  gc_max_conns :: int
  gc_log_level :: string
  gc_log_format :: string
  gc_gateway_id :: string
  gc_heartbeat :: duration
  gc_require_reg :: "bool option"
  gc_strict_revocation :: "bool option"
  gc_cache_ttl :: duration
  gc_cache_max :: int
  gc_cp_down :: string
  gc_crl_refresh :: duration
  gc_routes :: "gw_route list"

text \<open>Each default depends on its own field alone (that of \<open>gateway_id\<close> also on \<open>pep.id\<close>,
  which has none), so the assignments are made at once.\<close>

definition str_default :: "string \<Rightarrow> string \<Rightarrow> string" where
  "str_default v d = (if v = [] then d else v)"

definition int_default :: "int \<Rightarrow> int \<Rightarrow> int" where
  "int_default v d = (if v = 0 then d else v)"

definition gw_applyDefaults :: "gw_config \<Rightarrow> gw_config" where
  "gw_applyDefaults cfg = cfg\<lparr>
     gc_listen := str_default (gc_listen cfg) ''0.0.0.0:9443'',
     gc_gateway_id := str_default (gc_gateway_id cfg) (gc_pep_id cfg),
     gc_dial_timeout := str_default (gc_dial_timeout cfg) ''10s'',
     gc_max_conns := int_default (gc_max_conns cfg) 1000,
     gc_log_level := str_default (gc_log_level cfg) ''info'',
     gc_log_format := str_default (gc_log_format cfg) ''json'',
     gc_auth_mode := str_default (gc_auth_mode cfg) ''token'',
     gc_heartbeat := int_default (gc_heartbeat cfg) (30 * Second),
     gc_cache_ttl := int_default (gc_cache_ttl cfg) (60 * Second),
     gc_cache_max := (if gc_cache_max cfg \<le> 0 then 5000 else gc_cache_max cfg),
     gc_cp_down := str_default (gc_cp_down cfg) ''deny'',
     gc_crl_refresh := int_default (gc_crl_refresh cfg) (60 * Second)\<rparr>"

definition gw_Validate :: "gw_config \<Rightarrow> goerr option" where
  "gw_Validate c =
     (if gc_listen c = [] then Some (Errorf ''server.listen_addr est requis'')
      else if gc_cert_file c \<noteq> [] \<and> gc_key_file c = [] then Some (Errorf ''server.tls.key_file est requis'')
      else if gc_key_file c \<noteq> [] \<and> gc_cert_file c = [] then Some (Errorf ''server.tls.cert_file est requis'')
      else if gc_base_url c = [] then Some (Errorf ''control_plane.base_url est requis'')
      else if gc_pep_id c = [] then Some (Errorf ''pep.id est requis'')
      else if gc_auth_mode c \<noteq> ''mtls'' \<and> gc_auth_mode c \<noteq> ''token''
        then Some (Errorf ''control_plane.auth_mode doit etre mtls ou token'')
      else if gc_auth_mode c = ''token'' \<and> gc_pep_token c = [] then Some (Errorf ''pep.token est requis'')
      else if gc_auth_mode c = ''token'' \<and> length (gc_pep_token c) < 16
        then Some (Errorf ''pep.token doit faire au moins 16 caracteres'')
      else if gc_auth_mode c = ''mtls'' \<and> (gc_client_cert c = [] \<or> gc_client_key c = [])
        then Some (Errorf ''control_plane.client_cert_file et control_plane.client_key_file sont requis'')
      else if gc_auth_mode c = ''mtls'' \<and> \<not> gc_insecure c \<and> gc_ca_file c = []
        then Some (Errorf ''control_plane.ca_file est requis'')
      else if ParseDuration (gc_dial_timeout c) = None then Some (Errorf ''proxy.dial_timeout invalide'')
      else if gc_max_conns c < 1 then Some (Errorf ''proxy.max_conns doit etre > 0'')
      else if gc_cp_down c \<noteq> ''deny'' \<and> gc_cp_down c \<noteq> ''cache_allow''
        then Some (Errorf ''cp_down_mode doit etre deny ou cache_allow'')
      else None)"

definition gw_Load :: "string res \<Rightarrow> (string \<Rightarrow> gw_config res) \<Rightarrow> gw_config res" where
  "gw_Load content yaml =
     (case content of
        Inl e \<Rightarrow> Inl (Wrapf ''impossible de lire le fichier de configuration: '' e [])
      | Inr text \<Rightarrow>
          (case yaml text of
             Inl e \<Rightarrow> Inl (Wrapf ''erreur de parsing YAML: '' e [])
           | Inr cfg0 \<Rightarrow>
               (let cfg = gw_applyDefaults cfg0 in
                case gw_Validate cfg of
                  Some e \<Rightarrow> Inl (Wrapf ''configuration invalide: '' e [])
                | None \<Rightarrow> Inr cfg)))"

definition DialTimeoutDuration :: "gw_config \<Rightarrow> duration" where
  "DialTimeoutDuration c =
     (case ParseDuration (gc_dial_timeout c) of None \<Rightarrow> 10 * Second | Some d \<Rightarrow> d)"

definition RequireRegistrationEnabled :: "gw_config \<Rightarrow> bool" where
  "RequireRegistrationEnabled c = (case gc_require_reg c of None \<Rightarrow> True | Some b \<Rightarrow> b)"

definition StrictRevocationEnabled :: "gw_config \<Rightarrow> bool" where
  "StrictRevocationEnabled c = (case gc_strict_revocation c of None \<Rightarrow> True | Some b \<Rightarrow> b)"

subsection \<open>Routes\<close>

text \<open>The comparison of \<open>matchField\<close>: equal lengths and equal texts, whatever its comment says.\<close>

definition route_matchField :: "string \<Rightarrow> string \<Rightarrow> bool" where
  "route_matchField pattern v =
     (if pattern = ''*'' \<or> pattern = [] then True else length pattern = length v \<and> pattern = v)"

definition matchRoutePattern :: "string \<Rightarrow> string \<Rightarrow> bool" where
  "matchRoutePattern pattern v =
     (if pattern = ''*'' then True
      else if pattern \<noteq> [] \<and> last pattern = CHR ''*'' then
        (let prefix = butlast pattern in length v \<ge> length prefix \<and> take (length prefix) v = prefix)
      else pattern = v)"

fun resolve_in :: "gw_route list \<Rightarrow> string \<Rightarrow> string \<Rightarrow> string option" where
  "resolve_in [] resourceType canonical = None"
| "resolve_in (r # rs) resourceType canonical =
     (if \<not> route_matchField (gr_type r) resourceType then resolve_in rs resourceType canonical
      else if matchRoutePattern (gr_match r) canonical then Some (gr_target r)
      else resolve_in rs resourceType canonical)"

definition ResolveRoute :: "gw_config \<Rightarrow> string \<Rightarrow> string \<Rightarrow> string option" where
  "ResolveRoute c resourceType canonical = resolve_in (gc_routes c) resourceType canonical"

subsection \<open>Identity records\<close>

record subject_ref =
  sr_sub :: string
  sr_username :: string
  sr_groups :: "string list"

record resource_ref =
  rf_type :: string
  rf_host :: string
  rf_port :: int
  rf_name :: string

definition ErrInvalidRequest :: goerr where
  "ErrInvalidRequest = Errorf (''requ'' @ [CHR 0xC3, CHR 0xAA] @ ''te CONNECT invalide'')"

definition ErrNoIdentity :: goerr where
  "ErrNoIdentity = Errorf (''impossible d'' @ [CHR 0x27] @ ''extraire l'' @ [CHR 0x27] @ ''identit'' @ e_acute
     @ '' du certificat'')"

definition ErrControlPlaneUnreachable :: goerr where
  "ErrControlPlaneUnreachable = Errorf ''control plane inaccessible''"

definition gw_ResourceRef_Validate :: "resource_ref \<Rightarrow> goerr option" where
  "gw_ResourceRef_Validate r =
     (if rf_host r = [] then Some ErrInvalidRequest
      else if rf_port r < 1 \<or> rf_port r > 65535 then Some ErrInvalidRequest
      else if rf_type r = [] then Some ErrInvalidRequest
      else None)"

definition gw_SubjectRef_Validate :: "subject_ref \<Rightarrow> goerr option" where
  "gw_SubjectRef_Validate s = (if sr_sub s = [] then Some ErrNoIdentity else None)"

subsection \<open>Properties\<close>

lemma resolve_in_find:
  "resolve_in rs ty canonical = map_option gr_target
     (find (\<lambda>r. route_matchField (gr_type r) ty \<and> matchRoutePattern (gr_match r) canonical) rs)"
  by (induction rs) auto

lemma matchRoutePattern_prefix [simp]: "matchRoutePattern (p @ ''*'') (p @ v)"
  by (auto simp: matchRoutePattern_def Let_def)

lemma matchRoutePattern_star_iff: "matchRoutePattern (p @ ''*'') v \<longleftrightarrow> HasPrefix v p"
  by (cases p) (auto simp: matchRoutePattern_def Let_def HasPrefix_def dest: arg_cong[of _ _ length])

text \<open>A configuration the gateway starts with authenticates it to the control plane: it
  has an identity, and a token of at least sixteen bytes or a client certificate, with a
  trusted authority unless verification was switched off; its timeouts can be read and
  every default has been filled in.\<close>

theorem gw_Load_authenticated:
  assumes "gw_Load content yaml = Inr c"
  shows "gc_pep_id c \<noteq> [] \<and> gc_gateway_id c \<noteq> [] \<and> gc_base_url c \<noteq> [] \<and> gc_listen c \<noteq> []
    \<and> (case gc_auth_mode c = ''token'' of
         True \<Rightarrow> 16 \<le> length (gc_pep_token c)
       | False \<Rightarrow> gc_auth_mode c = ''mtls'' \<and> gc_client_cert c \<noteq> [] \<and> gc_client_key c \<noteq> []
           \<and> (case gc_insecure c of True \<Rightarrow> True | False \<Rightarrow> gc_ca_file c \<noteq> []))
    \<and> ParseDuration (gc_dial_timeout c) = Some (DialTimeoutDuration c)
    \<and> 0 < gc_max_conns c \<and> 0 < gc_cache_max c \<and> gc_cache_ttl c \<noteq> 0"
proof -
  obtain cfg0 where c: "c = gw_applyDefaults cfg0" and v: "gw_Validate c = None"
    using assms by (auto simp: gw_Load_def Let_def split: sum.splits option.splits)
  have d: "gc_cache_ttl c \<noteq> 0" "0 < gc_cache_max c" "gc_gateway_id c = [] \<Longrightarrow> gc_pep_id c = []"
    unfolding c by (auto simp: gw_applyDefaults_def str_default_def int_default_def split: if_splits)
  show ?thesis
    using v d by (auto simp: gw_Validate_def DialTimeoutDuration_def split: if_splits bool.splits)
qed

definition ex_gc0 :: gw_config where
  "ex_gc0 = \<lparr>gc_listen = [], gc_cert_file = ''gw.crt'', gc_key_file = ''gw.key'', gc_client_ca = ''ca.crt'',
     gc_base_url = ''https://cp:8443'', gc_ca_file = ''cp.crt'', gc_insecure = False, gc_auth_mode = [],
     gc_client_cert = [], gc_client_key = [], gc_pep_id = ''gw-1'', gc_pep_token = ''0123456789abcdef'',
     gc_dial_timeout = [], gc_max_conns = 0, gc_log_level = [], gc_log_format = [], gc_gateway_id = [],
     gc_heartbeat = 0, gc_require_reg = None, gc_strict_revocation = None, gc_cache_ttl = 0,
     gc_cache_max = 0, gc_cp_down = [], gc_crl_refresh = 0,
     gc_routes = [\<lparr>gr_type = ''ssh'', gr_match = ''ssh:lan-app:*'', gr_target = ''10.0.0.5:22''\<rparr>]\<rparr>"

definition ex_gc :: gw_config where
  "ex_gc = gw_applyDefaults ex_gc0"

lemma ex_gc_loaded: "gw_Load (Inr ''yaml'') (\<lambda>_. Inr ex_gc0) = Inr ex_gc"
  by code_simp

theorem gw_Load_authenticated_witness:
  "gc_pep_id ex_gc \<noteq> [] \<and> DialTimeoutDuration ex_gc = 10 * Second
   \<and> gw_Load (Inr ''yaml'') (\<lambda>_. Inr (ex_gc0\<lparr>gc_pep_token := ''short''\<rparr>))
       = Inl (Wrapf ''configuration invalide: '' (Errorf ''pep.token doit faire au moins 16 caracteres'') [])"
  by (rule conjI[OF conjunct1[OF gw_Load_authenticated[OF ex_gc_loaded]]], rule conjI) code_simp+

end
