(* ===== verification/Gw_Proxy.thy ===== *)
theory Gw_Proxy
  imports Gw_Config
begin

text \<open>
  The TCP proxy of the gateway (\<open>gateway/internal/infra/proxy/tcp.go\<close>): the check of the
  target against server-side request forgery, and the relay of the two streams.

  An address is Go's \<open>net.IP\<close>, a slice of 4 or 16 bytes.  Name resolution is a
  parameter (\<open>lookup\<close>), and so is \<open>net.ParseIP\<close>, which is only used for a host that the
  resolver refused.
\<close>

type_synonym ip = "8 word list"

subsection \<open>Classes of addresses (package \<open>net\<close>)\<close>

definition ip_To4 :: "ip \<Rightarrow> ip option" where
  "ip_To4 p =
     (if length p = 4 then Some p
      else if length p = 16 \<and> take 10 p = replicate 10 0 \<and> p ! 10 = 0xFF \<and> p ! 11 = 0xFF
      then Some (drop 12 p) else None)"

definition ip_Equal :: "ip \<Rightarrow> ip \<Rightarrow> bool" where
  "ip_Equal p q =
     (if length p = length q then p = q
      else if length p = 4 \<and> length q = 16 then replicate 10 0 @ [0xFF, 0xFF] @ p = q
      else if length p = 16 \<and> length q = 4 then p = replicate 10 0 @ [0xFF, 0xFF] @ q
      else False)"

definition IsLoopback :: "ip \<Rightarrow> bool" where
  "IsLoopback p = (case ip_To4 p of Some p4 \<Rightarrow> p4 ! 0 = 127 | None \<Rightarrow> ip_Equal p (replicate 15 0 @ [1]))"

definition IsLinkLocalUnicast :: "ip \<Rightarrow> bool" where
  "IsLinkLocalUnicast p =
     (case ip_To4 p of
        Some p4 \<Rightarrow> p4 ! 0 = 169 \<and> p4 ! 1 = 254
      | None \<Rightarrow> length p = 16 \<and> p ! 0 = 0xFE \<and> and (p ! 1) 0xC0 = 0x80)"

definition IsLinkLocalMulticast :: "ip \<Rightarrow> bool" where
  "IsLinkLocalMulticast p =
     (case ip_To4 p of
        Some p4 \<Rightarrow> p4 ! 0 = 224 \<and> p4 ! 1 = 0 \<and> p4 ! 2 = 0
      | None \<Rightarrow> length p = 16 \<and> p ! 0 = 0xFF \<and> and (p ! 1) 0x0F = 0x02)"

definition IsMulticast :: "ip \<Rightarrow> bool" where
  "IsMulticast p =
     (case ip_To4 p of
        Some p4 \<Rightarrow> and (p4 ! 0) 0xF0 = 0xE0
      | None \<Rightarrow> length p = 16 \<and> p ! 0 = 0xFF)"

definition IsUnspecified :: "ip \<Rightarrow> bool" where
  "IsUnspecified p = (ip_Equal p (replicate 10 0 @ [0xFF, 0xFF, 0, 0, 0, 0]) \<or> ip_Equal p (replicate 16 0))"

definition metadata_ip :: ip where
  "metadata_ip = replicate 10 0 @ [0xFF, 0xFF, 169, 254, 169, 254]"

subsection \<open>The check of the target\<close>

fun check_ips :: "string \<Rightarrow> ip list \<Rightarrow> goerr option" where
  "check_ips host [] = None"
| "check_ips host (p # ps) =
     (if IsLoopback p then Some (Errorf (''adresse loopback interdite: '' @ host))
      else if IsLinkLocalUnicast p \<or> IsLinkLocalMulticast p
        then Some (Errorf (''adresse link-local interdite: '' @ host))
      else if IsMulticast p then Some (Errorf (''adresse multicast interdite: '' @ host))
      else if IsUnspecified p
        then Some (Errorf (''adresse non sp'' @ e_acute @ ''cifi'' @ e_acute @ ''e interdite: '' @ host))
      else if ip_Equal p metadata_ip then Some (Errorf (''adresse metadata cloud interdite: '' @ host))
      else check_ips host ps)"

definition validateTarget ::
    "(string \<Rightarrow> ip list res) \<Rightarrow> (string \<Rightarrow> ip option) \<Rightarrow> string \<Rightarrow> int \<Rightarrow> goerr option" where
  "validateTarget lookup parse_ip host port =
     (if host = [] then Some (Errorf ''host cible vide'')
      else if port \<le> 0 \<or> port > 65535 then Some (Errorf ''port cible invalide'')
      else case lookup host of
        Inr ips \<Rightarrow> check_ips host ips
      | Inl e \<Rightarrow>
          (case parse_ip host of
             None \<Rightarrow> Some (Wrapf (''r'' @ e_acute @ ''solution DNS '' @ e_acute @ ''chou'' @ e_acute @ ''e pour '' @ host @ '': '') e [])
           | Some p \<Rightarrow> check_ips host [p]))"

subsection \<open>The relay\<close>

text \<open>
  What happens to an open relay, in the order in which it happens: a block of bytes
  is copied one way or the other, one of the two copies ends (with an error or
  without), or the context of the session is cancelled or passes its deadline.  The
  copies read and write the two connections only; the context is looked at once,
  after both have ended.
\<close>

datatype direction = ClientToTarget | TargetToClient

datatype ctx_err = DeadlineExceeded | Canceled

datatype relay_event =
    Copied direction nat
  | CopyEnds direction "goerr option"
  | CtxDone ctx_err

record relay =
  rl_in :: int
  rl_out :: int
  rl_ctx :: "ctx_err option"
  rl_first :: "(direction \<times> goerr option) option"
  rl_both :: bool

definition relay_start :: "ctx_err option \<Rightarrow> relay" where
  "relay_start ctx = \<lparr>rl_in = 0, rl_out = 0, rl_ctx = ctx, rl_first = None, rl_both = False\<rparr>"

text \<open>A context keeps the first reason it ended for.  The copy that ends first is the one whose result is
  taken; the other may still copy until it meets the closed connections, and the context is asked only
  once both have ended (\<open>wg.Wait\<close>).\<close>

definition copying :: "direction \<Rightarrow> relay \<Rightarrow> bool" where
  "copying d r = (case rl_first r of None \<Rightarrow> True | Some (d', _) \<Rightarrow> d' \<noteq> d)"

definition relay_event_step :: "relay_event \<Rightarrow> relay \<Rightarrow> relay" where
  "relay_event_step ev r =
     (if rl_both r then r
      else case ev of
        Copied d n \<Rightarrow>
          if \<not> copying d r then r
          else (case d of
                  ClientToTarget \<Rightarrow> r\<lparr>rl_in := rl_in r + int n\<rparr>
                | TargetToClient \<Rightarrow> r\<lparr>rl_out := rl_out r + int n\<rparr>)
      | CopyEnds d e \<Rightarrow>
          if rl_first r = None then r\<lparr>rl_first := Some (d, e)\<rparr>
          else if copying d r then r\<lparr>rl_both := True\<rparr>
          else r
      | CtxDone c \<Rightarrow> (if rl_ctx r = None then r\<lparr>rl_ctx := Some c\<rparr> else r))"

record proxy_result =
  pr_in :: int
  pr_out :: int
  pr_reason :: string

text \<open>The end reason, where the first copy that ended is \<open>d\<close>, with the error \<open>e\<close>.\<close>

definition end_reason :: "relay \<Rightarrow> direction \<Rightarrow> goerr option \<Rightarrow> string" where
  "end_reason r d e =
     (case rl_ctx r of
        Some DeadlineExceeded \<Rightarrow> ''ttl_expired''
      | Some Canceled \<Rightarrow> ''admin_kill''
      | None \<Rightarrow>
          (case e of
             None \<Rightarrow> ''normal''
           | Some _ \<Rightarrow> (case d of ClientToTarget \<Rightarrow> ''client_close'' | TargetToClient \<Rightarrow> ''target_close'')))"

text \<open>\<open>None\<close>: the relay is still running after these events.\<close>

definition relay_run :: "ctx_err option \<Rightarrow> relay_event list \<Rightarrow> proxy_result option" where
  "relay_run ctx evs =
     (let r = fold relay_event_step evs (relay_start ctx) in
      if \<not> rl_both r then None
      else case rl_first r of
        None \<Rightarrow> None
      | Some (d, e) \<Rightarrow> Some \<lparr>pr_in = rl_in r, pr_out = rl_out r, pr_reason = end_reason r d e\<rparr>)"

text \<open>
  \<open>Proxy\<close>: check, dial, relay.  The dialer is a parameter; it gets the target as text
  and the timeout.  The result is \<open>None\<close> while the relay runs.
\<close>

definition Proxy ::
    "(string \<Rightarrow> ip list res) \<Rightarrow> (string \<Rightarrow> ip option) \<Rightarrow> (duration \<Rightarrow> string \<Rightarrow> goerr option)
     \<Rightarrow> gw_config \<Rightarrow> ctx_err option \<Rightarrow> string \<Rightarrow> int \<Rightarrow> relay_event list \<Rightarrow> proxy_result option" where
  "Proxy lookup parse_ip dial cfg ctx targetHost targetPort evs =
     (case validateTarget lookup parse_ip targetHost targetPort of
        Some _ \<Rightarrow> Some \<lparr>pr_in = 0, pr_out = 0, pr_reason = ''invalid_target''\<rparr>
      | None \<Rightarrow>
          (let target = targetHost @ '':'' @ Itoa targetPort in
           case dial (DialTimeoutDuration cfg) target of
             Some _ \<Rightarrow> Some \<lparr>pr_in = 0, pr_out = 0, pr_reason = ''target_unreachable''\<rparr>
           | None \<Rightarrow> relay_run ctx evs))"

subsection \<open>Facts\<close>

lemma check_ips_None:
  "check_ips host ps = None \<longleftrightarrow>
     list_all (\<lambda>p. \<not> IsLoopback p \<and> \<not> IsLinkLocalUnicast p \<and> \<not> IsLinkLocalMulticast p
       \<and> \<not> IsMulticast p \<and> \<not> IsUnspecified p \<and> \<not> ip_Equal p metadata_ip) ps"
  by (induction ps) auto

definition copied_in :: "relay_event list \<Rightarrow> int" where
  "copied_in evs = sum_list (map (\<lambda>ev. case ev of Copied ClientToTarget n \<Rightarrow> int n | _ \<Rightarrow> 0) evs)"

definition copied_out :: "relay_event list \<Rightarrow> int" where
  "copied_out evs = sum_list (map (\<lambda>ev. case ev of Copied TargetToClient n \<Rightarrow> int n | _ \<Rightarrow> 0) evs)"

definition no_end :: "relay_event list \<Rightarrow> bool" where
  "no_end evs = list_all (\<lambda>ev. case ev of CopyEnds _ _ \<Rightarrow> False | _ \<Rightarrow> True) evs"

definition first_ctx :: "ctx_err option \<Rightarrow> relay_event list \<Rightarrow> ctx_err option" where
  "first_ctx ctx evs =
     (case ctx of
        Some c \<Rightarrow> Some c
      | None \<Rightarrow> (case List.map_filter (\<lambda>ev. case ev of CtxDone c \<Rightarrow> Some c | _ \<Rightarrow> None) evs of
                  [] \<Rightarrow> None | c # _ \<Rightarrow> Some c))"

fun opposite :: "direction \<Rightarrow> direction" where
  "opposite ClientToTarget = TargetToClient"
| "opposite TargetToClient = ClientToTarget"

lemma opposite_neq [simp]: "opposite d \<noteq> d" "d \<noteq> opposite d"
  by (cases d; simp)+

lemma relay_no_end:
  "no_end evs \<Longrightarrow> \<not> rl_both r \<Longrightarrow>
     fold relay_event_step evs r = r\<lparr>rl_in := rl_in r + (if copying ClientToTarget r then copied_in evs else 0),
       rl_out := rl_out r + (if copying TargetToClient r then copied_out evs else 0), rl_ctx := first_ctx (rl_ctx r) evs\<rparr>"
proof (induction evs arbitrary: r)
  case Nil
  then show ?case
    by (simp add: copied_in_def copied_out_def first_ctx_def List.map_filter_def split: option.splits)
next
  case (Cons ev evs)
  then show ?case
    by (cases ev) (auto simp: no_end_def relay_event_step_def copied_in_def copied_out_def first_ctx_def copying_def
        List.map_filter_def split: direction.splits option.splits)
qed

lemma relay_stopped: "rl_both r \<Longrightarrow> fold relay_event_step evs r = r"
  by (induction evs) (auto simp: relay_event_step_def)

lemma first_ctx_append: "first_ctx (first_ctx c pre) mid = first_ctx c (pre @ mid)"
  by (auto simp: first_ctx_def List.map_filter_def split: option.splits list.splits)

text \<open>What the second copy brought over before it ended counts; the reason is the first's.\<close>

lemma relay_run_end:
  assumes "no_end pre" "no_end mid"
  shows "relay_run ctx (pre @ CopyEnds d e # mid @ CopyEnds (opposite d) e' # post) =
     Some \<lparr>pr_in = copied_in pre + (if d = ClientToTarget then 0 else copied_in mid),
       pr_out = copied_out pre + (if d = TargetToClient then 0 else copied_out mid),
       pr_reason = end_reason ((relay_start ctx)\<lparr>rl_ctx := first_ctx ctx (pre @ mid)\<rparr>) d e\<rparr>"
proof -
  let ?r1 = "(relay_start ctx)\<lparr>rl_in := copied_in pre, rl_out := copied_out pre, rl_ctx := first_ctx ctx pre, rl_first := Some (d, e)\<rparr>"
  have "fold relay_event_step (pre @ [CopyEnds d e]) (relay_start ctx) = ?r1"
    using assms(1) by (simp add: relay_no_end relay_start_def copying_def relay_event_step_def)
  then have "relay_run ctx (pre @ CopyEnds d e # mid @ CopyEnds (opposite d) e' # post) =
      (let r = fold relay_event_step (mid @ CopyEnds (opposite d) e' # post) ?r1 in
       if \<not> rl_both r then None
       else case rl_first r of None \<Rightarrow> None
         | Some (d, e) \<Rightarrow> Some \<lparr>pr_in = rl_in r, pr_out = rl_out r, pr_reason = end_reason r d e\<rparr>)"
    by (simp add: relay_run_def)
  also have "fold relay_event_step (mid @ CopyEnds (opposite d) e' # post) ?r1 =
      ?r1\<lparr>rl_in := copied_in pre + (if d = ClientToTarget then 0 else copied_in mid),
        rl_out := copied_out pre + (if d = TargetToClient then 0 else copied_out mid),
        rl_ctx := first_ctx ctx (pre @ mid), rl_both := True\<rparr>"
    using assms(2)
    by (cases d) (simp_all add: relay_no_end relay_start_def copying_def relay_event_step_def relay_stopped first_ctx_append)
  finally show ?thesis by (simp add: end_reason_def Let_def)
qed

lemma relay_run_open: "no_end evs \<Longrightarrow> relay_run ctx evs = None"
  by (simp add: relay_run_def relay_no_end relay_start_def Let_def)

text \<open>One copy alone does not end the relay.\<close>

lemma relay_run_half: "no_end pre \<Longrightarrow> no_end mid \<Longrightarrow> relay_run ctx (pre @ CopyEnds d e # mid) = None"
  by (simp add: relay_run_def relay_no_end relay_start_def relay_event_step_def Let_def)

lemma relay_ctx_source:
  "rl_ctx (fold relay_event_step evs r) = Some c \<Longrightarrow> rl_ctx r = Some c \<or> CtxDone c \<in> set evs"
proof (induction evs arbitrary: r)
  case (Cons ev evs)
  from Cons.IH[of "relay_event_step ev r"] Cons.prems show ?case
    by (auto simp: relay_event_step_def split: relay_event.splits direction.splits if_splits)
qed simp

lemma first_ctx_in: "CtxDone c \<in> set evs \<Longrightarrow> first_ctx None evs \<noteq> None"
  by (induction evs) (auto simp: first_ctx_def List.map_filter_def split: relay_event.splits)

lemma relay_expired:
  assumes "relay_run None evs = Some p" "pr_reason p = ''ttl_expired''"
  shows "CtxDone DeadlineExceeded \<in> set evs"
proof -
  let ?r = "fold relay_event_step evs (relay_start None)"
  obtain d e where "pr_reason p = end_reason ?r d e"
    using assms(1) by (auto simp: relay_run_def Let_def split: option.splits if_splits)
  with assms(2) have "rl_ctx ?r = Some DeadlineExceeded"
    by (auto simp: end_reason_def split: option.splits direction.splits ctx_err.splits)
  from relay_ctx_source[OF this] show ?thesis by (auto simp: relay_start_def)
qed

lemma relay_reason_ctx:
  assumes "relay_run None evs = Some p" and "pr_reason p = ''ttl_expired'' \<or> pr_reason p = ''admin_kill''"
  shows "first_ctx None evs \<noteq> None"
proof -
  let ?r = "fold relay_event_step evs (relay_start None)"
  obtain d e where "pr_reason p = end_reason ?r d e"
    using assms(1) by (auto simp: relay_run_def Let_def split: option.splits if_splits)
  with assms(2) obtain c where "rl_ctx ?r = Some c"
    by (auto simp: end_reason_def split: option.splits direction.splits)
  from relay_ctx_source[OF this] show ?thesis using first_ctx_in by (auto simp: relay_start_def)
qed

lemma Proxy_reason_ctx:
  "Proxy lookup parse_ip dial cfg None host port evs = Some p \<Longrightarrow>
     pr_reason p = ''ttl_expired'' \<or> pr_reason p = ''admin_kill'' \<Longrightarrow> first_ctx None evs \<noteq> None"
  by (auto simp: Proxy_def Let_def split: option.splits dest: relay_reason_ctx)

subsection \<open>Properties\<close>

lemma byte_cases: "unat (w :: 8 word) \<in> set [0..<256]"
  using unsigned_less[of w] by simp

lemma multicast_byte: "(and (a :: 8 word) 0xF0 = 0xE0) = (224 \<le> unat a \<and> unat a < 240)"
proof -
  have "list_all (\<lambda>n. (and (word_of_nat n :: 8 word) 0xF0 = 0xE0) = (224 \<le> n \<and> n < 240)) [0..<256]"
    by code_simp
  then have "\<forall>n\<in>set [0..<256]. (and (word_of_nat n :: 8 word) 0xF0 = 0xE0) = (224 \<le> n \<and> n < 240)"
    by (simp only: list_all_iff)
  from bspec[OF this byte_cases[of a]] show ?thesis by simp
qed

text \<open>C26: a target that passes the check has a host, a port of 1 to 65535, and none of the
  addresses its name resolves to is a loopback, link-local, multicast or unspecified IPv4
  address, in its short or its IPv6-mapped form; the metadata address is among the
  link-local ones.\<close>

theorem validateTarget_sound:
  assumes "validateTarget lookup parse_ip host port = None" and "lookup host = Inr ips"
    and "p \<in> set ips" and "ip_To4 p = Some [a, b, c, d]"
  shows "host \<noteq> [] \<and> 1 \<le> port \<and> port \<le> 65535 \<and> unat a \<noteq> 127 \<and> (unat a, unat b) \<noteq> (169, 254)
    \<and> (unat a < 224 \<or> 240 \<le> unat a) \<and> [a, b, c, d] \<noteq> [0, 0, 0, 0]"
proof -
  have "check_ips host ips = None" and hp: "host \<noteq> []" "1 \<le> port" "port \<le> 65535"
    using assms(1,2) by (auto simp: validateTarget_def split: if_splits)
  with assms(3) have p: "\<not> IsLoopback p" "\<not> IsLinkLocalUnicast p" "\<not> IsMulticast p" "\<not> IsUnspecified p"
    by (auto simp: check_ips_None list_all_iff)
  have "a \<noteq> 127" using p(1) assms(4) by (simp add: IsLoopback_def)
  moreover have "\<not> (a = 169 \<and> b = 254)" using p(2) assms(4) by (simp add: IsLinkLocalUnicast_def)
  moreover have "\<not> (224 \<le> unat a \<and> unat a < 240)"
    using p(3) assms(4) by (simp add: IsMulticast_def multicast_byte)
  moreover have "[a, b, c, d] \<noteq> [0, 0, 0, 0]"
  proof
    assume z: "[a, b, c, d] = [0, 0, 0, 0]"
    from assms(4) have "p = [a, b, c, d] \<or>
        (length p = 16 \<and> take 10 p = replicate 10 0 \<and> p ! 10 = 0xFF \<and> p ! 11 = 0xFF \<and> drop 12 p = [a, b, c, d])"
      by (auto simp: ip_To4_def split: if_splits)
    then show False
    proof
      assume "p = [a, b, c, d]"
      with z p(4) show False by (simp add: IsUnspecified_def ip_Equal_def)
    next
      assume q: "length p = 16 \<and> take 10 p = replicate 10 0 \<and> p ! 10 = 0xFF \<and> p ! 11 = 0xFF
        \<and> drop 12 p = [a, b, c, d]"
      have "drop 10 p = p ! 10 # p ! 11 # drop 12 p"
        using q Cons_nth_drop_Suc[of 10 p] Cons_nth_drop_Suc[of 11 p] by simp
      then have "p = take 10 p @ [p ! 10, p ! 11] @ drop 12 p"
        using append_take_drop_id[of 10 p] by simp
      with q z p(4) show False by (simp add: IsUnspecified_def ip_Equal_def)
    qed
  qed
  ultimately show ?thesis
    using hp by (auto simp: word_unat_eq_iff)
qed

theorem validateTarget_sound_witness:
  "validateTarget (\<lambda>_. Inr [[10, 0, 0, 5]]) (\<lambda>_. None) ''db.lan'' 5432 = None
   \<and> (''db.lan'' \<noteq> [] \<and> 1 \<le> (5432 :: int) \<and> (5432 :: int) \<le> 65535 \<and> unat (10 :: 8 word) \<noteq> 127
      \<and> (unat (10 :: 8 word), unat (0 :: 8 word)) \<noteq> (169, 254)
      \<and> (unat (10 :: 8 word) < 224 \<or> 240 \<le> unat (10 :: 8 word))
      \<and> [10 :: 8 word, 0, 0, 5] \<noteq> [0, 0, 0, 0])
   \<and> validateTarget (\<lambda>_. Inr [[10, 0, 0, 5], [127, 0, 0, 1]]) (\<lambda>_. None) ''db.lan'' 5432 \<noteq> None"
proof -
  have v: "validateTarget (\<lambda>_. Inr [[10, 0, 0, 5]]) (\<lambda>_. None) ''db.lan'' 5432 = None" by code_simp
  have n: "validateTarget (\<lambda>_. Inr [[10, 0, 0, 5], [127, 0, 0, 1]]) (\<lambda>_. None) ''db.lan'' 5432 \<noteq> None"
    by code_simp
  have f: "ip_To4 [10, 0, 0, 5] = Some [10, 0, 0, 5]" by code_simp
  show ?thesis
    by (intro conjI[OF v conjI[OF _ n]] validateTarget_sound[OF v refl _ f]) simp
qed

text \<open>The broadcast address, which the comment of \<open>validateTarget\<close> lists, passes.\<close>

lemma broadcast_passes: "validateTarget (\<lambda>_. Inr [[255, 255, 255, 255]]) (\<lambda>_. None) ''lan'' 80 = None"
  by code_simp

text \<open>C27: neither the deadline of a session nor its cancellation (an administrator, a revoked
  certificate, the collector) stops an open relay: it goes on copying, and ends only when
  the copy of one of the two peers does (the other then meets the closed connections); the reason is then reported as if the context had ended it.\<close>

theorem relay_outlives_context:
  assumes "no_end pre" and "no_end post" and "first_ctx None pre = None"
  shows "relay_run None (pre @ CtxDone ctx # post) = None
    \<and> relay_run None (pre @ CtxDone ctx # post @ [CopyEnds d e, CopyEnds (opposite d) e']) =
        Some \<lparr>pr_in = copied_in pre + copied_in post, pr_out = copied_out pre + copied_out post,
              pr_reason = (case ctx of DeadlineExceeded \<Rightarrow> ''ttl_expired'' | Canceled \<Rightarrow> ''admin_kill'')\<rparr>"
proof -
  let ?evs = "pre @ CtxDone ctx # post"
  have n: "no_end ?evs" "no_end []" using assms by (simp_all add: no_end_def)
  have c: "copied_in ?evs = copied_in pre + copied_in post" "copied_out ?evs = copied_out pre + copied_out post"
    "copied_in [] = 0" "copied_out [] = 0"
    by (simp_all add: copied_in_def copied_out_def)
  have "first_ctx None ?evs = Some ctx"
    using assms(3) by (auto simp: first_ctx_def List.map_filter_def split: list.splits)
  then show ?thesis
    using relay_run_open[OF n(1)] relay_run_end[OF n, of None d e e' "[]"] c
    by (auto simp: end_reason_def split: ctx_err.splits)
qed

theorem relay_outlives_context_witness:
  "relay_run None ([Copied ClientToTarget 10] @ CtxDone DeadlineExceeded # [Copied TargetToClient 20]) = None
   \<and> relay_run None ([Copied ClientToTarget 10] @ CtxDone DeadlineExceeded # [Copied TargetToClient 20]
         @ [CopyEnds TargetToClient None, CopyEnds ClientToTarget None]) =
       Some \<lparr>pr_in = 10, pr_out = 20, pr_reason = ''ttl_expired''\<rparr>"
  using relay_outlives_context[of "[Copied ClientToTarget 10]" "[Copied TargetToClient 20]" DeadlineExceeded
      TargetToClient None None]
  by (simp add: no_end_def first_ctx_def List.map_filter_def copied_in_def copied_out_def)

end
