(* ===== verification/Gw_Identity.thy ===== *)
theory Gw_Identity
  imports Gw_Config
begin

text \<open>
  The identity of a client from its verified certificate
  (\<open>gateway/internal/infra/mtls/identity.go\<close>) and the acceptance of a connection by the
  listener (\<open>gateway/internal/infra/mtls/listener.go\<close>).
\<close>

text \<open>The fields of a parsed \<open>x509.Certificate\<close> and of its URI names that are read.\<close>

record cert_uri =
  uri_scheme :: string
  uri_opaque :: string
  uri_text :: string

record client_cert =
  cc_uris :: "cert_uri list"
  cc_dns :: "string list"
  cc_cn :: string
  cc_orgs :: "string list"
  cc_serial :: int
  cc_not_after :: time

fun sub_from_uris :: "cert_uri list \<Rightarrow> string" where
  "sub_from_uris [] = []"
| "sub_from_uris (u # us) =
     (if uri_scheme u = ''oidc''
      then (if uri_opaque u = [] then TrimPrefix (uri_text u) ''oidc:'' else uri_opaque u)
      else sub_from_uris us)"

definition ExtractSubjectFromCert :: "client_cert \<Rightarrow> subject_ref" where
  "ExtractSubjectFromCert cert =
     (let sub1 = sub_from_uris (cc_uris cert);
          sub2 = (if sub1 = [] \<and> cc_dns cert \<noteq> [] then hd (cc_dns cert) else sub1);
          sub3 = (if sub2 = [] \<and> cc_cn cert \<noteq> [] then cc_cn cert else sub2);
          username = (if cc_cn cert \<noteq> [] \<and> cc_cn cert \<noteq> sub3 then cc_cn cert else sub3)
      in \<lparr>sr_sub = sub3, sr_username = username, sr_groups = cc_orgs cert\<rparr>)"

text \<open>\<open>parseOIDCURI\<close>: the parameter is the scheme \<open>url.Parse\<close> finds, or its error.\<close>

definition parseOIDCURI :: "(string \<Rightarrow> string option) \<Rightarrow> string \<Rightarrow> string" where
  "parseOIDCURI scheme_of raw =
     (case scheme_of raw of
        None \<Rightarrow> []
      | Some scheme \<Rightarrow> if scheme \<noteq> ''oidc'' then [] else TrimPrefix raw ''oidc:'')"

subsection \<open>The listener\<close>

text \<open>
  What one turn of the accept loop does.  The TLS stack is a parameter: the result of
  the handshake is an error or the peer's certificates, which it verified against
  \<open>client_ca_file\<close>; \<open>revoked\<close> is the revocation store's \<open>IsRevoked\<close>, if there is one.
\<close>

datatype accept_result = AcceptClosed | AcceptHandled client_cert

definition listener_accept ::
    "(string \<Rightarrow> bool) option \<Rightarrow> bool \<Rightarrow> client_cert list res \<Rightarrow> accept_result" where
  "listener_accept revoked is_tls handshake =
     (if \<not> is_tls then AcceptClosed
      else case handshake of
        Inl _ \<Rightarrow> AcceptClosed
      | Inr [] \<Rightarrow> AcceptClosed
      | Inr (clientCert # _) \<Rightarrow>
          (case revoked of
             Some is_rev \<Rightarrow> if is_rev (Itoa (cc_serial clientCert)) then AcceptClosed
                            else AcceptHandled clientCert
           | None \<Rightarrow> AcceptHandled clientCert))"

subsection \<open>Facts\<close>

lemma sub_from_uris_none: "list_all (\<lambda>u. uri_scheme u \<noteq> ''oidc'') us \<Longrightarrow> sub_from_uris us = []"
  by (induction us) auto

lemma ExtractSubject_cn:
  "cc_uris cert = [] \<Longrightarrow> cc_dns cert = [] \<Longrightarrow>
     ExtractSubjectFromCert cert = \<lparr>sr_sub = cc_cn cert, sr_username = cc_cn cert, sr_groups = cc_orgs cert\<rparr>"
  by (simp add: ExtractSubjectFromCert_def Let_def)

lemma ExtractSubject_sub_empty:
  "sr_sub (ExtractSubjectFromCert cert) = [] \<Longrightarrow> cc_cn cert = []"
  by (auto simp: ExtractSubjectFromCert_def Let_def split: if_splits)

end
