(* ===== verification/Gw_Clients.thy ===== *)
theory Gw_Clients
  imports Gw_Identity
begin

text \<open>
  The gateway's clients of the control plane: authorization (\<open>infra/authz\<close>), resolution
  of published resources (\<open>infra/resource\<close>), session telemetry (\<open>infra/telemetry\<close>) and
  the heartbeat (\<open>infra/heartbeat\<close>).  The text of a JSON document is turned into a \<open>jval\<close>
  by the parameter \<open>parse_json\<close>, and a request into text by an encoder; how a document is
  stored into a struct is the model of \<open>encoding/json\<close> in \<open>Go_Http\<close>.
\<close>

subsection \<open>Authorization\<close>

record authz_request =
  aq_subject :: subject_ref
  aq_action :: string
  aq_resource :: resource_ref
  aq_source_ip :: string
  aq_gateway :: string

record authz_response =
  az_decision :: string
  az_ttl :: int
  az_reason :: string
  az_version :: int
  az_id :: string

definition IsAllow :: "authz_response option \<Rightarrow> bool" where
  "IsAllow r = (case r of None \<Rightarrow> False | Some a \<Rightarrow> az_decision a = ''allow'')"

definition IsDeny :: "authz_response option \<Rightarrow> bool" where
  "IsDeny r = (case r of None \<Rightarrow> True | Some a \<Rightarrow> az_decision a = ''deny'')"

definition authz_put :: "string \<Rightarrow> jval \<Rightarrow> authz_response \<Rightarrow> authz_response res" where
  "authz_put k v r =
     (if EqualFold k ''decision'' then bind_res (json_str v (az_decision r)) (\<lambda>x. r\<lparr>az_decision := x\<rparr>)
      else if EqualFold k ''ttl_seconds'' then bind_res (json_int v (az_ttl r)) (\<lambda>x. r\<lparr>az_ttl := x\<rparr>)
      else if EqualFold k ''reason'' then bind_res (json_str v (az_reason r)) (\<lambda>x. r\<lparr>az_reason := x\<rparr>)
      else if EqualFold k ''policy_version'' then bind_res (json_int v (az_version r)) (\<lambda>x. r\<lparr>az_version := x\<rparr>)
      else if EqualFold k ''decision_id'' then bind_res (json_str v (az_id r)) (\<lambda>x. r\<lparr>az_id := x\<rparr>)
      else Inr r)"

definition authz_zero :: authz_response where
  "authz_zero = \<lparr>az_decision = [], az_ttl = 0, az_reason = [], az_version = 0, az_id = []\<rparr>"

text \<open>The second reading of the body, for the field \<open>effect\<close>: exact key, last member.\<close>

definition effect_field :: "jval \<Rightarrow> string" where
  "effect_field v =
     (case v of
        JObj kvs \<Rightarrow> (case map_of (rev kvs) ''effect'' of Some (JStr s) \<Rightarrow> s | _ \<Rightarrow> [])
      | _ \<Rightarrow> [])"

definition decode_authz :: "jval \<Rightarrow> authz_response res" where
  "decode_authz v =
     (case json_object authz_put authz_zero v of
        Inl e \<Rightarrow> Inl e
      | Inr r \<Rightarrow> Inr (if az_decision r = [] then r\<lparr>az_decision := effect_field v\<rparr> else r))"

definition pep_headers :: "gw_config \<Rightarrow> (string \<times> string) list" where
  "pep_headers cfg = [(''X-PEP-ID'', gc_pep_id cfg), (''X-PEP-TOKEN'', gc_pep_token cfg)]"

definition pep_post :: "gw_config \<Rightarrow> string \<Rightarrow> string \<Rightarrow> http_out" where
  "pep_post cfg path body =
     \<lparr>ho_method = ''POST'', ho_url = gc_base_url cfg @ path,
      ho_headers = (''Content-Type'', ''application/json'') # pep_headers cfg, ho_body = body\<rparr>"

definition client_Authorize ::
    "(string \<Rightarrow> jval res) \<Rightarrow> (authz_request \<Rightarrow> string res) \<Rightarrow> transport option \<Rightarrow> gw_config
     \<Rightarrow> authz_request \<Rightarrow> authz_response res" where
  "client_Authorize parse_json encode client cfg req =
     (case client of
        None \<Rightarrow> Inl (Errorf (''client HTTP non initialis'' @ e_acute @ '' pour le CP''))
      | Some send \<Rightarrow>
     (case encode req of
        Inl e \<Rightarrow> Inl (Wrapf (''s'' @ e_acute @ ''rialisation requ'' @ [CHR 0xC3, CHR 0xAA] @ ''te authorize: '') e [])
      | Inr body \<Rightarrow>
     (case send (pep_post cfg ''/api/v1/pep/authorize'' body) of
        NoResponse e \<Rightarrow> Inl (Wrapf [] ErrControlPlaneUnreachable ('': '' @ err_text e))
      | HttpResponse status rbody \<Rightarrow>
     (case limit_body rbody of
        Inl e \<Rightarrow> Inl (Wrapf (''lecture r'' @ e_acute @ ''ponse CP: '') e [])
      | Inr text \<Rightarrow>
          if status = 401 then Inl (Errorf (''authentification PEP refus'' @ e_acute @ ''e (401)''))
          else if status = 403 then Inl (Errorf (''gateway non enregistr'' @ e_acute @ ''e (403)''))
          else if status \<noteq> 200 then Inl (Errorf (''r'' @ e_acute @ ''ponse CP inattendue: '' @ text))
          else (case parse_json text of
                  Inl e \<Rightarrow> Inl (Wrapf (''d'' @ e_acute @ ''s'' @ e_acute @ ''rialisation r'' @ e_acute @ ''ponse CP: '') e [])
                | Inr v \<Rightarrow>
                    (case decode_authz v of
                       Inl e \<Rightarrow> Inl (Wrapf (''d'' @ e_acute @ ''s'' @ e_acute @ ''rialisation r'' @ e_acute @ ''ponse CP: '') e [])
                     | Inr r \<Rightarrow> Inr r))))))"

subsection \<open>Resolution of published resources\<close>

record resolved_resource =
  rv_name :: string
  rv_backend :: string
  rv_type :: string
  rv_access :: string

record resource_cache_entry =
  re_resource :: resolved_resource
  re_expires :: time

type_synonym resource_cache = "(string \<times> resource_cache_entry) list"

definition resolved_put :: "string \<Rightarrow> jval \<Rightarrow> resolved_resource \<Rightarrow> resolved_resource res" where
  "resolved_put k v r =
     (if EqualFold k ''name'' then bind_res (json_str v (rv_name r)) (\<lambda>x. r\<lparr>rv_name := x\<rparr>)
      else if EqualFold k ''backend'' then bind_res (json_str v (rv_backend r)) (\<lambda>x. r\<lparr>rv_backend := x\<rparr>)
      else if EqualFold k ''type'' then bind_res (json_str v (rv_type r)) (\<lambda>x. r\<lparr>rv_type := x\<rparr>)
      else if EqualFold k ''access_mode'' then bind_res (json_str v (rv_access r)) (\<lambda>x. r\<lparr>rv_access := x\<rparr>)
      else Inr r)"

definition resolved_zero :: resolved_resource where
  "resolved_zero = \<lparr>rv_name = [], rv_backend = [], rv_type = [], rv_access = []\<rparr>"

abbreviation resource_ttl :: duration where "resource_ttl \<equiv> 60 * Second"

definition fetch_resource ::
    "(string \<Rightarrow> jval res) \<Rightarrow> transport option \<Rightarrow> gw_config \<Rightarrow> string \<Rightarrow> resolved_resource res" where
  "fetch_resource parse_json client cfg name =
     (case client of
        None \<Rightarrow> Inl (Errorf (''client HTTP non initialis'' @ e_acute @ '' pour le CP''))
      | Some send \<Rightarrow>
     (case send \<lparr>ho_method = ''GET'', ho_url = gc_base_url cfg @ ''/api/v1/pep/resources/'' @ name,
                 ho_headers = pep_headers cfg, ho_body = []\<rparr> of
        NoResponse e \<Rightarrow> Inl (Wrapf (''appel CP r'' @ e_acute @ ''solution ressource: '') e [])
      | HttpResponse status rbody \<Rightarrow>
     (case limit_body rbody of
        Inl e \<Rightarrow> Inl (Wrapf (''lecture r'' @ e_acute @ ''ponse CP: '') e [])
      | Inr text \<Rightarrow>
          if status = 404 then Inl (Errorf (''ressource non trouv'' @ e_acute @ ''e: '' @ name))
          else if status \<noteq> 200 then Inl (Errorf (''r'' @ e_acute @ ''ponse CP inattendue: '' @ text))
          else (case parse_json text of
                  Inl e \<Rightarrow> Inl (Wrapf (''d'' @ e_acute @ ''s'' @ e_acute @ ''rialisation r'' @ e_acute @ ''ponse CP: '') e [])
                | Inr v \<Rightarrow>
                    (case json_object resolved_put resolved_zero v of
                       Inl e \<Rightarrow> Inl (Wrapf (''d'' @ e_acute @ ''s'' @ e_acute @ ''rialisation r'' @ e_acute @ ''ponse CP: '') e [])
                     | Inr r \<Rightarrow> Inr r)))))"

definition GetResource ::
    "(string \<Rightarrow> jval res) \<Rightarrow> transport option \<Rightarrow> gw_config \<Rightarrow> time \<Rightarrow> string \<Rightarrow> resource_cache
     \<Rightarrow> resolved_resource res \<times> resource_cache" where
  "GetResource parse_json client cfg now name cache =
     (let hit = (case map_of cache name of
                   Some entry \<Rightarrow> if now < re_expires entry then Some (re_resource entry) else None
                 | None \<Rightarrow> None)
      in case hit of
           Some resource \<Rightarrow> (Inr resource, cache)
         | None \<Rightarrow>
             (case fetch_resource parse_json client cfg name of
                Inl e \<Rightarrow> (Inl e, cache)
              | Inr resolved \<Rightarrow>
                  (Inr resolved,
                   al_put name \<lparr>re_resource = resolved, re_expires = now + resource_ttl\<rparr> cache)))"

subsection \<open>Telemetry and heartbeat\<close>

record session_start_request =
  ss_session :: string
  ss_decision :: string
  ss_sub :: string
  ss_username :: string
  ss_type :: string
  ss_name :: string
  ss_match :: string
  ss_device :: string

record session_end_request =
  se_session :: string
  se_in :: int
  se_out :: int
  se_duration :: int
  se_reason :: string

text \<open>\<open>postJSON\<close>: \<open>ctx\<close> is the error of the context when the request is made; a request with
  a context that has ended is not sent.\<close>

definition postJSON ::
    "transport option \<Rightarrow> gw_config \<Rightarrow> goerr option \<Rightarrow> string \<Rightarrow> string res \<Rightarrow> goerr option" where
  "postJSON client cfg ctx path payload =
     (case client of
        None \<Rightarrow> Some (Errorf (''client HTTP non initialis'' @ e_acute))
      | Some send \<Rightarrow>
          (case payload of
             Inl e \<Rightarrow> Some (Wrapf (''s'' @ e_acute @ ''rialisation telemetry: '') e [])
           | Inr body \<Rightarrow>
               (case (case ctx of Some e \<Rightarrow> NoResponse e | None \<Rightarrow> send (pep_post cfg path body)) of
                  NoResponse e \<Rightarrow> Some (Wrapf ''envoi telemetry: '' e [])
                | HttpResponse status _ \<Rightarrow>
                    if status \<ge> 400 then Some (Errorf ''CP telemetry retourne status'') else None)))"

definition NotifyStart ::
    "(session_start_request \<Rightarrow> string res) \<Rightarrow> transport option \<Rightarrow> gw_config \<Rightarrow> goerr option
     \<Rightarrow> session_start_request \<Rightarrow> goerr option" where
  "NotifyStart encode client cfg ctx req = postJSON client cfg ctx ''/api/v1/pep/sessions/start'' (encode req)"

definition NotifyEnd ::
    "(session_end_request \<Rightarrow> string res) \<Rightarrow> transport option \<Rightarrow> gw_config \<Rightarrow> goerr option
     \<Rightarrow> session_end_request \<Rightarrow> goerr option" where
  "NotifyEnd encode client cfg ctx req = postJSON client cfg ctx ''/api/v1/pep/sessions/end'' (encode req)"

datatype beat_log = BeatUnreachable | BeatOK | BeatUnexpected int

definition beat :: "transport \<Rightarrow> gw_config \<Rightarrow> string \<Rightarrow> beat_log" where
  "beat send cfg body =
     (case send (pep_post cfg ''/api/v1/pep/heartbeat'' body) of
        NoResponse _ \<Rightarrow> BeatUnreachable
      | HttpResponse status _ \<Rightarrow> if status = 200 then BeatOK else BeatUnexpected status)"

subsection \<open>Facts\<close>

lemma GetResource_cached:
  "fst (GetResource pj cl cfg now name cache) = Inr r \<Longrightarrow>
     (\<exists>entry. map_of cache name = Some entry \<and> now < re_expires entry \<and> r = re_resource entry)
     \<or> fetch_resource pj cl cfg name = Inr r"
  by (auto simp: GetResource_def Let_def split: option.splits if_splits sum.splits)

lemma GetResource_miss:
  "map_of cache name = None \<Longrightarrow> fst (GetResource pj cl cfg now name cache) = fetch_resource pj cl cfg name"
  by (auto simp: GetResource_def split: sum.splits)

lemma client_Authorize_allow:
  "client_Authorize pj enc client cfg req = Inr r \<Longrightarrow>
     \<exists>send body text v. client = Some send \<and> enc req = Inr body
       \<and> (\<exists>b. send (pep_post cfg ''/api/v1/pep/authorize'' body) = HttpResponse 200 b \<and> limit_body b = Inr text)
       \<and> pj text = Inr v \<and> decode_authz v = Inr r"
  by (auto simp: client_Authorize_def split: option.splits sum.splits http_result.splits if_splits)

lemma postJSON_ended: "postJSON client cfg (Some e) path payload \<noteq> None"
  by (auto simp: postJSON_def split: option.splits sum.splits)

end
