(* ===== verification/Gw_Connect.thy ===== *)
theory Gw_Connect
  imports Gw_Crl Gw_Cache Gw_Protocol Gw_Proxy Gw_Clients
begin

text \<open>
  The handler of CONNECT requests (\<open>gateway/internal/usecase/connect/handler.go\<close>): the
  revocation check, the request, the resolution of the resource, the decision, the
  session, the relay and the clean-up, in the order of \<open>HandleConnection\<close>.

  \<open>connect_env\<close> holds what does not change from one connection to the next: the
  configuration, the codecs, the transport to the control plane, the resolver and the
  dialer.  \<open>gw_handler\<close> holds the state the handler shares with the other goroutines;
  a field that is \<open>None\<close> is a component that was not attached to the handler.
\<close>

record connect_env =
  ce_cfg :: gw_config
  ce_parse :: "string \<Rightarrow> jval res"
  ce_encode :: "authz_request \<Rightarrow> string res"
  ce_client :: "transport option"
  ce_unmarshal :: "string \<Rightarrow> connect_request res"
  ce_marshal :: "connect_response \<Rightarrow> string res"
  ce_lookup :: "string \<Rightarrow> ip list res"
  ce_parse_ip :: "string \<Rightarrow> ip option"
  ce_dial :: "duration \<Rightarrow> string \<Rightarrow> goerr option"
  ce_enc_start :: "session_start_request \<Rightarrow> string res"
  ce_enc_end :: "session_end_request \<Rightarrow> string res"

record gw_handler =
  gh_crl :: "crl_store option"
  gh_mgr :: session_manager
  gh_cache :: "decision_cache option"
  gh_cache_ttl :: duration
  gh_cp_down :: string
  gh_telemetry :: bool
  gh_routes :: "gw_config option"
  gh_resources :: "resource_cache option"

text \<open>\<open>NewHandler\<close> and the setters, as \<open>bootstrap/app.go\<close> calls them.\<close>

definition NewHandler :: gw_handler where
  "NewHandler =
     \<lparr>gh_crl = None, gh_mgr = NewManager, gh_cache = None, gh_cache_ttl = 0, gh_cp_down = ''deny'',
      gh_telemetry = False, gh_routes = None, gh_resources = None\<rparr>"

definition SetCRLStore :: "crl_store \<Rightarrow> gw_handler \<Rightarrow> gw_handler" where
  "SetCRLStore store h = h\<lparr>gh_crl := Some store\<rparr>"

definition SetDecisionCache :: "decision_cache \<Rightarrow> duration \<Rightarrow> gw_handler \<Rightarrow> gw_handler" where
  "SetDecisionCache cache ttl h = h\<lparr>gh_cache := Some cache, gh_cache_ttl := ttl\<rparr>"

definition SetCPDownMode :: "string \<Rightarrow> gw_handler \<Rightarrow> gw_handler" where
  "SetCPDownMode mode h = h\<lparr>gh_cp_down := mode\<rparr>"

definition SetTelemetryClient :: "gw_handler \<Rightarrow> gw_handler" where
  "SetTelemetryClient h = h\<lparr>gh_telemetry := True\<rparr>"

definition SetConfig :: "gw_config \<Rightarrow> gw_handler \<Rightarrow> gw_handler" where
  "SetConfig cfg h = h\<lparr>gh_routes := Some cfg\<rparr>"

definition SetResourceClient :: "resource_cache \<Rightarrow> gw_handler \<Rightarrow> gw_handler" where
  "SetResourceClient rc h = h\<lparr>gh_resources := Some rc\<rparr>"

definition app_handler :: "gw_config \<Rightarrow> bool \<Rightarrow> gw_handler" where
  "app_handler cfg has_client =
     (let h0 = NewHandler;
          h1 = SetCRLStore (NewStoreWithConfig
                 (if has_client then gc_base_url cfg @ ''/pki/device-ca/crl'' else [])) h0;
          h2 = SetDecisionCache (new_cache (gc_cache_max cfg)) (gc_cache_ttl cfg) h1;
          h3 = SetCPDownMode (gc_cp_down cfg) h2;
          h4 = SetConfig cfg h3;
          h5 = (if has_client then SetTelemetryClient h4 else h4)
      in SetResourceClient [] h5)"

lemma app_handler_eq:
  "app_handler cfg has_client =
     NewHandler\<lparr>gh_crl := Some (NewStoreWithConfig
                   (if has_client then gc_base_url cfg @ ''/pki/device-ca/crl'' else [])),
                gh_cache := Some (new_cache (gc_cache_max cfg)), gh_cache_ttl := gc_cache_ttl cfg,
                gh_cp_down := gc_cp_down cfg, gh_routes := Some cfg, gh_telemetry := has_client,
                gh_resources := Some []\<rparr>"
  by (simp add: app_handler_def Let_def SetCRLStore_def SetDecisionCache_def SetCPDownMode_def SetTelemetryClient_def
      SetConfig_def SetResourceClient_def NewHandler_def)

subsection \<open>The texts sent with a refusal\<close>

definition deny_revoked :: string where
  "deny_revoked = ''certificat r'' @ e_acute @ ''voqu'' @ e_acute"
definition deny_read :: string where
  "deny_read = ''erreur de protocole: lecture requ'' @ [CHR 0xC3, CHR 0xAA] @ ''te''"
definition deny_action :: "string \<Rightarrow> string" where
  "deny_action a = ''action non support'' @ e_acute @ ''e: '' @ a"
definition deny_incomplete :: string where
  "deny_incomplete = ''requ'' @ [CHR 0xC3, CHR 0xAA] @ ''te CONNECT invalide: resource name ou host/port/type manquant''"
definition deny_unknown :: "string \<Rightarrow> string" where
  "deny_unknown n = ''ressource inconnue: '' @ n"
definition deny_backend :: string where
  "deny_backend = ''erreur interne: backend invalide''"
definition deny_port :: string where
  "deny_port = ''erreur interne: port backend invalide''"
definition deny_no_route :: string where
  "deny_no_route = ''ressource non configur'' @ e_acute @ ''e sur cette gateway''"
definition deny_route_backend :: string where
  "deny_route_backend = ''erreur interne: route backend invalide''"
definition deny_raw :: string where
  "deny_raw = ''acc'' @ e_grave @ ''s refus'' @ e_acute @ '': utilisez un nom de ressource publi'' @ e_acute"
definition deny_name :: string where
  "deny_name = ''requ'' @ [CHR 0xC3, CHR 0xAA] @ ''te CONNECT invalide: nom de ressource requis''"
definition deny_cp :: string where
  "deny_cp = ''erreur interne: control plane inaccessible''"
definition deny_policy :: string where
  "deny_policy = ''acc'' @ e_grave @ ''s refus'' @ e_acute @ '' par la politique''"
definition deny_limit :: string where
  "deny_limit = ''limite de sessions atteinte''"

subsection \<open>Step 5: the target\<close>

definition parse_backend :: "string \<Rightarrow> string \<Rightarrow> string \<Rightarrow> string + (string \<times> int)" where
  "parse_backend bad_addr bad_port backend =
     (case SplitHostPort backend of
        None \<Rightarrow> Inl bad_addr
      | Some (bHost, bPortStr) \<Rightarrow>
          (case SscanfD bPortStr of
             None \<Rightarrow> Inl bad_port
           | Some bPort \<Rightarrow> if bPort \<le> 0 \<or> bPort > 65535 then Inl bad_port else Inr (bHost, bPort)))"

definition canonical_of :: "resource_target \<Rightarrow> string" where
  "canonical_of r = rt_type r @ '':'' @ rt_host r @ '':'' @ Itoa (rt_port r)"

text \<open>The target, and the resource as the decision and the session see it.\<close>

definition resolve_target ::
    "connect_env \<Rightarrow> time \<Rightarrow> resource_target \<Rightarrow> gw_handler
     \<Rightarrow> (string + (string \<times> int \<times> resource_target)) \<times> gw_handler" where
  "resolve_target E now r h =
     (case (if rt_name r = [] then None else gh_resources h) of
        Some rcache \<Rightarrow>
          (let (res, rcache') = GetResource (ce_parse E) (ce_client E) (ce_cfg E) now (rt_name r) rcache;
               h' = h\<lparr>gh_resources := Some rcache'\<rparr>
           in case res of
                Inl _ \<Rightarrow> (Inl (deny_unknown (rt_name r)), h')
              | Inr resolved \<Rightarrow>
                  (case parse_backend deny_backend deny_port (rv_backend resolved) of
                     Inl reason \<Rightarrow> (Inl reason, h')
                   | Inr (bHost, bPort) \<Rightarrow>
                       (Inr (bHost, bPort, r\<lparr>rt_host := bHost, rt_port := bPort, rt_type := rv_type resolved\<rparr>), h')))
      | None \<Rightarrow>
          if rt_host r \<noteq> [] \<and> rt_port r > 0 then
            (case gh_routes h of
               None \<Rightarrow> (Inl deny_raw, h)
             | Some cfg \<Rightarrow>
                 if gc_routes cfg = [] then (Inl deny_raw, h)
                 else (case ResolveRoute cfg (rt_type r) (canonical_of r) of
                         None \<Rightarrow> (Inl deny_no_route, h)
                       | Some backend \<Rightarrow>
                           (case parse_backend deny_route_backend deny_port backend of
                              Inl reason \<Rightarrow> (Inl reason, h)
                            | Inr (bHost, bPort) \<Rightarrow> (Inr (bHost, bPort, r), h))))
          else (Inl deny_name, h))"

subsection \<open>Step 6: the decision\<close>

definition cache_key :: "string \<Rightarrow> string \<Rightarrow> resource_target \<Rightarrow> string" where
  "cache_key sub action r =
     sub @ ''|'' @ action @ ''|'' @ rt_type r @ ''|'' @ rt_host r @ ''|'' @ Itoa (rt_port r)"

definition authz_req :: "connect_env \<Rightarrow> subject_ref \<Rightarrow> string \<Rightarrow> resource_target \<Rightarrow> string \<Rightarrow> authz_request" where
  "authz_req E subject action r remoteAddr =
     \<lparr>aq_subject = subject, aq_action = action,
      aq_resource = \<lparr>rf_type = rt_type r, rf_host = rt_host r, rf_port = rt_port r, rf_name = rt_name r\<rparr>,
      aq_source_ip = remoteAddr, aq_gateway = gc_gateway_id (ce_cfg E)\<rparr>"

definition resolveDecision ::
    "connect_env \<Rightarrow> nat \<Rightarrow> time \<Rightarrow> subject_ref \<Rightarrow> string \<Rightarrow> resource_target \<Rightarrow> string \<Rightarrow> gw_handler
     \<Rightarrow> authz_response res \<times> gw_handler" where
  "resolveDecision E pick now subject action r remoteAddr h =
     (let key = cache_key (sr_sub subject) action r;
          (hit, h1) = (case gh_cache h of
                         None \<Rightarrow> (None, h)
                       | Some c \<Rightarrow> (let (e, c') = cache_Get key now c in (e, h\<lparr>gh_cache := Some c'\<rparr>)))
      in case hit of
           Some entry \<Rightarrow>
             (Inr \<lparr>az_decision = de_decision entry, az_ttl = 0, az_reason = de_reason entry,
                   az_version = de_version entry, az_id = ''cached''\<rparr>, h1)
         | None \<Rightarrow>
             (case client_Authorize (ce_parse E) (ce_encode E) (ce_client E) (ce_cfg E)
                     (authz_req E subject action r remoteAddr) of
                Inl e \<Rightarrow> (Inl e, h1)
              | Inr decision \<Rightarrow>
                  (case gh_cache h1 of
                     Some c \<Rightarrow>
                       if az_ttl decision > 0 then
                         (let ttl = (if gh_cache_ttl h1 \<le> 0 then dur_seconds (az_ttl decision) else gh_cache_ttl h1);
                              entry = \<lparr>de_decision = az_decision decision, de_reason = az_reason decision,
                                       de_version = az_version decision\<rparr>
                          in (Inr decision, h1\<lparr>gh_cache := Some (cache_Put pick now key entry ttl c)\<rparr>))
                       else (Inr decision, h1)
                   | None \<Rightarrow> (Inr decision, h1))))"

subsection \<open>Steps 1 to 6: admission\<close>

record admission =
  ad_subject :: subject_ref
  ad_serial :: string
  ad_resource :: resource_target
  ad_target :: "string \<times> int"
  ad_decision :: authz_response

text \<open>The refusal is the reason and the identifier of the decision sent to the client.\<close>

definition admit_decision ::
    "connect_env \<Rightarrow> nat \<Rightarrow> time \<Rightarrow> subject_ref \<Rightarrow> string \<Rightarrow> string \<Rightarrow> string \<Rightarrow> string \<times> int \<Rightarrow> resource_target \<Rightarrow> gw_handler
     \<Rightarrow> ((string \<times> string) + admission) \<times> gw_handler" where
  "admit_decision E pick now subject certSerial action remoteAddr target r h =
     (case resolveDecision E pick now subject action r remoteAddr h of
        (Inl _, h') \<Rightarrow> (Inl (deny_cp, []), h')
      | (Inr decision, h') \<Rightarrow>
          if az_decision decision \<noteq> ''allow''
          then (Inl (if az_reason decision = [] then deny_policy else az_reason decision, az_id decision), h')
          else (Inr \<lparr>ad_subject = subject, ad_serial = certSerial, ad_resource = r,
                     ad_target = target, ad_decision = decision\<rparr>, h'))"

definition admit ::
    "connect_env \<Rightarrow> nat \<Rightarrow> (nat \<Rightarrow> time) \<Rightarrow> client_cert \<Rightarrow> string \<Rightarrow> string \<Rightarrow> gw_handler
     \<Rightarrow> ((string \<times> string) + admission) \<times> gw_handler" where
  "admit E pick clk cert remoteAddr input h =
     (let subject = ExtractSubjectFromCert cert; certSerial = Itoa (cc_serial cert) in
      if (case gh_crl h of None \<Rightarrow> False | Some st \<Rightarrow> IsRevoked st certSerial)
      then (Inl (deny_revoked, []), h)
      else case fst (ReadMessage (ce_unmarshal E) input) of
        Inl _ \<Rightarrow> (Inl (deny_read, []), h)
      | Inr req \<Rightarrow>
          (let r0 = cr_resource req in
           if cr_action req \<noteq> ''connect'' then (Inl (deny_action (cr_action req), []), h)
           else if rt_name r0 = [] \<and> (rt_host r0 = [] \<or> rt_port r0 \<le> 0 \<or> rt_type r0 = [])
           then (Inl (deny_incomplete, []), h)
           else case resolve_target E (clk 0) r0 h of
             (Inl reason, h1) \<Rightarrow> (Inl (reason, []), h1)
           | (Inr (targetHost, targetPort, r), h1) \<Rightarrow>
               admit_decision E pick (clk 1) subject certSerial (cr_action req) remoteAddr (targetHost, targetPort) r h1))"

lemmas admit_defs = admit_def admit_decision_def

text \<open>\<open>sendDeny\<close>: the bytes of a refusal on the connection.  An error of the write is only logged.\<close>

definition denied_response :: "string \<Rightarrow> string \<Rightarrow> connect_response" where
  "denied_response reason decisionID =
     \<lparr>cp_decision = ''deny'', cp_reason = reason, cp_decision_id = decisionID, cp_ttl = 0\<rparr>"

definition sendDeny ::
    "(connect_response \<Rightarrow> string res) \<Rightarrow> goerr option \<Rightarrow> goerr option \<Rightarrow> string \<Rightarrow> string \<Rightarrow> string" where
  "sendDeny marshal w1 w2 reason decisionID = snd (WriteMessage marshal w1 w2 (denied_response reason decisionID))"

subsection \<open>Steps 7 to 13: the session\<close>

definition session_of :: "admission \<Rightarrow> string \<Rightarrow> nat \<Rightarrow> gw_session" where
  "session_of a remoteAddr ctx =
     \<lparr>gs_id = [], gs_sub = sr_sub (ad_subject a), gs_username = sr_username (ad_subject a),
      gs_type = rt_type (ad_resource a), gs_name = rt_name (ad_resource a),
      gs_host = rt_host (ad_resource a), gs_port = rt_port (ad_resource a), gs_started = zero_time,
      gs_source_ip = remoteAddr, gs_decision = az_id (ad_decision a), gs_ttl = az_ttl (ad_decision a),
      gs_expires = zero_time, gs_cancel = Some ctx, gs_bytes_in = 0, gs_bytes_out = 0,
      gs_end_reason = [], gs_cert_serial = ad_serial a\<rparr>"

definition start_notice :: "admission \<Rightarrow> string \<Rightarrow> session_start_request" where
  "start_notice a sid =
     \<lparr>ss_session = sid, ss_decision = az_id (ad_decision a), ss_sub = sr_sub (ad_subject a),
      ss_username = sr_username (ad_subject a), ss_type = rt_type (ad_resource a),
      ss_name = rt_name (ad_resource a), ss_match = canonical_of (ad_resource a), ss_device = []\<rparr>"

definition end_notice :: "proxy_result \<Rightarrow> string \<Rightarrow> int \<Rightarrow> session_end_request" where
  "end_notice p sid ms =
     \<lparr>se_session = sid, se_in = pr_in p, se_out = pr_out p, se_duration = ms, se_reason = pr_reason p\<rparr>"

text \<open>
  What a connection came to: refused with a response; lost because the positive response
  could not be written; still being relayed; or relayed to the end, with the errors of
  the two notifications (\<open>None\<close> where the control plane got it).
\<close>

datatype conn_result =
    ConnDenied string string
  | ConnLost string
  | ConnOpen string "string \<times> int"
  | ConnDone string "string \<times> int" proxy_result "goerr option" "goerr option"

text \<open>
  The circumstances of one connection: the clock, the random bytes, the number of its
  context, the outcomes of the two writes of the positive response, what happens on the
  relay, what the other goroutines do to the session table meanwhile, and whether the
  deferred cancellation comes before the goroutine of the last notification has run.
\<close>

record conn_world =
  cw_clock :: "nat \<Rightarrow> time"
  cw_random :: "8 word list"
  cw_pick :: nat
  cw_ctx :: nat
  cw_writes :: "goerr option \<times> goerr option"
  cw_events :: "relay_event list"
  cw_others :: "session_manager \<Rightarrow> session_manager"
  cw_cancel_first :: bool

definition ctx_goerr :: "ctx_err option \<Rightarrow> goerr option" where
  "ctx_goerr c =
     (case c of None \<Rightarrow> None
      | Some DeadlineExceeded \<Rightarrow> Some (Errorf ''context deadline exceeded'')
      | Some Canceled \<Rightarrow> Some (Errorf ''context canceled''))"

text \<open>The context of the session has the decision's time to live as its deadline, and none when that is not positive.\<close>

definition session_events :: "authz_response \<Rightarrow> relay_event list \<Rightarrow> relay_event list" where
  "session_events d evs = (if az_ttl d > 0 then evs else filter (\<lambda>ev. ev \<noteq> CtxDone DeadlineExceeded) evs)"

text \<open>The answer to an admitted connection.\<close>

definition allow_response :: "admission \<Rightarrow> connect_response" where
  "allow_response a =
     \<lparr>cp_decision = ''allow'', cp_reason = [], cp_decision_id = az_id (ad_decision a), cp_ttl = az_ttl (ad_decision a)\<rparr>"

definition run_session ::
    "connect_env \<Rightarrow> conn_world \<Rightarrow> string \<Rightarrow> admission \<Rightarrow> gw_handler \<Rightarrow> conn_result \<times> gw_handler" where
  "run_session E W remoteAddr a h =
     (case Register (cw_clock W 2) (cw_random W) (session_of a remoteAddr (cw_ctx W)) (gh_mgr h) of
        (Inl _, m) \<Rightarrow> (ConnDenied deny_limit (az_id (ad_decision a)), h\<lparr>gh_mgr := m\<rparr>)
      | (Inr sid, m) \<Rightarrow>
          (let evs = session_events (ad_decision a) (cw_events W);
               t0 = (if gh_telemetry h
                     then NotifyStart (ce_enc_start E) (ce_client E) (ce_cfg E) None (start_notice a sid)
                     else None)
           in case fst (WriteMessage (ce_marshal E) (fst (cw_writes W)) (snd (cw_writes W)) (allow_response a)) of
                Some _ \<Rightarrow> (ConnLost sid, h\<lparr>gh_mgr := Unregister sid m\<rparr>)
              | None \<Rightarrow>
                  (case Proxy (ce_lookup E) (ce_parse_ip E) (ce_dial E) (ce_cfg E) None
                          (fst (ad_target a)) (snd (ad_target a)) evs of
                     None \<Rightarrow> (ConnOpen sid (ad_target a), h\<lparr>gh_mgr := cw_others W m\<rparr>)
                   | Some p \<Rightarrow>
                       (let m' = cw_others W m;
                            m'' = Unregister sid (SetEndStats sid (pr_in p) (pr_out p) (pr_reason p) m');
                            ctx = (case first_ctx None evs of
                                     Some c \<Rightarrow> Some c
                                   | None \<Rightarrow> if cw_cancel_first W then Some Canceled else None);
                            ms = (cw_clock W 4 - cw_clock W 3) div 1000000;
                            t1 = (if gh_telemetry h
                                  then NotifyEnd (ce_enc_end E) (ce_client E) (ce_cfg E) (ctx_goerr ctx)
                                         (end_notice p sid ms)
                                  else None)
                        in (ConnDone sid (ad_target a) p t0 t1, h\<lparr>gh_mgr := m''\<rparr>)))))"

definition HandleConnection ::
    "connect_env \<Rightarrow> conn_world \<Rightarrow> client_cert \<Rightarrow> string \<Rightarrow> string \<Rightarrow> gw_handler \<Rightarrow> conn_result \<times> gw_handler" where
  "HandleConnection E W cert remoteAddr input h =
     (case admit E (cw_pick W) (cw_clock W) cert remoteAddr input h of
        (Inl (reason, decisionID), h') \<Rightarrow> (ConnDenied reason decisionID, h')
      | (Inr a, h') \<Rightarrow> run_session E W remoteAddr a h')"

subsection \<open>Facts\<close>

definition relayed_target :: "conn_result \<Rightarrow> (string \<times> int) option" where
  "relayed_target res =
     (case res of ConnOpen _ t \<Rightarrow> Some t | ConnDone _ t _ _ _ \<Rightarrow> Some t | _ \<Rightarrow> None)"

lemma run_session_relayed:
  "relayed_target (fst (run_session E W ra a h)) = Some t \<Longrightarrow> t = ad_target a"
  by (auto simp: run_session_def relayed_target_def Let_def
      split: prod.splits sum.splits option.splits if_splits)

lemma HandleConnection_relayed:
  assumes "relayed_target (fst (HandleConnection E W cert ra input h)) = Some t"
  obtains a h' where "admit E (cw_pick W) (cw_clock W) cert ra input h = (Inr a, h')" "t = ad_target a"
proof (cases "admit E (cw_pick W) (cw_clock W) cert ra input h")
  case (Pair x h')
  show ?thesis
  proof (cases x)
    case (Inl r)
    with Pair assms show ?thesis
      by (simp add: HandleConnection_def relayed_target_def split: prod.splits)
  next
    case (Inr a)
    with Pair assms have "relayed_target (fst (run_session E W ra a h')) = Some t"
      by (simp add: HandleConnection_def)
    with Pair Inr that show ?thesis using run_session_relayed by simp
  qed
qed

text \<open>A refusal always has a reason.\<close>

lemmas deny_texts = deny_revoked_def deny_read_def deny_action_def deny_incomplete_def deny_unknown_def deny_backend_def
  deny_port_def deny_no_route_def deny_route_backend_def deny_raw_def deny_name_def deny_cp_def deny_policy_def deny_limit_def

lemma resolve_target_reason: "resolve_target E now r h = (Inl reason, h') \<Longrightarrow> reason \<noteq> []"
  by (auto simp: resolve_target_def parse_backend_def deny_texts Let_def split: option.splits prod.splits sum.splits if_splits)

lemma admit_reason:
  assumes "admit E pick clk cert ra input h = (Inl (reason, decisionID), h')"
  shows "reason \<noteq> []"
  using assms
  by (auto simp: admit_defs Let_def deny_texts split: option.splits prod.splits sum.splits if_splits
      dest: resolve_target_reason)

lemma denied_reason:
  assumes "HandleConnection E W cert ra input h = (ConnDenied reason decisionID, h')"
  shows "reason \<noteq> []"
  using assms admit_reason[of E "cw_pick W" "cw_clock W" cert ra input h]
  by (auto simp: HandleConnection_def run_session_def Let_def deny_limit_def
      split: option.splits prod.splits sum.splits if_splits)

definition addresses :: "string \<Rightarrow> string \<Rightarrow> int \<Rightarrow> bool" where
  "addresses backend host port =
     (\<exists>ptext. SplitHostPort backend = Some (host, ptext) \<and> SscanfD ptext = Some port
        \<and> 0 < port \<and> port \<le> 65535)"

lemma parse_backend_Inr: "parse_backend x y backend = Inr (host, port) \<Longrightarrow> addresses backend host port"
  by (auto simp: parse_backend_def addresses_def split: option.splits if_splits)

text \<open>Where the target comes from, and what the decision is asked about: an address that the control plane published under
  the requested name, and then that very address and type; or the address of a route of the configuration, and then
  the resource as the client wrote it, to which the route belongs.\<close>

definition resolves_to ::
    "connect_env \<Rightarrow> time \<Rightarrow> resource_target \<Rightarrow> gw_handler \<Rightarrow> string \<Rightarrow> int \<Rightarrow> resource_target \<Rightarrow> bool" where
  "resolves_to E now q h host port r =
     ((rt_name q \<noteq> [] \<and> (\<exists>rcache res. gh_resources h = Some rcache
         \<and> fst (GetResource (ce_parse E) (ce_client E) (ce_cfg E) now (rt_name q) rcache) = Inr res
         \<and> addresses (rv_backend res) host port
         \<and> r = q\<lparr>rt_host := host, rt_port := port, rt_type := rv_type res\<rparr>))
      \<or> ((rt_name q = [] \<or> gh_resources h = None) \<and> (\<exists>cfg backend. gh_routes h = Some cfg
         \<and> ResolveRoute cfg (rt_type q) (canonical_of q) = Some backend \<and> addresses backend host port \<and> r = q)))"

lemma resolve_target_resolves:
  assumes "resolve_target E now q h = (Inr (host, port, r), h')"
  shows "resolves_to E now q h host port r"
  using assms
  by (auto simp: resolve_target_def resolves_to_def Let_def
      split: option.splits prod.splits sum.splits if_splits dest!: parse_backend_Inr)

lemma resolve_target_frame:
  "resolve_target E now r h = (x, h') \<Longrightarrow>
     h' = h\<lparr>gh_resources := gh_resources h'\<rparr>"
  by (auto simp: resolve_target_def Let_def split: option.splits prod.splits sum.splits if_splits)

lemma resolve_target_same:
  assumes "resolve_target E now r h = (x, h')"
  shows "gh_cache h' = gh_cache h" "gh_mgr h' = gh_mgr h" "gh_cache_ttl h' = gh_cache_ttl h"
    "gh_crl h' = gh_crl h" "gh_telemetry h' = gh_telemetry h"
  using arg_cong[OF resolve_target_frame[OF assms], of gh_cache]
    arg_cong[OF resolve_target_frame[OF assms], of gh_mgr]
    arg_cong[OF resolve_target_frame[OF assms], of gh_cache_ttl]
    arg_cong[OF resolve_target_frame[OF assms], of gh_crl]
    arg_cong[OF resolve_target_frame[OF assms], of gh_telemetry]
  by simp_all

text \<open>Where a decision comes from: the cache, or an answer of the control plane.\<close>

definition decided ::
    "connect_env \<Rightarrow> time \<Rightarrow> subject_ref \<Rightarrow> string \<Rightarrow> resource_target \<Rightarrow> string \<Rightarrow> decision_cache option
     \<Rightarrow> string \<Rightarrow> bool" where
  "decided E now subject action r ra cache text =
     ((\<exists>c e. cache = Some c \<and> fst (cache_Get (cache_key (sr_sub subject) action r) now c) = Some e
         \<and> de_decision e = text)
      \<or> (\<exists>d. client_Authorize (ce_parse E) (ce_encode E) (ce_client E) (ce_cfg E)
               (authz_req E subject action r ra) = Inr d \<and> az_decision d = text))"

lemma resolveDecision_decided:
  assumes "resolveDecision E pick now subject action r ra h = (Inr d, h')"
  shows "decided E now subject action r ra (gh_cache h) (az_decision d)"
  using assms
  by (auto simp: resolveDecision_def decided_def Let_def
      split: option.splits prod.splits sum.splits if_splits)

lemma resolveDecision_mgr: "gh_mgr (snd (resolveDecision E pick now subject action r ra h)) = gh_mgr h"
  by (auto simp: resolveDecision_def Let_def split: option.splits prod.splits sum.splits if_splits)

lemma admit_Inr:
  assumes "admit E pick clk cert ra input h = (Inr a, h')"
  obtains req r h1 where
    "case gh_crl h of None \<Rightarrow> True | Some st \<Rightarrow> \<not> IsRevoked st (Itoa (cc_serial cert))"
    "fst (ReadMessage (ce_unmarshal E) input) = Inr req" "cr_action req = ''connect''"
    "resolve_target E (clk 0) (cr_resource req) h = (Inr (fst (ad_target a), snd (ad_target a), r), h1)"
    "resolveDecision E pick (clk 1) (ExtractSubjectFromCert cert) ''connect'' r ra h1 = (Inr (ad_decision a), h')"
    "az_decision (ad_decision a) = ''allow''"
    "a = \<lparr>ad_subject = ExtractSubjectFromCert cert, ad_serial = Itoa (cc_serial cert), ad_resource = r,
          ad_target = ad_target a, ad_decision = ad_decision a\<rparr>"
  using assms
  by (auto simp: admit_defs Let_def split: option.splits prod.splits sum.splits if_splits)

lemma resolveDecision_mgr':
  "resolveDecision E pick now subject action r ra h = (x, h') \<Longrightarrow> gh_mgr h' = gh_mgr h"
  using resolveDecision_mgr by (metis snd_conv)

lemma admit_mgr: "admit E pick clk cert ra input h = (x, h') \<Longrightarrow> gh_mgr h' = gh_mgr h"
  by (auto simp: admit_defs Let_def split: option.splits prod.splits sum.splits if_splits
      dest!: resolve_target_same(2) resolveDecision_mgr')

lemma resolveDecision_telemetry:
  "resolveDecision E pick now subject action r ra h = (x, h') \<Longrightarrow> gh_telemetry h' = gh_telemetry h"
  by (auto simp: resolveDecision_def Let_def split: option.splits prod.splits sum.splits if_splits)

lemma admit_telemetry: "admit E pick clk cert ra input h = (x, h') \<Longrightarrow> gh_telemetry h' = gh_telemetry h"
  by (auto simp: admit_defs Let_def split: option.splits prod.splits sum.splits if_splits
      dest!: resolve_target_same(5) resolveDecision_telemetry)

lemma SetEndStats_delete [simp]:
  "m_sessions (Unregister sid (SetEndStats sid a b c m)) = al_delete sid (m_sessions m)"
  by (auto simp: SetEndStats_def al_delete_def filter_map o_def Let_def case_prod_beta' split: option.splits
      intro!: map_idI)

subsection \<open>A concrete connection\<close>

definition ex_parse :: "string \<Rightarrow> jval res" where
  "ex_parse t =
     (if t = ''R''
      then Inr (JObj [(''name'', JStr ''lab''), (''backend'', JStr ''10.0.0.5:22''), (''type'', JStr ''ssh''),
                      (''access_mode'', JStr ''native'')])
      else Inr (JObj [(''effect'', JStr ''allow''), (''reason'', JStr ''r1''), (''ttl_seconds'', JNum ''300''),
                      (''policy_version'', JNum ''3''), (''decision_id'', JStr ''d-1'')]))"

definition ex_send :: transport where
  "ex_send r = HttpResponse 200 (Inr (if ho_method r = ''GET'' then ''R'' else ''D''))"

definition ex_req :: connect_request where
  "ex_req = \<lparr>cr_version = 1, cr_action = ''connect'',
     cr_resource = \<lparr>rt_type = [], rt_host = [], rt_port = 0, rt_name = ''lab''\<rparr>, cr_timestamp = []\<rparr>"

definition ex_env :: connect_env where
  "ex_env = \<lparr>ce_cfg = ex_gc, ce_parse = ex_parse, ce_encode = (\<lambda>_. Inr ''q''), ce_client = Some ex_send,
     ce_unmarshal = (\<lambda>_. Inr ex_req), ce_marshal = (\<lambda>_. Inr ''y''),
     ce_lookup = (\<lambda>_. Inr [[10, 0, 0, 5]]), ce_parse_ip = (\<lambda>_. None), ce_dial = (\<lambda>_ _. None),
     ce_enc_start = (\<lambda>_. Inr ''s''), ce_enc_end = (\<lambda>_. Inr ''e'')\<rparr>"

definition ex_world :: conn_world where
  "ex_world = \<lparr>cw_clock = (\<lambda>n. int n * Second), cw_random = replicate 16 0, cw_pick = 0, cw_ctx = 7,
     cw_writes = (None, None),
     cw_events = [Copied ClientToTarget 10, CtxDone DeadlineExceeded, Copied TargetToClient 20,
                  CopyEnds TargetToClient None, CopyEnds ClientToTarget None],
     cw_others = (\<lambda>m. m), cw_cancel_first = False\<rparr>"

definition ex_client_cert :: client_cert where
  "ex_client_cert = \<lparr>cc_uris = [], cc_dns = [], cc_cn = ''alice'', cc_orgs = [''dev''], cc_serial = 42,
     cc_not_after = 900 * Second\<rparr>"

definition ex_input :: string where
  "ex_input = PutUint32 (length ''x'') @ ''x'' @ []"

definition ex_handler :: gw_handler where
  "ex_handler = app_handler ex_gc True"

definition ex_resource :: resource_target where
  "ex_resource = \<lparr>rt_type = ''ssh'', rt_host = ''10.0.0.5'', rt_port = 22, rt_name = ''lab''\<rparr>"

definition ex_decision :: authz_response where
  "ex_decision = \<lparr>az_decision = ''allow'', az_ttl = 300, az_reason = ''r1'', az_version = 3, az_id = ''d-1''\<rparr>"

definition ex_handler1 :: gw_handler where
  "ex_handler1 = snd (resolve_target ex_env 0 (cr_resource ex_req) ex_handler)"

definition ex_handler2 :: gw_handler where
  "ex_handler2 = snd (resolveDecision ex_env 0 Second (ExtractSubjectFromCert ex_client_cert) ''connect'' ex_resource
     ''192.0.2.1:5000'' ex_handler1)"

lemma ex_resolve:
  "resolve_target ex_env 0 (cr_resource ex_req) ex_handler = (Inr (''10.0.0.5'', 22, ex_resource), ex_handler1)"
proof -
  have "fst (resolve_target ex_env 0 (cr_resource ex_req) ex_handler) = Inr (''10.0.0.5'', 22, ex_resource)"
    by code_simp
  then show ?thesis by (simp add: ex_handler1_def prod_eq_iff)
qed

lemma ex_decided:
  "resolveDecision ex_env 0 Second (ExtractSubjectFromCert ex_client_cert) ''connect'' ex_resource
     ''192.0.2.1:5000'' ex_handler1 = (Inr ex_decision, ex_handler2)"
proof -
  have "fst (resolveDecision ex_env 0 Second (ExtractSubjectFromCert ex_client_cert) ''connect'' ex_resource
     ''192.0.2.1:5000'' ex_handler1) = Inr ex_decision"
    by code_simp
  then show ?thesis by (simp add: ex_handler2_def prod_eq_iff)
qed

lemma ex_read: "fst (ReadMessage (ce_unmarshal ex_env) ex_input) = Inr ex_req"
  unfolding ex_input_def by (subst ReadMessage_frame) (simp_all add: MaxMessageSize_def ex_env_def)

definition ex_admission :: admission where
  "ex_admission = \<lparr>ad_subject = ExtractSubjectFromCert ex_client_cert, ad_serial = Itoa 42, ad_resource = ex_resource,
     ad_target = (''10.0.0.5'', 22), ad_decision = ex_decision\<rparr>"

lemma ex_admit:
  "admit ex_env 0 (cw_clock ex_world) ex_client_cert ''192.0.2.1:5000'' ex_input ex_handler = (Inr ex_admission, ex_handler2)"
proof -
  have "gh_crl ex_handler = Some (NewStoreWithConfig (gc_base_url ex_gc @ ''/pki/device-ca/crl''))"
    by (simp add: ex_handler_def app_handler_eq)
  moreover have "cw_clock ex_world 0 = 0" "cw_clock ex_world 1 = Second" by (simp_all add: ex_world_def)
  ultimately show ?thesis
    using ex_resolve ex_decided
    by (simp add: admit_defs Let_def ex_read IsRevoked_def NewStoreWithConfig_def ex_req_def
        ex_admission_def ex_decision_def ex_client_cert_def)
qed

lemma ex_proxy:
  "Proxy (ce_lookup ex_env) (ce_parse_ip ex_env) (ce_dial ex_env) (ce_cfg ex_env) None ''10.0.0.5'' 22
     (session_events (ad_decision ex_admission) (cw_events ex_world)) = Some \<lparr>pr_in = 10, pr_out = 20, pr_reason = ''ttl_expired''\<rparr>"
  by code_simp

lemma ex_connection:
  "\<exists>t0 t1 h'. HandleConnection ex_env ex_world ex_client_cert ''192.0.2.1:5000'' ex_input ex_handler =
     (ConnDone (generateUUID (replicate 16 0)) (''10.0.0.5'', 22)
        \<lparr>pr_in = 10, pr_out = 20, pr_reason = ''ttl_expired''\<rparr> t0 t1, h')"
proof -
  have m: "gh_mgr ex_handler2 = NewManager"
    using admit_mgr[OF ex_admit] by (simp add: ex_handler_def app_handler_eq NewHandler_def)
  have w: "fst (WriteMessage (ce_marshal ex_env) (fst (cw_writes ex_world)) (snd (cw_writes ex_world)) msg) = None"
    for msg by (simp add: ex_env_def ex_world_def WriteMessage_def MaxMessageSize_def)
  have r: "\<exists>m. Register t bs s NewManager = (Inr (generateUUID bs), m)" for t bs s
    by (simp add: Register_def NewManager_def Let_def)
  obtain m' where r': "Register (cw_clock ex_world 2) (cw_random ex_world)
      (session_of ex_admission ''192.0.2.1:5000'' (cw_ctx ex_world)) NewManager =
      (Inr (generateUUID (replicate 16 0)), m')"
    using r by (metis conn_world.select_convs(2) ex_world_def)
  have a: "admit ex_env (cw_pick ex_world) (cw_clock ex_world) ex_client_cert ''192.0.2.1:5000'' ex_input ex_handler
      = (Inr ex_admission, ex_handler2)"
    using ex_admit by (simp add: ex_world_def)
  have t: "fst (ad_target ex_admission) = ''10.0.0.5''" "snd (ad_target ex_admission) = 22"
    by (simp_all add: ex_admission_def)
  show ?thesis
    by (simp add: HandleConnection_def a run_session_def m r' w t ex_proxy Let_def)
       (simp add: ex_admission_def)
qed

subsection \<open>Properties\<close>

text \<open>C10: the gateway relays a connection only for a certificate that is not on its
  revocation list, for a well-formed request, and towards an address that the control plane
  published under the requested name or that a configured route gives, never the one the
  client wrote; and after an \<open>allow\<close> for the user of the certificate that is a fresh cache entry or an answer of
  the control plane.  For a published name the decision is about the very address that is dialled and the published type; for
  a configured route it is about the resource the client wrote, for which the route is configured.\<close>

theorem relay_authorised:
  assumes "relayed_target (fst (HandleConnection E W cert ra input h)) = Some (host, port)"
  shows "(case gh_crl h of None \<Rightarrow> True | Some st \<Rightarrow> \<not> IsRevoked st (Itoa (cc_serial cert)))
    \<and> (\<exists>req r.
          fst (ReadMessage (ce_unmarshal E) input) = Inr req \<and> cr_action req = ''connect''
        \<and> resolves_to E (cw_clock W 0) (cr_resource req) h host port r
        \<and> decided E (cw_clock W 1) (ExtractSubjectFromCert cert) ''connect'' r ra (gh_cache h) ''allow'')"
proof -
  from HandleConnection_relayed[OF assms] obtain a h' where
    a: "admit E (cw_pick W) (cw_clock W) cert ra input h = (Inr a, h')" "ad_target a = (host, port)" by metis
  from a(1) show ?thesis
  proof (rule admit_Inr)
    fix req r h1
    assume r: "case gh_crl h of None \<Rightarrow> True | Some st \<Rightarrow> \<not> IsRevoked st (Itoa (cc_serial cert))"
      "fst (ReadMessage (ce_unmarshal E) input) = Inr req" "cr_action req = ''connect''"
      and t: "resolve_target E (cw_clock W 0) (cr_resource req) h = (Inr (fst (ad_target a), snd (ad_target a), r), h1)"
      and d: "resolveDecision E (cw_pick W) (cw_clock W 1) (ExtractSubjectFromCert cert) ''connect'' r ra h1
                = (Inr (ad_decision a), h')" "az_decision (ad_decision a) = ''allow''"
    have "resolves_to E (cw_clock W 0) (cr_resource req) h host port r"
      using resolve_target_resolves[OF t] a(2) by simp
    moreover have "decided E (cw_clock W 1) (ExtractSubjectFromCert cert) ''connect'' r ra (gh_cache h) ''allow''"
      using resolveDecision_decided[OF d(1)] d(2) resolve_target_same(1)[OF t] by simp
    ultimately show ?thesis using r by blast
  qed
qed

theorem relay_authorised_witness:
  "\<exists>req r. fst (ReadMessage (ce_unmarshal ex_env) ex_input) = Inr req \<and> cr_action req = ''connect''
      \<and> resolves_to ex_env (cw_clock ex_world 0) (cr_resource req) ex_handler ''10.0.0.5'' 22 r
      \<and> decided ex_env (cw_clock ex_world 1) (ExtractSubjectFromCert ex_client_cert) ''connect'' r ''192.0.2.1:5000''
          (gh_cache ex_handler) ''allow''"
proof -
  have "relayed_target (fst (HandleConnection ex_env ex_world ex_client_cert ''192.0.2.1:5000'' ex_input ex_handler))
      = Some (''10.0.0.5'', 22)"
    using ex_connection by (auto simp: relayed_target_def)
  from conjunct2[OF relay_authorised[OF this]] show ?thesis .
qed

text \<open>A session without a time to live: the collector leaves it in every table that holds it, and its relay never
  ends for a deadline.\<close>

lemma unlimited_session:
  assumes "az_ttl (ad_decision a) = 0" "Register t bs (session_of a ra ctx) m = (Inr sid, m1)"
  shows "\<exists>s. GetSession sid m1 = Some s
    \<and> (\<forall>m2 t'. sm_wf m2 \<and> GetSession sid m2 = Some s \<longrightarrow> GetSession sid (reapExpired t' m2) = Some s)"
proof -
  from assms(2) have "\<exists>s. GetSession sid m1 = Some s \<and> gs_ttl s = gs_ttl (session_of a ra ctx)"
    by (auto simp: Register_def GetSession_def Let_def split: if_splits)
  then obtain s where s: "GetSession sid m1 = Some s" "gs_ttl s = 0" using assms(1) by (auto simp: session_of_def)
  moreover have "GetSession sid (reapExpired t' m2) = Some s" if m2: "sm_wf m2" "GetSession sid m2 = Some s" for m2 t'
  proof -
    have d: "al_distinct (m_sessions m2)" using m2(1) by (simp add: sm_wf_def)
    then have "distinct (map fst (m_sessions m2))" by (simp add: al_distinct_def)
    then have "distinct (map fst (m_sessions (reapExpired t' m2)))" "(sid, s) \<in> set (m_sessions (reapExpired t' m2))"
      using m2(2) s(2) by (auto simp: reapExpired_sessions[OF d] is_expired_def distinct_map_filter GetSession_def dest: map_of_SomeD)
    then show ?thesis by (simp add: GetSession_def)
  qed
  ultimately show ?thesis by blast
qed

lemma unlimited_relay:
  assumes "az_ttl d = 0" "relay_run None (session_events d evs) = Some p"
  shows "pr_reason p \<noteq> ''ttl_expired''"
proof
  assume "pr_reason p = ''ttl_expired''"
  with relay_expired[OF assms(2)] have "CtxDone DeadlineExceeded \<in> set (session_events d evs)" by simp
  with assms(1) show False by (simp add: session_events_def)
qed

text \<open>C29: a decision that the control plane granted for a limited time is served again from the
  cache with no limit, where the cache has a lifetime of its own (the default).  While the entry is fresh the same question is answered
  with a time to live of zero; a session that is registered on this answer is never ended by the collector, whatever the instant
  and in whatever well-formed table, and its relay never ends for a deadline.\<close>

theorem cached_decision_unlimited:
  assumes "resolveDecision E pick now subject action r ra h = (Inr d, h')"
    and "gh_cache h = Some c" and "fst (cache_Get (cache_key (sr_sub subject) action r) now c) = None"
    and "0 < az_ttl d" and "0 < gh_cache_ttl h" and "now' \<le> now + gh_cache_ttl h"
  shows "\<exists>d'. resolveDecision E pick' now' subject action r ra h' = (Inr d', h')
           \<and> az_decision d' = az_decision d \<and> az_ttl d' = 0 \<and> az_id d' = ''cached''
           \<and> (\<forall>a t bs ctx m sid m1. ad_decision a = d' \<and> Register t bs (session_of a ra ctx) m = (Inr sid, m1) \<longrightarrow>
                (\<exists>s. GetSession sid m1 = Some s
                  \<and> (\<forall>m2 t'. sm_wf m2 \<and> GetSession sid m2 = Some s \<longrightarrow> GetSession sid (reapExpired t' m2) = Some s)))
           \<and> (\<forall>evs p. relay_run None (session_events d' evs) = Some p \<longrightarrow> pr_reason p \<noteq> ''ttl_expired'')"
proof -
  let ?k = "cache_key (sr_sub subject) action r"
  let ?e = "\<lparr>de_decision = az_decision d, de_reason = az_reason d, de_version = az_version d\<rparr>"
  let ?d = "\<lparr>az_decision = az_decision d, az_ttl = 0, az_reason = az_reason d, az_version = az_version d, az_id = ''cached''\<rparr>"
  obtain c1 where c1: "cache_Get ?k now c = (None, c1)" using assms(3) by (metis prod.collapse)
  have h': "h' = h\<lparr>gh_cache := Some (cache_Put pick now ?k ?e (gh_cache_ttl h) c1)\<rparr>"
    using assms(1,2,4,5) c1
    by (auto simp: resolveDecision_def Let_def split: sum.splits if_splits)
  have "cache_Get ?k now' (cache_Put pick now ?k ?e (gh_cache_ttl h) c1)
          = (Some ?e, cache_Put pick now ?k ?e (gh_cache_ttl h) c1)"
    using assms(5,6) by (simp add: cache_Get_def cache_Put_def Let_def)
  with h' have "resolveDecision E pick' now' subject action r ra h' = (Inr ?d, h')" by (simp add: resolveDecision_def Let_def)
  moreover have "az_ttl ?d = 0" by simp
  note unlimited_session[OF trans[OF arg_cong[of _ ?d az_ttl] this]] unlimited_relay[OF this]
  ultimately show ?thesis by (intro exI[of _ ?d]) (simp; blast)
qed

theorem cached_decision_unlimited_witness:
  "az_ttl ex_decision = 300
   \<and> (\<exists>d'. resolveDecision ex_env 0 (30 * Second) (ExtractSubjectFromCert ex_client_cert) ''connect'' ex_resource
          ''192.0.2.1:5000'' ex_handler2 = (Inr d', ex_handler2)
        \<and> az_decision d' = az_decision ex_decision \<and> az_ttl d' = 0 \<and> az_id d' = ''cached'')"
proof
  have h: "gh_cache ex_handler1 = Some (new_cache 5000)" "gh_cache_ttl ex_handler1 = 60 * Second"
    using resolve_target_same[OF ex_resolve]
    by (simp_all add: ex_handler_def app_handler_eq NewHandler_def ex_gc_def ex_gc0_def gw_applyDefaults_def
        int_default_def)
  have p: "fst (cache_Get (cache_key (sr_sub (ExtractSubjectFromCert ex_client_cert)) ''connect'' ex_resource) Second (new_cache 5000)) = None"
    "0 < az_ttl ex_decision" "0 < gh_cache_ttl ex_handler1" "30 * Second \<le> Second + gh_cache_ttl ex_handler1"
    by (simp_all add: h ex_decision_def cache_Get_def new_cache_def)
  show "\<exists>d'. resolveDecision ex_env 0 (30 * Second) (ExtractSubjectFromCert ex_client_cert) ''connect'' ex_resource
          ''192.0.2.1:5000'' ex_handler2 = (Inr d', ex_handler2)
        \<and> az_decision d' = az_decision ex_decision \<and> az_ttl d' = 0 \<and> az_id d' = ''cached''"
    using cached_decision_unlimited[OF ex_decided h(1) p, of 0] by blast
qed (simp add: ex_decision_def)

text \<open>C30: a connection that is refused leaves the table of sessions as it was; one that was
  lost or relayed to the end has no session in the table; and one that is open has the
  session of its certificate and subject, as registered before the relay.\<close>

theorem no_session_leak:
  "case HandleConnection E W cert ra input h of
     (ConnDenied reason decisionID, h') \<Rightarrow> m_sessions (gh_mgr h') = m_sessions (gh_mgr h)
   | (ConnLost sid, h') \<Rightarrow> GetSession sid (gh_mgr h') = None
   | (ConnDone sid t p t0 t1, h') \<Rightarrow> GetSession sid (gh_mgr h') = None
   | (ConnOpen sid t, h') \<Rightarrow>
       (\<exists>m s. gh_mgr h' = cw_others W m \<and> GetSession sid m = Some s
          \<and> gs_cert_serial s = Itoa (cc_serial cert)
          \<and> gs_sub s = sr_sub (ExtractSubjectFromCert cert))"
proof (cases "admit E (cw_pick W) (cw_clock W) cert ra input h")
  case (Pair x h1)
  show ?thesis
  proof (cases x)
    case (Inl r)
    with Pair admit_mgr[OF Pair] show ?thesis by (cases r) (simp add: HandleConnection_def)
  next
    case (Inr a)
    have a: "ad_serial a = Itoa (cc_serial cert)" "ad_subject a = ExtractSubjectFromCert cert"
      using Pair unfolding Inr by (metis admit_Inr admission.select_convs(1,2))+
    have e: "HandleConnection E W cert ra input h = run_session E W ra a h1"
      using Pair Inr by (simp add: HandleConnection_def)
    show ?thesis
    proof (cases rule: Register_cases[of "gh_mgr h1" "session_of a ra (cw_ctx W)" "cw_clock W 2" "cw_random W"])
      case full
      with admit_mgr[OF Pair] show ?thesis unfolding e by (auto simp: run_session_def)
    next
      case (new s2)
      let ?m = "gh_mgr h1\<lparr>m_sessions := al_put (generateUUID (cw_random W)) s2 (m_sessions (gh_mgr h1))\<rparr>"
      have "GetSession (generateUUID (cw_random W)) ?m = Some s2" by (simp add: GetSession_def)
      moreover have "gs_cert_serial s2 = Itoa (cc_serial cert)" "gs_sub s2 = sr_sub (ExtractSubjectFromCert cert)"
        using new a by (simp_all add: session_of_def)
      ultimately have "\<exists>m s. cw_others W ?m = cw_others W m \<and> GetSession (generateUUID (cw_random W)) m = Some s
          \<and> gs_cert_serial s = Itoa (cc_serial cert) \<and> gs_sub s = sr_sub (ExtractSubjectFromCert cert)"
        by blast
      then show ?thesis unfolding e
        by (simp add: run_session_def new(8) Let_def GetSession_def split: option.split)
    qed
  qed
qed

text \<open>The end of a session that was killed or reached its deadline is never notified to the
  control plane: the notification is made with the context that ended the session.\<close>

theorem end_notification_lost:
  assumes "HandleConnection E W cert ra input h = (ConnDone sid t p t0 t1, h')"
    and "gh_telemetry h" and "pr_reason p = ''ttl_expired'' \<or> pr_reason p = ''admin_kill''"
  shows "t1 \<noteq> None"
proof -
  obtain a h1 where a: "admit E (cw_pick W) (cw_clock W) cert ra input h = (Inr a, h1)"
    and r: "run_session E W ra a h1 = (ConnDone sid t p t0 t1, h')"
    using assms(1) by (auto simp: HandleConnection_def split: prod.splits sum.splits)
  have tel: "gh_telemetry h1" using admit_telemetry[OF a] assms(2) by simp
  from r have "Proxy (ce_lookup E) (ce_parse_ip E) (ce_dial E) (ce_cfg E) None
      (fst (ad_target a)) (snd (ad_target a)) (session_events (ad_decision a) (cw_events W)) = Some p"
    by (auto simp: run_session_def Let_def split: prod.splits sum.splits option.splits if_splits)
  from Proxy_reason_ctx[OF this assms(3)] obtain c where c: "first_ctx None (session_events (ad_decision a) (cw_events W)) = Some c" by auto
  obtain e where e: "ctx_goerr (Some c) = Some e" by (cases c) (auto simp: ctx_goerr_def)
  have "\<exists>y. postJSON client cfg (Some e) path payload = Some y" for client cfg path payload
    using postJSON_ended[of client cfg e path payload] by simp
  with r c e tel show ?thesis
    by (auto simp: run_session_def Let_def NotifyEnd_def
        split: prod.splits sum.splits option.splits if_splits)
qed

theorem end_notification_lost_witness:
  "\<exists>sid t p t0 t1 h'. HandleConnection ex_env ex_world ex_client_cert ''192.0.2.1:5000'' ex_input ex_handler =
     (ConnDone sid t p t0 t1, h') \<and> pr_out p = 20 \<and> t1 \<noteq> None"
proof -
  obtain t0 t1 h' where c: "HandleConnection ex_env ex_world ex_client_cert ''192.0.2.1:5000'' ex_input ex_handler =
     (ConnDone (generateUUID (replicate 16 0)) (''10.0.0.5'', 22)
        \<lparr>pr_in = 10, pr_out = 20, pr_reason = ''ttl_expired''\<rparr> t0 t1, h')"
    using ex_connection by blast
  have "t1 \<noteq> None"
    by (rule end_notification_lost[OF c]) (simp_all add: ex_handler_def app_handler_eq)
  with c show ?thesis by auto
qed

end
