(* ===== verification/Lg_Properties.thy ===== *)
theory Lg_Properties
  imports Lg_Relay Gw_Connect
begin

text \<open>
  What holds of the superseded client (\<open>ztna-cli_LEGACY/main.go\<close>): its arguments, its tokens, its check of the
  revocation list, and what the present gateway does with its requests.
\<close>

subsection \<open>Arguments of connect\<close>

lemma split_args_resource: "resource \<noteq> [] \<Longrightarrow> split_args resource args = Inr (r, f) \<Longrightarrow> r = resource \<and> f = args"
  by (induction resource args arbitrary: r f rule: split_args.induct)
    (auto split: if_splits list.splits sum.splits prod.splits)

definition taken_out :: "string \<Rightarrow> string list \<Rightarrow> string list \<Rightarrow> bool" where
  "taken_out r f args \<longleftrightarrow>
     (r = [] \<and> f = args)
     \<or> (r \<noteq> [] \<and> \<not> HasPrefix r ''-'' \<and> (\<exists>pre post. args = pre @ r # post \<and> f = pre @ post))"

lemma taken_out_Cons: "taken_out r f args \<Longrightarrow> taken_out r (a # f) (a # args)"
  unfolding taken_out_def by (metis append_Cons)

lemma split_args_none: "[] \<notin> set args \<Longrightarrow> split_args [] args = Inr (r, f) \<Longrightarrow> taken_out r f args"
proof (induction "[] :: string" args arbitrary: r f rule: split_args.induct)
  case 1
  then show ?case by (simp add: taken_out_def)
next
  case (2 arg rest)
  show ?case
  proof (cases "takes_next arg")
    case True
    with 2 show ?thesis
      by (auto split: list.splits sum.splits intro!: taken_out_Cons)
  next
    case a: False
    show ?thesis
    proof (cases "HasPrefix arg ''-''")
      case True
      with a 2 show ?thesis by (auto split: sum.splits intro!: taken_out_Cons)
    next
      case False
      with a 2(5,6) have "arg \<noteq> []" "split_args arg rest = Inr (r, f)" by auto
      from split_args_resource[OF this] False this(1) show ?thesis
        by (auto simp: taken_out_def intro: exI[of _ "[]"])
    qed
  qed
qed

text \<open>The resource may stand before the flags or behind them: it is the first argument that is
  neither a flag nor the value of one of the flags that take a value, and the others keep their order.\<close>

theorem connect_args_split:
  assumes "[] \<notin> set args" "splitConnectArgs args = Inr (r, filtered)"
  shows "taken_out r filtered args"
  using split_args_none[OF assms(1)] assms(2) by (simp add: splitConnectArgs_def)

text \<open>A flag with a single dash does not take its value along: the value becomes the resource.\<close>

lemma single_dash_flag:
  "splitConnectArgs [''-config'', ''my.json'', ''ssh:backend:22''] = Inr (''my.json'', [''-config'', ''ssh:backend:22''])"
  by (simp add: splitConnectArgs_def takes_next_def HasPrefix_def)

subsection \<open>The state file\<close>

lemma saveState_ok:
  assumes "saveState E cfg st w = (Inr u, w')"
  shows "\<exists>doc target. le_state_encode E st = Inr doc \<and> expandPath (le_os E) (statePath cfg) = Inr target
     \<and> lw_files w' target = Some (doc @ [newline])
     \<and> (\<forall>n. n \<noteq> target \<longrightarrow> n \<noteq> target @ ''.tmp'' \<longrightarrow> lw_files w' n = lw_files w n)"
proof -
  let ?w1 = "w\<lparr>lw_tick := Suc (lw_tick w)\<rparr>"
  have f: "lw_files ?w1 = lw_files w" by simp
  obtain doc where d: "le_state_encode E st = Inr doc"
    and wr: "lg_writeFile (le_os E) (statePath cfg) (doc @ [newline]) ?w1 = (Inr (), w')"
    using assms
    by (auto simp: saveState_def failing_def writeJSONFile_def lg_MkdirAll_def act_run split: option.splits)
  then obtain target where "expandPath (le_os E) (statePath cfg) = Inr target"
    by (cases "expandPath (le_os E) (statePath cfg)") (auto simp: lg_writeFile_noexpand)
  with lg_writeFile_result[OF this wr] d f show ?thesis by auto
qed

text \<open>What was saved is what the next command loads.\<close>

lemma state_roundtrip:
  assumes "saveState E cfg st w = (Inr u, w1)"
    and "expandPath (le_os E) (statePath cfg) = Inr (statePath cfg)"
    and "\<And>doc. le_state_encode E st = Inr doc \<Longrightarrow> le_state_decode E (doc @ [newline]) = Inr st"
    and "os_mkdir (le_os E) = (\<lambda>_. None)" "os_read (le_os E) = (\<lambda>_. None)"
  shows "fst (loadState E cfg w1) = Inr (st\<lparr>ls_device := map_option (fill_paths cfg) (ls_device st)\<rparr>)"
proof -
  obtain doc where "le_state_encode E st = Inr doc" and f: "lw_files w1 (statePath cfg) = Some (doc @ [newline])"
    using saveState_ok[OF assms(1)] assms(2) by auto
  then have "le_state_decode E (doc @ [newline]) = Inr st" using assms(3) by blast
  with f show ?thesis
    by (simp add: loadState_def failing_def act_bind_def act_wrap_def act_catch_def act_of_def act_ret_def
        lg_MkdirAll_def lg_ReadFile_def act_call_def read_file_def Let_def assms(4,5))
qed

subsection \<open>Tokens\<close>

text \<open>The form of a refresh, and the answer of an exchange with the identity provider that gave a token.\<close>

definition refresh_form :: "lg_config \<Rightarrow> string \<Rightarrow> (string \<times> string) list" where
  "refresh_form cfg refreshToken = [(''client_id'', lc_idp_client_id cfg)] @ lg_secret cfg
     @ [(''grant_type'', ''refresh_token''), (''refresh_token'', refreshToken)]"

definition idp_issued :: "('c, 's) lg_env \<Rightarrow> lg_config \<Rightarrow> (string \<times> string) list \<Rightarrow> string \<Rightarrow> bool" where
  "idp_issued E cfg form access \<longleftrightarrow>
     (\<exists>k cli req body resp. ho_method req = ''POST'' \<and> ho_url req = lc_idp_token_url cfg \<and> ho_body req = form_encode form
        \<and> hc_insecure cli = lc_idp_insecure cfg
        \<and> le_send E k cli req = HttpResponse 200 body
        \<and> decode_json E lg_token_put lg_token_zero (case body of Inl _ \<Rightarrow> [] | Inr t \<Rightarrow> t) = Inr resp
        \<and> lr_access_token resp = access \<and> access \<noteq> [])"

lemma newHTTPClient_insecure: "newHTTPClient E insecure ca t w = (Inr cli, w') \<Longrightarrow> hc_insecure cli = insecure"
  by (auto simp: newHTTPClient_def act_run Let_def split: if_splits)

lemma lg_Do_Inr: "lg_Do E cli req w = (Inr (status, text), w') \<Longrightarrow>
    \<exists>k body. le_send E k cli req = HttpResponse status body \<and> text = (case body of Inl _ \<Rightarrow> [] | Inr t \<Rightarrow> t)"
  by (auto simp: lg_Do_def act_run split: http_result.splits)

lemma lg_NewRequest_Inr: "lg_NewRequest E m url hs b w = (Inr req, w') \<longleftrightarrow>
    le_url_error E url = None \<and> w' = w \<and> req = \<lparr>ho_method = m, ho_url = url, ho_headers = hs, ho_body = b\<rparr>"
  by (auto simp: lg_NewRequest_def act_run split: option.splits)

lemma requestOIDCToken_Inr:
  assumes "requestOIDCToken E cfg form w = (Inr resp, w')"
  shows "idp_issued E cfg form (lr_access_token resp)"
proof -
  let ?req = "\<lparr>ho_method = ''POST'', ho_url = lc_idp_token_url cfg,
      ho_headers = [(''Content-Type'', ''application/x-www-form-urlencoded'')], ho_body = form_encode form\<rparr>"
  obtain cli reply w1 where c: "newHTTPClient E (lc_idp_insecure cfg) []
        (timeoutDuration (lc_idp_timeout cfg) (10 * Second)) w = (Inr cli, w1)"
    and d: "lg_Do E cli ?req w1 = (Inr (200, reply), w')"
    and r: "decode_json E lg_token_put lg_token_zero reply = Inr resp" "lr_access_token resp \<noteq> []"
    using assms
    by (auto simp: requestOIDCToken_def failing_def act_run lg_NewRequest_Inr lg_fail_def split: if_splits prod.splits)
  have q: "ho_method ?req = ''POST''" "ho_url ?req = lc_idp_token_url cfg" "ho_body ?req = form_encode form" by simp_all
  from lg_Do_Inr[OF d] newHTTPClient_insecure[OF c] q r show ?thesis
    unfolding idp_issued_def by blast
qed

lemma buildTokenState_access: "buildTokenState E resp u w = (Inr t, w') \<Longrightarrow> lt_access t = lr_access_token resp"
  by (auto simp: buildTokenState_def act_run)

lemma lg_refresh_Inr:
  assumes "lg_refreshAccessToken E cfg refresh user w = (Inr t, w')"
  shows "idp_issued E cfg (refresh_form cfg refresh) (lt_access t)"
proof -
  obtain resp w1 where "requestOIDCToken E cfg (refresh_form cfg refresh) w = (Inr resp, w1)"
    and b: "buildTokenState E (if lr_refresh_token resp = [] then resp\<lparr>lr_refresh_token := refresh\<rparr> else resp) user w1 = (Inr t, w')"
    using assms by (auto simp: lg_refreshAccessToken_def act_run refresh_form_def)
  then have "idp_issued E cfg (refresh_form cfg refresh) (lr_access_token resp)" by (simp add: requestOIDCToken_Inr)
  with buildTokenState_access[OF b] show ?thesis by (simp split: if_splits)
qed

text \<open>The superseded client works with a fresh token only.  What \<open>ensureAccessToken\<close> gives out is the stored token, when
  by the clock more than the configured margin of its life is left, or a token the identity provider has just
  issued for the stored refresh token; the new token is in the state file before it is used.\<close>

theorem lg_token_fresh:
  assumes "ensureAccessToken E cfg st w = (Inr (tok, st'), w')"
    and "lg_parseDuration (lc_token_renew cfg) (2 * Minute) = Inr margin"
  shows "\<exists>old new. ls_token st = Some old \<and> st' = st\<lparr>ls_token := Some new\<rparr> \<and> lt_access new = tok
     \<and> (tok = lt_access old \<and> margin < time_until (os_now (le_os E) (lw_tick w)) (lt_expires new) \<and> lw_files w' = lw_files w
        \<or> idp_issued E cfg (refresh_form cfg (lt_refresh old)) tok
          \<and> (\<exists>doc target. le_state_encode E st' = Inr doc \<and> expandPath (le_os E) (statePath cfg) = Inr target
               \<and> lw_files w' target = Some (doc @ [newline])))"
proof -
  obtain old where o: "ls_token st = Some old" and a: "lt_access old \<noteq> []"
    using assms(1) by (auto simp: ensureAccessToken_def lg_fail_def act_run split: option.splits if_splits)
  let ?t = "if lt_expires old = zero_time
     then (case tokenExpiry E (lt_access old) of Inr x \<Rightarrow> old\<lparr>lt_expires := x\<rparr> | Inl _ \<Rightarrow> old) else old"
  have t: "lt_access ?t = lt_access old" "lt_refresh ?t = lt_refresh old" by (simp_all split: sum.split)
  let ?now = "os_now (le_os E) (lw_tick w)" and ?w1 = "w\<lparr>lw_tick := Suc (lw_tick w)\<rparr>"
  show ?thesis
  proof (cases "margin < time_until ?now (lt_expires ?t)")
    case True
    then have "tok = lt_access ?t" "st' = st\<lparr>ls_token := Some ?t\<rparr>" "w' = ?w1"
      using assms o a by (simp_all add: ensureAccessToken_def failing_def act_run lg_Now_def Let_def)
    with True o t show ?thesis by fastforce
  next
    case False
    then obtain new w2 where "lg_refreshAccessToken E cfg (lt_refresh ?t) (lt_username ?t) ?w1 = (Inr new, w2)"
      and s: "saveState E cfg (st\<lparr>ls_token := Some new\<rparr>) w2 = (Inr (), w')"
      and r: "tok = lt_access new" "st' = st\<lparr>ls_token := Some new\<rparr>"
      using assms o a
      by (auto simp: ensureAccessToken_def failing_def act_run lg_Now_def lg_fail_def Let_def split: if_splits)
    then have "idp_issued E cfg (refresh_form cfg (lt_refresh old)) tok" using lg_refresh_Inr t by metis
    with saveState_ok[OF s] o r show ?thesis by blast
  qed
qed

subsection \<open>The revocation list\<close>

lemma lg_ReadFile_Inr: "lg_ReadFile os p w = (Inr c, w') \<Longrightarrow> lw_files w p = Some c \<and> lw_files w' = lw_files w"
  by (auto simp: lg_ReadFile_def act_call_def read_file_def split: option.splits)

lemma LoadX509KeyPair_Inr:
  "LoadX509KeyPair E certPath keyPath w = (Inr pair, w') \<Longrightarrow>
     lw_files w certPath = Some (fst pair) \<and> lw_files w keyPath = Some (snd pair)
     \<and> le_pair_error E (fst pair) (snd pair) = None"
  by (auto simp: LoadX509KeyPair_def act_run split: option.splits dest!: lg_ReadFile_Inr)

lemma gw_tls_conf_Inr:
  "gw_tls_conf E cfg pair w = (Inr conf, w') \<Longrightarrow>
     gt_min conf = 13 \<and> gt_cert conf = pair \<and> gt_insecure conf = lc_gw_insecure cfg"
  by (auto simp: gw_tls_conf_def act_run Let_def split: if_splits)

lemma loadPEMCert_keeps [act_keep]: "act_keeps P (loadPEMCert E p)"
  unfolding loadPEMCert_def by (intro act_keep) (auto intro!: act_keep split: option.split)

lemma certPoolFromFile_keeps [act_keep]: "act_keeps P (certPoolFromFile E p)"
  unfolding certPoolFromFile_def by (intro act_keep) (auto intro!: act_keep)

lemma newHTTPClient_keeps [act_keep]: "act_keeps P (newHTTPClient E i p t)"
  by (auto simp: newHTTPClient_def Let_def intro!: act_keep)

lemma lg_http_keeps [act_keep]:
  "act_keeps P (cp_http_client E cfg t)" "act_keeps P (lg_NewRequest E m url hs b)" "act_keeps P (lg_Do E cli req)"
  by (auto simp: cp_http_client_def failing_def lg_NewRequest_def lg_Do_def intro!: act_keep split: option.split)

lemma failing_keeps [act_keep]: "act_keeps P m \<Longrightarrow> act_keeps P (failing c s m)"
  by (simp add: failing_def act_keep)

lemma checkRevocationStatus_keeps [act_keep]: "act_keeps P (checkRevocationStatus E cfg st)"
  unfolding checkRevocationStatus_def lg_fail_def
  by (auto simp: Let_def intro!: act_keep split: option.split prod.split)

text \<open>The request for the list, and the control plane serving one list throughout, to a client that verifies it, or does not, as
  configured.\<close>

definition crl_get :: "lg_config \<Rightarrow> http_out" where
  "crl_get cfg = \<lparr>ho_method = ''GET'', ho_url = lc_cp_url cfg @ ''/pki/device-ca/crl'', ho_headers = [], ho_body = []\<rparr>"

definition crl_served :: "('c, 's) lg_env \<Rightarrow> lg_config \<Rightarrow> nat list \<Rightarrow> bool" where
  "crl_served E cfg serials \<longleftrightarrow>
     le_url_error E (lc_cp_url cfg @ ''/pki/device-ca/crl'') = None
     \<and> (\<forall>k cli. hc_insecure cli = lc_cp_insecure cfg \<longrightarrow>
          (\<exists>body this next. le_send E k cli (crl_get cfg) = HttpResponse 200 (Inr body)
             \<and> le_parse_crl E body = Inr (serials, this, next)))"

text \<open>A check that was not made: the local certificate or the configured authorities of the control plane could not be read.\<close>

definition check_unmade :: "lg_error \<Rightarrow> bool" where
  "check_unmade e \<longleftrightarrow> (\<exists>c. e = Cli exitRevoked ''read local certificate'' c \<or> e = Cli exitConfig ''build CP client'' c)"

lemma loadPEMCert_present:
  assumes "lw_files w path = Some pem" "le_pem_decode E pem = Some (typ, der)" "le_parse_cert E der = Inr cert"
  shows "(\<exists>e w1. loadPEMCert E path w = (Inl e, w1)) \<or> (\<exists>w1. loadPEMCert E path w = (Inr cert, w1))"
  using assms
  by (cases "os_read (le_os E) (lw_tick w)")
     (simp_all add: loadPEMCert_def act_bind_def lg_ReadFile_def act_call_def read_file_def act_of_def)

lemma cp_http_client_insecure:
  "cp_http_client E cfg t w = (Inr cli, w1) \<Longrightarrow> hc_insecure cli = lc_cp_insecure cfg"
  by (auto simp: cp_http_client_def failing_def newHTTPClient_def Let_def act_run split: if_splits)

lemma cp_http_client_Inl:
  "cp_http_client E cfg t w = (Inl e, w1) \<Longrightarrow> check_unmade e"
  by (auto simp: cp_http_client_def failing_def act_wrap_def check_unmade_def split: prod.splits sum.splits)

lemma check_served:
  assumes "crl_served E cfg serials" "ls_device st = Some d" "lw_files w (ld_cert d) = Some pem"
    and "le_pem_decode E pem = Some (typ, der)" "le_parse_cert E der = Inr cert"
    and "checkRevocationStatus E cfg st w = (r, w')"
  shows "(\<exists>e. r = Inl e \<and> check_unmade e) \<or> (\<exists>det. r = Inr (le_serial E cert \<in> set serials, det))"
proof (cases "\<exists>e w1. loadPEMCert E (ld_cert d) w = (Inl e, w1)")
  case True
  with assms(2,6) show ?thesis
    by (auto simp: checkRevocationStatus_def failing_def act_bind_def act_wrap_def check_unmade_def)
next
  case False
  with loadPEMCert_present[OF assms(3-5)] obtain w1 where l: "loadPEMCert E (ld_cert d) w = (Inr cert, w1)" by blast
  show ?thesis
  proof (cases "cp_http_client E cfg (10 * Second) w1")
    case (Pair c w2)
    show ?thesis
    proof (cases c)
      case (Inl e)
      with Pair l assms(2,6) cp_http_client_Inl[of E cfg _ w1 e w2] show ?thesis
        by (auto simp: checkRevocationStatus_def failing_def act_bind_def act_wrap_def)
    next
      case (Inr cli)
      obtain body this nxt where
        "le_send E (lw_tick w2) cli (crl_get cfg) = HttpResponse 200 (Inr body)" "le_parse_crl E body = Inr (serials, this, nxt)"
        using assms(1) cp_http_client_insecure[OF Pair[unfolded Inr]] unfolding crl_served_def by blast
      with Pair Inr l assms(1,2,6) show ?thesis
        by (auto simp: checkRevocationStatus_def failing_def act_bind_def act_wrap_def act_of_def act_ret_def act_call_def
            lg_NewRequest_def lg_Do_def crl_served_def crl_get_def[symmetric] list_ex_iff Let_def)
    qed
  qed
qed

lemma connect_prepare_Inr:
  assumes "connect_prepare E cfg st auto w = (Inr st1, w1)"
  shows "\<exists>w2 r. checkRevocationStatus E cfg st1 w2 = (r, w1) \<and> lw_files w1 = lw_files w2 \<and> (\<forall>det. r \<noteq> Inr (True, det))"
proof -
  obtain st2 w2 r w3 where c: "checkRevocationStatus E cfg st2 w2 = (r, w3)"
    and r: "(case r of Inl (Panicked s) \<Rightarrow> act_fail (Panicked s) | Inl _ \<Rightarrow> act_ret st2
       | Inr (revoked, _) \<Rightarrow> if revoked then act_fail (Cli exitRevoked ''device certificate revoked'' None) else act_ret st2) w3
       = (Inr st1, w1)"
    using assms unfolding connect_prepare_def act_bind_Inr act_catch_run by blast
  from r have same: "st2 = st1" "w3 = w1" and "\<forall>det. r \<noteq> Inr (True, det)"
    by (cases r; auto simp: act_run split: lg_error.split_asm if_split_asm)+
  moreover have "lw_files w1 = lw_files w2"
    using act_keepsD[OF checkRevocationStatus_keeps c, of "\<lambda>fs. fs = lw_files w2"] same by simp
  ultimately show ?thesis using c same by blast
qed

text \<open>The check lets everything pass but a list that names the certificate: when it cannot be made, the connection
  goes on.\<close>

lemma revocation_fails_open:
  assumes "ensureDeviceCert E cfg st auto w = (Inr st1, w1)" "saveState E cfg st1 w1 = (Inr u, w2)"
    and "checkRevocationStatus E cfg st1 w2 = (Inl (Cli code msg cause), w3)"
  shows "connect_prepare E cfg st auto w = (Inr st1, w3)"
  using assms by (simp add: connect_prepare_def act_bind_def act_catch_def act_ret_def)

lemma openAuthorizedGWConn_Inr:
  assumes "openAuthorizedGWConn E cfg st req w = (Inr (resp, sent, rest), w')"
  shows "\<exists>d pair conf peer answers k line. ls_device st = Some d \<and> lw_files w (ld_cert d) = Some (fst pair)
     \<and> le_pair_error E (fst pair) (snd pair) = None \<and> gt_min conf = 13 \<and> gt_cert conf = pair \<and> gt_insecure conf = lc_gw_insecure cfg
     \<and> le_gateway E k (lc_gw_addr cfg) = Inr peer \<and> handshake conf peer = Inr (None, answers)
     \<and> sent = le_render E (lg_request_json req) @ [newline] \<and> ReadLine (answers sent) = Inr (line, rest)
     \<and> decode_json E lg_response_put lg_response_zero line = Inr resp \<and> cs_allowed resp"
proof -
  obtain d pair conf peer answers k line w1 w2 where "ls_device st = Some d"
    "LoadX509KeyPair E (ld_cert d) (ld_key d) w = (Inr pair, w1)" "gw_tls_conf E cfg pair w1 = (Inr conf, w2)"
    "le_gateway E k (lc_gw_addr cfg) = Inr peer" "handshake conf peer = Inr (None, answers)"
    "sent = le_render E (lg_request_json req) @ [newline]" "ReadLine (answers sent) = Inr (line, rest)"
    "decode_json E lg_response_put lg_response_zero line = Inr resp" "cs_allowed resp"
    using assms
    by (auto simp: openAuthorizedGWConn_def failing_def act_run lg_fail_def Let_def
        split: option.splits prod.splits if_splits)
  then show ?thesis using LoadX509KeyPair_Inr gw_tls_conf_Inr by blast
qed

text \<open>C35: a certificate in the revocation list opens no tunnel.  While the control plane serves a list to the superseded client,
  which verifies its certificate or not as configured, the client hands
  out a connection only after it presented, over TLS 1.3, the certificate of its device, which matches its key, and after the
  gateway answered its request with an approval; and after a check of this certificate against that list, which it is not in, unless the
  check could not be made because the local certificate or the configured authorities could not be read: then it goes on.\<close>

theorem lg_no_revoked_tunnel:
  assumes "lg_tunnel E cfg st auto req w = (Inr (resp, sent, rest), w')" "crl_served E cfg serials"
  shows "\<exists>st1 w1 w2 r d pair conf peer answers k line.
     connect_prepare E cfg st auto w = (Inr st1, w1) \<and> checkRevocationStatus E cfg st1 w2 = (r, w1)
     \<and> ls_device st1 = Some d \<and> lw_files w2 (ld_cert d) = Some (fst pair)
     \<and> le_pair_error E (fst pair) (snd pair) = None \<and> gt_min conf = 13 \<and> gt_cert conf = pair
     \<and> le_gateway E k (lc_gw_addr cfg) = Inr peer \<and> handshake conf peer = Inr (None, answers)
     \<and> sent = le_render E (lg_request_json req) @ [newline] \<and> ReadLine (answers sent) = Inr (line, rest)
     \<and> decode_json E lg_response_put lg_response_zero line = Inr resp \<and> cs_allowed resp
     \<and> (\<forall>typ der cert. le_pem_decode E (fst pair) = Some (typ, der) \<longrightarrow> le_parse_cert E der = Inr cert
          \<longrightarrow> le_serial E cert \<notin> set serials \<or> (\<exists>e. r = Inl e \<and> check_unmade e))"
proof -
  obtain st1 w1 where p: "connect_prepare E cfg st auto w = (Inr st1, w1)"
    and g: "openAuthorizedGWConn E cfg st1 req w1 = (Inr (resp, sent, rest), w')"
    using assms(1) by (auto simp: lg_tunnel_def act_run)
  obtain w2 r where c: "checkRevocationStatus E cfg st1 w2 = (r, w1)" "lw_files w1 = lw_files w2"
    "\<forall>det. r \<noteq> Inr (True, det)"
    using connect_prepare_Inr[OF p] by blast
  from openAuthorizedGWConn_Inr[OF g] obtain d pair conf peer answers k line where
    d: "ls_device st1 = Some d" "lw_files w2 (ld_cert d) = Some (fst pair)"
    and rest: "le_pair_error E (fst pair) (snd pair) = None" "gt_min conf = 13" "gt_cert conf = pair"
     "le_gateway E k (lc_gw_addr cfg) = Inr peer" "handshake conf peer = Inr (None, answers)"
     "sent = le_render E (lg_request_json req) @ [newline]" "ReadLine (answers sent) = Inr (line, rest)"
     "decode_json E lg_response_put lg_response_zero line = Inr resp" "cs_allowed resp"
    unfolding c(2) by blast
  have "le_serial E cert \<notin> set serials \<or> (\<exists>e. r = Inl e \<and> check_unmade e)"
    if "le_pem_decode E (fst pair) = Some (kind, der)" "le_parse_cert E der = Inr cert" for kind der cert
    using check_served[OF assms(2) d that c(1)] c(3) by auto
  with p c(1) d rest show ?thesis by blast
qed

subsection \<open>The present gateway\<close>

text \<open>C37: the superseded client and the present gateway have no protocol in common.  The first four bytes of its
  request, the start of a JSON object, are read as a length far above the limit of a message: the
  gateway refuses every such connection when it reads the request, if it has not already refused the certificate, and its state
  stays as it was: no decision is asked for and no session opened.\<close>

theorem legacy_never_relayed:
  assumes "take 4 (le_render L (lg_request_json req)) = [CHR ''{'', CHR 0x22, CHR ''r'', CHR ''e'']"
  shows "\<exists>reason. HandleConnection E W cert ra (le_render L (lg_request_json req) @ [newline]) h = (ConnDenied reason [], h)
     \<and> reason \<in> {deny_revoked, deny_read}"
proof -
  let ?doc = "le_render L (lg_request_json req)"
  have l: "4 \<le> length ?doc" using arg_cong[OF assms, of length] by simp
  then have "ReadFull 4 (?doc @ [newline]) = (Inr (take 4 ?doc), drop 4 ?doc @ [newline])"
    by (simp add: ReadFull_def)
  moreover have "MaxMessageSize < Uint32 (take 4 ?doc)"
    by (simp add: assms Uint32_def MaxMessageSize_def)
  ultimately have "ReadMessage (ce_unmarshal E) (?doc @ [newline]) = (Inl (Errorf ''message trop grand''), drop 4 ?doc @ [newline])"
    by (simp add: ReadMessage_def Let_def)
  then show ?thesis by (simp add: HandleConnection_def admit_defs Let_def)
qed

subsection \<open>Examples\<close>

definition ex_lg :: "(nat \<times> time, string) lg_env" where
  "ex_lg = \<lparr>le_os = ex_os,
     le_parse = (\<lambda>t. if t = ''tokens'' then Inr (JObj [(''access_token'', JStr ''new''), (''expires_in'', JNum ''300'')])
        else Inr (JObj [(''allowed'', JBool True)])),
     le_render = (\<lambda>_. [CHR ''{'', CHR 0x22, CHR ''r'', CHR ''e'', CHR ''}'']),
     le_config_decode = (\<lambda>_. Inl (Errorf ''json'')), le_config_encode = (\<lambda>_. Inr ''config''),
     le_state_decode = (\<lambda>_. Inl (Errorf ''json'')), le_state_encode = (\<lambda>_. Inr ''state''),
     le_time = (\<lambda>_. Inl (Errorf ''time'')), le_number = (\<lambda>_. 0), le_int = Atoi, le_status_text = (\<lambda>_. []),
     le_url_error = (\<lambda>_. None), le_pool_ok = (\<lambda>_. True), le_pem_decode = (\<lambda>s. Some (''CERTIFICATE'', s)),
     le_pem_encode = (\<lambda>_ b. b), le_parse_cert = (\<lambda>_. Inr (7, 100000 * Hour)), le_serial = fst, le_not_after = snd,
     le_parse_ec = Inr, le_parse_pkcs8 = (\<lambda>s. Inr (Some s)), le_ec_bytes = Inr, le_new_key = (\<lambda>_. Inr ''KEY''),
     le_csr = (\<lambda>_ _ _. Inr ''CSR''), le_parse_crl = (\<lambda>_. Inr ([5], 0, 0)), le_pair_error = (\<lambda>_ _. None),
     le_send = (\<lambda>_ _ req. HttpResponse 200 (Inr (if ho_method req = ''POST'' then ''tokens'' else ''crl''))),
     le_gateway = (\<lambda>_ _. Inr (\<lambda>_. Inr (None, \<lambda>_. ''answer'' @ [newline] @ ''SSH-2.0''))),
     le_listen = (\<lambda>_ _. None), le_probe = (\<lambda>_. (None, None)), le_bridge = (\<lambda>_. [])\<rparr>"

definition ex_lg_state :: lg_state where
  "ex_lg_state = \<lparr>ls_token = Some \<lparr>lt_access = ''old'', lt_refresh = ''rt'', lt_type = [], lt_expires = Second,
        lt_username = ''alice'', lt_updated = 0\<rparr>,
     ls_device = Some \<lparr>ld_key = ''/s/device.key'', ld_cert = ''/s/device.crt'', ld_ca = ''/s/device-ca.crt'',
        ld_serial = ''7'', ld_fingerprint = [], ld_expires = Second, ld_updated = 0\<rparr>\<rparr>"

definition ex_lg_world :: lg_world where
  "ex_lg_world = \<lparr>lw_files = [''/s/device.crt'' \<mapsto> ''CERT'', ''/s/device.key'' \<mapsto> ''KEY''], lw_tick = 0\<rparr>"

definition ex_lg_request :: lg_connect_request where
  "ex_lg_request = \<lparr>cq_resource_type = ''ssh'', cq_resource_match = ''ssh:backend:22'', cq_requested = ''connect''\<rparr>"

theorem lg_token_fresh_witness:
  "\<exists>st' w'. ensureAccessToken ex_lg (defaultConfig ''/s'') ex_lg_state ex_lg_world = (Inr (''new'', st'), w')
     \<and> idp_issued ex_lg (defaultConfig ''/s'') (refresh_form (defaultConfig ''/s'') ''rt'') ''new''"
proof -
  have "map_sum (\<lambda>_. ()) fst (fst (ensureAccessToken ex_lg (defaultConfig ''/s'') ex_lg_state ex_lg_world)) = Inr ''new''"
    by code_simp
  then obtain st' w' where e: "ensureAccessToken ex_lg (defaultConfig ''/s'') ex_lg_state ex_lg_world = (Inr (''new'', st'), w')"
    by (cases "ensureAccessToken ex_lg (defaultConfig ''/s'') ex_lg_state ex_lg_world")
       (auto simp: map_sum_def split: sum.splits)
  have m: "lg_parseDuration (lc_token_renew (defaultConfig ''/s'')) (2 * Minute) = Inr (120 * Second)"
    by code_simp
  from lg_token_fresh[OF e m] e show ?thesis by (auto simp: ex_lg_state_def)
qed

text \<open>A client that verifies the control plane with the authorities of a file.\<close>

definition ex_lg_verifying :: lg_config where
  "ex_lg_verifying = (defaultConfig ''/s'')\<lparr>lc_cp_insecure := False, lc_cp_ca := ''/s/cp-ca.crt''\<rparr>"

definition ex_lg_world_ca :: lg_world where
  "ex_lg_world_ca = ex_lg_world\<lparr>lw_files := (lw_files ex_lg_world)(''/s/cp-ca.crt'' \<mapsto> ''CA'')\<rparr>"

theorem lg_no_revoked_tunnel_witness:
  "\<not> lc_cp_insecure ex_lg_verifying \<and> crl_served ex_lg ex_lg_verifying [5]
   \<and> (\<exists>resp sent rest w' pair. lg_tunnel ex_lg ex_lg_verifying ex_lg_state True ex_lg_request ex_lg_world_ca
          = (Inr (resp, sent, rest), w') \<and> le_pair_error ex_lg (fst pair) (snd pair) = None \<and> cs_allowed resp)"
proof -
  have s: "crl_served ex_lg ex_lg_verifying [5]"
    by (simp add: crl_served_def ex_lg_def ex_lg_verifying_def defaultConfig_def crl_get_def)
  have "is_ok (fst (lg_tunnel ex_lg ex_lg_verifying ex_lg_state True ex_lg_request ex_lg_world_ca)) = True"
    by code_simp
  then obtain resp sent rest w' where
    t: "lg_tunnel ex_lg ex_lg_verifying ex_lg_state True ex_lg_request ex_lg_world_ca = (Inr (resp, sent, rest), w')"
    by (cases "lg_tunnel ex_lg ex_lg_verifying ex_lg_state True ex_lg_request ex_lg_world_ca")
       (auto simp: is_ok_def split: sum.splits)
  from lg_no_revoked_tunnel[OF t s] obtain pair where "le_pair_error ex_lg (fst pair) (snd pair) = None" "cs_allowed resp"
    by (elim exE conjE)
  moreover have "\<not> lc_cp_insecure ex_lg_verifying" by (simp add: ex_lg_verifying_def)
  ultimately show ?thesis using t s by auto
qed

theorem legacy_never_relayed_witness:
  "\<exists>reason. HandleConnection ex_env ex_world ex_client_cert ''192.0.2.1:5000''
     (le_render ex_lg (lg_request_json ex_lg_request) @ [newline]) ex_handler = (ConnDenied reason [], ex_handler)
     \<and> reason \<in> {deny_revoked, deny_read}"
  by (rule legacy_never_relayed) (simp add: ex_lg_def)

theorem connect_args_split_witness:
  "splitConnectArgs [''--config'', ''my.json'', ''ssh:backend:22'', ''--verbose''] =
     Inr (''ssh:backend:22'', [''--config'', ''my.json'', ''--verbose''])
   \<and> taken_out ''ssh:backend:22'' [''--config'', ''my.json'', ''--verbose'']
       [''--config'', ''my.json'', ''ssh:backend:22'', ''--verbose'']"
proof -
  have "splitConnectArgs [''--config'', ''my.json'', ''ssh:backend:22'', ''--verbose''] =
     Inr (''ssh:backend:22'', [''--config'', ''my.json'', ''--verbose''])" by code_simp
  with connect_args_split[OF _ this] show ?thesis by simp
qed

end
