(* ===== verification/CP_Model.thy ===== *)
theory CP_Model
  imports Go_Time
begin

text \<open>
  The control plane's data (\<open>control-plane/internal/domain/model\<close>): one record per Go
  struct, with the fields in the order of the struct.  An RFC 3339 text is kept as the
  second it names; an empty text, where the code stores or tests one, is \<open>None\<close>.
\<close>

text \<open>\<open>subject.go\<close>\<close>

record subject =
  s_sub :: string
  s_username :: string
  s_groups :: "string list"

text \<open>\<open>resource.go\<close>: the type is an arbitrary text; at most one of the two parts is set.\<close>

record host_port =
  hp_host :: string
  hp_port :: int

record resource =
  rs_type :: string
  rs_ssh :: "host_port option"
  rs_http :: "host_port option"

definition ResourceSSH :: string where "ResourceSSH = ''ssh''"
definition ResourceHTTP :: string where "ResourceHTTP = ''http''"
definition ResourceWeb :: string where "ResourceWeb = ''web''"
definition ResourceDB :: string where "ResourceDB = ''db''"

lemmas resource_type_defs = ResourceSSH_def ResourceHTTP_def ResourceWeb_def ResourceDB_def

definition Canonical :: "resource \<Rightarrow> string" where
  "Canonical r =
     (if rs_type r = ResourceSSH then
        (case rs_ssh r of
           None \<Rightarrow> ''ssh:unknown''
         | Some hp \<Rightarrow> ''ssh:'' @ hp_host hp @ '':'' @ Itoa (hp_port hp))
      else if rs_type r = ResourceHTTP then
        (case rs_http r of
           None \<Rightarrow> ''http:unknown''
         | Some hp \<Rightarrow> ''http:'' @ hp_host hp @ '':'' @ Itoa (hp_port hp))
      else ''unknown'')"

text \<open>\<open>decision.go\<close>\<close>

datatype decision_effect = DecisionAllow | DecisionDeny

fun effect_text :: "decision_effect \<Rightarrow> string" where
  "effect_text DecisionAllow = ''allow''"
| "effect_text DecisionDeny = ''deny''"

record decision =
  d_effect :: decision_effect
  d_reason :: string
  d_ttl_seconds :: int
  d_policy_version :: int
  d_decision_id :: string

text \<open>\<open>policy.go\<close>\<close>

record policy_version =
  pv_id :: int
  pv_active :: bool
  pv_created_at :: timestamp
  pv_created_by :: string

record policy_rule =
  r_id :: int
  r_version_id :: int
  r_effect :: string
  r_subject_match :: string
  r_action :: string
  r_resource_type :: string
  r_resource_match :: string
  r_created_at :: timestamp
  r_allowed_hours :: string
  r_required_device_trust :: string

record policy_snapshot =
  sn_version :: policy_version
  sn_rules :: "policy_rule list"

text \<open>\<open>audit.go\<close>; an empty \<open>ts\<close> is \<open>None\<close>\<close>

record audit_event =
  ae_id :: int
  ae_ts :: "timestamp option"
  ae_subject :: string
  ae_action :: string
  ae_resource :: string
  ae_resource_name :: string
  ae_decision :: string
  ae_reason :: string
  ae_pep_id :: string
  ae_src_ip :: string
  ae_policy_version :: int

text \<open>\<open>devicecert.go\<close>; \<open>dc_revoked_at\<close> is \<open>None\<close> for a NULL column\<close>

record device_cert =
  dc_id :: int
  dc_serial :: string
  dc_sub :: string
  dc_username :: string
  dc_fingerprint :: string
  dc_issued_at :: timestamp
  dc_expires_at :: timestamp
  dc_revoked :: bool
  dc_revoked_at :: "timestamp option"
  dc_revocation_reason :: string

text \<open>\<open>gateway.go\<close>\<close>

record gateway =
  g_id :: string
  g_name :: string
  g_registered_at :: timestamp
  g_last_seen :: "timestamp option"
  g_active :: bool
  g_fingerprint :: string
  g_software_version :: string

text \<open>\<open>session.go\<close>\<close>

record session =
  se_session_id :: string
  se_decision_id :: string
  se_subject_sub :: string
  se_subject_username :: string
  se_device_serial :: string
  se_resource_type :: string
  se_resource_name :: string
  se_resource_match :: string
  se_start_time :: timestamp
  se_end_time :: "timestamp option"
  se_bytes_in :: int
  se_bytes_out :: int
  se_duration_ms :: int
  se_end_reason :: string

text \<open>\<open>published_resource.go\<close>\<close>

record published_resource =
  p_id :: string
  p_name :: string
  p_display_name :: string
  p_type :: string
  p_backend :: string
  p_gateway_id :: string
  p_group_match :: "string list"
  p_access_mode :: string
  p_description :: string
  p_created_at :: timestamp
  p_updated_at :: timestamp

lemma effect_text_inj [simp]: "effect_text a = effect_text b \<longleftrightarrow> a = b"
  by (cases a; cases b) simp_all

lemma Canonical_ssh [simp]:
  "Canonical \<lparr>rs_type = ResourceSSH, rs_ssh = Some hp, rs_http = x\<rparr>
     = ''ssh:'' @ hp_host hp @ '':'' @ Itoa (hp_port hp)"
  by (simp add: Canonical_def)

lemma Canonical_http [simp]:
  "Canonical \<lparr>rs_type = ResourceHTTP, rs_ssh = x, rs_http = Some hp\<rparr>
     = ''http:'' @ hp_host hp @ '':'' @ Itoa (hp_port hp)"
  by (simp add: Canonical_def resource_type_defs)

text \<open>Only the types \<open>ssh\<close> and \<open>http\<close> have a canonical form that names the host.\<close>

lemma Canonical_other: "rs_type r \<noteq> ResourceSSH \<Longrightarrow> rs_type r \<noteq> ResourceHTTP \<Longrightarrow> Canonical r = ''unknown''"
  by (simp add: Canonical_def)

text \<open>A canonical form names one host and port, when hosts contain no colon.\<close>

lemma append_colon_inj:
  "CHR '':'' \<notin> set p \<Longrightarrow> CHR '':'' \<notin> set q \<Longrightarrow>
   h @ CHR '':'' # p = k @ CHR '':'' # q \<longleftrightarrow> h = k \<and> p = q"
  by (metis last_index_append append_eq_append_conv list.inject option.inject)

lemma Canonical_ssh_inj:
  assumes "in_int64 (hp_port a)" "in_int64 (hp_port b)"
    and "Canonical \<lparr>rs_type = ResourceSSH, rs_ssh = Some a, rs_http = x\<rparr>
       = Canonical \<lparr>rs_type = ResourceSSH, rs_ssh = Some b, rs_http = y\<rparr>"
  shows "hp_host a = hp_host b \<and> hp_port a = hp_port b"
  using assms by (simp add: append_colon_inj Itoa_no_sep Itoa_inj_int64)

end
