(* ===== verification/CP_Http.thy ===== *)
theory CP_Http
  imports CP_Model
begin

text \<open>
  What the control plane's handlers and middlewares share: requests and responses,
  \<open>api/httputil\<close>, the request identifier and the helpers of \<open>api/handlers/audit_helpers.go\<close>.
  A request is its headers (\<open>Header.Get\<close>: the empty text when absent), the remote address and
  the common name of the TLS peer certificate, if there is one; its body is decoded by
  \<open>encoding/json\<close> and comes as an argument of the handler, \<open>None\<close> where decoding fails.
\<close>

record http_request =
  rq_header :: "string \<Rightarrow> string"
  rq_remote_addr :: string
  rq_peer_cn :: "string option"

record resource_dto =
  dto_name :: string
  dto_display_name :: string
  dto_type :: string
  dto_access_mode :: string
  dto_description :: string
  dto_gateway_id :: string
  dto_group_match :: "string list"
  dto_backend :: string

text \<open>The JSON bodies the control plane writes.\<close>

datatype payload =
    PError string
  | PFields "(string \<times> string) list"
  | PDecision decision
  | PSubject subject
  | PSnapshot policy_snapshot
  | PVersion int
  | PEvents "audit_event list"
  | PSessions "session list"
  | PResources "resource_dto list"
  | PResource "(string \<times> string) list"
  | PSSHCert string time string "string list"
  | PDeviceCert string string string time string
  | PRaw string

record response =
  rp_status :: int
  rp_body :: payload

definition WriteJSON :: "int \<Rightarrow> payload \<Rightarrow> response" where
  "WriteJSON status payload = \<lparr>rp_status = status, rp_body = payload\<rparr>"

definition WriteError :: "goerr \<Rightarrow> response" where
  "WriteError err =
     (if errors_Is err ErrUnauthorized then WriteJSON 401 (PError (err_text err))
      else if errors_Is err ErrForbidden then WriteJSON 403 (PError (err_text err))
      else if errors_Is err ErrInvalidInput then WriteJSON 400 (PError (err_text err))
      else if errors_Is err ErrNotFound then WriteJSON 404 (PError (err_text err))
      else if errors_Is err ErrConflict then WriteJSON 409 (PError (err_text err))
      else WriteJSON 500 (PError ''erreur interne du serveur''))"

subsection \<open>IP addresses\<close>

text \<open>\<open>net.ParseIP(s) != nil\<close>: dotted decimal without leading zeros, or IPv6 without a zone.\<close>

definition octet_ok :: "string \<Rightarrow> bool" where
  "octet_ok p \<longleftrightarrow> p \<noteq> [] \<and> list_all is_digit p \<and> length p \<le> 3 \<and> digits_val p \<le> 255 \<and>
     (length p = 1 \<or> hd p \<noteq> CHR ''0'')"

definition ipv4_ok :: "string \<Rightarrow> bool" where
  "ipv4_ok s = (let ps = Split1 (CHR ''.'') s in length ps = 4 \<and> list_all octet_ok ps)"

definition is_hex :: "char \<Rightarrow> bool" where
  "is_hex c = (let n = (of_char c :: nat) in (48 \<le> n \<and> n \<le> 57) \<or> (97 \<le> n \<and> n \<le> 102) \<or> (65 \<le> n \<and> n \<le> 70))"

definition hex_group_ok :: "string \<Rightarrow> bool" where
  "hex_group_ok g \<longleftrightarrow> g \<noteq> [] \<and> length g \<le> 4 \<and> list_all is_hex g"

text \<open>The number of 16-bit fields of a list of groups whose last may be dotted decimal.\<close>

fun ipv6_fields :: "string list \<Rightarrow> nat option" where
  "ipv6_fields [] = Some 0"
| "ipv6_fields [g] = (if hex_group_ok g then Some 1 else if ipv4_ok g then Some 2 else None)"
| "ipv6_fields (g # gs) = (if hex_group_ok g then map_option Suc (ipv6_fields gs) else None)"

definition ipv6_ok :: "string \<Rightarrow> bool" where
  "ipv6_ok s =
     (case Cut s ''::'' of
        None \<Rightarrow> ipv6_fields (Split1 (CHR '':'') s) = Some 8
      | Some (a, b) \<Rightarrow>
         (let ga = (if a = [] then [] else Split1 (CHR '':'') a);
              gb = (if b = [] then [] else Split1 (CHR '':'') b) in
          list_all hex_group_ok ga \<and>
          (case ipv6_fields gb of None \<Rightarrow> False | Some n \<Rightarrow> length ga + n \<le> 7)))"

definition ParseIP_ok :: "string \<Rightarrow> bool" where
  "ParseIP_ok s =
     (case find (\<lambda>c. c = CHR ''.'' \<or> c = CHR '':'' \<or> c = CHR ''%'') s of
        None \<Rightarrow> False
      | Some c \<Rightarrow> if c = CHR ''.'' then ipv4_ok s else if c = CHR '':'' then ipv6_ok s else False)"

subsection \<open>Helpers of the audit log\<close>

definition extractContextIP :: "jmap option \<Rightarrow> string" where
  "extractContextIP ctx =
     (case ctx of
        None \<Rightarrow> []
      | Some m \<Rightarrow>
       (case m ''src_ip'' of
          Some (JStr value0) \<Rightarrow>
            (let value = TrimSpace value0 in
             if value = [] then [] else if \<not> ParseIP_ok value then [] else value)
        | _ \<Rightarrow> []))"

definition extractRemoteIP :: "http_request \<Rightarrow> string" where
  "extractRemoteIP r =
     (let forwarded = rq_header r ''X-Forwarded-For'';
          ip = TrimSpace (hd (Split1 (CHR '','') forwarded));
          realIP = TrimSpace (rq_header r ''X-Real-IP'') in
      if forwarded \<noteq> [] \<and> ParseIP_ok ip then ip
      else if realIP \<noteq> [] \<and> ParseIP_ok realIP then realIP
      else (case SplitHostPort (TrimSpace (rq_remote_addr r)) of
              Some (host, _) \<Rightarrow> if ParseIP_ok host then host
                             else if ParseIP_ok (rq_remote_addr r) then rq_remote_addr r else []
            | None \<Rightarrow> if ParseIP_ok (rq_remote_addr r) then rq_remote_addr r else []))"

definition formatSubjectForAudit :: "subject \<Rightarrow> string" where
  "formatSubjectForAudit subj =
     (if s_username subj = [] \<and> s_sub subj = [] then []
      else if s_username subj = [] then s_sub subj
      else if s_sub subj = [] then s_username subj
      else s_username subj @ ''|'' @ s_sub subj)"

text \<open>\<open>middleware/request_id.go\<close>: the identifier of the request, echoed in the response.\<close>

definition RequestID :: "string \<Rightarrow> http_request \<Rightarrow> string" where
  "RequestID uuid r = (if rq_header r ''X-Request-ID'' = [] then uuid else rq_header r ''X-Request-ID'')"

lemma extractRemoteIP_valid: "extractRemoteIP r = [] \<or> ParseIP_ok (extractRemoteIP r)"
  by (auto simp: extractRemoteIP_def Let_def split: option.split)

lemma extractContextIP_valid: "extractContextIP ctx = [] \<or> ParseIP_ok (extractContextIP ctx)"
  by (auto simp: extractContextIP_def Let_def split: option.split jval.split)

lemma WriteError_statuses: "rp_status (WriteError e) \<in> {400, 401, 403, 404, 409, 500}"
  by (simp add: WriteError_def WriteJSON_def)

end
