(* ===== verification/CP_Auth.thy ===== *)
theory CP_Auth
  imports CP_Http
begin

text \<open>
  Authentication and admission at the control plane's edge: \<open>api/middleware\<close> and
  \<open>security/oidc/validator.go\<close>.  A middleware that lets a request through calls the next
  handler with what it adds to the request context.  JSON Web Tokens and key sets are
  go-jose's, the token bucket is \<open>golang.org/x/time/rate\<close>'s: parameters.
\<close>

subsection \<open>Gateways (\<open>pep_auth.go\<close>)\<close>

record pep_config =
  pc_auth_mode :: string
  pc_tokens :: "(string \<times> string) list"
  pc_revoked_pep_ids :: "string list"

definition pep_isRevoked :: "pep_config \<Rightarrow> string \<Rightarrow> bool" where
  "pep_isRevoked cfg pepID = (pepID \<in> set (pc_revoked_pep_ids cfg))"

definition pep_identity :: "pep_config \<Rightarrow> http_request \<Rightarrow> goerr + string" where
  "pep_identity cfg r =
     (if pc_auth_mode cfg = ''mtls'' then
        (case rq_peer_cn r of
           None \<Rightarrow> Inl ErrUnauthorized
         | Some pepID \<Rightarrow> if pep_isRevoked cfg pepID then Inl ErrForbidden else Inr pepID)
      else
        (let pepID = rq_header r ''X-PEP-ID'' in
         if pepID = [] then Inl ErrUnauthorized
         else
           (let token = rq_header r ''X-PEP-TOKEN'' in
            if token = [] then Inl ErrUnauthorized
            else (case map_of (pc_tokens cfg) pepID of
                    None \<Rightarrow> Inl ErrUnauthorized
                  | Some expected \<Rightarrow>
                      if expected = [] \<or> expected \<noteq> token then Inl ErrUnauthorized
                      else if pep_isRevoked cfg pepID then Inl ErrForbidden
                      else Inr pepID))))"

definition RequirePEP :: "pep_config \<Rightarrow> (string \<Rightarrow> http_request \<Rightarrow> 's \<Rightarrow> response \<times> 's) \<Rightarrow> http_request \<Rightarrow> 's \<Rightarrow> response \<times> 's" where
  "RequirePEP cfg next r s =
     (case pep_identity cfg r of
        Inl err \<Rightarrow> (WriteError err, s)
      | Inr pepID \<Rightarrow> next pepID r s)"

subsection \<open>Users and administrators (\<open>user_auth.go\<close>, \<open>admin.go\<close>)\<close>

definition bearerToken :: "string \<Rightarrow> string res" where
  "bearerToken header =
     (if header = [] then Inl (Errorf ''missing authorization'')
      else (case SplitN2 header '' '' of
              [scheme, token] \<Rightarrow> if EqualFold scheme ''Bearer'' then Inr (TrimSpace token)
                                 else Inl (Errorf ''invalid authorization'')
            | _ \<Rightarrow> Inl (Errorf ''invalid authorization'')))"

text \<open>\<open>validate\<close> is \<open>Validator.Validate\<close>, which may refresh the key cache \<open>'c\<close>.\<close>

definition RequireUser ::
    "(string \<Rightarrow> 'c \<Rightarrow> subject res \<times> 'c) \<Rightarrow> (subject option \<Rightarrow> http_request \<Rightarrow> 's \<Rightarrow> response \<times> 's)
     \<Rightarrow> http_request \<Rightarrow> 'c \<Rightarrow> 's \<Rightarrow> response \<times> 'c \<times> 's" where
  "RequireUser validate next r c s =
     (case bearerToken (rq_header r ''Authorization'') of
        Inl _ \<Rightarrow> (WriteError ErrUnauthorized, c, s)
      | Inr token \<Rightarrow>
       (case validate token c of
          (Inl _, c') \<Rightarrow> (WriteError ErrUnauthorized, c', s)
        | (Inr subj, c') \<Rightarrow> (let (resp, s') = next (Some subj) r s in (resp, c', s'))))"

definition is_admin :: "string \<Rightarrow> string list \<Rightarrow> bool" where
  "is_admin adminGroup groups = list_ex (\<lambda>g. TrimPrefix g ''/'' = adminGroup \<or> g = adminGroup) groups"

definition RequireAdmin ::
    "string \<Rightarrow> (subject option \<Rightarrow> http_request \<Rightarrow> 's \<Rightarrow> response \<times> 's) \<Rightarrow> subject option \<Rightarrow> http_request \<Rightarrow> 's \<Rightarrow> response \<times> 's" where
  "RequireAdmin adminGroup next ctx r s =
     (case ctx of
        None \<Rightarrow> (WriteError ErrUnauthorized, s)
      | Some subj \<Rightarrow>
          if adminGroup = [] then (WriteError ErrForbidden, s)
          else if is_admin adminGroup (s_groups subj) then next ctx r s
          else (WriteError ErrForbidden, s))"

subsection \<open>Access tokens (\<open>oidc/validator.go\<close>)\<close>

definition claimString :: "jmap \<Rightarrow> string \<Rightarrow> string" where
  "claimString claims name = (case claims name of Some (JStr v) \<Rightarrow> v | _ \<Rightarrow> [])"

fun json_strings :: "jval list \<Rightarrow> string list" where
  "json_strings [] = []"
| "json_strings (JStr s # vs) = s # json_strings vs"
| "json_strings (_ # vs) = json_strings vs"

text \<open>A decoded JSON array is a \<open>[]any\<close>; the case \<open>[]string\<close> does not occur.\<close>

definition claimStrings :: "jmap \<Rightarrow> string \<Rightarrow> string list" where
  "claimStrings claims name =
     (case claims name of
        Some (JArr vs) \<Rightarrow> json_strings vs
      | Some (JStr value) \<Rightarrow>
          (let trimmed = TrimSpace value in
           if trimmed = [] then []
           else if Contains trimmed '' '' then Fields trimmed
           else if Contains trimmed '','' then filter (\<lambda>p. p \<noteq> []) (map TrimSpace (Split1 (CHR '','') trimmed))
           else [trimmed])
      | _ \<Rightarrow> [])"

record std_claims =
  cl_issuer :: string
  cl_subject :: string
  cl_audience :: "string list"

record 'k jwk =
  jk_kid :: string
  jk_use :: string
  jk_key :: "'k option"

record 'k validator_cache =
  vc_keys :: "string \<rightharpoonup> 'k"
  vc_expires_at :: "time option"   \<comment> \<open>\<open>None\<close>: the zero time\<close>

record oidc_validator =
  ov_issuer :: string
  ov_audience :: string
  ov_username_claim :: string
  ov_groups_claim :: string
  ov_audience_mode :: string
  ov_allowed_algs :: "string list"
  ov_cache_ttl :: duration

text \<open>
  go-jose: parsing a signed token with one of the allowed algorithms, its headers
  (algorithm, key identifier), verifying it with a key and reading its claims, and the
  check of issuer and times.
\<close>

record ('t, 'k) jose =
  jo_parse :: "string \<Rightarrow> string list \<Rightarrow> 't res"
  jo_headers :: "'t \<Rightarrow> (string \<times> string) list"
  jo_claims :: "'t \<Rightarrow> 'k \<Rightarrow> (std_claims \<times> jmap) res"
  jo_validate :: "std_claims \<Rightarrow> string \<Rightarrow> time \<Rightarrow> goerr option"

definition audienceMatches :: "oidc_validator \<Rightarrow> std_claims \<Rightarrow> jmap \<Rightarrow> bool" where
  "audienceMatches v claims custom =
     (if ov_audience v = [] then True
      else (let audOk = (ov_audience v \<in> set (cl_audience claims)) in
            if ov_audience_mode v = ''aud_or_azp'' then audOk \<or> claimString custom ''azp'' = ov_audience v
            else audOk))"

definition allowed_algorithms :: "string list \<Rightarrow> string list" where
  "allowed_algorithms algs = filter (\<lambda>a. a \<noteq> []) (map (\<lambda>a. ToUpper (TrimSpace a)) algs)"

definition cachedKey :: "time \<Rightarrow> string \<Rightarrow> 'k validator_cache \<Rightarrow> 'k option" where
  "cachedKey now kid c =
     (case vc_expires_at c of
        None \<Rightarrow> None
      | Some t \<Rightarrow> if t < now then None else vc_keys c kid)"

text \<open>The keys of a fetched set that can verify signatures; a later one with the same identifier wins.\<close>

definition usable_key :: "'k jwk \<Rightarrow> bool" where
  "usable_key k \<longleftrightarrow> jk_kid k \<noteq> [] \<and> jk_key k \<noteq> None \<and> (jk_use k = [] \<or> jk_use k = ''sig'')"

definition jwks_keys :: "'k jwk list \<Rightarrow> string \<rightharpoonup> 'k" where
  "jwks_keys ks = map_of (rev (map (\<lambda>k. (jk_kid k, the (jk_key k))) (filter usable_key ks)))"

text \<open>\<open>fetch\<close> is the outcome of the HTTP request: an error, or the status and the decoded set.\<close>

definition refreshJWKS ::
    "oidc_validator \<Rightarrow> goerr + (int \<times> 'k jwk list res) \<Rightarrow> time \<Rightarrow> 'k validator_cache \<Rightarrow> goerr option \<times> 'k validator_cache" where
  "refreshJWKS v fetch now c =
     (case fetch of
        Inl err \<Rightarrow> (Some err, c)
      | Inr (status, body) \<Rightarrow>
        if status < 200 \<or> 299 < status then (Some (Errorf ''jwks fetch failed''), c)
        else (case body of
                Inl err \<Rightarrow> (Some err, c)
              | Inr ks \<Rightarrow> (None, \<lparr>vc_keys = jwks_keys ks, vc_expires_at = Some (now + ov_cache_ttl v)\<rparr>)))"

text \<open>\<open>clk\<close> gives the clock's value at each reading, in order.\<close>

definition keyForKID ::
    "oidc_validator \<Rightarrow> goerr + (int \<times> 'k jwk list res) \<Rightarrow> (nat \<Rightarrow> time) \<Rightarrow> string \<Rightarrow> 'k validator_cache
     \<Rightarrow> 'k res \<times> 'k validator_cache" where
  "keyForKID v fetch clk kid c =
     (if TrimSpace kid = [] then (Inl (Errorf ''missing kid''), c)
      else (case cachedKey (clk 0) kid c of
        Some key \<Rightarrow> (Inr key, c)
      | None \<Rightarrow>
       (case refreshJWKS v fetch (clk 1) c of
          (Some err, c') \<Rightarrow> (Inl err, c')
        | (None, c') \<Rightarrow>
         (case cachedKey (clk 2) kid c' of
            Some key \<Rightarrow> (Inr key, c')
          | None \<Rightarrow> (Inl (Errorf (''unknown kid: '' @ kid)), c')))))"

definition oidc_Validate ::
    "('t, 'k) jose \<Rightarrow> oidc_validator \<Rightarrow> goerr + (int \<times> 'k jwk list res) \<Rightarrow> (nat \<Rightarrow> time) \<Rightarrow> string
     \<Rightarrow> 'k validator_cache \<Rightarrow> subject res \<times> 'k validator_cache" where
  "oidc_Validate J v fetch clk raw c =
     (case jo_parse J raw (ov_allowed_algs v) of
        Inl err \<Rightarrow> (Inl err, c)
      | Inr token \<Rightarrow>
       (case jo_headers J token of
          [] \<Rightarrow> (Inl (Errorf ''missing jwt header''), c)
        | (alg, kid) # _ \<Rightarrow>
          if alg = [] then (Inl (Errorf ''missing jwt alg''), c)
          else if ToUpper alg \<notin> set (ov_allowed_algs v) then (Inl (Errorf ''unexpected jwt alg''), c)
          else (case keyForKID v fetch clk kid c of
            (Inl err, c') \<Rightarrow> (Inl err, c')
          | (Inr key, c') \<Rightarrow>
           (case jo_claims J token key of
              Inl err \<Rightarrow> (Inl err, c')
            | Inr (std, custom) \<Rightarrow>
             (case jo_validate J std (ov_issuer v) (clk 3) of
                Some err \<Rightarrow> (Inl err, c')
              | None \<Rightarrow>
                if \<not> audienceMatches v std custom then (Inl (Errorf ''audience mismatch''), c')
                else (let name = claimString custom (ov_username_claim v) in
                      (Inr \<lparr>s_sub = cl_subject std,
                            s_username = (if name = [] then cl_subject std else name),
                            s_groups = claimStrings custom (ov_groups_claim v)\<rparr>, c')))))))"

subsection \<open>Rate limiting (\<open>ratelimit.go\<close>)\<close>

text \<open>\<open>fresh\<close> is a new token bucket, \<open>take\<close> its \<open>Allow\<close> at an instant.\<close>

record 'l ip_limiter =
  il_limiter :: 'l
  il_last_seen :: time

type_synonym 'l limiters = "(string \<times> 'l ip_limiter) list"

definition rl_allow ::
    "'l \<Rightarrow> ('l \<Rightarrow> time \<Rightarrow> bool \<times> 'l) \<Rightarrow> string \<Rightarrow> time \<Rightarrow> 'l limiters \<Rightarrow> bool \<times> 'l limiters" where
  "rl_allow fresh allow key now ls =
     (let lim = (case map_of ls key of None \<Rightarrow> fresh | Some e \<Rightarrow> il_limiter e);
          (allowed, lim') = allow lim now in
      (allowed, al_put key \<lparr>il_limiter = lim', il_last_seen = now\<rparr> ls))"

definition rl_cleanup :: "time \<Rightarrow> 'l limiters \<Rightarrow> 'l limiters" where
  "rl_cleanup now ls = filter (\<lambda>(k, v). \<not> il_last_seen v < now - 5 * Minute) ls"

text \<open>The address without its port: everything before the last colon.\<close>

definition extractClientIP :: "http_request \<Rightarrow> string" where
  "extractClientIP r =
     (if rq_header r ''X-Real-IP'' \<noteq> [] then rq_header r ''X-Real-IP''
      else (case last_index (CHR '':'') (rq_remote_addr r) of
              None \<Rightarrow> rq_remote_addr r
            | Some i \<Rightarrow> take i (rq_remote_addr r)))"

definition rl_Handler ::
    "'l \<Rightarrow> ('l \<Rightarrow> time \<Rightarrow> bool \<times> 'l) \<Rightarrow> time \<Rightarrow> (http_request \<Rightarrow> 's \<Rightarrow> response \<times> 's) \<Rightarrow> http_request
     \<Rightarrow> 'l limiters \<Rightarrow> 's \<Rightarrow> response \<times> 'l limiters \<times> 's" where
  "rl_Handler fresh allow now next r ls s =
     (let (ok, ls') = rl_allow fresh allow (extractClientIP r) now ls in
      if \<not> ok then (WriteJSON 429 (PError ''too many requests''), ls', s)
      else (let (resp, s') = next r s in (resp, ls', s')))"

definition rl_HandlerByPEP ::
    "'l \<Rightarrow> ('l \<Rightarrow> time \<Rightarrow> bool \<times> 'l) \<Rightarrow> time \<Rightarrow> (http_request \<Rightarrow> 's \<Rightarrow> response \<times> 's) \<Rightarrow> http_request
     \<Rightarrow> 'l limiters \<Rightarrow> 's \<Rightarrow> response \<times> 'l limiters \<times> 's" where
  "rl_HandlerByPEP fresh allow now next r ls s =
     (let key = (if rq_header r ''X-PEP-ID'' = [] then extractClientIP r else rq_header r ''X-PEP-ID'');
          (ok, ls') = rl_allow fresh allow key now ls in
      if \<not> ok then (WriteJSON 429 (PError ''too many requests''), ls', s)
      else (let (resp, s') = next r s in (resp, ls', s')))"

subsection \<open>Facts\<close>

lemma RequirePEP_cases:
  "(\<exists>pepID. pep_identity cfg r = Inr pepID \<and> RequirePEP cfg next r s = next pepID r s) \<or>
   (\<exists>e. pep_identity cfg r = Inl e \<and> RequirePEP cfg next r s = (WriteError e, s))"
  by (auto simp: RequirePEP_def split: sum.split)

lemma pep_identity_Inr:
  "pep_identity cfg r = Inr pepID \<longleftrightarrow>
   pepID \<notin> set (pc_revoked_pep_ids cfg) \<and>
   (if pc_auth_mode cfg = ''mtls'' then rq_peer_cn r = Some pepID
    else pepID \<noteq> [] \<and> rq_header r ''X-PEP-ID'' = pepID \<and> rq_header r ''X-PEP-TOKEN'' \<noteq> [] \<and>
      map_of (pc_tokens cfg) pepID = Some (rq_header r ''X-PEP-TOKEN''))"
  by (auto simp: pep_identity_def pep_isRevoked_def Let_def split: option.split)

lemma pep_identity_Inl: "pep_identity cfg r = Inl e \<Longrightarrow> e = ErrUnauthorized \<or> e = ErrForbidden"
  by (auto simp: pep_identity_def Let_def split: option.splits if_splits)

lemma jwks_keys_usable: "jwks_keys ks kid = Some key \<Longrightarrow>
   \<exists>j\<in>set ks. jk_kid j = kid \<and> jk_key j = Some key \<and> kid \<noteq> [] \<and> (jk_use j = [] \<or> jk_use j = ''sig'')"
  by (force simp: jwks_keys_def usable_key_def dest: map_of_SomeD)

definition cache_trusted :: "(string \<Rightarrow> 'k \<Rightarrow> bool) \<Rightarrow> 'k validator_cache \<Rightarrow> bool" where
  "cache_trusted tr c \<longleftrightarrow> (\<forall>kid k. vc_keys c kid = Some k \<longrightarrow> tr kid k)"

definition fetch_trusted :: "(string \<Rightarrow> 'k \<Rightarrow> bool) \<Rightarrow> goerr + (int \<times> 'k jwk list res) \<Rightarrow> bool" where
  "fetch_trusted tr fetch \<longleftrightarrow> (\<forall>status ks j k. fetch = Inr (status, Inr ks) \<longrightarrow> j \<in> set ks \<longrightarrow> jk_key j = Some k \<longrightarrow>
     jk_use j = [] \<or> jk_use j = ''sig'' \<longrightarrow> tr (jk_kid j) k)"

lemma refreshJWKS_trusted:
  "cache_trusted tr c \<Longrightarrow> fetch_trusted tr fetch \<Longrightarrow> cache_trusted tr (snd (refreshJWKS v fetch now c))"
  by (auto simp: refreshJWKS_def cache_trusted_def fetch_trusted_def split: sum.splits dest!: jwks_keys_usable)

lemma cachedKey_trusted: "cache_trusted tr c \<Longrightarrow> cachedKey now kid c = Some k \<Longrightarrow> tr kid k"
  by (auto simp: cachedKey_def cache_trusted_def split: option.splits if_splits)

lemma keyForKID_trusted:
  assumes "cache_trusted tr c" "fetch_trusted tr fetch" "keyForKID v fetch clk kid c = (r, c')"
  shows "cache_trusted tr c' \<and> (case r of Inl _ \<Rightarrow> True | Inr k \<Rightarrow> tr kid k)"
  using assms refreshJWKS_trusted[OF assms(1,2), of v "clk 1"] cachedKey_trusted[OF assms(1)]
    cachedKey_trusted[of tr "snd (refreshJWKS v fetch (clk 1) c)" "clk 2" kid]
  by (auto simp: keyForKID_def split: if_splits option.splits prod.splits)

subsection \<open>Properties\<close>

text \<open>The gate of the gateway API.  A request reaches the handler only as a gateway that is not on
  the revocation list and that proved its identity: by its TLS certificate in mode \<open>mtls\<close>,
  otherwise by the non-empty token configured for exactly that identifier.  Every other request
  is answered 401 or 403 and changes nothing.\<close>

theorem RequirePEP_gate:
  "(\<exists>pepID. RequirePEP cfg next r s = next pepID r s \<and> pepID \<notin> set (pc_revoked_pep_ids cfg) \<and>
      (if pc_auth_mode cfg = ''mtls'' then rq_peer_cn r = Some pepID
       else pepID \<noteq> [] \<and> rq_header r ''X-PEP-ID'' = pepID \<and> rq_header r ''X-PEP-TOKEN'' \<noteq> [] \<and>
         map_of (pc_tokens cfg) pepID = Some (rq_header r ''X-PEP-TOKEN''))) \<or>
   (\<exists>resp. RequirePEP cfg next r s = (resp, s) \<and> rp_status resp \<in> {401, 403})"
  using RequirePEP_cases[of cfg r "next" s]
proof
  assume "\<exists>e. pep_identity cfg r = Inl e \<and> RequirePEP cfg next r s = (WriteError e, s)"
  then show ?thesis by (auto dest!: pep_identity_Inl simp: WriteError_def WriteJSON_def)
qed (auto simp: pep_identity_Inr)

text \<open>The gate of the admin API.  The handler runs exactly when a user was authenticated, an
  admin group is configured and one of the user's groups is it, with or without Keycloak's
  leading slash; otherwise the answer is 401 or 403 and nothing changes.\<close>

theorem RequireAdmin_gate:
  "RequireAdmin adminGroup next ctx r s =
     (case ctx of
        None \<Rightarrow> (\<lparr>rp_status = 401, rp_body = PError ''unauthorized''\<rparr>, s)
      | Some subj \<Rightarrow>
          if adminGroup \<noteq> [] \<and> (adminGroup \<in> set (s_groups subj) \<or> CHR ''/'' # adminGroup \<in> set (s_groups subj))
          then next ctx r s
          else (\<lparr>rp_status = 403, rp_body = PError ''forbidden''\<rparr>, s))"
proof -
  have "is_admin a gs \<longleftrightarrow> a \<in> set gs \<or> CHR ''/'' # a \<in> set gs" for a gs
  proof -
    have "TrimPrefix g ''/'' = a \<or> g = a \<longleftrightarrow> g = a \<or> g = CHR ''/'' # a" for g
      by (cases g) (auto simp: TrimPrefix_def HasPrefix_def)
    then show ?thesis by (auto simp: is_admin_def list_ex_iff)
  qed
  then show ?thesis
    by (auto simp: RequireAdmin_def WriteError_def WriteJSON_def split: option.split)
qed

text \<open>C16: what an accepted access token proves.  If the cached keys and the usable keys of every
  fetched set are the identity provider's, then a token that is accepted was parsed with an
  allowed algorithm, verifies under one of the provider's signing keys for the key identifier in
  its header, passed the issuer and time checks and names the configured audience; the subject
  is the verified one, its username never empty unless the token has no subject; and the cache
  still holds the provider's keys only, whatever the outcome.\<close>

theorem oidc_Validate_sound:
  assumes "cache_trusted tr c" "fetch_trusted tr fetch"
    and "oidc_Validate J v fetch clk raw c = (r, c')"
  shows "cache_trusted tr c' \<and>
    (case r of Inl _ \<Rightarrow> True
     | Inr subj \<Rightarrow> (\<exists>token alg kid rest key std custom.
         jo_parse J raw (ov_allowed_algs v) = Inr token \<and> jo_headers J token = (alg, kid) # rest \<and>
         ToUpper alg \<in> set (ov_allowed_algs v) \<and> tr kid key \<and> jo_claims J token key = Inr (std, custom) \<and>
         jo_validate J std (ov_issuer v) (clk 3) = None \<and>
         (ov_audience v = [] \<or> ov_audience v \<in> set (cl_audience std) \<or>
          ov_audience_mode v = ''aud_or_azp'' \<and> claimString custom ''azp'' = ov_audience v) \<and>
         s_sub subj = cl_subject std \<and> (s_username subj = [] \<longrightarrow> cl_subject std = []) \<and>
         s_groups subj = claimStrings custom (ov_groups_claim v)))"
proof (cases "\<exists>token alg kid rest key. jo_parse J raw (ov_allowed_algs v) = Inr token \<and>
    jo_headers J token = (alg, kid) # rest \<and> alg \<noteq> [] \<and> ToUpper alg \<in> set (ov_allowed_algs v) \<and>
    keyForKID v fetch clk kid c = (Inr key, c')")
  case True
  then obtain token alg kid rest key where h: "jo_parse J raw (ov_allowed_algs v) = Inr token"
      "jo_headers J token = (alg, kid) # rest" "alg \<noteq> []" "ToUpper alg \<in> set (ov_allowed_algs v)"
      and k: "keyForKID v fetch clk kid c = (Inr key, c')" by blast
  have t: "cache_trusted tr c'" "tr kid key" using keyForKID_trusted[OF assms(1,2) k] by auto
  with assms(3) show ?thesis
    by (auto simp: oidc_Validate_def h k Let_def audienceMatches_def split: sum.splits option.splits if_splits)
next
  case False
  with assms(3) have "(\<exists>e. r = Inl e) \<and> (c' = c \<or> (\<exists>kid r'. keyForKID v fetch clk kid c = (r', c')))"
    by (auto simp: oidc_Validate_def Let_def split: sum.splits list.splits prod.splits option.splits if_splits)
  then show ?thesis using keyForKID_trusted[OF assms(1,2)] assms(1) by auto
qed

definition ex_validator :: oidc_validator where
  "ex_validator = \<lparr>ov_issuer = ''https://idp'', ov_audience = ''ztna'', ov_username_claim = ''preferred_username'',
     ov_groups_claim = ''groups'', ov_audience_mode = ''aud_or_azp'', ov_allowed_algs = [''RS256''], ov_cache_ttl = Minute\<rparr>"

definition ex_jose :: "(string, nat) jose" where
  "ex_jose = \<lparr>jo_parse = (\<lambda>raw _. Inr raw), jo_headers = (\<lambda>_. [(''rs256'', ''k1'')]),
     jo_claims = (\<lambda>t k. if k = 7 then Inr (\<lparr>cl_issuer = ''https://idp'', cl_subject = t, cl_audience = []\<rparr>,
        [''azp'' \<mapsto> JStr ''ztna'', ''groups'' \<mapsto> JArr [JStr ''dev'', JNull]]) else Inl (Errorf ''bad signature'')),
     jo_validate = (\<lambda>_ _ _. None)\<rparr>"

definition ex_jwks :: "goerr + (int \<times> nat jwk list res)" where
  "ex_jwks = Inr (200, Inr [\<lparr>jk_kid = ''k1'', jk_use = ''enc'', jk_key = Some 8\<rparr>, \<lparr>jk_kid = ''k1'', jk_use = ''sig'', jk_key = Some 7\<rparr>])"

theorem oidc_Validate_sound_witness:
  "\<exists>subj c'. oidc_Validate ex_jose ex_validator ex_jwks (\<lambda>_. 0) ''u1'' \<lparr>vc_keys = Map.empty, vc_expires_at = None\<rparr> = (Inr subj, c') \<and>
     cache_trusted (\<lambda>_ k. k = 7) c' \<and> s_groups subj = [''dev'']"
proof -
  let ?c = "\<lparr>vc_keys = Map.empty, vc_expires_at = None\<rparr> :: nat validator_cache"
  let ?r = "oidc_Validate ex_jose ex_validator ex_jwks (\<lambda>_. 0) ''u1'' ?c"
  have t: "cache_trusted (\<lambda>_ k. k = 7) ?c" "fetch_trusted (\<lambda>_ k. k = 7) ex_jwks"
    by (auto simp: cache_trusted_def fetch_trusted_def ex_jwks_def)
  have e: "(case fst ?r of Inl _ \<Rightarrow> False | Inr subj \<Rightarrow> s_groups subj = [''dev''])" by code_simp
  then obtain subj where r: "?r = (Inr subj, snd ?r)" "s_groups subj = [''dev'']"
    by (cases ?r; cases "fst ?r") auto
  from oidc_Validate_sound[OF t r(1)] r show ?thesis by auto
qed

fun rl_run :: "'l \<Rightarrow> ('l \<Rightarrow> time \<Rightarrow> bool \<times> 'l) \<Rightarrow> 'l limiters \<Rightarrow> (string \<times> time) list \<Rightarrow> (string \<times> bool) list" where
  "rl_run fresh allow ls [] = []"
| "rl_run fresh allow ls ((k, t) # rs) = (let (ok, ls') = rl_allow fresh allow k t ls in (k, ok) # rl_run fresh allow ls' rs)"

fun bucket_run :: "('l \<Rightarrow> time \<Rightarrow> bool \<times> 'l) \<Rightarrow> 'l \<Rightarrow> time list \<Rightarrow> bool list" where
  "bucket_run allow l [] = []"
| "bucket_run allow l (t # ts) = (let (ok, l') = allow l t in ok # bucket_run allow l' ts)"

definition rl_bucket :: "'l \<Rightarrow> string \<Rightarrow> 'l limiters \<Rightarrow> 'l" where
  "rl_bucket fresh k ls = (case map_of ls k of None \<Rightarrow> fresh | Some e \<Rightarrow> il_limiter e)"

text \<open>Rate limiting is per key.  In any sequence of requests the decisions for one key are
  those of a single token bucket that sees that key's requests only; and the clean-up forgets
  exactly the keys that were idle for more than five minutes.\<close>

theorem rate_limit_isolation:
  "map snd (filter (\<lambda>p. fst p = k) (rl_run fresh allow ls rs)) =
     bucket_run allow (rl_bucket fresh k ls) (map snd (filter (\<lambda>p. fst p = k) rs)) \<and>
   set (rl_cleanup now ls) = {p \<in> set ls. now \<le> il_last_seen (snd p) + 5 * Minute}"
proof
  show "map snd (filter (\<lambda>p. fst p = k) (rl_run fresh allow ls rs)) =
     bucket_run allow (rl_bucket fresh k ls) (map snd (filter (\<lambda>p. fst p = k) rs))"
    by (induction fresh allow ls rs rule: rl_run.induct)
       (auto simp: rl_allow_def rl_bucket_def Let_def split: prod.splits option.splits)
qed (auto simp: rl_cleanup_def)

end
