(* ===== verification/Sqlite_Store.thy ===== *)
theory Sqlite_Store
  imports CP_Model "HOL-Library.Option_ord" "HOL-Library.Char_ord" "HOL-Library.List_Lexorder"
begin

text \<open>
  The SQLite store, \<open>control-plane/internal/store/sqlite\<close>: the tables the migrations
  create, one definition per method of \<open>Store\<close>, each made of the statements the
  method executes.

  Tables.  A table is the list of its rows in rowid order; the row types are the model
  structs.  A NULL column that the code reads through \<open>COALESCE(c, '')\<close> is \<open>None\<close> or
  the empty text.  For the AUTOINCREMENT tables the state holds the last id given out.

  Failures.  The database driver may fail at any call.  \<open>drv k\<close> is the error of the
  method's \<open>k\<close>-th driver call, or \<open>None\<close> where it succeeds; a statement that fails
  changes nothing, and a transaction that is rolled back or whose commit fails leaves
  the database as it was before \<open>BeginTx\<close>.  Constraint violations of the schema are
  failures of the statement that the model computes itself.

  Order.  \<open>ORDER BY\<close> sorts stably, rows with equal keys keeping rowid order; SQLite
  does not promise an order among them.
\<close>

record user_row =
  u_id :: int
  u_sub :: string
  u_username :: string
  u_groups :: "string list"   \<comment> \<open>column \<open>groups_json\<close>\<close>
  u_created_at :: timestamp

record db =
  db_users :: "user_row list"
  db_versions :: "policy_version list"
  db_rules :: "policy_rule list"
  db_audit :: "audit_event list"
  db_certs :: "device_cert list"
  db_gateways :: "gateway list"
  db_sessions :: "session list"
  db_resources :: "published_resource list"
  db_seq_users :: int
  db_seq_versions :: int
  db_seq_rules :: int
  db_seq_audit :: int
  db_seq_certs :: int

definition empty_db :: db where
  "empty_db = \<lparr>db_users = [], db_versions = [], db_rules = [], db_audit = [], db_certs = [],
     db_gateways = [], db_sessions = [], db_resources = [],
     db_seq_users = 0, db_seq_versions = 0, db_seq_rules = 0, db_seq_audit = 0, db_seq_certs = 0\<rparr>"

type_synonym drv = "nat \<Rightarrow> goerr option"

definition no_fault :: drv where
  "no_fault = (\<lambda>_. None)"

definition constraint_error :: goerr where
  "constraint_error = Errorf ''constraint failed''"

text \<open>\<open>ORDER BY key DESC\<close> and \<open>LIMIT n OFFSET m\<close>.\<close>

definition order_desc :: "('a \<Rightarrow> 'k::linorder) \<Rightarrow> 'a list \<Rightarrow> 'a list" where
  "order_desc key xs = rev (sort_key key (rev xs))"

definition sql_limit :: "int \<Rightarrow> int \<Rightarrow> 'a list \<Rightarrow> 'a list" where
  "sql_limit n m xs = take (nat n) (drop (nat m) xs)"

subsection \<open>Users and policies (\<open>repo.go\<close>)\<close>

definition UpsertUser :: "drv \<Rightarrow> time \<Rightarrow> subject \<Rightarrow> db \<Rightarrow> goerr option \<times> db" where
  "UpsertUser drv now subj d =
     (case drv 0 of
        Some e \<Rightarrow> (Some (Wrapf ''upsert user: '' e []), d)
      | None \<Rightarrow>
          if list_ex (\<lambda>u. u_sub u = s_sub subj) (db_users d) then
            (None, d\<lparr>db_users := map (\<lambda>u. if u_sub u = s_sub subj
               then u\<lparr>u_username := s_username subj, u_groups := s_groups subj\<rparr> else u) (db_users d)\<rparr>)
          else
            (None, d\<lparr>db_users := db_users d @ [\<lparr>u_id = db_seq_users d + 1, u_sub = s_sub subj,
                u_username = s_username subj, u_groups = s_groups subj, u_created_at = rfc3339 now\<rparr>],
              db_seq_users := db_seq_users d + 1\<rparr>))"

text \<open>The \<open>INSERT INTO policy_rules\<close> statements of \<open>CreatePolicyVersion\<close>, from call \<open>k\<close> on.\<close>

fun insert_rules :: "drv \<Rightarrow> nat \<Rightarrow> time \<Rightarrow> int \<Rightarrow> policy_rule list \<Rightarrow> db \<Rightarrow> goerr + db" where
  "insert_rules drv k now vid [] d = Inr d"
| "insert_rules drv k now vid (rule # rules) d =
     (case drv k of
        Some e \<Rightarrow> Inl (Wrapf ''insert policy rule: '' e [])
      | None \<Rightarrow>
          insert_rules drv (Suc k) now vid rules
            (d\<lparr>db_rules := db_rules d @ [rule\<lparr>r_id := db_seq_rules d + 1, r_version_id := vid,
                 r_created_at := rfc3339 now\<rparr>],
               db_seq_rules := db_seq_rules d + 1\<rparr>))"

definition CreatePolicyVersion ::
    "drv \<Rightarrow> time \<Rightarrow> string \<Rightarrow> policy_rule list \<Rightarrow> db \<Rightarrow> int res \<times> db" where
  "CreatePolicyVersion drv now createdBy rules d =
     (case drv 0 of
        Some e \<Rightarrow> (Inl (Wrapf ''begin create policy: '' e []), d)
      | None \<Rightarrow>
     (case drv 1 of
        Some e \<Rightarrow> (Inl (Wrapf ''insert policy version: '' e []), d)
      | None \<Rightarrow>
        (let versionID = db_seq_versions d + 1;
             tx = d\<lparr>db_versions := db_versions d @ [\<lparr>pv_id = versionID, pv_active = False,
                      pv_created_at = rfc3339 now, pv_created_by = createdBy\<rparr>],
                    db_seq_versions := versionID\<rparr> in
         (case drv 2 of
            Some e \<Rightarrow> (Inl (Wrapf ''policy version id: '' e []), d)
          | None \<Rightarrow>
         (case insert_rules drv 3 now versionID rules tx of
            Inl e \<Rightarrow> (Inl e, d)
          | Inr tx' \<Rightarrow>
         (case drv (3 + length rules) of
            Some e \<Rightarrow> (Inl (Wrapf ''commit policy version: '' e []), d)
          | None \<Rightarrow> (Inr versionID, tx')))))))"

definition ActivatePolicyVersion :: "drv \<Rightarrow> int \<Rightarrow> db \<Rightarrow> goerr option \<times> db" where
  "ActivatePolicyVersion drv vid d =
     (case drv 0 of
        Some e \<Rightarrow> (Some (Wrapf ''begin activate policy: '' e []), d)
      | None \<Rightarrow>
     (case drv 1 of
        Some e \<Rightarrow> (Some (Wrapf ''deactivate policies: '' e []), d)
      | None \<Rightarrow>
        (let tx = d\<lparr>db_versions := map (\<lambda>v. v\<lparr>pv_active := False\<rparr>) (db_versions d)\<rparr> in
         (case drv 2 of
            Some e \<Rightarrow> (Some (Wrapf ''activate policy version: '' e []), d)
          | None \<Rightarrow>
            (let affected = filter (\<lambda>v. pv_id v = vid) (db_versions tx);
                 tx' = tx\<lparr>db_versions := map (\<lambda>v. if pv_id v = vid then v\<lparr>pv_active := True\<rparr> else v)
                            (db_versions tx)\<rparr> in
             if affected = [] then (Some SqlErrNoRows, d)
             else (case drv 3 of
                     Some e \<Rightarrow> (Some (Wrapf ''commit activate policy: '' e []), d)
                   | None \<Rightarrow> (None, tx')))))))"

definition GetActivePolicy :: "drv \<Rightarrow> db \<Rightarrow> policy_snapshot res" where
  "GetActivePolicy drv d =
     (let row = (case drv 0 of
                   Some e \<Rightarrow> Inl e
                 | None \<Rightarrow> (case order_desc pv_created_at (filter pv_active (db_versions d)) of
                              [] \<Rightarrow> Inl SqlErrNoRows
                            | v # _ \<Rightarrow> Inr v)) in
      case row of
        Inl e \<Rightarrow> if e = SqlErrNoRows then Inl e else Inl (Wrapf ''scan active policy: '' e [])
      | Inr v \<Rightarrow>
     (case drv 1 of
        Some e \<Rightarrow> Inl (Wrapf ''list policy rules: '' e [])
      | None \<Rightarrow>
     (case drv 2 of
        Some e \<Rightarrow> Inl (Wrapf ''scan policy rule: '' e [])
      | None \<Rightarrow>
     (case drv 3 of
        Some e \<Rightarrow> Inl (Wrapf ''read policy rules: '' e [])
      | None \<Rightarrow> Inr \<lparr>sn_version = v,
                     sn_rules = sort_key r_id (filter (\<lambda>r. r_version_id r = pv_id v) (db_rules d))\<rparr>))))"

text \<open>The audit table has no column for the resource name.\<close>

definition InsertAuditEvent :: "drv \<Rightarrow> audit_event \<Rightarrow> db \<Rightarrow> goerr option \<times> db" where
  "InsertAuditEvent drv ev d =
     (case drv 0 of
        Some e \<Rightarrow> (Some (Wrapf ''insert audit event: '' e []), d)
      | None \<Rightarrow> (None, d\<lparr>db_audit := db_audit d @ [ev\<lparr>ae_id := db_seq_audit d + 1, ae_resource_name := []\<rparr>],
                         db_seq_audit := db_seq_audit d + 1\<rparr>))"

definition ListAuditEvents :: "drv \<Rightarrow> int \<Rightarrow> int \<Rightarrow> db \<Rightarrow> audit_event list res" where
  "ListAuditEvents drv limit0 offset0 d =
     (let limit1 = (if limit0 \<le> 0 then 100 else limit0);
          limit = (if 500 < limit1 then 500 else limit1);
          offset = (if offset0 < 0 then 0 else offset0) in
      case drv 0 of
        Some e \<Rightarrow> Inl (Wrapf ''list audit events: '' e [])
      | None \<Rightarrow>
     (case drv 1 of
        Some e \<Rightarrow> Inl (Wrapf ''scan audit event: '' e [])
      | None \<Rightarrow>
     (case drv 2 of
        Some e \<Rightarrow> Inl (Wrapf ''read audit events: '' e [])
      | None \<Rightarrow> Inr (sql_limit limit offset (order_desc ae_ts (db_audit d))))))"

subsection \<open>Device certificates (\<open>device_certs.go\<close>)\<close>

definition StoreDeviceCert :: "drv \<Rightarrow> device_cert \<Rightarrow> db \<Rightarrow> goerr option \<times> db" where
  "StoreDeviceCert drv cert d =
     (case drv 0 of
        Some e \<Rightarrow> (Some (Wrapf ''store device cert: '' e []), d)
      | None \<Rightarrow>
          if list_ex (\<lambda>c. dc_serial c = dc_serial cert) (db_certs d)
          then (Some (Wrapf ''store device cert: '' constraint_error []), d)
          else (None, d\<lparr>db_certs := db_certs d @ [cert\<lparr>dc_id := db_seq_certs d + 1, dc_revoked := False,
                          dc_revoked_at := None, dc_revocation_reason := []\<rparr>],
                        db_seq_certs := db_seq_certs d + 1\<rparr>))"

definition RevokeDeviceCert :: "drv \<Rightarrow> time \<Rightarrow> string \<Rightarrow> string \<Rightarrow> db \<Rightarrow> goerr option \<times> db" where
  "RevokeDeviceCert drv now serial reason d =
     (case drv 0 of
        Some e \<Rightarrow> (Some (Wrapf ''revoke device cert: '' e []), d)
      | None \<Rightarrow>
        (let hit = (\<lambda>c. dc_serial c = serial \<and> \<not> dc_revoked c);
             affected = filter hit (db_certs d) in
         if affected = [] then (Some SqlErrNoRows, d)
         else (None, d\<lparr>db_certs := map (\<lambda>c. if hit c then c\<lparr>dc_revoked := True,
                 dc_revoked_at := Some (rfc3339 now), dc_revocation_reason := reason\<rparr> else c)
               (db_certs d)\<rparr>)))"

definition ListRevokedDeviceCerts :: "drv \<Rightarrow> db \<Rightarrow> device_cert list res" where
  "ListRevokedDeviceCerts drv d =
     (case drv 0 of
        Some e \<Rightarrow> Inl (Wrapf ''list revoked device certs: '' e [])
      | None \<Rightarrow>
     (case drv 1 of
        Some e \<Rightarrow> Inl (Wrapf ''scan revoked device cert: '' e [])
      | None \<Rightarrow>
     (case drv 2 of
        Some e \<Rightarrow> Inl (Wrapf ''read revoked device certs: '' e [])
      | None \<Rightarrow> Inr (order_desc dc_revoked_at (filter dc_revoked (db_certs d))))))"

definition GetDeviceCert :: "drv \<Rightarrow> string \<Rightarrow> db \<Rightarrow> device_cert res" where
  "GetDeviceCert drv serial d =
     (let row = (case drv 0 of
                   Some e \<Rightarrow> Inl e
                 | None \<Rightarrow> (case find (\<lambda>c. dc_serial c = serial) (db_certs d) of
                              None \<Rightarrow> Inl SqlErrNoRows | Some c \<Rightarrow> Inr c)) in
      case row of
        Inl e \<Rightarrow> if e = SqlErrNoRows then Inl SqlErrNoRows else Inl (Wrapf ''get device cert: '' e [])
      | Inr c \<Rightarrow> Inr c)"

subsection \<open>Gateways (\<open>gateways.go\<close>)\<close>

definition RegisterGateway :: "drv \<Rightarrow> time \<Rightarrow> gateway \<Rightarrow> db \<Rightarrow> goerr option \<times> db" where
  "RegisterGateway drv now gw d =
     (case drv 0 of
        Some e \<Rightarrow> (Some (Wrapf ''register gateway: '' e []), d)
      | None \<Rightarrow>
          if list_ex (\<lambda>g. g_id g = g_id gw) (db_gateways d) then
            (None, d\<lparr>db_gateways := map (\<lambda>g. if g_id g = g_id gw
               then g\<lparr>g_name := g_name gw, g_active := True, g_fingerprint := g_fingerprint gw,
                      g_software_version := g_software_version gw\<rparr> else g) (db_gateways d)\<rparr>)
          else
            (None, d\<lparr>db_gateways := db_gateways d @ [\<lparr>g_id = g_id gw, g_name = g_name gw,
               g_registered_at = rfc3339 now, g_last_seen = None, g_active = True,
               g_fingerprint = g_fingerprint gw, g_software_version = g_software_version gw\<rparr>]\<rparr>))"

definition UpdateGatewayHeartbeat :: "drv \<Rightarrow> time \<Rightarrow> string \<Rightarrow> string \<Rightarrow> db \<Rightarrow> goerr option \<times> db" where
  "UpdateGatewayHeartbeat drv now gid version d =
     (case drv 0 of
        Some e \<Rightarrow> (Some (Wrapf ''update gateway heartbeat: '' e []), d)
      | None \<Rightarrow>
          if filter (\<lambda>g. g_id g = gid) (db_gateways d) = [] then (Some ErrNotFound, d)
          else (None, d\<lparr>db_gateways := map (\<lambda>g. if g_id g = gid
               then (if version \<noteq> []
                     then g\<lparr>g_last_seen := Some (rfc3339 now), g_software_version := version\<rparr>
                     else g\<lparr>g_last_seen := Some (rfc3339 now)\<rparr>) else g) (db_gateways d)\<rparr>))"

definition GetGateway :: "drv \<Rightarrow> string \<Rightarrow> db \<Rightarrow> gateway res" where
  "GetGateway drv gid d =
     (let row = (case drv 0 of
                   Some e \<Rightarrow> Inl e
                 | None \<Rightarrow> (case find (\<lambda>g. g_id g = gid) (db_gateways d) of
                              None \<Rightarrow> Inl SqlErrNoRows | Some g \<Rightarrow> Inr g)) in
      case row of
        Inl e \<Rightarrow> if e = SqlErrNoRows then Inl ErrNotFound else Inl (Wrapf ''get gateway: '' e [])
      | Inr g \<Rightarrow> Inr g)"

definition SetGatewayActive :: "drv \<Rightarrow> string \<Rightarrow> bool \<Rightarrow> db \<Rightarrow> goerr option \<times> db" where
  "SetGatewayActive drv gid active d =
     (case drv 0 of
        Some e \<Rightarrow> (Some (Wrapf ''set gateway active: '' e []), d)
      | None \<Rightarrow>
          if filter (\<lambda>g. g_id g = gid) (db_gateways d) = [] then (Some ErrNotFound, d)
          else (None, d\<lparr>db_gateways := map (\<lambda>g. if g_id g = gid then g\<lparr>g_active := active\<rparr> else g)
                  (db_gateways d)\<rparr>))"

definition ListGateways :: "drv \<Rightarrow> db \<Rightarrow> gateway list res" where
  "ListGateways drv d =
     (case drv 0 of
        Some e \<Rightarrow> Inl (Wrapf ''list gateways: '' e [])
      | None \<Rightarrow>
     (case drv 1 of
        Some e \<Rightarrow> Inl (Wrapf ''scan gateway: '' e [])
      | None \<Rightarrow>
     (case drv 2 of
        Some e \<Rightarrow> Inl (Wrapf ''read gateways: '' e [])
      | None \<Rightarrow> Inr (sort_key g_registered_at (db_gateways d)))))"

subsection \<open>Published resources (\<open>resources.go\<close>)\<close>

text \<open>The CHECK constraints of \<open>007_resources.sql\<close>.\<close>

definition resource_check :: "published_resource \<Rightarrow> bool" where
  "resource_check res \<longleftrightarrow> p_type res \<in> {''web'', ''ssh'', ''db''} \<and>
     p_access_mode res \<in> {''http-proxy'', ''ssh-cert'', ''tcp-tunnel''}"

definition CreateResource :: "drv \<Rightarrow> time \<Rightarrow> published_resource \<Rightarrow> db \<Rightarrow> goerr option \<times> db" where
  "CreateResource drv now res d =
     (case drv 0 of
        Some e \<Rightarrow> (Some (Wrapf ''insert resource: '' e []), d)
      | None \<Rightarrow>
          if \<not> resource_check res \<or> list_ex (\<lambda>r. p_id r = p_id res \<or> p_name r = p_name res) (db_resources d)
          then (Some (Wrapf ''insert resource: '' constraint_error []), d)
          else (None, d\<lparr>db_resources := db_resources d @
                 [res\<lparr>p_created_at := rfc3339 now, p_updated_at := rfc3339 now\<rparr>]\<rparr>))"

definition UpdateResource :: "drv \<Rightarrow> time \<Rightarrow> published_resource \<Rightarrow> db \<Rightarrow> goerr option \<times> db" where
  "UpdateResource drv now res d =
     (case drv 0 of
        Some e \<Rightarrow> (Some (Wrapf ''update resource: '' e []), d)
      | None \<Rightarrow>
        (let affected = filter (\<lambda>r. p_name r = p_name res) (db_resources d) in
         if affected = [] then (Some SqlErrNoRows, d)
         else if \<not> resource_check res then (Some (Wrapf ''update resource: '' constraint_error []), d)
         else (None, d\<lparr>db_resources := map (\<lambda>r. if p_name r = p_name res
                then r\<lparr>p_display_name := p_display_name res, p_type := p_type res,
                       p_backend := p_backend res, p_gateway_id := p_gateway_id res,
                       p_group_match := p_group_match res, p_access_mode := p_access_mode res,
                       p_description := p_description res, p_updated_at := rfc3339 now\<rparr> else r)
              (db_resources d)\<rparr>)))"

definition GetResourceByName :: "drv \<Rightarrow> string \<Rightarrow> db \<Rightarrow> published_resource res" where
  "GetResourceByName drv name d =
     (let row = (case drv 0 of
                   Some e \<Rightarrow> Inl e
                 | None \<Rightarrow> (case find (\<lambda>r. p_name r = name) (db_resources d) of
                              None \<Rightarrow> Inl SqlErrNoRows | Some r \<Rightarrow> Inr r)) in
      case row of
        Inl e \<Rightarrow> if e = SqlErrNoRows then Inl e else Inl (Wrapf ''get resource by name: '' e [])
      | Inr r \<Rightarrow> Inr r)"

definition scanResources :: "drv \<Rightarrow> published_resource list \<Rightarrow> published_resource list res" where
  "scanResources drv rows =
     (case drv 1 of
        Some e \<Rightarrow> Inl (Wrapf ''scan resource: '' e [])
      | None \<Rightarrow>
     (case drv 2 of
        Some e \<Rightarrow> Inl (Wrapf ''read resources: '' e [])
      | None \<Rightarrow> Inr rows))"

definition ListResources :: "drv \<Rightarrow> db \<Rightarrow> published_resource list res" where
  "ListResources drv d =
     (case drv 0 of
        Some e \<Rightarrow> Inl (Wrapf ''list resources: '' e [])
      | None \<Rightarrow> scanResources drv (sort_key p_name (db_resources d)))"

text \<open>The loop of \<open>ListResourcesForGroups\<close>: a resource without groups is visible to all.\<close>

definition visible_to :: "string list \<Rightarrow> published_resource \<Rightarrow> bool" where
  "visible_to groups res \<longleftrightarrow> p_group_match res = [] \<or> list_ex (\<lambda>g. g \<in> set groups) (p_group_match res)"

definition ListResourcesForGroups :: "drv \<Rightarrow> string list \<Rightarrow> db \<Rightarrow> published_resource list res" where
  "ListResourcesForGroups drv groups d =
     (case ListResources drv d of
        Inl e \<Rightarrow> Inl e
      | Inr rs \<Rightarrow> Inr (filter (visible_to groups) rs))"

definition DeleteResource :: "drv \<Rightarrow> string \<Rightarrow> db \<Rightarrow> goerr option \<times> db" where
  "DeleteResource drv name d =
     (case drv 0 of
        Some e \<Rightarrow> (Some (Wrapf ''delete resource: '' e []), d)
      | None \<Rightarrow>
          if filter (\<lambda>r. p_name r = name) (db_resources d) = [] then (Some SqlErrNoRows, d)
          else (None, d\<lparr>db_resources := filter (\<lambda>r. p_name r \<noteq> name) (db_resources d)\<rparr>))"

subsection \<open>Sessions (\<open>sessions.go\<close>)\<close>

text \<open>
  The row \<open>CreateSession\<close> inserts: the columns it names, the defaults of the schema for
  the others.  The table has no column for \<open>ResourceName\<close>, so the field of the argument is lost.
\<close>

definition session_row :: "session \<Rightarrow> session" where
  "session_row sess = sess\<lparr>se_resource_name := [], se_end_time := None, se_bytes_in := 0,
     se_bytes_out := 0, se_duration_ms := 0, se_end_reason := []\<rparr>"

definition CreateSession :: "drv \<Rightarrow> session \<Rightarrow> db \<Rightarrow> goerr option \<times> db" where
  "CreateSession drv sess d =
     (case drv 0 of
        Some e \<Rightarrow> (Some (Wrapf ''create session: '' e []), d)
      | None \<Rightarrow>
          if list_ex (\<lambda>s. se_session_id s = se_session_id sess) (db_sessions d)
          then (Some (Wrapf ''create session: '' constraint_error []), d)
          else (None, d\<lparr>db_sessions := db_sessions d @ [session_row sess]\<rparr>))"

definition CompleteSession :: "drv \<Rightarrow> time \<Rightarrow> session \<Rightarrow> db \<Rightarrow> goerr option \<times> db" where
  "CompleteSession drv now sess d =
     (let endTime = (case se_end_time sess of None \<Rightarrow> rfc3339 now | Some t \<Rightarrow> t) in
      case drv 0 of
        Some e \<Rightarrow> (Some (Wrapf ''complete session: '' e []), d)
      | None \<Rightarrow>
          if filter (\<lambda>s. se_session_id s = se_session_id sess) (db_sessions d) = []
          then (Some (Errorf (''complete session: not found '' @ se_session_id sess)), d)
          else (None, d\<lparr>db_sessions := map (\<lambda>s. if se_session_id s = se_session_id sess
                 then s\<lparr>se_end_time := Some endTime, se_bytes_in := se_bytes_in sess,
                        se_bytes_out := se_bytes_out sess, se_duration_ms := se_duration_ms sess,
                        se_end_reason := se_end_reason sess\<rparr> else s) (db_sessions d)\<rparr>))"

definition ListSessions :: "drv \<Rightarrow> int \<Rightarrow> db \<Rightarrow> session list res" where
  "ListSessions drv limit0 d =
     (let limit = (if limit0 \<le> 0 \<or> 1000 < limit0 then 100 else limit0) in
      case drv 0 of
        Some e \<Rightarrow> Inl (Wrapf ''list sessions: '' e [])
      | None \<Rightarrow>
     (case drv 1 of
        Some e \<Rightarrow> Inl (Wrapf ''scan session: '' e [])
      | None \<Rightarrow>
     (case drv 2 of
        Some e \<Rightarrow> Inl e
      | None \<Rightarrow> Inr (sql_limit limit 0 (order_desc se_start_time (db_sessions d))))))"

lemmas store_ops [store_defs] =
  UpsertUser_def CreatePolicyVersion_def ActivatePolicyVersion_def InsertAuditEvent_def
  StoreDeviceCert_def RevokeDeviceCert_def RegisterGateway_def UpdateGatewayHeartbeat_def
  SetGatewayActive_def CreateResource_def UpdateResource_def DeleteResource_def
  CreateSession_def CompleteSession_def

subsection \<open>What the queries return\<close>

lemma set_order_desc [simp]: "set (order_desc key xs) = set xs"
  by (simp add: order_desc_def)

lemma length_order_desc [simp]: "length (order_desc key xs) = length xs"
  by (simp add: order_desc_def)

lemma order_desc_sorted: "sorted_wrt (\<ge>) (map key (order_desc key xs))"
  using sorted_sort_key[of key "rev xs"]
  by (simp add: order_desc_def sorted_wrt_rev rev_map[symmetric])

lemma order_desc_singleton [simp]: "order_desc key [x] = [x]"
  by (simp add: order_desc_def)

lemma set_sql_limit: "set (sql_limit n m xs) \<subseteq> set xs"
  unfolding sql_limit_def by (meson order_trans set_drop_subset set_take_subset)

lemma length_sql_limit: "length (sql_limit n m xs) \<le> nat n"
  by (simp add: sql_limit_def)

lemma visible_to_iff: "visible_to groups res \<longleftrightarrow> p_group_match res = [] \<or> set groups \<inter> set (p_group_match res) \<noteq> {}"
  by (auto simp: visible_to_def list_ex_iff)

end
