(* ===== verification/Store_Invariant.thy ===== *)
theory Store_Invariant
  imports Sqlite_Store Step_Systems
begin

text \<open>
  The integrity of the database over every sequence of store operations: the keys and
  constraints the schema declares, the facts the code relies on beyond them (at most one
  active policy version, revocation is permanent), and the atomicity of the transactions.
  The steps are the mutating methods of \<open>Store\<close>, called in any order with any arguments,
  clocks and driver failures.
\<close>

subsection \<open>Well-formed databases\<close>

definition users_wf :: "db \<Rightarrow> bool" where
  "users_wf d \<longleftrightarrow> distinct (map u_sub (db_users d)) \<and> distinct (map u_id (db_users d)) \<and>
     (\<forall>u\<in>set (db_users d). u_id u \<le> db_seq_users d)"

definition policies_wf :: "db \<Rightarrow> bool" where
  "policies_wf d \<longleftrightarrow> distinct (map pv_id (db_versions d)) \<and>
     (\<forall>v\<in>set (db_versions d). pv_id v \<le> db_seq_versions d) \<and>
     length (filter pv_active (db_versions d)) \<le> 1 \<and>
     distinct (map r_id (db_rules d)) \<and>
     (\<forall>r\<in>set (db_rules d). r_id r \<le> db_seq_rules d) \<and>
     r_version_id ` set (db_rules d) \<subseteq> pv_id ` set (db_versions d) \<and>
     sorted (map r_id (db_rules d))"

definition audit_wf :: "db \<Rightarrow> bool" where
  "audit_wf d \<longleftrightarrow> distinct (map ae_id (db_audit d)) \<and> (\<forall>e\<in>set (db_audit d). ae_id e \<le> db_seq_audit d)"

definition certs_wf :: "db \<Rightarrow> bool" where
  "certs_wf d \<longleftrightarrow> distinct (map dc_serial (db_certs d)) \<and> distinct (map dc_id (db_certs d)) \<and>
     (\<forall>c\<in>set (db_certs d). dc_id c \<le> db_seq_certs d \<and> (dc_revoked c \<longleftrightarrow> dc_revoked_at c \<noteq> None))"

definition gateways_wf :: "db \<Rightarrow> bool" where
  "gateways_wf d \<longleftrightarrow> distinct (map g_id (db_gateways d))"

definition sessions_wf :: "db \<Rightarrow> bool" where
  "sessions_wf d \<longleftrightarrow> distinct (map se_session_id (db_sessions d))"

definition resources_wf :: "db \<Rightarrow> bool" where
  "resources_wf d \<longleftrightarrow> distinct (map p_id (db_resources d)) \<and> distinct (map p_name (db_resources d)) \<and>
     (\<forall>r\<in>set (db_resources d). resource_check r)"

lemmas table_wf_defs = users_wf_def policies_wf_def audit_wf_def certs_wf_def gateways_wf_def
  sessions_wf_def resources_wf_def

definition db_wf :: "db \<Rightarrow> bool" where
  "db_wf d \<longleftrightarrow> users_wf d \<and> policies_wf d \<and> audit_wf d \<and> certs_wf d \<and> gateways_wf d \<and>
     sessions_wf d \<and> resources_wf d"

text \<open>A table's predicate reads its own fields only.\<close>

lemma users_wf_frame [simp]:
  "users_wf (d\<lparr>db_versions := x_versions\<rparr>) = users_wf d"
  "users_wf (d\<lparr>db_rules := x_rules\<rparr>) = users_wf d"
  "users_wf (d\<lparr>db_audit := x_audit\<rparr>) = users_wf d"
  "users_wf (d\<lparr>db_certs := x_certs\<rparr>) = users_wf d"
  "users_wf (d\<lparr>db_gateways := x_gateways\<rparr>) = users_wf d"
  "users_wf (d\<lparr>db_sessions := x_sessions\<rparr>) = users_wf d"
  "users_wf (d\<lparr>db_resources := x_resources\<rparr>) = users_wf d"
  "users_wf (d\<lparr>db_seq_versions := x_seq_versions\<rparr>) = users_wf d"
  "users_wf (d\<lparr>db_seq_rules := x_seq_rules\<rparr>) = users_wf d"
  "users_wf (d\<lparr>db_seq_audit := x_seq_audit\<rparr>) = users_wf d"
  "users_wf (d\<lparr>db_seq_certs := x_seq_certs\<rparr>) = users_wf d"
  by (simp_all add: users_wf_def)

lemma policies_wf_frame [simp]:
  "policies_wf (d\<lparr>db_users := x_users\<rparr>) = policies_wf d"
  "policies_wf (d\<lparr>db_audit := x_audit\<rparr>) = policies_wf d"
  "policies_wf (d\<lparr>db_certs := x_certs\<rparr>) = policies_wf d"
  "policies_wf (d\<lparr>db_gateways := x_gateways\<rparr>) = policies_wf d"
  "policies_wf (d\<lparr>db_sessions := x_sessions\<rparr>) = policies_wf d"
  "policies_wf (d\<lparr>db_resources := x_resources\<rparr>) = policies_wf d"
  "policies_wf (d\<lparr>db_seq_users := x_seq_users\<rparr>) = policies_wf d"
  "policies_wf (d\<lparr>db_seq_audit := x_seq_audit\<rparr>) = policies_wf d"
  "policies_wf (d\<lparr>db_seq_certs := x_seq_certs\<rparr>) = policies_wf d"
  by (simp_all add: policies_wf_def)

lemma audit_wf_frame [simp]:
  "audit_wf (d\<lparr>db_users := x_users\<rparr>) = audit_wf d"
  "audit_wf (d\<lparr>db_versions := x_versions\<rparr>) = audit_wf d"
  "audit_wf (d\<lparr>db_rules := x_rules\<rparr>) = audit_wf d"
  "audit_wf (d\<lparr>db_certs := x_certs\<rparr>) = audit_wf d"
  "audit_wf (d\<lparr>db_gateways := x_gateways\<rparr>) = audit_wf d"
  "audit_wf (d\<lparr>db_sessions := x_sessions\<rparr>) = audit_wf d"
  "audit_wf (d\<lparr>db_resources := x_resources\<rparr>) = audit_wf d"
  "audit_wf (d\<lparr>db_seq_users := x_seq_users\<rparr>) = audit_wf d"
  "audit_wf (d\<lparr>db_seq_versions := x_seq_versions\<rparr>) = audit_wf d"
  "audit_wf (d\<lparr>db_seq_rules := x_seq_rules\<rparr>) = audit_wf d"
  "audit_wf (d\<lparr>db_seq_certs := x_seq_certs\<rparr>) = audit_wf d"
  by (simp_all add: audit_wf_def)

lemma certs_wf_frame [simp]:
  "certs_wf (d\<lparr>db_users := x_users\<rparr>) = certs_wf d"
  "certs_wf (d\<lparr>db_versions := x_versions\<rparr>) = certs_wf d"
  "certs_wf (d\<lparr>db_rules := x_rules\<rparr>) = certs_wf d"
  "certs_wf (d\<lparr>db_audit := x_audit\<rparr>) = certs_wf d"
  "certs_wf (d\<lparr>db_gateways := x_gateways\<rparr>) = certs_wf d"
  "certs_wf (d\<lparr>db_sessions := x_sessions\<rparr>) = certs_wf d"
  "certs_wf (d\<lparr>db_resources := x_resources\<rparr>) = certs_wf d"
  "certs_wf (d\<lparr>db_seq_users := x_seq_users\<rparr>) = certs_wf d"
  "certs_wf (d\<lparr>db_seq_versions := x_seq_versions\<rparr>) = certs_wf d"
  "certs_wf (d\<lparr>db_seq_rules := x_seq_rules\<rparr>) = certs_wf d"
  "certs_wf (d\<lparr>db_seq_audit := x_seq_audit\<rparr>) = certs_wf d"
  by (simp_all add: certs_wf_def)

lemma gateways_wf_frame [simp]:
  "gateways_wf (d\<lparr>db_users := x_users\<rparr>) = gateways_wf d"
  "gateways_wf (d\<lparr>db_versions := x_versions\<rparr>) = gateways_wf d"
  "gateways_wf (d\<lparr>db_rules := x_rules\<rparr>) = gateways_wf d"
  "gateways_wf (d\<lparr>db_audit := x_audit\<rparr>) = gateways_wf d"
  "gateways_wf (d\<lparr>db_certs := x_certs\<rparr>) = gateways_wf d"
  "gateways_wf (d\<lparr>db_sessions := x_sessions\<rparr>) = gateways_wf d"
  "gateways_wf (d\<lparr>db_resources := x_resources\<rparr>) = gateways_wf d"
  "gateways_wf (d\<lparr>db_seq_users := x_seq_users\<rparr>) = gateways_wf d"
  "gateways_wf (d\<lparr>db_seq_versions := x_seq_versions\<rparr>) = gateways_wf d"
  "gateways_wf (d\<lparr>db_seq_rules := x_seq_rules\<rparr>) = gateways_wf d"
  "gateways_wf (d\<lparr>db_seq_audit := x_seq_audit\<rparr>) = gateways_wf d"
  "gateways_wf (d\<lparr>db_seq_certs := x_seq_certs\<rparr>) = gateways_wf d"
  by (simp_all add: gateways_wf_def)

lemma sessions_wf_frame [simp]:
  "sessions_wf (d\<lparr>db_users := x_users\<rparr>) = sessions_wf d"
  "sessions_wf (d\<lparr>db_versions := x_versions\<rparr>) = sessions_wf d"
  "sessions_wf (d\<lparr>db_rules := x_rules\<rparr>) = sessions_wf d"
  "sessions_wf (d\<lparr>db_audit := x_audit\<rparr>) = sessions_wf d"
  "sessions_wf (d\<lparr>db_certs := x_certs\<rparr>) = sessions_wf d"
  "sessions_wf (d\<lparr>db_gateways := x_gateways\<rparr>) = sessions_wf d"
  "sessions_wf (d\<lparr>db_resources := x_resources\<rparr>) = sessions_wf d"
  "sessions_wf (d\<lparr>db_seq_users := x_seq_users\<rparr>) = sessions_wf d"
  "sessions_wf (d\<lparr>db_seq_versions := x_seq_versions\<rparr>) = sessions_wf d"
  "sessions_wf (d\<lparr>db_seq_rules := x_seq_rules\<rparr>) = sessions_wf d"
  "sessions_wf (d\<lparr>db_seq_audit := x_seq_audit\<rparr>) = sessions_wf d"
  "sessions_wf (d\<lparr>db_seq_certs := x_seq_certs\<rparr>) = sessions_wf d"
  by (simp_all add: sessions_wf_def)

lemma resources_wf_frame [simp]:
  "resources_wf (d\<lparr>db_users := x_users\<rparr>) = resources_wf d"
  "resources_wf (d\<lparr>db_versions := x_versions\<rparr>) = resources_wf d"
  "resources_wf (d\<lparr>db_rules := x_rules\<rparr>) = resources_wf d"
  "resources_wf (d\<lparr>db_audit := x_audit\<rparr>) = resources_wf d"
  "resources_wf (d\<lparr>db_certs := x_certs\<rparr>) = resources_wf d"
  "resources_wf (d\<lparr>db_gateways := x_gateways\<rparr>) = resources_wf d"
  "resources_wf (d\<lparr>db_sessions := x_sessions\<rparr>) = resources_wf d"
  "resources_wf (d\<lparr>db_seq_users := x_seq_users\<rparr>) = resources_wf d"
  "resources_wf (d\<lparr>db_seq_versions := x_seq_versions\<rparr>) = resources_wf d"
  "resources_wf (d\<lparr>db_seq_rules := x_seq_rules\<rparr>) = resources_wf d"
  "resources_wf (d\<lparr>db_seq_audit := x_seq_audit\<rparr>) = resources_wf d"
  "resources_wf (d\<lparr>db_seq_certs := x_seq_certs\<rparr>) = resources_wf d"
  by (simp_all add: resources_wf_def)

subsection \<open>Updates of one row\<close>

lemma no_fault_apply [simp]: "no_fault k = None"
  by (simp add: no_fault_def)

lemma map_if_same [simp]:
  "(\<And>x. f (g x) = f x) \<Longrightarrow> map (f \<circ> (\<lambda>x. if P x then g x else x)) xs = map f xs"
  by auto

lemma filter_Nil_iff: "filter P xs = [] \<longleftrightarrow> \<not> (\<exists>x\<in>set xs. P x)"
  by (auto simp: filter_empty_conv)

lemma not_list_ex: "\<not> list_ex P xs \<longleftrightarrow> (\<forall>x\<in>set xs. \<not> P x)"
  by (simp add: list_ex_iff)

lemma distinct_map_single: "distinct (map f xs) \<Longrightarrow> length (filter (\<lambda>x. f x = k) xs) \<le> 1"
  by (induction xs) (auto simp: filter_empty_conv, metis image_eqI)

lemma filter_map_upd: "filter P (map f xs) = map f (filter (P \<circ> f) xs)"
  by (induction xs) auto

text \<open>The row an update hits is the one row with the key.\<close>

lemma find_upd_key:
  assumes "\<And>x. key (f x) = key x"
  shows "find (\<lambda>x. key x = j) (map (\<lambda>x. if key x = k then f x else x) xs)
       = map_option (\<lambda>x. if j = k then f x else x) (find (\<lambda>x. key x = j) xs)"
  using assms by (induction xs) auto

lemma find_append_new:
  "\<not> list_ex (\<lambda>x. key x = key y) xs \<Longrightarrow>
   find (\<lambda>x. key x = j) (xs @ [y]) = (if j = key y then Some y else find (\<lambda>x. key x = j) xs)"
  by (induction xs) auto

lemma find_key_None: "find (\<lambda>x. key x = k) xs = None \<longleftrightarrow> \<not> list_ex (\<lambda>x. key x = k) xs"
  by (auto simp: find_None_iff list_ex_iff)

lemma find_key_Some: "find (\<lambda>x. key x = k) xs = Some y \<Longrightarrow> y \<in> set xs \<and> key y = k"
  by (auto simp: find_Some_iff)

lemma find_key_in: "distinct (map key xs) \<Longrightarrow> y \<in> set xs \<Longrightarrow> find (\<lambda>x. key x = key y) xs = Some y"
  by (induction xs) (auto simp: image_iff)

subsection \<open>The rules a transaction inserts\<close>

text \<open>
  What \<open>insert_rules\<close> stores when no statement fails: the rules in their order, numbered
  from the last id, under the new version.
\<close>

definition stored_rules :: "time \<Rightarrow> int \<Rightarrow> int \<Rightarrow> policy_rule list \<Rightarrow> policy_rule list" where
  "stored_rules now vid seq rules =
     map (\<lambda>(i, r). r\<lparr>r_id := seq + 1 + int i, r_version_id := vid, r_created_at := rfc3339 now\<rparr>)
       (zip [0..<length rules] rules)"

lemma stored_rules_Nil [simp]: "stored_rules now vid seq [] = []"
  by (simp add: stored_rules_def)

lemma stored_rules_Cons [simp]:
  "stored_rules now vid seq (r # rs) =
     r\<lparr>r_id := seq + 1, r_version_id := vid, r_created_at := rfc3339 now\<rparr> # stored_rules now vid (seq + 1) rs"
proof -
  have z: "zip (map Suc [0..<length rs]) rs = map (\<lambda>(i, y). (Suc i, y)) (zip [0..<length rs] rs)"
    by (simp add: zip_map1)
  show ?thesis
    unfolding stored_rules_def
    by (simp add: upt_conv_Cons map_Suc_upt[symmetric] z case_prod_unfold del: upt_Suc)
qed

lemma length_stored_rules [simp]: "length (stored_rules now vid seq rules) = length rules"
  by (simp add: stored_rules_def)

lemma stored_rules_ids: "map r_id (stored_rules now vid seq rules) = map (\<lambda>i. seq + 1 + int i) [0..<length rules]"
  by (induction rules arbitrary: seq) (auto simp: upt_conv_Cons map_Suc_upt[symmetric] simp del: upt_Suc)

lemma stored_rules_version: "r \<in> set (stored_rules now vid seq rules) \<Longrightarrow> r_version_id r = vid"
  by (induction rules arbitrary: seq) auto

lemma insert_rules_Inr:
  "insert_rules drv k now vid rules d = Inr d' \<Longrightarrow>
   d' = d\<lparr>db_rules := db_rules d @ stored_rules now vid (db_seq_rules d) rules,
          db_seq_rules := db_seq_rules d + int (length rules)\<rparr>"
proof (induction rules arbitrary: k d)
  case (Cons r rules)
  from Cons.prems show ?case
    by (auto split: option.splits dest!: Cons.IH)
qed simp

lemma insert_rules_no_fault:
  "insert_rules no_fault k now vid rules d =
     Inr (d\<lparr>db_rules := db_rules d @ stored_rules now vid (db_seq_rules d) rules,
            db_seq_rules := db_seq_rules d + int (length rules)\<rparr>)"
  by (induction rules arbitrary: k d) simp_all

text \<open>The database after a version is created.\<close>

definition with_version :: "time \<Rightarrow> string \<Rightarrow> policy_rule list \<Rightarrow> db \<Rightarrow> db" where
  "with_version now createdBy rules d =
     d\<lparr>db_versions := db_versions d @ [\<lparr>pv_id = db_seq_versions d + 1, pv_active = False,
          pv_created_at = rfc3339 now, pv_created_by = createdBy\<rparr>],
       db_seq_versions := db_seq_versions d + 1,
       db_rules := db_rules d @ stored_rules now (db_seq_versions d + 1) (db_seq_rules d) rules,
       db_seq_rules := db_seq_rules d + int (length rules)\<rparr>"

definition with_active :: "int \<Rightarrow> db \<Rightarrow> db" where
  "with_active vid d = d\<lparr>db_versions := map (\<lambda>v. v\<lparr>pv_active := (pv_id v = vid)\<rparr>) (db_versions d)\<rparr>"

lemma CreatePolicyVersion_cases:
  "(\<exists>e. CreatePolicyVersion drv now by rules d = (Inl e, d)) \<or>
   CreatePolicyVersion drv now by rules d = (Inr (db_seq_versions d + 1), with_version now by rules d)"
  by (auto simp: CreatePolicyVersion_def Let_def with_version_def
      split: option.splits sum.splits dest!: insert_rules_Inr)

lemma CreatePolicyVersion_no_fault:
  "CreatePolicyVersion no_fault now by rules d = (Inr (db_seq_versions d + 1), with_version now by rules d)"
  by (simp add: CreatePolicyVersion_def Let_def with_version_def insert_rules_no_fault)

lemma ActivatePolicyVersion_cases:
  "(\<exists>e. ActivatePolicyVersion drv vid d = (Some e, d)) \<or>
   (ActivatePolicyVersion drv vid d = (None, with_active vid d) \<and> vid \<in> pv_id ` set (db_versions d))"
proof -
  have eq: "map ((\<lambda>v. if pv_id v = vid then v\<lparr>pv_active := True\<rparr> else v) \<circ> (\<lambda>v. v\<lparr>pv_active := False\<rparr>)) vs
          = map (\<lambda>v. v\<lparr>pv_active := (pv_id v = vid)\<rparr>) vs" for vs
    by auto
  show ?thesis
    by (auto simp: ActivatePolicyVersion_def Let_def with_active_def eq filter_map_upd o_def
        filter_empty_conv split: option.splits)
qed

lemma ActivatePolicyVersion_no_fault:
  "ActivatePolicyVersion no_fault vid d =
     (if vid \<in> pv_id ` set (db_versions d) then (None, with_active vid d) else (Some SqlErrNoRows, d))"
proof -
  have eq: "map ((\<lambda>v. if pv_id v = vid then v\<lparr>pv_active := True\<rparr> else v) \<circ> (\<lambda>v. v\<lparr>pv_active := False\<rparr>)) vs
          = map (\<lambda>v. v\<lparr>pv_active := (pv_id v = vid)\<rparr>) vs" for vs
    by auto
  show ?thesis
    by (auto simp: ActivatePolicyVersion_def Let_def with_active_def eq filter_map_upd o_def
        filter_empty_conv)
qed

subsection \<open>Every operation keeps the database well formed\<close>

lemma policies_wf_with_version: "policies_wf d \<Longrightarrow> policies_wf (with_version now createdBy rules d)"
proof -
  assume wf: "policies_wf d"
  let ?new = "stored_rules now (db_seq_versions d + 1) (db_seq_rules d) rules"
  have ids: "map r_id ?new = map (\<lambda>i. db_seq_rules d + 1 + int i) [0..<length rules]"
    by (rule stored_rules_ids)
  have in_new: "r_id r > db_seq_rules d \<and> r_id r \<le> db_seq_rules d + int (length rules) \<and>
      r_version_id r = db_seq_versions d + 1" if "r \<in> set ?new" for r
  proof -
    from that have "r_id r \<in> set (map r_id ?new)" by simp
    then show ?thesis unfolding ids using stored_rules_version[OF that] by auto
  qed
  have "distinct (map r_id ?new)" unfolding ids by (simp add: distinct_map inj_on_def)
  moreover have "sorted (map r_id ?new)" unfolding ids by (simp add: sorted_iff_nth_mono)
  ultimately show ?thesis
    using wf in_new by (fastforce simp: policies_wf_def with_version_def sorted_append filter_empty_conv)
qed

lemma policies_wf_with_active: "policies_wf d \<Longrightarrow> policies_wf (with_active vid d)"
  using distinct_map_single[of pv_id "db_versions d" vid]
  by (auto simp: policies_wf_def with_active_def filter_map_upd o_def image_image)

lemma UpsertUser_wf: "db_wf d \<Longrightarrow> db_wf (snd (UpsertUser drv now subj d))"
  by (fastforce simp: db_wf_def users_wf_def UpsertUser_def not_list_ex split: option.splits)

lemma CreatePolicyVersion_wf: "db_wf d \<Longrightarrow> db_wf (snd (CreatePolicyVersion drv now by rules d))"
  using CreatePolicyVersion_cases[of drv now "by" rules d] policies_wf_with_version[of d now "by" rules]
  by (auto simp: db_wf_def) (simp_all add: with_version_def)

lemma ActivatePolicyVersion_wf: "db_wf d \<Longrightarrow> db_wf (snd (ActivatePolicyVersion drv vid d))"
  using ActivatePolicyVersion_cases[of drv vid d] policies_wf_with_active[of d vid]
  by (auto simp: db_wf_def) (simp_all add: with_active_def)

lemma InsertAuditEvent_wf: "db_wf d \<Longrightarrow> db_wf (snd (InsertAuditEvent drv ev d))"
  by (fastforce simp: db_wf_def audit_wf_def InsertAuditEvent_def split: option.splits)

lemma StoreDeviceCert_wf: "db_wf d \<Longrightarrow> db_wf (snd (StoreDeviceCert drv c d))"
  by (fastforce simp: db_wf_def certs_wf_def StoreDeviceCert_def not_list_ex split: option.splits)

lemma RevokeDeviceCert_wf: "db_wf d \<Longrightarrow> db_wf (snd (RevokeDeviceCert drv now serial reason d))"
  by (auto simp: db_wf_def certs_wf_def RevokeDeviceCert_def Let_def split: option.splits)

lemma RegisterGateway_wf: "db_wf d \<Longrightarrow> db_wf (snd (RegisterGateway drv now gw d))"
  by (auto simp: db_wf_def gateways_wf_def RegisterGateway_def not_list_ex split: option.splits)

lemma UpdateGatewayHeartbeat_wf: "db_wf d \<Longrightarrow> db_wf (snd (UpdateGatewayHeartbeat drv now gid version d))"
  by (cases "version = []")
    (auto simp: db_wf_def gateways_wf_def UpdateGatewayHeartbeat_def split: option.splits)

lemma SetGatewayActive_wf: "db_wf d \<Longrightarrow> db_wf (snd (SetGatewayActive drv gid a d))"
  by (auto simp: db_wf_def gateways_wf_def SetGatewayActive_def split: option.splits)

lemma CreateResource_wf: "db_wf d \<Longrightarrow> db_wf (snd (CreateResource drv now res d))"
  by (auto simp: db_wf_def resources_wf_def CreateResource_def not_list_ex resource_check_def
      split: option.splits)

lemma UpdateResource_wf: "db_wf d \<Longrightarrow> db_wf (snd (UpdateResource drv now res d))"
  by (auto simp: db_wf_def resources_wf_def UpdateResource_def Let_def resource_check_def
      split: option.splits)

lemma DeleteResource_wf: "db_wf d \<Longrightarrow> db_wf (snd (DeleteResource drv name d))"
  by (auto simp: db_wf_def resources_wf_def DeleteResource_def distinct_map_filter split: option.splits)

lemma CreateSession_wf: "db_wf d \<Longrightarrow> db_wf (snd (CreateSession drv sess d))"
  by (auto simp: db_wf_def sessions_wf_def CreateSession_def session_row_def not_list_ex
      split: option.splits)

lemma CompleteSession_wf: "db_wf d \<Longrightarrow> db_wf (snd (CompleteSession drv now sess d))"
  by (auto simp: db_wf_def sessions_wf_def CompleteSession_def Let_def split: option.splits)

subsection \<open>Store executions\<close>

inductive store_step :: "db \<Rightarrow> db \<Rightarrow> bool" where
  step_user: "store_step d (snd (UpsertUser drv now subj d))"
| step_create: "store_step d (snd (CreatePolicyVersion drv now createdBy rules d))"
| step_activate: "store_step d (snd (ActivatePolicyVersion drv vid d))"
| step_audit: "store_step d (snd (InsertAuditEvent drv ev d))"
| step_cert: "store_step d (snd (StoreDeviceCert drv cert d))"
| step_revoke: "store_step d (snd (RevokeDeviceCert drv now serial reason d))"
| step_register: "store_step d (snd (RegisterGateway drv now gw d))"
| step_heartbeat: "store_step d (snd (UpdateGatewayHeartbeat drv now gid version d))"
| step_gateway_active: "store_step d (snd (SetGatewayActive drv gid active d))"
| step_res_create: "store_step d (snd (CreateResource drv now res d))"
| step_res_update: "store_step d (snd (UpdateResource drv now res d))"
| step_res_delete: "store_step d (snd (DeleteResource drv name d))"
| step_session_start: "store_step d (snd (CreateSession drv sess d))"
| step_session_end: "store_step d (snd (CompleteSession drv now sess d))"

inductive_cases store_stepE: "store_step d d'"

lemmas store_ops_wf =
  UpsertUser_wf CreatePolicyVersion_wf ActivatePolicyVersion_wf InsertAuditEvent_wf
  StoreDeviceCert_wf RevokeDeviceCert_wf RegisterGateway_wf UpdateGatewayHeartbeat_wf
  SetGatewayActive_wf CreateResource_wf UpdateResource_wf DeleteResource_wf
  CreateSession_wf CompleteSession_wf

lemma store_step_wf: "store_step d d' \<Longrightarrow> db_wf d \<Longrightarrow> db_wf d'"
  by (induction rule: store_step.induct) (rule store_ops_wf, assumption)+

definition reachable_db :: "db \<Rightarrow> bool" where
  "reachable_db d \<longleftrightarrow> store_step\<^sup>*\<^sup>* empty_db d"

lemma empty_db_wf: "db_wf empty_db"
  by (simp add: db_wf_def table_wf_defs empty_db_def)

interpretation store: started_system store_step db_wf empty_db
  by unfold_locales (rule store_step_wf, assumption+, rule empty_db_wf)

lemmas store_steps_wf = store.steps_keep

end
