(* ===== verification/Policy_Engine.thy ===== *)
theory Policy_Engine
  imports CP_Model
begin

text \<open>
  The pure evaluation engine, \<open>control-plane/internal/domain/policy/evaluation.go\<close>:
  the matching helpers, the loop over the rules of the active snapshot, and the
  validation of a rule's effect.  The clock read by \<open>matchAllowedHours\<close> is an
  argument; the request context is a map that may be nil (\<open>None\<close>).
\<close>

subsection \<open>Matching helpers\<close>

definition matchSubject :: "string \<Rightarrow> subject \<Rightarrow> bool" where
  "matchSubject pattern subj =
     (if pattern = ''*'' then True
      else if HasPrefix pattern ''user:'' then s_username subj = TrimPrefix pattern ''user:''
      else if HasPrefix pattern ''group:'' then
        (let group = TrimPrefix pattern ''group:'' in list_ex (\<lambda>g. g = group) (s_groups subj))
      else if HasPrefix pattern ''sub:'' then s_sub subj = TrimPrefix pattern ''sub:''
      else False)"

definition matchAction :: "string \<Rightarrow> string \<Rightarrow> bool" where
  "matchAction pattern action = (if pattern = ''*'' then True else EqualFold pattern action)"

definition matchField :: "string \<Rightarrow> string \<Rightarrow> bool" where
  "matchField pattern value = (if pattern = ''*'' then True else EqualFold pattern value)"

definition matchResource :: "string \<Rightarrow> string \<Rightarrow> bool" where
  "matchResource pattern canonical =
     (if pattern = ''*'' then True
      else if HasSuffix pattern ''*'' then HasPrefix canonical (TrimSuffix pattern ''*'')
      else EqualFold pattern canonical)"

definition parseHHMM :: "string \<Rightarrow> int option" where
  "parseHHMM s =
     (case SplitN2 (TrimSpace s) '':'' of
        [hs, ms] \<Rightarrow>
          (case Atoi hs of
             None \<Rightarrow> None
           | Some h \<Rightarrow>
               if h < 0 \<or> 23 < h then None
               else (case Atoi ms of
                       None \<Rightarrow> None
                     | Some m \<Rightarrow> if m < 0 \<or> 59 < m then None else Some (h * 60 + m)))
      | _ \<Rightarrow> None)"

definition matchAllowedHours :: "time \<Rightarrow> string \<Rightarrow> bool" where
  "matchAllowedHours now hoursSpec =
     (case SplitN2 hoursSpec ''-'' of
        [a, b] \<Rightarrow>
          (let nowMinutes = utc_minutes now in
           case (parseHHMM a, parseHHMM b) of
             (Some start, Some end') \<Rightarrow>
               if start \<le> end' then start \<le> nowMinutes \<and> nowMinutes < end'
               else start \<le> nowMinutes \<or> nowMinutes < end'
           | _ \<Rightarrow> True)
      | _ \<Rightarrow> True)"

definition trustLevel :: "string \<Rightarrow> nat" where
  "trustLevel level =
     (let l = ToLower level in
      if l = ''high'' then 3 else if l = ''medium'' then 2 else if l = ''low'' then 1 else 0)"

definition matchDeviceTrust :: "string \<Rightarrow> jmap option \<Rightarrow> bool" where
  "matchDeviceTrust required reqCtx =
     (case reqCtx of
        None \<Rightarrow> False
      | Some ctx \<Rightarrow>
          (case ctx ''device_trust'' of
             Some (JStr actual) \<Rightarrow>
               if actual = [] then False else trustLevel required \<le> trustLevel actual
           | _ \<Rightarrow> False))"

subsection \<open>Evaluation\<close>

text \<open>The body of the loop of \<open>Evaluate\<close> up to its first \<open>return\<close>: every \<open>continue\<close> is False.\<close>

definition rule_applies ::
    "time \<Rightarrow> subject \<Rightarrow> string \<Rightarrow> resource \<Rightarrow> jmap option \<Rightarrow> policy_rule \<Rightarrow> bool" where
  "rule_applies now subj action res reqCtx rule =
     (if \<not> matchSubject (r_subject_match rule) subj then False
      else if \<not> matchAction (r_action rule) action then False
      else if \<not> matchField (r_resource_type rule) (rs_type res) then False
      else if \<not> matchResource (r_resource_match rule) (Canonical res) then False
      else if r_allowed_hours rule \<noteq> [] \<and> \<not> matchAllowedHours now (r_allowed_hours rule) then False
      else if r_required_device_trust rule \<noteq> []
              \<and> \<not> matchDeviceTrust (r_required_device_trust rule) reqCtx then False
      else True)"

fun eval_rules ::
    "time \<Rightarrow> subject \<Rightarrow> string \<Rightarrow> resource \<Rightarrow> jmap option \<Rightarrow> policy_rule list
     \<Rightarrow> decision_effect \<times> string" where
  "eval_rules now subj action res reqCtx [] = (DecisionDeny, ''default-deny'')"
| "eval_rules now subj action res reqCtx (rule # rules) =
     (if rule_applies now subj action res reqCtx rule
      then (let reason = ''rule:'' @ Itoa (r_id rule) in
            if r_effect rule = ''allow'' then (DecisionAllow, reason) else (DecisionDeny, reason))
      else eval_rules now subj action res reqCtx rules)"

definition Evaluate ::
    "time \<Rightarrow> policy_snapshot \<Rightarrow> subject \<Rightarrow> string \<Rightarrow> resource \<Rightarrow> jmap option
     \<Rightarrow> decision_effect \<times> string" where
  "Evaluate now snapshot subj action res reqCtx =
     eval_rules now subj action res reqCtx (sn_rules snapshot)"

definition ValidateEffect :: "string \<Rightarrow> goerr option" where
  "ValidateEffect effect =
     (let e = ToLower (TrimSpace effect) in
      if e = ''allow'' \<or> e = ''deny'' then None
      else Some (Errorf (''invalid effect '' @ [CHR 0x22] @ effect @ [CHR 0x22] @ '': must be allow or deny'')))"

subsection \<open>Facts about the matching helpers\<close>

lemma matchSubject_simps [simp]:
  "matchSubject ''*'' subj"
  "matchSubject (''user:'' @ u) subj = (s_username subj = u)"
  "matchSubject (''group:'' @ g) subj = (g \<in> set (s_groups subj))"
  "matchSubject (''sub:'' @ i) subj = (s_sub subj = i)"
  by (auto simp: matchSubject_def TrimPrefix_def list_ex_iff)

lemma matchField_iff: "matchField p v \<longleftrightarrow> p = ''*'' \<or> EqualFold p v"
  by (simp add: matchField_def)

lemma matchAction_iff: "matchAction p v \<longleftrightarrow> p = ''*'' \<or> EqualFold p v"
  by (simp add: matchAction_def)

lemma to_lower_char_colon [simp]: "to_lower_char c = CHR '':'' \<longleftrightarrow> c = CHR '':''"
proof -
  have "to_lower_char (CHR '':'') = CHR '':''" by (simp add: to_lower_char_def)
  moreover have "to_lower_char c = CHR '':'' \<Longrightarrow> c = CHR '':''"
  proof (cases "65 \<le> (of_char c :: nat) \<and> (of_char c :: nat) \<le> 90")
    case True
    assume a: "to_lower_char c = CHR '':''"
    from True have "(of_char (to_lower_char c) :: nat) = of_char c + 32"
      by (simp add: to_lower_char_def)
    with a True show ?thesis by simp
  next
    case False
    then show "to_lower_char c = CHR '':'' \<Longrightarrow> c = CHR '':''" by (auto simp: to_lower_char_def)
  qed
  ultimately show ?thesis by blast
qed

lemma colon_ToLower [simp]: "CHR '':'' \<in> set (ToLower s) \<longleftrightarrow> CHR '':'' \<in> set s"
  by (simp add: ToLower_def image_iff) (metis to_lower_char_colon)

lemma HasPrefix_set: "HasPrefix s p \<Longrightarrow> set p \<subseteq> set s"
  by (auto simp: HasPrefix_iff)

text \<open>A pattern that names a host cannot match the canonical form \<open>unknown\<close>.\<close>

lemma matchResource_unknown:
  assumes "CHR '':'' \<in> set pattern"
  shows "\<not> matchResource pattern ''unknown''"
proof
  assume m: "matchResource pattern ''unknown''"
  have star: "pattern \<noteq> ''*''" using assms by auto
  show False
  proof (cases "HasSuffix pattern ''*''")
    case True
    then obtain q where q: "pattern = q @ ''*''" by (auto simp: HasSuffix_iff)
    with m star True have "HasPrefix ''unknown'' q" by (simp add: matchResource_def)
    then have "set q \<subseteq> set ''unknown''" by (rule HasPrefix_set)
    with q assms show False by auto
  next
    case False
    with m star have "ToLower pattern = ToLower ''unknown''"
      by (simp add: matchResource_def EqualFold_def)
    then have "CHR '':'' \<in> set (ToLower ''unknown'')" using assms by (metis colon_ToLower)
    then show False unfolding colon_ToLower by simp
  qed
qed

lemma rule_applies_iff:
  "rule_applies now subj action res ctx r \<longleftrightarrow>
     matchSubject (r_subject_match r) subj \<and> matchAction (r_action r) action \<and>
     matchField (r_resource_type r) (rs_type res) \<and> matchResource (r_resource_match r) (Canonical res) \<and>
     (r_allowed_hours r = [] \<or> matchAllowedHours now (r_allowed_hours r)) \<and>
     (r_required_device_trust r = [] \<or> matchDeviceTrust (r_required_device_trust r) ctx)"
  by (auto simp: rule_applies_def)

lemma eval_rules_find:
  "eval_rules now subj action res ctx rules =
     (case find (rule_applies now subj action res ctx) rules of
        None \<Rightarrow> (DecisionDeny, ''default-deny'')
      | Some r \<Rightarrow> (if r_effect r = ''allow'' then DecisionAllow else DecisionDeny,
                   ''rule:'' @ Itoa (r_id r)))"
  by (induction rules) (auto simp: Let_def)

lemma parseHHMM_range: "parseHHMM s = Some t \<Longrightarrow> 0 \<le> t \<and> t < 1440"
  by (auto simp: parseHHMM_def split: list.splits option.splits if_splits)

text \<open>The window of minutes a well-formed specification denotes.\<close>

definition hours_window :: "string \<Rightarrow> (int \<times> int) option" where
  "hours_window spec =
     (case Cut spec ''-'' of
        None \<Rightarrow> None
      | Some (a, b) \<Rightarrow>
          (case (parseHHMM a, parseHHMM b) of (Some s, Some e) \<Rightarrow> Some (s, e) | _ \<Rightarrow> None))"

lemma window_mod:
  fixes s e t :: int
  assumes "0 \<le> s" "s < 1440" "0 \<le> e" "e < 1440" "0 \<le> t" "t < 1440"
  shows "(t - s) mod 1440 < (e - s) mod 1440 \<longleftrightarrow> (if s \<le> e then s \<le> t \<and> t < e else s \<le> t \<or> t < e)"
proof -
  have m: "(x - s) mod 1440 = (if s \<le> x then x - s else x - s + 1440)" if "0 \<le> x" "x < 1440" for x
  proof (cases "s \<le> x")
    case False
    have "(x - s) mod 1440 = (x - s + 1440) mod 1440" by simp
    also have "\<dots> = x - s + 1440" using False that assms by (intro mod_pos_pos_trivial) auto
    finally show ?thesis using False by simp
  qed (use that assms in simp)
  show ?thesis using m[of t] m[of e] assms by auto
qed

lemma matchDeviceTrust_iff:
  "matchDeviceTrust required reqCtx \<longleftrightarrow>
     (\<exists>ctx actual. reqCtx = Some ctx \<and> ctx ''device_trust'' = Some (JStr actual) \<and> actual \<noteq> [] \<and>
        trustLevel required \<le> trustLevel actual)"
  by (auto simp: matchDeviceTrust_def split: option.splits jval.splits)

subsection \<open>Concrete inputs for the witnesses\<close>

definition ex_rule :: policy_rule where
  "ex_rule = \<lparr>r_id = 7, r_version_id = 1, r_effect = ''allow'', r_subject_match = ''group:devs'',
     r_action = ''connect'', r_resource_type = ''SSH'', r_resource_match = ''ssh:lan-app:*'',
     r_created_at = 0, r_allowed_hours = ''22:00-06:00'', r_required_device_trust = ''medium''\<rparr>"

definition ex_deny_rule :: policy_rule where
  "ex_deny_rule = ex_rule\<lparr>r_id := 6, r_subject_match := ''user:bob'', r_effect := ''deny''\<rparr>"

definition ex_snapshot :: policy_snapshot where
  "ex_snapshot = \<lparr>sn_version = \<lparr>pv_id = 1, pv_active = True, pv_created_at = 0, pv_created_by = ''seed''\<rparr>,
     sn_rules = [ex_deny_rule, ex_rule]\<rparr>"

definition ex_alice :: subject where
  "ex_alice = \<lparr>s_sub = ''u-1'', s_username = ''alice'', s_groups = [''staff'', ''devs'']\<rparr>"

definition ex_ssh :: resource where
  "ex_ssh = \<lparr>rs_type = ''ssh'', rs_ssh = Some \<lparr>hp_host = ''lan-app'', hp_port = 22\<rparr>, rs_http = None\<rparr>"

definition ex_web :: "string \<Rightarrow> resource" where
  "ex_web h = \<lparr>rs_type = ''web'', rs_ssh = None, rs_http = Some \<lparr>hp_host = h, hp_port = 3000\<rparr>\<rparr>"

definition ex_ctx :: jmap where
  "ex_ctx = [''device_trust'' \<mapsto> JStr ''medium'']"

lemma ex_evaluate: "Evaluate 0 ex_snapshot ex_alice ''connect'' ex_ssh (Some ex_ctx) = (DecisionAllow, ''rule:7'')"
  by code_simp

lemma ex_applies: "rule_applies 0 ex_alice ''connect'' ex_ssh (Some ex_ctx) ex_rule"
  by code_simp

subsection \<open>Properties\<close>

text \<open>C6: the loop over the rules is exactly "the first applicable rule decides": the
  decision is that of the first rule whose six conditions hold, allow only if its effect
  is the text \<open>allow\<close>, and a snapshot with no applicable rule denies by default.\<close>

theorem Evaluate_first_match:
  "Evaluate now sn subj action res ctx =
     (case find (rule_applies now subj action res ctx) (sn_rules sn) of
        None \<Rightarrow> (DecisionDeny, ''default-deny'')
      | Some r \<Rightarrow> (if r_effect r = ''allow'' then DecisionAllow else DecisionDeny,
                   ''rule:'' @ Itoa (r_id r)))"
  by (simp add: Evaluate_def eval_rules_find)

text \<open>Least privilege.  An allow decision has a responsible rule: it is in the
  active snapshot, its effect is allow, the subject, action, resource type and canonical
  resource all match it, its hours and device-trust conditions hold, no earlier rule
  applies, and the reason returned names it.\<close>

theorem Evaluate_allow_justified:
  assumes "Evaluate now sn subj action res ctx = (DecisionAllow, reason)"
  shows "\<exists>pre r post. sn_rules sn = pre @ r # post \<and> r_effect r = ''allow'' \<and>
           reason = ''rule:'' @ Itoa (r_id r) \<and>
           matchSubject (r_subject_match r) subj \<and> matchAction (r_action r) action \<and>
           matchField (r_resource_type r) (rs_type res) \<and>
           matchResource (r_resource_match r) (Canonical res) \<and>
           (r_allowed_hours r = [] \<or> matchAllowedHours now (r_allowed_hours r)) \<and>
           (r_required_device_trust r = [] \<or> matchDeviceTrust (r_required_device_trust r) ctx) \<and>
           list_all (\<lambda>q. \<not> rule_applies now subj action res ctx q) pre"
proof -
  from assms obtain r where f: "find (rule_applies now subj action res ctx) (sn_rules sn) = Some r"
    and e: "r_effect r = ''allow''" "reason = ''rule:'' @ Itoa (r_id r)"
    by (auto simp: Evaluate_def eval_rules_find split: option.splits if_splits)
  then show ?thesis
    unfolding find_Some_split rule_applies_iff list_all_iff by blast
qed

theorem Evaluate_allow_justified_witness:
  "\<exists>pre r post. sn_rules ex_snapshot = pre @ r # post \<and> r_effect r = ''allow'' \<and>
     ''rule:7'' = ''rule:'' @ Itoa (r_id r) \<and>
     matchSubject (r_subject_match r) ex_alice \<and> matchAction (r_action r) ''connect'' \<and>
     matchField (r_resource_type r) (rs_type ex_ssh) \<and>
     matchResource (r_resource_match r) (Canonical ex_ssh) \<and>
     (r_allowed_hours r = [] \<or> matchAllowedHours 0 (r_allowed_hours r)) \<and>
     (r_required_device_trust r = [] \<or> matchDeviceTrust (r_required_device_trust r) (Some ex_ctx)) \<and>
     list_all (\<lambda>q. \<not> rule_applies 0 ex_alice ''connect'' ex_ssh (Some ex_ctx) q) pre"
  by (rule Evaluate_allow_justified[OF ex_evaluate])

text \<open>For resources of type \<open>web\<close> and \<open>db\<close> the engine cannot tell two endpoints apart:
  the decision does not depend on host and port, and no rule whose resource pattern
  names an endpoint (contains a colon) ever applies.\<close>

theorem Evaluate_web_db_hostless:
  assumes "rs_type r1 = ResourceWeb \<or> rs_type r1 = ResourceDB" and "rs_type r2 = rs_type r1"
    and "CHR '':'' \<in> set (r_resource_match rule)"
  shows "Evaluate now sn subj action r1 ctx = Evaluate now sn subj action r2 ctx
         \<and> \<not> rule_applies now subj action r1 ctx rule"
proof -
  have c: "Canonical r1 = ''unknown''" "Canonical r2 = ''unknown''"
    using assms(1,2) by (auto simp: Canonical_def resource_type_defs)
  have "rule_applies now subj action r1 ctx = rule_applies now subj action r2 ctx"
    using c assms(2) by (auto simp: rule_applies_iff fun_eq_iff)
  moreover have "\<not> rule_applies now subj action r1 ctx rule"
    using matchResource_unknown[OF assms(3)] c by (simp add: rule_applies_iff)
  ultimately show ?thesis by (simp add: Evaluate_def eval_rules_find)
qed

theorem Evaluate_web_db_hostless_witness:
  "Evaluate 0 ex_snapshot ex_alice ''connect'' (ex_web ''grafana'') None
     = Evaluate 0 ex_snapshot ex_alice ''connect'' (ex_web ''vault'') None
   \<and> \<not> rule_applies 0 ex_alice ''connect'' (ex_web ''grafana'') None
         (ex_rule\<lparr>r_resource_type := ''web'', r_resource_match := ''web:grafana:3000''\<rparr>)"
  by (rule Evaluate_web_db_hostless) (simp_all add: ex_web_def resource_type_defs)

text \<open>C31: allowed hours.  A specification with two well-formed times denotes the minutes
  from the first (included) to the second (excluded), going over midnight when the second
  is earlier; any other text imposes no restriction.\<close>

theorem matchAllowedHours_window:
  "matchAllowedHours now spec =
     (case hours_window spec of
        None \<Rightarrow> True
      | Some (s, e) \<Rightarrow> (utc_minutes now - s) mod 1440 < (e - s) mod 1440)"
proof -
  have w: "(if s \<le> e then s \<le> utc_minutes now \<and> utc_minutes now < e
            else s \<le> utc_minutes now \<or> utc_minutes now < e)
        = ((utc_minutes now - s) mod 1440 < (e - s) mod 1440)"
    if "parseHHMM a = Some s" "parseHHMM b = Some e" for a b s e
    using parseHHMM_range[OF that(1)] parseHHMM_range[OF that(2)] utc_minutes_range[of now]
    by (intro window_mod[symmetric]) auto
  show ?thesis
  proof (cases "Cut spec ''-''")
    case None
    then show ?thesis by (simp add: matchAllowedHours_def hours_window_def SplitN2_def)
  next
    case (Some p)
    obtain a b where p: "p = (a, b)" by (cases p)
    show ?thesis
    proof (cases "parseHHMM a = None \<or> parseHHMM b = None")
      case True
      with Some p show ?thesis
        by (auto simp: matchAllowedHours_def hours_window_def SplitN2_def split: option.splits)
    next
      case False
      then obtain s e where "parseHHMM a = Some s" "parseHHMM b = Some e" by auto
      with Some p w[of a s b e] show ?thesis
        by (simp add: matchAllowedHours_def hours_window_def SplitN2_def)
    qed
  qed
qed

text \<open>Device trust.  A rule that requires a trust level applies only to requests whose
  context carries a non-empty \<open>device_trust\<close> text of at least that level, and it then
  applies for every higher level too.\<close>

theorem rule_applies_trust_monotone:
  assumes "rule_applies now subj action res ctx rule" and "r_required_device_trust rule \<noteq> []"
  shows "\<exists>c a. ctx = Some c \<and> c ''device_trust'' = Some (JStr a) \<and> a \<noteq> [] \<and>
           trustLevel (r_required_device_trust rule) \<le> trustLevel a \<and>
           (trustLevel b < trustLevel a \<or> b = [] \<or>
            rule_applies now subj action res (Some (c(''device_trust'' \<mapsto> JStr b))) rule)"
proof -
  from assms obtain c a where c: "ctx = Some c" "c ''device_trust'' = Some (JStr a)" "a \<noteq> []"
    "trustLevel (r_required_device_trust rule) \<le> trustLevel a"
    by (auto simp: rule_applies_iff matchDeviceTrust_iff)
  moreover have "rule_applies now subj action res (Some (c(''device_trust'' \<mapsto> JStr b))) rule"
    if "\<not> trustLevel b < trustLevel a" "b \<noteq> []"
    using assms c that by (auto simp: rule_applies_iff matchDeviceTrust_iff)
  ultimately show ?thesis by blast
qed

theorem rule_applies_trust_monotone_witness:
  "\<exists>c a. Some ex_ctx = Some c \<and> c ''device_trust'' = Some (JStr a) \<and> a \<noteq> [] \<and>
     trustLevel (r_required_device_trust ex_rule) \<le> trustLevel a \<and>
     (trustLevel ''high'' < trustLevel a \<or> ''high'' = [] \<or>
      rule_applies 0 ex_alice ''connect'' ex_ssh (Some (c(''device_trust'' \<mapsto> JStr ''high''))) ex_rule)"
  by (rule rule_applies_trust_monotone[OF ex_applies]) (simp add: ex_rule_def)

end
