(* ===== verification/Store_Properties.thy ===== *)
theory Store_Properties
  imports Store_Invariant Policy_Engine
begin

text \<open>
  What the store promises its clients: integrity of every reachable database, all-or-nothing
  policy transactions, what the active-policy query returns after an activation, and the
  permanence of a certificate's revocation.
\<close>

lemma find_filter_Nil: "filter P xs \<noteq> [] \<Longrightarrow> \<exists>x. find P xs = Some x"
  by (induction xs) auto

lemma find_list_ex: "list_ex P xs \<Longrightarrow> \<exists>x. find P xs = Some x \<and> P x"
  by (induction xs) auto

subsection \<open>Concrete databases\<close>

definition ex_now :: time where "ex_now = 1700000000 * Second"

definition ex_cert :: device_cert where
  "ex_cert = \<lparr>dc_id = 0, dc_serial = ''4711'', dc_sub = ''u1'', dc_username = ''alice'',
     dc_fingerprint = ''fp'', dc_issued_at = 1700000000, dc_expires_at = 1700003600,
     dc_revoked = False, dc_revoked_at = None, dc_revocation_reason = []\<rparr>"

definition ex_db_cert :: db where
  "ex_db_cert = snd (StoreDeviceCert no_fault ex_cert empty_db)"

definition ex_db_revoked :: db where
  "ex_db_revoked = snd (RevokeDeviceCert no_fault ex_now ''4711'' ''stolen'' ex_db_cert)"

definition ex_db_policy :: db where
  "ex_db_policy = snd (CreatePolicyVersion no_fault ex_now ''root'' [ex_rule, ex_deny_rule] empty_db)"

lemma reachable_empty [simp, intro]: "reachable_db empty_db"
  by (simp add: reachable_db_def)

lemma reachable_step: "reachable_db d \<Longrightarrow> store_step d d' \<Longrightarrow> reachable_db d'"
  unfolding reachable_db_def by (rule rtranclp.rtrancl_into_rtrancl)

lemma ex_db_cert_reachable: "reachable_db ex_db_cert"
  unfolding ex_db_cert_def by (rule reachable_step[OF reachable_empty step_cert])

lemma ex_db_revoked_reachable: "reachable_db ex_db_revoked"
  unfolding ex_db_revoked_def by (rule reachable_step[OF ex_db_cert_reachable step_revoke])

lemma ex_db_policy_reachable: "reachable_db ex_db_policy"
  unfolding ex_db_policy_def by (rule reachable_step[OF reachable_empty step_create])

lemma ex_db_wf: "db_wf ex_db_cert" "db_wf ex_db_revoked" "db_wf ex_db_policy"
  using store_steps_wf[OF _ empty_db_wf] ex_db_cert_reachable ex_db_revoked_reachable
    ex_db_policy_reachable by (auto simp: reachable_db_def)

subsection \<open>Integrity\<close>

text \<open>C13: every database reached from the empty one by any sequence of store calls, with any
  arguments, clocks and driver failures, keeps unique keys, ids within the counters, rules that
  refer to an existing version, at most one active policy version, a revocation date exactly on
  the revoked certificates, and resources within the schema's CHECK constraints.\<close>

theorem reachable_db_wf: "reachable_db d \<Longrightarrow> db_wf d"
  unfolding reachable_db_def by (rule store.reached_inv)

theorem reachable_db_wf_witness: "db_wf ex_db_revoked \<and> db_certs ex_db_revoked \<noteq> []"
  using reachable_db_wf[OF ex_db_revoked_reachable] by code_simp

subsection \<open>Policy transactions\<close>

text \<open>The policy transactions are all or nothing.  Whatever driver call fails, a call that
  returns an error leaves the database as it was; a creation that succeeds has stored the
  version, inactive, and all its rules in order; an activation that succeeds has made the
  version the only active one.\<close>

theorem policy_transactions_atomic:
  "((\<exists>e. CreatePolicyVersion drv now createdBy rules d = (Inl e, d)) \<or>
    CreatePolicyVersion drv now createdBy rules d
      = (Inr (db_seq_versions d + 1), with_version now createdBy rules d)) \<and>
   ((\<exists>e. ActivatePolicyVersion drv vid d = (Some e, d)) \<or>
    (ActivatePolicyVersion drv vid d = (None, with_active vid d) \<and>
     vid \<in> pv_id ` set (db_versions d)))"
  using CreatePolicyVersion_cases ActivatePolicyVersion_cases by blast

lemma filter_active_with_active:
  "distinct (map pv_id vs) \<Longrightarrow> v \<in> set vs \<Longrightarrow>
   filter pv_active (map (\<lambda>v'. v'\<lparr>pv_active := (pv_id v' = pv_id v)\<rparr>) vs) = [v\<lparr>pv_active := True\<rparr>]"
proof (induction vs)
  case (Cons w vs)
  show ?case
  proof (cases "w = v")
    case True
    with Cons.prems have "pv_id v \<notin> pv_id ` set vs" by auto
    then have "filter pv_active (map (\<lambda>v'. v'\<lparr>pv_active := (pv_id v' = pv_id v)\<rparr>) vs) = []"
      by (auto simp: filter_empty_conv) (metis image_eqI)
    with True show ?thesis by simp
  next
    case False
    with Cons show ?thesis by auto
  qed
qed simp

lemma GetActivePolicy_unique:
  "filter pv_active (db_versions d) = [v] \<Longrightarrow>
   GetActivePolicy no_fault d =
     Inr \<lparr>sn_version = v, sn_rules = sort_key r_id (filter (\<lambda>r. r_version_id r = pv_id v) (db_rules d))\<rparr>"
  by (simp add: GetActivePolicy_def)

lemma GetActivePolicy_none:
  "filter pv_active (db_versions d) = [] \<Longrightarrow> GetActivePolicy no_fault d = Inl SqlErrNoRows"
  by (simp add: GetActivePolicy_def order_desc_def)

lemma sort_key_sorted_filter: "sorted (map f xs) \<Longrightarrow> sort_key f (filter P xs) = filter P xs"
  by (rule sort_key_id_if_sorted) (rule sorted_filter)

lemma active_cases:
  assumes "policies_wf d"
  obtains "filter pv_active (db_versions d) = []" | v where "filter pv_active (db_versions d) = [v]"
  using assms unfolding policies_wf_def
  by (cases "filter pv_active (db_versions d)"; cases "tl (filter pv_active (db_versions d))") auto

lemma GetActivePolicy_after_activate:
  assumes "policies_wf d" "v \<in> set (db_versions d)"
  shows "GetActivePolicy no_fault (with_active (pv_id v) d) =
     Inr \<lparr>sn_version = v\<lparr>pv_active := True\<rparr>, sn_rules = filter (\<lambda>r. r_version_id r = pv_id v) (db_rules d)\<rparr>"
proof -
  have "filter pv_active (db_versions (with_active (pv_id v) d)) = [v\<lparr>pv_active := True\<rparr>]"
    using filter_active_with_active[OF _ assms(2)] assms(1)
    by (simp add: with_active_def policies_wf_def)
  then have "GetActivePolicy no_fault (with_active (pv_id v) d) =
      Inr \<lparr>sn_version = v\<lparr>pv_active := True\<rparr>,
           sn_rules = sort_key r_id (filter (\<lambda>r. r_version_id r = pv_id v) (db_rules d))\<rparr>"
    by (subst GetActivePolicy_unique, assumption) (simp add: with_active_def)
  then show ?thesis using assms(1) by (simp add: sort_key_sorted_filter policies_wf_def)
qed

lemma new_version_rules:
  assumes "policies_wf d"
  shows "filter (\<lambda>r. r_version_id r = db_seq_versions d + 1) (db_rules (with_version now createdBy rules d))
       = stored_rules now (db_seq_versions d + 1) (db_seq_rules d) rules"
proof -
  have "filter (\<lambda>r. r_version_id r = db_seq_versions d + 1) (db_rules d) = []"
    using assms by (fastforce simp: policies_wf_def filter_empty_conv)
  moreover have "filter (\<lambda>r. r_version_id r = db_seq_versions d + 1)
      (stored_rules now (db_seq_versions d + 1) (db_seq_rules d) rules)
     = stored_rules now (db_seq_versions d + 1) (db_seq_rules d) rules"
    by (rule filter_True) (auto dest: stored_rules_version)
  ultimately show ?thesis by (simp add: with_version_def)
qed

lemma published_policy:
  assumes "db_wf d"
    and "CreatePolicyVersion no_fault now createdBy rules d = (Inr vid, d1)"
    and "ActivatePolicyVersion no_fault vid d1 = (e, d2)"
  shows "e = None \<and> GetActivePolicy no_fault d2 =
     Inr \<lparr>sn_version = \<lparr>pv_id = vid, pv_active = True, pv_created_at = rfc3339 now, pv_created_by = createdBy\<rparr>,
          sn_rules = stored_rules now vid (db_seq_rules d) rules\<rparr>"
proof -
  let ?v = "\<lparr>pv_id = db_seq_versions d + 1, pv_active = False, pv_created_at = rfc3339 now,
             pv_created_by = createdBy\<rparr>"
  have wf: "policies_wf d" using assms(1) by (simp add: db_wf_def)
  have v: "?v \<in> set (db_versions (with_version now createdBy rules d))" by (simp add: with_version_def)
  have d1: "vid = db_seq_versions d + 1" "d1 = with_version now createdBy rules d"
    using assms(2) by (simp_all add: CreatePolicyVersion_no_fault)
  then have d2: "e = None" "d2 = with_active vid d1"
    using assms(3) by (auto simp: ActivatePolicyVersion_no_fault with_version_def split: if_splits)
  with GetActivePolicy_after_activate[OF policies_wf_with_version[OF wf] v] new_version_rules[OF wf] d1
  show ?thesis by simp
qed

text \<open>Publishing a policy.  In a well-formed database, creating a version, activating the id
  it returned and asking for the active policy gives exactly the submitted rules, in the
  submitted order, numbered and dated, under the new version.\<close>

theorem publish_policy_roundtrip:
  assumes "db_wf d"
    and "CreatePolicyVersion no_fault now createdBy rules d = (Inr vid, d1)"
    and "ActivatePolicyVersion no_fault vid d1 = (e, d2)"
  shows "e = None \<and> GetActivePolicy no_fault d2 =
     Inr \<lparr>sn_version = \<lparr>pv_id = vid, pv_active = True, pv_created_at = rfc3339 now, pv_created_by = createdBy\<rparr>,
          sn_rules = stored_rules now vid (db_seq_rules d) rules\<rparr>"
  by (rule published_policy[OF assms])

theorem publish_policy_roundtrip_witness:
  "\<exists>vid d1 e d2. CreatePolicyVersion no_fault ex_now ''root'' [ex_deny_rule, ex_rule] ex_db_policy = (Inr vid, d1) \<and>
     ActivatePolicyVersion no_fault vid d1 = (e, d2) \<and> e = None \<and>
     GetActivePolicy no_fault d2 =
       Inr \<lparr>sn_version = \<lparr>pv_id = vid, pv_active = True, pv_created_at = 1700000000, pv_created_by = ''root''\<rparr>,
            sn_rules = stored_rules ex_now vid 2 [ex_deny_rule, ex_rule]\<rparr>"
proof -
  obtain vid d1 where c: "CreatePolicyVersion no_fault ex_now ''root'' [ex_deny_rule, ex_rule] ex_db_policy = (Inr vid, d1)"
    using CreatePolicyVersion_no_fault by blast
  obtain e d2 where a: "ActivatePolicyVersion no_fault vid d1 = (e, d2)" by fastforce
  have s: "rfc3339 ex_now = 1700000000" "db_seq_rules ex_db_policy = 2" by code_simp+
  show ?thesis using publish_policy_roundtrip[OF ex_db_wf(3) c a] c a unfolding s by blast
qed

lemma create_keeps_active:
  assumes "db_wf d"
  shows "GetActivePolicy no_fault (snd (CreatePolicyVersion drv now createdBy rules d)) = GetActivePolicy no_fault d"
proof -
  have wf: "policies_wf d" using assms by (simp add: db_wf_def)
  have "GetActivePolicy no_fault (with_version now createdBy rules d) = GetActivePolicy no_fault d"
    using wf
  proof (cases rule: active_cases)
    case 1
    then have "filter pv_active (db_versions (with_version now createdBy rules d)) = []"
      by (simp add: with_version_def)
    with 1 show ?thesis by (simp add: GetActivePolicy_none)
  next
    case (2 v)
    then have v: "v \<in> set (db_versions d)" by (metis filter_eq_Cons_iff in_set_conv_decomp)
    have act: "filter pv_active (db_versions (with_version now createdBy rules d)) = [v]"
      using 2 by (simp add: with_version_def)
    have "filter (\<lambda>r. r_version_id r = pv_id v)
        (stored_rules now (db_seq_versions d + 1) (db_seq_rules d) rules) = []"
      using v wf by (fastforce simp: policies_wf_def filter_empty_conv dest: stored_rules_version)
    with GetActivePolicy_unique[OF 2] GetActivePolicy_unique[OF act] show ?thesis
      by (simp add: with_version_def)
  qed
  then show ?thesis using CreatePolicyVersion_cases[of drv now createdBy rules d] by auto
qed

text \<open>Creating a policy version, whether it succeeds or fails, never changes the policy in
  force: the active version and its rules stay what they were.\<close>

theorem create_keeps_active_policy:
  assumes "db_wf d"
  shows "GetActivePolicy no_fault (snd (CreatePolicyVersion drv now createdBy rules d)) = GetActivePolicy no_fault d"
  by (rule create_keeps_active[OF assms])

theorem create_keeps_active_policy_witness:
  "GetActivePolicy no_fault (snd (CreatePolicyVersion no_fault ex_now ''root'' [ex_rule] ex_db_policy))
     = Inl SqlErrNoRows"
  using create_keeps_active_policy[OF ex_db_wf(3), of no_fault ex_now "''root''" "[ex_rule]"]
  by (simp add: GetActivePolicy_none ex_db_policy_def CreatePolicyVersion_no_fault with_version_def
      empty_db_def)

subsection \<open>Revocation\<close>

lemma find_map_same_key:
  "(\<And>x. key (f x) = key x) \<Longrightarrow> find (\<lambda>x. key x = k) (map f xs) = map_option f (find (\<lambda>x. key x = k) xs)"
  by (induction xs) auto

lemma store_step_certs:
  assumes "store_step d d'"
  shows "db_certs d' = db_certs d \<or> (\<exists>c. db_certs d' = db_certs d @ [c]) \<or>
    (\<exists>serial now reason. db_certs d' = map (\<lambda>c. if dc_serial c = serial \<and> \<not> dc_revoked c
        then c\<lparr>dc_revoked := True, dc_revoked_at := Some now, dc_revocation_reason := reason\<rparr> else c)
      (db_certs d))"
  using assms
proof (cases rule: store_step.cases)
  case (step_create drv now createdBy rules)
  with CreatePolicyVersion_cases[of drv now createdBy rules d] show ?thesis
    by (auto simp: with_version_def)
next
  case (step_activate drv vid)
  with ActivatePolicyVersion_cases[of drv vid d] show ?thesis by (auto simp: with_active_def)
next
  case (step_revoke drv now serial reason)
  let ?f = "\<lambda>c. if dc_serial c = serial \<and> \<not> dc_revoked c then c\<lparr>dc_revoked := True,
    dc_revoked_at := Some (rfc3339 now), dc_revocation_reason := reason\<rparr> else c"
  have "db_certs d' = db_certs d \<or> db_certs d' = map ?f (db_certs d)"
    using step_revoke by (auto simp: RevokeDeviceCert_def Let_def split: option.splits)
  then show ?thesis by blast
qed (auto simp: store_defs Let_def split: option.splits)

lemma find_revoked_step:
  assumes "store_step d d'" "find (\<lambda>c. dc_serial c = serial) (db_certs d) = Some c" "dc_revoked c"
  shows "find (\<lambda>c. dc_serial c = serial) (db_certs d') = Some c"
  using store_step_certs[OF assms(1)] assms(2,3)
  by (auto simp: find_append find_map_same_key)

lemma GetDeviceCert_Inr:
  "GetDeviceCert no_fault serial d = Inr c \<longleftrightarrow> find (\<lambda>c. dc_serial c = serial) (db_certs d) = Some c"
  by (auto simp: GetDeviceCert_def split: option.splits)

interpretation revoked_row: step_system store_step
    "\<lambda>d. find (\<lambda>c. dc_serial c = serial) (db_certs d) = Some c \<and> dc_revoked c" for serial c
  by unfold_locales (auto intro: find_revoked_step)

lemma find_revoked_steps:
  assumes "store_step\<^sup>*\<^sup>* d d'" "find (\<lambda>c. dc_serial c = serial) (db_certs d) = Some c" "dc_revoked c"
  shows "find (\<lambda>c. dc_serial c = serial) (db_certs d') = Some c"
  using revoked_row.steps_keep[OF assms(1)] assms(2,3) by blast

text \<open>Revocation is permanent.  Once a certificate is stored as revoked, no sequence of
  store calls, revocations and re-registrations of the same serial included, changes its row:
  it is found with the same date and reason, and every later revocation list contains it.\<close>

theorem revocation_permanent:
  assumes "GetDeviceCert no_fault serial d = Inr c" "dc_revoked c" "store_step\<^sup>*\<^sup>* d d'"
  shows "GetDeviceCert no_fault serial d' = Inr c \<and>
    (\<exists>cs. ListRevokedDeviceCerts no_fault d' = Inr cs \<and> c \<in> set cs)"
  using find_revoked_steps[OF assms(3) _ assms(2)] assms(1,2)
  by (auto simp: GetDeviceCert_Inr ListRevokedDeviceCerts_def dest: find_key_Some)

theorem revocation_permanent_witness:
  "\<exists>c. GetDeviceCert no_fault ''4711'' ex_db_revoked = Inr c \<and> dc_revoked_at c = Some 1700000000 \<and>
     GetDeviceCert no_fault ''4711'' (snd (StoreDeviceCert no_fault ex_cert ex_db_revoked)) = Inr c"
proof -
  let ?c = "ex_cert\<lparr>dc_id := 1, dc_revoked := True, dc_revoked_at := Some 1700000000,
              dc_revocation_reason := ''stolen''\<rparr>"
  have c: "GetDeviceCert no_fault ''4711'' ex_db_revoked = Inr ?c" by code_simp
  have "GetDeviceCert no_fault ''4711'' (snd (StoreDeviceCert no_fault ex_cert ex_db_revoked)) = Inr ?c"
    using revocation_permanent[OF c _ r_into_rtranclp[of store_step, OF step_cert], of no_fault ex_cert] by simp
  with c show ?thesis by (intro exI[of _ ?c]) simp
qed

subsection \<open>The audit log\<close>

lemma store_step_audit:
  assumes "store_step d d'"
  shows "db_audit d' = db_audit d \<or> (\<exists>e. db_audit d' = db_audit d @ [e])"
  using assms
proof (cases rule: store_step.cases)
  case (step_create drv now createdBy rules)
  with CreatePolicyVersion_cases[of drv now createdBy rules d] show ?thesis
    by (auto simp: with_version_def)
next
  case (step_activate drv vid)
  with ActivatePolicyVersion_cases[of drv vid d] show ?thesis by (auto simp: with_active_def)
qed (auto simp: store_defs Let_def split: option.splits)

interpretation audit_log: append_only store_step db_audit
  by unfold_locales (use store_step_audit in fastforce)

lemmas store_steps_audit = audit_log.steps_append

text \<open>The audit log is append only.  No sequence of store calls removes, changes or
  reorders an event once it is recorded.\<close>

theorem audit_append_only:
  "store_step\<^sup>*\<^sup>* d d' \<Longrightarrow> \<exists>new. db_audit d' = db_audit d @ new"
  by (rule store_steps_audit)

theorem audit_append_only_witness:
  "\<exists>new. db_audit (snd (UpsertUser no_fault ex_now ex_alice ex_db_cert)) = db_audit ex_db_cert @ new"
  by (rule audit_append_only, rule r_into_rtranclp[of store_step], rule step_user)

subsection \<open>Published resources\<close>

text \<open>The catalogue a user sees.  Listing for a set of groups returns exactly the stored
  resources without a group restriction or with one of the groups, in the order of their names;
  a larger set of groups never hides a resource.\<close>

theorem ListResourcesForGroups_exact:
  "\<exists>rs. ListResourcesForGroups no_fault groups d = Inr rs \<and>
     set rs = {r \<in> set (db_resources d). p_group_match r = [] \<or> (\<exists>g. g \<in> set groups \<and> g \<in> set (p_group_match r))} \<and>
     sorted (map p_name rs) \<and>
     (\<exists>all. ListResourcesForGroups no_fault (groups @ extra) d = Inr all \<and> set rs \<subseteq> set all)"
  by (auto simp: ListResourcesForGroups_def ListResources_def scanResources_def visible_to_iff intro: sorted_filter)

end
