(* ===== verification/Policy_Service.thy ===== *)
theory Policy_Service
  imports Store_Properties
begin

text \<open>
  Policy management and decisions: \<open>control-plane/internal/service/policy\<close> and
  \<open>service/decision\<close>.  A service method takes the repository methods it calls (the
  interface \<open>PolicyRepository\<close> of \<open>domain/port\<close>) as arguments; the locale
  \<open>policy_repository\<close> states what the services rely on, and the SQLite store provides it.
\<close>

subsection \<open>The policy service (\<open>service/policy/service.go\<close>, \<open>seed.go\<close>)\<close>

definition normalise_rule :: "policy_rule \<Rightarrow> policy_rule" where
  "normalise_rule r = r\<lparr>r_effect := ToLower (TrimSpace (r_effect r)), r_action := ToLower (r_action r),
     r_resource_type := ToLower (r_resource_type r)\<rparr>"

text \<open>The loop of \<open>CreateVersion\<close>: the rules in order, the first invalid effect stops it.\<close>

fun normalise_rules :: "policy_rule list \<Rightarrow> policy_rule list res" where
  "normalise_rules [] = Inr []"
| "normalise_rules (r # rs) =
     (let r' = normalise_rule r in
      case ValidateEffect (r_effect r') of
        Some err \<Rightarrow> Inl (Wrapf ''rule: '' err [])
      | None \<Rightarrow> (case normalise_rules rs of Inl e \<Rightarrow> Inl e | Inr rs' \<Rightarrow> Inr (r' # rs')))"

definition CreateVersion ::
    "(string \<Rightarrow> policy_rule list \<Rightarrow> 's \<Rightarrow> int res \<times> 's) \<Rightarrow> string \<Rightarrow> policy_rule list \<Rightarrow> 's \<Rightarrow> int res \<times> 's" where
  "CreateVersion create createdBy rules s =
     (case normalise_rules rules of
        Inl e \<Rightarrow> (Inl e, s)
      | Inr rules' \<Rightarrow> create createdBy rules' s)"

definition ActivateVersion :: "(int \<Rightarrow> 's \<Rightarrow> goerr option \<times> 's) \<Rightarrow> int \<Rightarrow> 's \<Rightarrow> goerr option \<times> 's" where
  "ActivateVersion activate vid s =
     (case activate vid s of
        (Some err, s') \<Rightarrow> (if err = SqlErrNoRows then (Some ErrNotFound, s') else (Some err, s'))
      | (None, s') \<Rightarrow> (None, s'))"

definition GetActive :: "('s \<Rightarrow> policy_snapshot res) \<Rightarrow> 's \<Rightarrow> policy_snapshot res" where
  "GetActive get_active s =
     (case get_active s of
        Inl err \<Rightarrow> if err = SqlErrNoRows then Inl ErrNotFound else Inl err
      | Inr snapshot \<Rightarrow> Inr snapshot)"

record seed_file =
  sf_created_by :: string
  sf_rules :: "policy_rule list"

text \<open>\<open>readFile\<close> is what \<open>os.ReadFile\<close> returns, \<open>unmarshal\<close> the YAML decoder.\<close>

definition SeedIfEmpty ::
    "('s \<Rightarrow> policy_snapshot res) \<Rightarrow> (string \<Rightarrow> policy_rule list \<Rightarrow> 's \<Rightarrow> int res \<times> 's)
     \<Rightarrow> (int \<Rightarrow> 's \<Rightarrow> goerr option \<times> 's) \<Rightarrow> (string \<Rightarrow> string res) \<Rightarrow> (string \<Rightarrow> seed_file res)
     \<Rightarrow> string \<Rightarrow> 's \<Rightarrow> goerr option \<times> 's" where
  "SeedIfEmpty get_active create activate readFile unmarshal path s =
     (if path = [] then (None, s)
      else (case GetActive get_active s of
        Inr _ \<Rightarrow> (None, s)
      | Inl err \<Rightarrow>
        if err \<noteq> ErrNotFound then (Some err, s)
        else (case readFile path of
          Inl err \<Rightarrow> (Some (Wrapf ''read seed policy: '' err []), s)
        | Inr data \<Rightarrow>
       (case unmarshal data of
          Inl err \<Rightarrow> (Some (Wrapf ''parse seed policy: '' err []), s)
        | Inr seed \<Rightarrow>
          if sf_rules seed = [] then (Some (Errorf ''seed policy has no rules''), s)
          else
            (let createdBy = (if sf_created_by seed = [] then ''seed'' else sf_created_by seed) in
             case CreateVersion create createdBy (sf_rules seed) s of
               (Inl err, s') \<Rightarrow> (Some err, s')
             | (Inr versionID, s') \<Rightarrow> ActivateVersion activate versionID s')))))"

subsection \<open>The decision service (\<open>service/decision/service.go\<close>)\<close>

text \<open>\<open>New\<close>: the advertised TTL.\<close>

definition decision_ttl :: "int \<Rightarrow> int" where
  "decision_ttl ttlSeconds = (if ttlSeconds \<le> 0 then 60 else ttlSeconds)"

record authorize_request =
  ar_subject :: subject
  ar_action :: string
  ar_resource :: resource
  ar_context :: "jmap option"

text \<open>\<open>uuid\<close> is the text \<open>uuid.New().String()\<close> returns, \<open>now\<close> the clock the engine reads.\<close>

definition decision_Authorize ::
    "('s \<Rightarrow> policy_snapshot res) \<Rightarrow> int \<Rightarrow> time \<Rightarrow> string \<Rightarrow> authorize_request \<Rightarrow> 's \<Rightarrow> decision res" where
  "decision_Authorize get_active ttlSeconds now uuid req s =
     (case GetActive get_active s of
        Inl err \<Rightarrow> Inl err
      | Inr snapshot \<Rightarrow>
        (let (effect, reason) = Evaluate now snapshot (ar_subject req) (ar_action req) (ar_resource req) (ar_context req) in
         Inr \<lparr>d_effect = effect, d_reason = reason, d_ttl_seconds = ttlSeconds,
              d_policy_version = pv_id (sn_version snapshot), d_decision_id = ''dec-'' @ uuid\<rparr>))"

subsection \<open>Normalised rules\<close>

lemma is_space_lower [simp]: "is_space (to_lower_char c) = is_space c"
  by (auto simp: to_lower_char_def is_space_def Let_def)

lemma TrimSpace_ToLower: "TrimSpace (ToLower s) = ToLower (TrimSpace s)"
  by (simp add: TrimSpace_def ToLower_def dropWhile_map rev_map o_def)

lemma ValidateEffect_normalised:
  "ValidateEffect (r_effect (normalise_rule r)) = None \<longleftrightarrow> r_effect (normalise_rule r) \<in> {''allow'', ''deny''}"
  by (simp add: ValidateEffect_def normalise_rule_def TrimSpace_ToLower ToLower_idem TrimSpace_idem Let_def)

lemma normalise_rules_Inr:
  "normalise_rules rules = Inr rules' \<longleftrightarrow>
   rules' = map normalise_rule rules \<and> (\<forall>r\<in>set rules. r_effect (normalise_rule r) \<in> {''allow'', ''deny''})"
proof (induction rules arbitrary: rules')
  case (Cons r rules)
  then show ?case
    using ValidateEffect_normalised[of r]
    by (auto simp: Let_def split: option.splits sum.splits)
qed auto

text \<open>Rules that differ in their number, version and date only decide alike.\<close>

definition same_rule :: "policy_rule \<Rightarrow> policy_rule \<Rightarrow> bool" where
  "same_rule r r' \<longleftrightarrow> r_effect r = r_effect r' \<and> r_subject_match r = r_subject_match r' \<and>
     r_action r = r_action r' \<and> r_resource_type r = r_resource_type r' \<and>
     r_resource_match r = r_resource_match r' \<and> r_allowed_hours r = r_allowed_hours r' \<and>
     r_required_device_trust r = r_required_device_trust r'"


lemma same_rule_refl [simp]: "same_rule r r"
  by (simp add: same_rule_def)

lemma same_rule_applies:
  "same_rule r r' \<Longrightarrow> rule_applies now subj action res ctx r = rule_applies now subj action res ctx r'"
  by (simp add: same_rule_def rule_applies_def)

lemma same_rules_decide:
  "list_all2 same_rule rs rs' \<Longrightarrow>
   fst (eval_rules now subj action res ctx rs) = fst (eval_rules now subj action res ctx rs')"
  by (induction rule: list_all2_induct)
     (auto simp: same_rule_applies Let_def, auto simp: same_rule_def)

lemma same_rule_stored: "list_all2 same_rule (stored_rules now vid seq rules) rules"
  by (induction rules arbitrary: seq) (auto simp: same_rule_def)

subsection \<open>The repository interface\<close>

text \<open>
  What the services rely on.  \<open>inv\<close> is the integrity of the store; \<open>get_active\<close> is what a
  query that does not fail returns; \<open>create\<close> and \<open>activate\<close> may fail.
\<close>

locale policy_repository =
  fixes inv :: "'s \<Rightarrow> bool"
    and create :: "string \<Rightarrow> policy_rule list \<Rightarrow> 's \<Rightarrow> int res \<times> 's"
    and activate :: "int \<Rightarrow> 's \<Rightarrow> goerr option \<times> 's"
    and get_active :: "'s \<Rightarrow> policy_snapshot res"
  assumes create_error: "create by rules s = (Inl e, s') \<Longrightarrow> s' = s"
    and activate_error: "activate vid s = (Some e, s') \<Longrightarrow> s' = s"
    and create_inv: "inv s \<Longrightarrow> inv (snd (create by rules s))"
    and activate_inv: "inv s \<Longrightarrow> inv (snd (activate vid s))"
    and create_active: "inv s \<Longrightarrow> get_active (snd (create by rules s)) = get_active s"
    and publish: "inv s \<Longrightarrow> create by rules s = (Inr vid, s1) \<Longrightarrow> activate vid s1 = (None, s2) \<Longrightarrow>
      \<exists>sn. get_active s2 = Inr sn \<and> pv_id (sn_version sn) = vid \<and> pv_created_by (sn_version sn) = by \<and>
        list_all2 same_rule (sn_rules sn) rules"
begin

lemma CreateVersion_ok:
  "CreateVersion create by rules s = (Inr vid, s') \<longleftrightarrow>
   (\<forall>r\<in>set rules. r_effect (normalise_rule r) \<in> {''allow'', ''deny''}) \<and>
   create by (map normalise_rule rules) s = (Inr vid, s')"
proof (cases "normalise_rules rules")
  case (Inl e)
  with normalise_rules_Inr[of rules "map normalise_rule rules"] show ?thesis
    by (auto simp: CreateVersion_def)
next
  case (Inr rules')
  then show ?thesis using normalise_rules_Inr[of rules rules'] by (simp add: CreateVersion_def)
qed

lemma CreateVersion_error: "CreateVersion create by rules s = (Inl e, s') \<Longrightarrow> s' = s"
  by (auto simp: CreateVersion_def dest: create_error split: sum.splits)

lemma ActivateVersion_ok: "ActivateVersion activate vid s = (None, s') \<longleftrightarrow> activate vid s = (None, s')"
  by (auto simp: ActivateVersion_def split: prod.splits option.splits if_splits)

lemma ActivateVersion_error: "ActivateVersion activate vid s = (Some e, s') \<Longrightarrow> s' = s"
  by (auto simp: ActivateVersion_def dest: activate_error split: prod.splits option.splits if_splits)

lemma Authorize_Inr:
  "decision_Authorize get_active ttl now uuid req s = Inr dec \<longleftrightarrow>
   (\<exists>sn. get_active s = Inr sn \<and>
     dec = \<lparr>d_effect = fst (Evaluate now sn (ar_subject req) (ar_action req) (ar_resource req) (ar_context req)),
            d_reason = snd (Evaluate now sn (ar_subject req) (ar_action req) (ar_resource req) (ar_context req)),
            d_ttl_seconds = ttl, d_policy_version = pv_id (sn_version sn), d_decision_id = ''dec-'' @ uuid\<rparr>)"
  by (auto simp: decision_Authorize_def GetActive_def split: sum.splits prod.splits)

lemma publish_decides:
  assumes "inv s" "CreateVersion create by rules s = (Inr vid, s1)" "ActivateVersion activate vid s1 = (None, s2)"
  shows "\<exists>dec. decision_Authorize get_active ttl now uuid req s2 = Inr dec \<and> d_policy_version dec = vid \<and>
    d_effect dec = fst (eval_rules now (ar_subject req) (ar_action req) (ar_resource req) (ar_context req)
      (map normalise_rule rules))"
proof -
  from assms(2,3) have "create by (map normalise_rule rules) s = (Inr vid, s1)" "activate vid s1 = (None, s2)"
    by (simp_all add: CreateVersion_ok ActivateVersion_ok)
  from publish[OF assms(1) this] obtain sn where "get_active s2 = Inr sn" "pv_id (sn_version sn) = vid"
    "list_all2 same_rule (sn_rules sn) (map normalise_rule rules)" by blast
  then show ?thesis by (auto simp: Authorize_Inr Evaluate_def same_rules_decide)
qed

lemma SeedIfEmpty_active:
  "get_active s = Inr sn \<Longrightarrow> SeedIfEmpty get_active create activate readFile unmarshal path s = (None, s)"
  by (simp add: SeedIfEmpty_def GetActive_def)

lemma SeedIfEmpty_ok:
  assumes "inv s" "path \<noteq> []"
    and "SeedIfEmpty get_active create activate readFile unmarshal path s = (None, s')"
  shows "(s' = s \<and> (\<exists>sn. get_active s = Inr sn)) \<or>
    (\<exists>data seed sn. readFile path = Inr data \<and> unmarshal data = Inr seed \<and> sf_rules seed \<noteq> [] \<and>
       get_active s' = Inr sn \<and> list_all2 same_rule (sn_rules sn) (map normalise_rule (sf_rules seed)))"
proof (cases "GetActive get_active s")
  case (Inr sn)
  with assms(2,3) have "s' = s" by (simp add: SeedIfEmpty_def)
  with Inr show ?thesis by (auto simp: GetActive_def split: sum.splits if_splits)
next
  case (Inl err)
  with assms(2,3) obtain data seed "by" vid s1 where r: "readFile path = Inr data" "unmarshal data = Inr seed"
      "sf_rules seed \<noteq> []" and c: "CreateVersion create by (sf_rules seed) s = (Inr vid, s1)"
      and a: "ActivateVersion activate vid s1 = (None, s')"
    by (auto simp: SeedIfEmpty_def Let_def split: sum.splits prod.splits if_splits)
  from c a have "create by (map normalise_rule (sf_rules seed)) s = (Inr vid, s1)" "activate vid s1 = (None, s')"
    by (simp_all add: CreateVersion_ok ActivateVersion_ok)
  from publish[OF assms(1) this] r show ?thesis by blast
qed

lemma SeedIfEmpty_keeps_inv:
  assumes "inv s"
  shows "inv (snd (SeedIfEmpty get_active create activate readFile unmarshal path s))"
proof -
  have c: "inv s'" if "CreateVersion create by rules s = (r, s')" for "by" rules r s'
    using that assms create_inv[OF assms, of "by"]
    by (auto simp: CreateVersion_def split: sum.splits) (metis snd_conv)
  have a: "inv s' \<Longrightarrow> inv (snd (ActivateVersion activate vid s'))" for s' vid
    using activate_inv[of s' vid] by (auto simp: ActivateVersion_def split: prod.splits option.splits)
  show ?thesis
    by (simp add: SeedIfEmpty_def Let_def assms split: sum.split prod.split) (blast intro: c a)
qed

end

interpretation sqlite_policies:
  policy_repository db_wf "CreatePolicyVersion drv now" "ActivatePolicyVersion drv'" "GetActivePolicy no_fault"
  for drv now drv'
proof unfold_locales
  fix createdBy rules s vid s1 s2
  assume a: "db_wf s" "CreatePolicyVersion drv now createdBy rules s = (Inr vid, s1)"
    "ActivatePolicyVersion drv' vid s1 = (None, s2)"
  then have "vid = db_seq_versions s + 1" "s1 = with_version now createdBy rules s" "s2 = with_active vid s1"
    using CreatePolicyVersion_cases[of drv now createdBy rules s] ActivatePolicyVersion_cases[of drv' vid s1]
    by auto
  moreover have "CreatePolicyVersion no_fault now createdBy rules s = (Inr vid, s1)"
    using calculation by (simp add: CreatePolicyVersion_no_fault)
  moreover have "ActivatePolicyVersion no_fault vid s1 = (None, s2)"
    using calculation by (simp add: ActivatePolicyVersion_no_fault with_version_def)
  ultimately show "\<exists>sn. GetActivePolicy no_fault s2 = Inr sn \<and> pv_id (sn_version sn) = vid \<and>
      pv_created_by (sn_version sn) = createdBy \<and> list_all2 same_rule (sn_rules sn) rules"
    using published_policy[OF a(1)] same_rule_stored by fastforce
next
  fix createdBy rules s e s'
  show "CreatePolicyVersion drv now createdBy rules s = (Inl e, s') \<Longrightarrow> s' = s"
    using CreatePolicyVersion_cases[of drv now createdBy rules s] by auto
next
  fix vid s e s'
  show "ActivatePolicyVersion drv' vid s = (Some e, s') \<Longrightarrow> s' = s"
    using ActivatePolicyVersion_cases[of drv' vid s] by auto
qed (auto intro: CreatePolicyVersion_wf ActivatePolicyVersion_wf create_keeps_active)

subsection \<open>Properties\<close>

definition ex_raw_rule :: policy_rule where
  "ex_raw_rule = ex_rule\<lparr>r_effect := '' Allow '', r_action := ''Connect''\<rparr>"

definition ex_request :: authorize_request where
  "ex_request = \<lparr>ar_subject = ex_alice, ar_action = ''connect'', ar_resource = ex_ssh, ar_context = Some ex_ctx\<rparr>"

definition ex_db_active :: db where
  "ex_db_active = snd (ActivateVersion (ActivatePolicyVersion no_fault) 1 ex_db_policy)"

text \<open>What a policy version can contain.  \<open>CreateVersion\<close> hands the repository the rules with
  trimmed, lower-case effects, lower-case actions and resource types, and only when every effect is
  then \<open>allow\<close> or \<open>deny\<close>; otherwise it returns an error without calling the repository.\<close>

theorem CreateVersion_normalises:
  "if list_all (\<lambda>r. ToLower (TrimSpace (r_effect r)) = ''allow'' \<or> ToLower (TrimSpace (r_effect r)) = ''deny'') rules
   then CreateVersion create createdBy rules s = create createdBy (map normalise_rule rules) s
   else (\<exists>e. CreateVersion create createdBy rules s = (Inl e, s))"
proof -
  have eff: "r_effect (normalise_rule r) = ToLower (TrimSpace (r_effect r))" for r
    by (simp add: normalise_rule_def)
  have iff: "normalise_rules rules = Inr rules' \<longleftrightarrow> rules' = map normalise_rule rules \<and>
      list_all (\<lambda>r. ToLower (TrimSpace (r_effect r)) = ''allow'' \<or> ToLower (TrimSpace (r_effect r)) = ''deny'') rules"
    for rules' by (simp add: normalise_rules_Inr eff list_all_iff)
  show ?thesis
  proof (cases "normalise_rules rules")
    case (Inl e)
    with iff[of "map normalise_rule rules"] show ?thesis by (simp add: CreateVersion_def)
  next
    case (Inr rules')
    with iff[of rules'] show ?thesis by (simp add: CreateVersion_def)
  qed
qed

text \<open>C15: publishing takes effect.  When the service creates a version and activates it, whatever
  earlier driver failures the database has seen, the next authorisation is decided by exactly the
  submitted rules, normalised, first match first, and names the new version.\<close>

theorem publish_then_authorize:
  assumes "reachable_db d"
    and "CreateVersion (CreatePolicyVersion drv now) createdBy rules d = (Inr vid, d1)"
    and "ActivateVersion (ActivatePolicyVersion drv') vid d1 = (None, d2)"
  shows "\<exists>dec. decision_Authorize (GetActivePolicy no_fault) ttl clock uuid req d2 = Inr dec \<and>
    d_policy_version dec = vid \<and>
    d_effect dec = fst (eval_rules clock (ar_subject req) (ar_action req) (ar_resource req) (ar_context req)
      (map normalise_rule rules))"
  using sqlite_policies.publish_decides[OF _ assms(2,3)] store_steps_wf[OF _ empty_db_wf] assms(1)
  unfolding reachable_db_def by blast

theorem publish_then_authorize_witness:
  "\<exists>vid d1 d2 dec.
     CreateVersion (CreatePolicyVersion no_fault ex_now) ''root'' [ex_raw_rule] ex_db_policy = (Inr vid, d1) \<and>
     ActivateVersion (ActivatePolicyVersion no_fault) vid d1 = (None, d2) \<and>
     decision_Authorize (GetActivePolicy no_fault) 60 ex_now ''0000'' ex_request d2 = Inr dec \<and>
     d_policy_version dec = vid \<and> d_effect dec = DecisionAllow"
proof -
  have c: "CreateVersion (CreatePolicyVersion no_fault ex_now) ''root'' [ex_raw_rule] ex_db_policy
      = (Inr 2, with_version ex_now ''root'' [normalise_rule ex_raw_rule] ex_db_policy)" by code_simp
  have a: "ActivateVersion (ActivatePolicyVersion no_fault) 2
        (with_version ex_now ''root'' [normalise_rule ex_raw_rule] ex_db_policy)
      = (None, with_active 2 (with_version ex_now ''root'' [normalise_rule ex_raw_rule] ex_db_policy))"
    by code_simp
  have e: "fst (eval_rules ex_now (ar_subject ex_request) (ar_action ex_request) (ar_resource ex_request)
      (ar_context ex_request) (map normalise_rule [ex_raw_rule])) = DecisionAllow" by code_simp
  from publish_then_authorize[OF ex_db_policy_reachable c a, of 60 ex_now "''0000''" ex_request] c a e
  show ?thesis by auto
qed

lemma authorize_grounded:
  assumes "decision_Authorize (GetActivePolicy drv) ttl now uuid req d = Inr dec"
    and "d_effect dec = DecisionAllow"
  shows "\<exists>v r. v \<in> set (db_versions d) \<and> pv_active v \<and> r \<in> set (db_rules d) \<and>
    r_version_id r = pv_id v \<and> r_effect r = ''allow'' \<and>
    rule_applies now (ar_subject req) (ar_action req) (ar_resource req) (ar_context req) r \<and>
    d_policy_version dec = pv_id v \<and> d_ttl_seconds dec = ttl"
proof -
  have allow: "\<exists>r\<in>set rs. r_effect r = ''allow'' \<and> rule_applies now subj action res ctx r"
    if "fst (eval_rules now subj action res ctx rs) = DecisionAllow" for subj action res ctx rs
    using that by (induction rs) (auto simp: Let_def split: if_splits)
  from assms(1) obtain sn where sn: "GetActivePolicy drv d = Inr sn"
    and dec: "d_effect dec = fst (Evaluate now sn (ar_subject req) (ar_action req) (ar_resource req) (ar_context req))"
      "d_policy_version dec = pv_id (sn_version sn)" "d_ttl_seconds dec = ttl"
    by (auto simp: decision_Authorize_def GetActive_def split: sum.splits prod.splits if_splits)
  from sn obtain vs where "order_desc pv_created_at (filter pv_active (db_versions d)) = sn_version sn # vs"
    and rules: "set (sn_rules sn) = {r \<in> set (db_rules d). r_version_id r = pv_id (sn_version sn)}"
    by (auto simp: GetActivePolicy_def Let_def split: sum.splits option.splits list.splits if_splits)
  then have "sn_version sn \<in> set (filter pv_active (db_versions d))"
    by (metis list.set_intros(1) set_order_desc)
  moreover from allow[of "ar_subject req" "ar_action req" "ar_resource req" "ar_context req" "sn_rules sn"] assms(2)
  obtain r where "r \<in> set (sn_rules sn)" "r_effect r = ''allow''"
    "rule_applies now (ar_subject req) (ar_action req) (ar_resource req) (ar_context req) r"
    by (auto simp: dec Evaluate_def)
  ultimately show ?thesis using rules dec by auto
qed

text \<open>Least privilege of the whole path from the database to the decision.  An allow answer
  means the database holds an active version and a stored rule of that version with effect
  \<open>allow\<close> whose conditions all hold for the request; the answer names the version and carries the
  configured TTL.  Any read failure is an error, never an allow.\<close>

theorem authorize_allow_grounded:
  assumes "decision_Authorize (GetActivePolicy drv) ttl now uuid req d = Inr dec"
    and "d_effect dec = DecisionAllow"
  shows "\<exists>v r. v \<in> set (db_versions d) \<and> pv_active v \<and> r \<in> set (db_rules d) \<and>
    r_version_id r = pv_id v \<and> r_effect r = ''allow'' \<and>
    rule_applies now (ar_subject req) (ar_action req) (ar_resource req) (ar_context req) r \<and>
    d_policy_version dec = pv_id v \<and> d_ttl_seconds dec = ttl"
  by (rule authorize_grounded[OF assms])

theorem authorize_allow_grounded_witness:
  "\<exists>dec. decision_Authorize (GetActivePolicy no_fault) 60 ex_now ''0000'' ex_request ex_db_active = Inr dec \<and>
     (\<exists>v r. v \<in> set (db_versions ex_db_active) \<and> r \<in> set (db_rules ex_db_active) \<and> r_version_id r = pv_id v \<and>
        d_policy_version dec = pv_id v)"
proof -
  let ?dec = "\<lparr>d_effect = DecisionAllow, d_reason = ''rule:1'', d_ttl_seconds = 60, d_policy_version = 1,
    d_decision_id = ''dec-0000''\<rparr>"
  have "decision_Authorize (GetActivePolicy no_fault) 60 ex_now ''0000'' ex_request ex_db_active = Inr ?dec"
    by code_simp
  from authorize_allow_grounded[OF this] this show ?thesis by (intro exI[of _ ?dec]) auto
qed

text \<open>Start-up seeding.  When \<open>SeedIfEmpty\<close> is given a seed file and reports success, the
  database has an active policy: the one it had before, untouched, or the rules of the seed.\<close>

theorem SeedIfEmpty_activates:
  assumes "reachable_db d" "path \<noteq> []"
    and "SeedIfEmpty (GetActivePolicy no_fault) (CreatePolicyVersion drv now) (ActivatePolicyVersion drv')
           readFile unmarshal path d = (None, d')"
  shows "(d' = d \<and> (\<exists>sn. GetActivePolicy no_fault d = Inr sn)) \<or>
    (\<exists>data seed sn. readFile path = Inr data \<and> unmarshal data = Inr seed \<and> sf_rules seed \<noteq> [] \<and>
       GetActivePolicy no_fault d' = Inr sn \<and>
       list_all2 same_rule (sn_rules sn) (map normalise_rule (sf_rules seed)))"
  using sqlite_policies.SeedIfEmpty_ok[OF _ assms(2,3)] store_steps_wf[OF _ empty_db_wf] assms(1)
  unfolding reachable_db_def by blast

theorem SeedIfEmpty_activates_witness:
  "\<exists>d'. SeedIfEmpty (GetActivePolicy no_fault) (CreatePolicyVersion no_fault ex_now) (ActivatePolicyVersion no_fault)
       (\<lambda>_. Inr ''yaml'') (\<lambda>_. Inr \<lparr>sf_created_by = [], sf_rules = [ex_raw_rule]\<rparr>) ''seed.yaml'' ex_db_policy = (None, d') \<and>
     d' \<noteq> ex_db_policy \<and> (\<exists>sn. GetActivePolicy no_fault d' = Inr sn)"
proof -
  let ?d' = "with_active 2 (with_version ex_now ''seed'' [normalise_rule ex_raw_rule] ex_db_policy)"
  have r: "SeedIfEmpty (GetActivePolicy no_fault) (CreatePolicyVersion no_fault ex_now) (ActivatePolicyVersion no_fault)
       (\<lambda>_. Inr ''yaml'') (\<lambda>_. Inr \<lparr>sf_created_by = [], sf_rules = [ex_raw_rule]\<rparr>) ''seed.yaml'' ex_db_policy = (None, ?d')"
    by code_simp
  have "?d' \<noteq> ex_db_policy" by code_simp
  with SeedIfEmpty_activates[OF ex_db_policy_reachable _ r] r show ?thesis by (intro exI[of _ ?d']) auto
qed

end
