(* ===== verification/Gateway_Registry.thy ===== *)
theory Gateway_Registry
  imports Store_Properties
begin

text \<open>
  Gateway registration and liveness: \<open>control-plane/internal/service/gateway/service.go\<close>
  over the interface \<open>GatewayRepository\<close>.  The locale \<open>gateway_repository\<close> states what the
  service relies on; the SQLite store provides it under every driver failure of the
  updates.
\<close>

datatype heartbeat_status = HeartbeatRegistered | HeartbeatUnregistered | HeartbeatRevoked

definition gw_Register :: "(gateway \<Rightarrow> 's \<Rightarrow> goerr option \<times> 's) \<Rightarrow> gateway \<Rightarrow> 's \<Rightarrow> goerr option \<times> 's" where
  "gw_Register register gw s =
     (if g_id gw = [] then (Some ErrInvalidInput, s)
      else (let gw' = (if g_name gw = [] then gw\<lparr>g_name := g_id gw\<rparr> else gw) in register gw' s))"

definition gw_Status :: "(string \<Rightarrow> 's \<Rightarrow> gateway res) \<Rightarrow> string \<Rightarrow> 's \<Rightarrow> heartbeat_status \<times> goerr option" where
  "gw_Status get gid s =
     (if gid = [] then (HeartbeatUnregistered, Some ErrUnauthorized)
      else (case get gid s of
        Inl err \<Rightarrow> if err = ErrNotFound then (HeartbeatUnregistered, Some ErrForbidden)
                   else (HeartbeatUnregistered, Some (Wrapf ''get gateway: '' err []))
      | Inr gw \<Rightarrow> if \<not> g_active gw then (HeartbeatRevoked, Some ErrForbidden)
                  else (HeartbeatRegistered, None)))"

definition gw_Heartbeat ::
    "(string \<Rightarrow> 's \<Rightarrow> gateway res) \<Rightarrow> (string \<Rightarrow> string \<Rightarrow> 's \<Rightarrow> goerr option \<times> 's)
     \<Rightarrow> string \<Rightarrow> string \<Rightarrow> 's \<Rightarrow> (heartbeat_status \<times> goerr option) \<times> 's" where
  "gw_Heartbeat get upd gid version s =
     (let (status, err) = gw_Status get gid s in
      if err \<noteq> None then ((status, err), s)
      else if status \<noteq> HeartbeatRegistered then ((status, Some ErrForbidden), s)
      else (case upd gid version s of
          (Some err, s') \<Rightarrow>
             if err = ErrNotFound then ((HeartbeatUnregistered, Some ErrForbidden), s')
             else ((HeartbeatUnregistered, Some (Wrapf ''update heartbeat: '' err [])), s')
        | (None, s') \<Rightarrow> ((HeartbeatRegistered, None), s')))"

definition gw_List :: "('s \<Rightarrow> gateway list res) \<Rightarrow> 's \<Rightarrow> gateway list res" where
  "gw_List listing s = listing s"

subsection \<open>The repository interface\<close>

locale gateway_repository =
  fixes get :: "string \<Rightarrow> 's \<Rightarrow> gateway res"
    and register :: "gateway \<Rightarrow> 's \<Rightarrow> goerr option \<times> 's"
    and upd :: "string \<Rightarrow> string \<Rightarrow> 's \<Rightarrow> goerr option \<times> 's"
    and set_active :: "string \<Rightarrow> bool \<Rightarrow> 's \<Rightarrow> goerr option \<times> 's"
  assumes get_error: "get i s = Inl e \<Longrightarrow> e = ErrNotFound"
    and register_error: "register gw s = (Some e, s') \<Longrightarrow> s' = s"
    and register_get: "register gw s = (None, s') \<Longrightarrow>
      \<exists>g. get (g_id gw) s' = Inr g \<and> g_id g = g_id gw \<and> g_active g \<and>
        g_fingerprint g = g_fingerprint gw \<and> g_name g = g_name gw"
    and register_frame: "j \<noteq> g_id gw \<Longrightarrow> get j (snd (register gw s)) = get j s"
    and upd_error: "upd i v s = (Some e, s') \<Longrightarrow> s' = s"
    and upd_get: "upd i v s = (None, s') \<Longrightarrow>
      \<exists>g g'. get i s = Inr g \<and> get i s' = Inr g' \<and> g_active g' = g_active g \<and> g_last_seen g' \<noteq> None"
    and upd_frame: "j \<noteq> i \<Longrightarrow> get j (snd (upd i v s)) = get j s"
    and set_active_error: "set_active i a s = (Some e, s') \<Longrightarrow> s' = s"
    and set_active_get: "set_active i a s = (None, s') \<Longrightarrow>
      \<exists>g. get i s = Inr g \<and> get i s' = Inr (g\<lparr>g_active := a\<rparr>)"
    and set_active_frame: "j \<noteq> i \<Longrightarrow> get j (snd (set_active i a s)) = get j s"
begin

lemma Status_cases:
  "gw_Status get i s =
     (if i = [] then (HeartbeatUnregistered, Some ErrUnauthorized)
      else case get i s of
          Inl _ \<Rightarrow> (HeartbeatUnregistered, Some ErrForbidden)
        | Inr g \<Rightarrow> if g_active g then (HeartbeatRegistered, None) else (HeartbeatRevoked, Some ErrForbidden))"
  by (auto simp: gw_Status_def dest: get_error split: sum.splits)

lemma Status_registered: "gw_Status get i s = (HeartbeatRegistered, None) \<longleftrightarrow> i \<noteq> [] \<and> (\<exists>g. get i s = Inr g \<and> g_active g)"
  by (auto simp: Status_cases split: sum.splits)

lemma Register_registers:
  "gw_Register register gw s = (None, s') \<Longrightarrow> gw_Status get (g_id gw) s' = (HeartbeatRegistered, None)"
  by (auto simp: gw_Register_def Let_def Status_registered dest!: register_get split: if_splits)

lemma Register_error: "gw_Register register gw s = (Some e, s') \<Longrightarrow> s' = s"
  by (auto simp: gw_Register_def Let_def dest: register_error split: if_splits)

lemma Register_frame: "j \<noteq> g_id gw \<Longrightarrow> get j (snd (gw_Register register gw s)) = get j s"
  by (simp add: gw_Register_def Let_def register_frame)

lemma Heartbeat_ok_iff:
  "fst (gw_Heartbeat get upd i v s) = (HeartbeatRegistered, None) \<longleftrightarrow>
   gw_Status get i s = (HeartbeatRegistered, None) \<and> fst (upd i v s) = None"
  by (auto simp: gw_Heartbeat_def split: prod.splits option.splits)

lemma Heartbeat_other: "gw_Status get i s \<noteq> (HeartbeatRegistered, None) \<Longrightarrow>
   gw_Heartbeat get upd i v s = (gw_Status get i s, s)"
  by (auto simp: gw_Heartbeat_def Status_cases split: sum.splits)

lemma Heartbeat_status: "gw_Status get j (snd (gw_Heartbeat get upd i v s)) = gw_Status get j s"
proof (cases "gw_Status get i s = (HeartbeatRegistered, None)")
  case True
  then have s': "snd (gw_Heartbeat get upd i v s) = snd (upd i v s)"
    by (auto simp: gw_Heartbeat_def split: prod.split option.split)
  show ?thesis
  proof (cases "j = i \<and> fst (upd i v s) = None")
    case True
    then obtain g g' where "get i s = Inr g" "get i (snd (upd i v s)) = Inr g'" "g_active g' = g_active g"
      using upd_get[of i v s "snd (upd i v s)"] by (metis prod.collapse)
    with True show ?thesis by (simp add: s' Status_cases)
  next
    case False
    then have "get j (snd (upd i v s)) = get j s"
      using upd_frame[of j i v s] upd_error[of i v s _ "snd (upd i v s)"] by (metis option.exhaust prod.collapse)
    then show ?thesis by (simp add: s' Status_cases)
  qed
qed (simp add: Heartbeat_other)

lemma revoked_heartbeat:
  assumes "set_active i False s = (None, s')" "i \<noteq> []"
  shows "gw_Heartbeat get upd i v s' = ((HeartbeatRevoked, Some ErrForbidden), s')"
proof -
  obtain g where "get i s' = Inr (g\<lparr>g_active := False\<rparr>)" using set_active_get[OF assms(1)] by blast
  with assms(2) have "gw_Status get i s' = (HeartbeatRevoked, Some ErrForbidden)" by (simp add: Status_cases)
  then show ?thesis by (simp add: Heartbeat_other)
qed

lemma revoked_reregisters:
  assumes "set_active (g_id gw) False s = (None, s')" "gw_Register register gw s' = (None, s'')"
  shows "gw_Status get (g_id gw) s'' = (HeartbeatRegistered, None)"
  using assms(2) by (rule Register_registers)

end

subsection \<open>The SQLite store provides it\<close>

lemma GetGateway_no_fault:
  "GetGateway no_fault i d = (case find (\<lambda>g. g_id g = i) (db_gateways d) of None \<Rightarrow> Inl ErrNotFound | Some g \<Rightarrow> Inr g)"
  by (auto simp: GetGateway_def split: option.split)

lemma find_upd_row:
  "(\<And>x. key (f x) = key x) \<Longrightarrow>
   find (\<lambda>x. key x = j) (map (\<lambda>x. if key x = k then f x else x) xs) =
     (if j = k then map_option f (find (\<lambda>x. key x = j) xs) else find (\<lambda>x. key x = j) xs)"
  by (induction xs) auto

lemma find_new_row:
  "\<not> list_ex (\<lambda>x. key x = key y) xs \<Longrightarrow>
   find (\<lambda>x. key x = j) (xs @ [y]) = (if key y = j then Some y else find (\<lambda>x. key x = j) xs)"
  by (induction xs) auto

interpretation sqlite_gateways:
  gateway_repository "GetGateway no_fault" "RegisterGateway drv now" "UpdateGatewayHeartbeat drv' now'" "SetGatewayActive drv''"
  for drv now drv' now' drv''
proof unfold_locales
  fix gw :: gateway and s s'
  let ?f = "\<lambda>g :: gateway. g\<lparr>g_name := g_name gw, g_active := True, g_fingerprint := g_fingerprint gw,
              g_software_version := g_software_version gw\<rparr>"
  assume "RegisterGateway drv now gw s = (None, s')"
  then show "\<exists>g. GetGateway no_fault (g_id gw) s' = Inr g \<and> g_id g = g_id gw \<and> g_active g \<and>
      g_fingerprint g = g_fingerprint gw \<and> g_name g = g_name gw"
    using find_list_ex[of "\<lambda>g. g_id g = g_id gw" "db_gateways s"] find_upd_row[of g_id ?f "g_id gw" "g_id gw"]
    by (auto simp: RegisterGateway_def GetGateway_no_fault find_new_row split: option.splits if_splits)
next
  fix j and gw :: gateway and s
  let ?f = "\<lambda>g :: gateway. g\<lparr>g_name := g_name gw, g_active := True, g_fingerprint := g_fingerprint gw,
              g_software_version := g_software_version gw\<rparr>"
  assume "j \<noteq> g_id gw"
  then show "GetGateway no_fault j (snd (RegisterGateway drv now gw s)) = GetGateway no_fault j s"
    using find_upd_row[of g_id ?f j "g_id gw"]
    by (simp add: RegisterGateway_def GetGateway_no_fault find_append split: option.split)
next
  fix i v :: string and s s'
  let ?f = "\<lambda>g :: gateway. if v \<noteq> [] then g\<lparr>g_last_seen := Some (rfc3339 now'), g_software_version := v\<rparr>
            else g\<lparr>g_last_seen := Some (rfc3339 now')\<rparr>"
  assume "UpdateGatewayHeartbeat drv' now' i v s = (None, s')"
  then show "\<exists>g g'. GetGateway no_fault i s = Inr g \<and> GetGateway no_fault i s' = Inr g' \<and>
      g_active g' = g_active g \<and> g_last_seen g' \<noteq> None"
    using find_filter_Nil[of "\<lambda>g. g_id g = i" "db_gateways s"] find_upd_row[of g_id ?f i i]
    by (auto simp: UpdateGatewayHeartbeat_def GetGateway_no_fault split: option.splits if_splits)
next
  fix j i v :: string and s
  let ?f = "\<lambda>g :: gateway. if v \<noteq> [] then g\<lparr>g_last_seen := Some (rfc3339 now'), g_software_version := v\<rparr>
            else g\<lparr>g_last_seen := Some (rfc3339 now')\<rparr>"
  assume "j \<noteq> i"
  then show "GetGateway no_fault j (snd (UpdateGatewayHeartbeat drv' now' i v s)) = GetGateway no_fault j s"
    using find_upd_row[of g_id ?f j i]
    by (simp add: UpdateGatewayHeartbeat_def GetGateway_no_fault split: option.split)
next
  fix i :: string and a s s'
  assume "SetGatewayActive drv'' i a s = (None, s')"
  then show "\<exists>g. GetGateway no_fault i s = Inr g \<and> GetGateway no_fault i s' = Inr (g\<lparr>g_active := a\<rparr>)"
    using find_filter_Nil[of "\<lambda>g. g_id g = i" "db_gateways s"] find_upd_row[of g_id "\<lambda>g :: gateway. g\<lparr>g_active := a\<rparr>" i i]
    by (auto simp: SetGatewayActive_def GetGateway_no_fault split: option.splits if_splits)
next
  fix j i :: string and a s
  assume "j \<noteq> i"
  then show "GetGateway no_fault j (snd (SetGatewayActive drv'' i a s)) = GetGateway no_fault j s"
    using find_upd_row[of g_id "\<lambda>g :: gateway. g\<lparr>g_active := a\<rparr>" j i]
    by (simp add: SetGatewayActive_def GetGateway_no_fault split: option.split)
qed (auto simp: GetGateway_no_fault RegisterGateway_def UpdateGatewayHeartbeat_def SetGatewayActive_def
      split: option.splits if_splits)

subsection \<open>Properties\<close>

definition ex_gw :: gateway where
  "ex_gw = \<lparr>g_id = ''gw-1'', g_name = [], g_registered_at = 0, g_last_seen = None, g_active = False,
     g_fingerprint = ''ab'', g_software_version = ''1.0''\<rparr>"

definition ex_db_gw :: db where
  "ex_db_gw = snd (gw_Register (RegisterGateway no_fault ex_now) ex_gw empty_db)"

text \<open>Registration and liveness.  After a registration without error the gateway's status is
  \<open>registered\<close>; a heartbeat answers \<open>registered\<close> exactly when the gateway is known, active and
  the update succeeds; and no heartbeat, whatever its outcome, changes any gateway's status.\<close>

theorem heartbeat_registered_iff:
  assumes "gw_Register (RegisterGateway drv now) gw d = (None, d1)"
  shows "gw_Status (GetGateway no_fault) (g_id gw) d1 = (HeartbeatRegistered, None) \<and>
    (fst (gw_Heartbeat (GetGateway no_fault) (UpdateGatewayHeartbeat drv' now') i v d1) = (HeartbeatRegistered, None)
      \<longleftrightarrow> i \<noteq> [] \<and> (\<exists>g. GetGateway no_fault i d1 = Inr g \<and> g_active g) \<and>
          fst (UpdateGatewayHeartbeat drv' now' i v d1) = None) \<and>
    gw_Status (GetGateway no_fault) j (snd (gw_Heartbeat (GetGateway no_fault) (UpdateGatewayHeartbeat drv' now') i v d1))
      = gw_Status (GetGateway no_fault) j d1"
  using sqlite_gateways.Register_registers[OF assms] sqlite_gateways.Heartbeat_ok_iff
    sqlite_gateways.Status_registered sqlite_gateways.Heartbeat_status by auto

theorem heartbeat_registered_iff_witness:
  "gw_Status (GetGateway no_fault) ''gw-1'' ex_db_gw = (HeartbeatRegistered, None) \<and>
   fst (gw_Heartbeat (GetGateway no_fault) (UpdateGatewayHeartbeat no_fault ex_now) ''gw-2'' ''1.1'' ex_db_gw)
     \<noteq> (HeartbeatRegistered, None)"
proof -
  have r: "gw_Register (RegisterGateway no_fault ex_now) ex_gw empty_db = (None, ex_db_gw)" by code_simp
  have g: "GetGateway no_fault ''gw-2'' ex_db_gw = Inl ErrNotFound" "g_id ex_gw = ''gw-1''" by code_simp+
  show ?thesis using heartbeat_registered_iff[OF r, of no_fault ex_now "''gw-2''" "''1.1''"] g by simp
qed

text \<open>Revoking a gateway.  After \<open>SetGatewayActive\<close> with \<open>false\<close> every heartbeat of that
  gateway is refused with status \<open>revoked\<close> and writes nothing; the statuses of the other
  gateways are unchanged.\<close>

theorem revoked_gateway_refused:
  assumes "SetGatewayActive drv i False d = (None, d')" "i \<noteq> []"
  shows "gw_Heartbeat (GetGateway no_fault) (UpdateGatewayHeartbeat drv' now) i v d' = ((HeartbeatRevoked, Some ErrForbidden), d') \<and>
    (j \<noteq> i \<longrightarrow> gw_Status (GetGateway no_fault) j d' = gw_Status (GetGateway no_fault) j d)"
  using sqlite_gateways.revoked_heartbeat[OF assms] sqlite_gateways.set_active_frame[of j i drv False d] assms(1)
  by (simp add: gw_Status_def)

theorem revoked_gateway_refused_witness:
  "\<exists>d'. SetGatewayActive no_fault ''gw-1'' False ex_db_gw = (None, d') \<and>
     gw_Heartbeat (GetGateway no_fault) (UpdateGatewayHeartbeat no_fault ex_now) ''gw-1'' ''1.1'' d'
       = ((HeartbeatRevoked, Some ErrForbidden), d')"
proof -
  have r: "SetGatewayActive no_fault ''gw-1'' False ex_db_gw
      = (None, ex_db_gw\<lparr>db_gateways := map (\<lambda>g. g\<lparr>g_active := False\<rparr>) (db_gateways ex_db_gw)\<rparr>)" by code_simp
  show ?thesis using revoked_gateway_refused[OF r, of no_fault ex_now "''1.1''"] r by auto
qed

text \<open>The revocation does not survive a registration.  A revoked gateway that registers again
  with the same identifier is active again, although the registration is documented to do
  nothing for a known gateway.\<close>

theorem revoked_gateway_reregisters:
  assumes "SetGatewayActive drv (g_id gw) False d = (None, d1)"
    and "gw_Register (RegisterGateway no_fault now) gw d1 = (e, d2)" and "g_id gw \<noteq> []"
  shows "e = None \<and> gw_Status (GetGateway no_fault) (g_id gw) d1 = (HeartbeatRevoked, Some ErrForbidden) \<and>
    gw_Status (GetGateway no_fault) (g_id gw) d2 = (HeartbeatRegistered, None)"
proof -
  have e: "e = None" using assms(2,3) by (auto simp: gw_Register_def Let_def RegisterGateway_def split: if_splits)
  have "gw_Heartbeat (GetGateway no_fault) (UpdateGatewayHeartbeat no_fault now) (g_id gw) [] d1
      = ((HeartbeatRevoked, Some ErrForbidden), d1)"
    by (rule sqlite_gateways.revoked_heartbeat[OF assms(1,3)])
  then have "gw_Status (GetGateway no_fault) (g_id gw) d1 = (HeartbeatRevoked, Some ErrForbidden)"
    by (auto simp: gw_Heartbeat_def sqlite_gateways.Status_cases split: prod.splits sum.splits if_splits option.splits)
  then show ?thesis
    using e sqlite_gateways.Register_registers assms(2) by auto
qed

theorem revoked_gateway_reregisters_witness:
  "\<exists>d1 d2. SetGatewayActive no_fault ''gw-1'' False ex_db_gw = (None, d1) \<and>
     gw_Register (RegisterGateway no_fault ex_now) ex_gw d1 = (None, d2) \<and>
     gw_Status (GetGateway no_fault) ''gw-1'' d2 = (HeartbeatRegistered, None)"
proof -
  let ?d1 = "ex_db_gw\<lparr>db_gateways := map (\<lambda>g. g\<lparr>g_active := False\<rparr>) (db_gateways ex_db_gw)\<rparr>"
  have id: "g_id ex_gw = ''gw-1''" by code_simp
  have r: "SetGatewayActive no_fault (g_id ex_gw) False ex_db_gw = (None, ?d1)" by code_simp
  obtain e d2 where s: "gw_Register (RegisterGateway no_fault ex_now) ex_gw ?d1 = (e, d2)" by fastforce
  show ?thesis using revoked_gateway_reregisters[OF r s] r s by (simp add: id)
qed

end
