(* ===== verification/Telemetry_Services.thy ===== *)
theory Telemetry_Services
  imports Store_Properties
begin

text \<open>
  The session, audit and resource services of the control plane (\<open>service/session\<close>,
  \<open>service/audit\<close>, \<open>service/resource\<close>).  A service method takes the repository methods it
  calls as arguments.
\<close>

subsection \<open>Sessions (\<open>service/session/session.go\<close>)\<close>

record start_request =
  sr_session_id :: string
  sr_decision_id :: string
  sr_subject_sub :: string
  sr_subject_username :: string
  sr_device_serial :: string
  sr_resource_type :: string
  sr_resource_name :: string
  sr_resource_match :: string

record end_request =
  er_session_id :: string
  er_bytes_in :: int
  er_bytes_out :: int
  er_duration_ms :: int
  er_end_reason :: string

text \<open>Fields of \<open>model.Session\<close> the code leaves out have their zero value.\<close>

definition session_Start ::
    "(session \<Rightarrow> 's \<Rightarrow> goerr option \<times> 's) \<Rightarrow> time \<Rightarrow> start_request \<Rightarrow> 's \<Rightarrow> goerr option \<times> 's" where
  "session_Start create now req s =
     (if sr_session_id req = [] then (Some (Errorf ''session_id is required''), s)
      else if sr_decision_id req = [] then (Some (Errorf ''decision_id is required''), s)
      else create \<lparr>se_session_id = sr_session_id req, se_decision_id = sr_decision_id req,
             se_subject_sub = sr_subject_sub req, se_subject_username = sr_subject_username req,
             se_device_serial = sr_device_serial req, se_resource_type = sr_resource_type req,
             se_resource_name = sr_resource_name req, se_resource_match = sr_resource_match req,
             se_start_time = rfc3339 now, se_end_time = None, se_bytes_in = 0, se_bytes_out = 0,
             se_duration_ms = 0, se_end_reason = []\<rparr> s)"

definition session_End ::
    "(session \<Rightarrow> 's \<Rightarrow> goerr option \<times> 's) \<Rightarrow> time \<Rightarrow> end_request \<Rightarrow> 's \<Rightarrow> goerr option \<times> 's" where
  "session_End complete now req s =
     (if er_session_id req = [] then (Some (Errorf ''session_id is required''), s)
      else complete \<lparr>se_session_id = er_session_id req, se_decision_id = [],
             se_subject_sub = [], se_subject_username = [], se_device_serial = [],
             se_resource_type = [], se_resource_name = [], se_resource_match = [],
             se_start_time = 0, se_end_time = Some (rfc3339 now), se_bytes_in = er_bytes_in req,
             se_bytes_out = er_bytes_out req, se_duration_ms = er_duration_ms req,
             se_end_reason = er_end_reason req\<rparr> s)"

definition session_List :: "(int \<Rightarrow> 's \<Rightarrow> session list res) \<Rightarrow> int \<Rightarrow> 's \<Rightarrow> session list res" where
  "session_List listing limit s = listing limit s"

subsection \<open>Audit (\<open>service/audit/service.go\<close>)\<close>

definition audit_Append ::
    "(audit_event \<Rightarrow> 's \<Rightarrow> goerr option \<times> 's) \<Rightarrow> time \<Rightarrow> audit_event \<Rightarrow> 's \<Rightarrow> goerr option \<times> 's" where
  "audit_Append insrt now event s =
     (let event' = (if ae_ts event = None then event\<lparr>ae_ts := Some (rfc3339 now)\<rparr> else event) in
      insrt event' s)"

definition audit_List ::
    "(int \<Rightarrow> int \<Rightarrow> 's \<Rightarrow> audit_event list res) \<Rightarrow> int \<Rightarrow> int \<Rightarrow> 's \<Rightarrow> audit_event list res" where
  "audit_List listing limit offset s = listing limit offset s"

subsection \<open>Published resources (\<open>service/resource/service.go\<close>)\<close>

text \<open>\<open>generateID\<close> on the 16 bytes read from \<open>crypto/rand\<close>.\<close>

definition uuid_mark :: "8 word list \<Rightarrow> 8 word list" where
  "uuid_mark b0 =
     (let b = b0[6 := or (and (b0 ! 6) 0x0F) 0x40] in
      b[8 := or (and (b ! 8) 0x3F) 0x80])"

definition generateID :: "8 word list \<Rightarrow> string" where
  "generateID b0 =
     (let b = uuid_mark b0;
          sl = (\<lambda>i j. hex_bytes (take (j - i) (drop i b))) in
      sl 0 4 @ ''-'' @ sl 4 6 @ ''-'' @ sl 6 8 @ ''-'' @ sl 8 10 @ ''-'' @ sl 10 16)"

definition resource_Create ::
    "(published_resource \<Rightarrow> 's \<Rightarrow> goerr option \<times> 's) \<Rightarrow> 8 word list \<Rightarrow> published_resource \<Rightarrow> 's \<Rightarrow> goerr option \<times> 's" where
  "resource_Create create rnd res s =
     (let res' = (if p_id res = [] then res\<lparr>p_id := generateID rnd\<rparr> else res) in create res' s)"

definition resource_Update ::
    "(published_resource \<Rightarrow> 's \<Rightarrow> goerr option \<times> 's) \<Rightarrow> published_resource \<Rightarrow> 's \<Rightarrow> goerr option \<times> 's" where
  "resource_Update upd res s = upd res s"

definition resource_Delete :: "(string \<Rightarrow> 's \<Rightarrow> goerr option \<times> 's) \<Rightarrow> string \<Rightarrow> 's \<Rightarrow> goerr option \<times> 's" where
  "resource_Delete del name s = del name s"

text \<open>
  The loop of \<open>SeedIfEmpty\<close>; the resource at position \<open>k\<close> of the file uses the random bytes
  \<open>rnd k\<close>.
\<close>

fun seed_resources ::
    "(string \<Rightarrow> 's \<Rightarrow> published_resource res) \<Rightarrow> (published_resource \<Rightarrow> 's \<Rightarrow> goerr option \<times> 's)
     \<Rightarrow> (nat \<Rightarrow> 8 word list) \<Rightarrow> nat \<Rightarrow> published_resource list \<Rightarrow> 's \<Rightarrow> goerr option \<times> 's" where
  "seed_resources get create rnd k [] s = (None, s)"
| "seed_resources get create rnd k (res0 # rest) s =
     (let res = (if p_id res0 = [] then res0\<lparr>p_id := generateID (rnd k)\<rparr> else res0) in
      case get (p_name res) s of
        Inr _ \<Rightarrow> seed_resources get create rnd (Suc k) rest s
      | Inl err \<Rightarrow>
          if err \<noteq> SqlErrNoRows
          then (Some (Wrapf (''check resource '' @ p_name res @ '': '') err []), s)
          else (case create res s of
                  (Some err, s') \<Rightarrow> (Some (Wrapf (''seed resource '' @ p_name res @ '': '') err []), s')
                | (None, s') \<Rightarrow> seed_resources get create rnd (Suc k) rest s'))"

text \<open>\<open>readFile\<close> returns \<open>None\<close> where \<open>os.IsNotExist\<close> holds of the error.\<close>

definition resource_SeedIfEmpty ::
    "('s \<Rightarrow> published_resource list res) \<Rightarrow> (string \<Rightarrow> 's \<Rightarrow> published_resource res)
     \<Rightarrow> (published_resource \<Rightarrow> 's \<Rightarrow> goerr option \<times> 's) \<Rightarrow> (nat \<Rightarrow> 8 word list)
     \<Rightarrow> (string \<Rightarrow> goerr + string option) \<Rightarrow> (string \<Rightarrow> published_resource list res)
     \<Rightarrow> string \<Rightarrow> 's \<Rightarrow> goerr option \<times> 's" where
  "resource_SeedIfEmpty listing get create rnd readFile unmarshal path s =
     (if path = [] then (None, s)
      else (case listing s of
        Inl err \<Rightarrow> (Some (Wrapf ''check existing resources: '' err []), s)
      | Inr existing \<Rightarrow>
        if existing \<noteq> [] then (None, s)
        else (case readFile path of
          Inl err \<Rightarrow> (Some (Wrapf ''read resource seed: '' err []), s)
        | Inr None \<Rightarrow> (None, s)
        | Inr (Some data) \<Rightarrow>
          (case unmarshal data of
             Inl err \<Rightarrow> (Some (Wrapf ''parse resource seed: '' err []), s)
           | Inr resources \<Rightarrow> seed_resources get create rnd 0 resources s))))"

subsection \<open>The session store interface\<close>

locale session_store =
  fixes find_session :: "string \<Rightarrow> 's \<Rightarrow> session option"
    and create :: "session \<Rightarrow> 's \<Rightarrow> goerr option \<times> 's"
    and complete :: "session \<Rightarrow> 's \<Rightarrow> goerr option \<times> 's"
  assumes create_error: "create x s = (Some e, s') \<Longrightarrow> s' = s"
    and create_find: "create x s = (None, s') \<Longrightarrow>
      find_session (se_session_id x) s = None \<and> find_session (se_session_id x) s' = Some (session_row x)"
    and create_frame: "j \<noteq> se_session_id x \<Longrightarrow> find_session j (snd (create x s)) = find_session j s"
    and complete_error: "complete x s = (Some e, s') \<Longrightarrow> s' = s"
    and complete_find: "complete x s = (None, s') \<Longrightarrow> se_end_time x = Some t \<Longrightarrow>
      \<exists>r. find_session (se_session_id x) s = Some r \<and>
        find_session (se_session_id x) s' = Some (r\<lparr>se_end_time := Some t, se_bytes_in := se_bytes_in x,
          se_bytes_out := se_bytes_out x, se_duration_ms := se_duration_ms x, se_end_reason := se_end_reason x\<rparr>)"
    and complete_frame: "j \<noteq> se_session_id x \<Longrightarrow> find_session j (snd (complete x s)) = find_session j s"
begin

lemma Start_find:
  "session_Start create now req s = (None, s') \<Longrightarrow>
   find_session (sr_session_id req) s = None \<and>
   (\<exists>r. find_session (sr_session_id req) s' = Some r \<and> se_decision_id r = sr_decision_id req \<and>
     se_subject_sub r = sr_subject_sub req \<and> se_device_serial r = sr_device_serial req \<and>
     se_start_time r = rfc3339 now \<and> se_end_time r = None)"
  by (auto simp: session_Start_def session_row_def dest!: create_find split: if_splits)

lemma Start_again:
  "find_session (sr_session_id req) s \<noteq> None \<Longrightarrow> \<exists>e. session_Start create now req s = (Some e, s)"
  using create_find create_error by (auto simp: session_Start_def split: if_splits)
    (metis (no_types, lifting) not_None_eq session.select_convs(1) surj_pair)

lemma Start_frame: "j \<noteq> sr_session_id req \<Longrightarrow> find_session j (snd (session_Start create now req s)) = find_session j s"
  by (simp add: session_Start_def create_frame)

lemma End_find:
  "session_End complete now req s = (None, s') \<Longrightarrow>
   \<exists>r. find_session (er_session_id req) s = Some r \<and>
     find_session (er_session_id req) s' = Some (r\<lparr>se_end_time := Some (rfc3339 now),
       se_bytes_in := er_bytes_in req, se_bytes_out := er_bytes_out req,
       se_duration_ms := er_duration_ms req, se_end_reason := er_end_reason req\<rparr>)"
  by (auto simp: session_End_def dest!: complete_find split: if_splits)

lemma End_frame: "j \<noteq> er_session_id req \<Longrightarrow> find_session j (snd (session_End complete now req s)) = find_session j s"
  by (simp add: session_End_def complete_frame)

end

subsection \<open>The SQLite store provides it\<close>

definition session_lookup :: "string \<Rightarrow> db \<Rightarrow> session option" where
  "session_lookup j d = find (\<lambda>s. se_session_id s = j) (db_sessions d)"

lemma find_upd_session:
  "(\<And>x. se_session_id (f x) = se_session_id x) \<Longrightarrow>
   find (\<lambda>s. se_session_id s = j) (map (\<lambda>s. if se_session_id s = k then f s else s) xs) =
     (if j = k then map_option f (find (\<lambda>s. se_session_id s = j) xs) else find (\<lambda>s. se_session_id s = j) xs)"
  by (induction xs) auto

interpretation sqlite_sessions:
  session_store session_lookup "CreateSession drv" "CompleteSession drv' now"
  for drv drv' now
proof unfold_locales
  fix x :: session and s s'
  assume a: "CreateSession drv x s = (None, s')"
  then have "find (\<lambda>s. se_session_id s = se_session_id x) (db_sessions s) = None"
    by (auto simp: CreateSession_def find_None_iff list_ex_iff split: option.splits if_splits)
  with a show "session_lookup (se_session_id x) s = None \<and>
      session_lookup (se_session_id x) s' = Some (session_row x)"
    by (auto simp: CreateSession_def session_lookup_def find_append session_row_def
        split: option.splits if_splits)
next
  fix j and x :: session and s
  assume "j \<noteq> se_session_id x"
  then show "session_lookup j (snd (CreateSession drv x s)) = session_lookup j s"
    by (simp add: CreateSession_def session_lookup_def find_append session_row_def split: option.split)
next
  fix x :: session and s s' t
  let ?f = "\<lambda>s :: session. s\<lparr>se_end_time := Some t, se_bytes_in := se_bytes_in x,
          se_bytes_out := se_bytes_out x, se_duration_ms := se_duration_ms x, se_end_reason := se_end_reason x\<rparr>"
  assume a: "CompleteSession drv' now x s = (None, s')" and t: "se_end_time x = Some t"
  have "\<exists>r. find (\<lambda>s. se_session_id s = se_session_id x) (db_sessions s) = Some r"
    using a by (intro find_filter_Nil) (auto simp: CompleteSession_def Let_def split: option.splits if_splits)
  then show "\<exists>r. session_lookup (se_session_id x) s = Some r \<and>
      session_lookup (se_session_id x) s' = Some (?f r)"
    using a find_upd_session[of ?f "se_session_id x" "se_session_id x" "db_sessions s"]
    by (auto simp: CompleteSession_def session_lookup_def t split: option.splits if_splits)
next
  fix j and x :: session and s
  assume "j \<noteq> se_session_id x"
  then show "session_lookup j (snd (CompleteSession drv' now x s)) = session_lookup j s"
    by (simp add: CompleteSession_def session_lookup_def find_upd_session Let_def split: option.split)
qed (auto simp: CreateSession_def CompleteSession_def Let_def split: option.splits if_splits)

subsection \<open>Properties\<close>

definition ex_start :: start_request where
  "ex_start = \<lparr>sr_session_id = ''s1'', sr_decision_id = ''dec-1'', sr_subject_sub = ''u1'',
     sr_subject_username = ''alice'', sr_device_serial = ''4711'', sr_resource_type = ''ssh'',
     sr_resource_name = ''lan'', sr_resource_match = ''ssh:lan:22''\<rparr>"

definition ex_end :: end_request where
  "ex_end = \<lparr>er_session_id = ''s1'', er_bytes_in = 10, er_bytes_out = 20, er_duration_ms = 5,
     er_end_reason = ''eof''\<rparr>"

text \<open>The life of a session record.  A session that starts without error had no record and
  gets one, open, under its decision and device; a second start with the same identifier fails
  and changes nothing; ending it, after any other sessions started or ended in between, keeps
  what the start recorded and adds the metrics and the end time.\<close>

theorem session_lifecycle:
  assumes "session_Start (CreateSession drv) now req d = (None, d1)"
    and "session_lookup (sr_session_id req) d2 = session_lookup (sr_session_id req) d1"
    and "session_End (CompleteSession drv' now') now'' req' d2 = (None, d3)"
    and "er_session_id req' = sr_session_id req"
  shows "session_lookup (sr_session_id req) d = None \<and>
    (\<exists>e. session_Start (CreateSession drv'') now'' req d1 = (Some e, d1)) \<and>
    (\<exists>r. session_lookup (sr_session_id req) d3 = Some r \<and> se_decision_id r = sr_decision_id req \<and>
      se_subject_sub r = sr_subject_sub req \<and> se_device_serial r = sr_device_serial req \<and>
      se_start_time r = rfc3339 now \<and> se_end_time r = Some (rfc3339 now'') \<and>
      se_bytes_in r = er_bytes_in req' \<and> se_bytes_out r = er_bytes_out req' \<and>
      se_end_reason r = er_end_reason req')"
  using sqlite_sessions.Start_find[OF assms(1)] sqlite_sessions.Start_again[of req d1]
    sqlite_sessions.End_find[OF assms(3)] assms(2,4) by auto

theorem session_lifecycle_witness:
  "\<exists>d1 d3 r. session_Start (CreateSession no_fault) ex_now ex_start empty_db = (None, d1) \<and>
     session_End (CompleteSession no_fault ex_now) (ex_now + Minute) ex_end d1 = (None, d3) \<and>
     session_lookup ''s1'' d3 = Some r \<and> se_decision_id r = ''dec-1'' \<and> se_end_time r = Some 1700000060"
proof -
  obtain d1 where s: "session_Start (CreateSession no_fault) ex_now ex_start empty_db = (None, d1)"
    and d1: "d1 = snd (session_Start (CreateSession no_fault) ex_now ex_start empty_db)"
    by (simp add: session_Start_def CreateSession_def ex_start_def empty_db_def)
  have "fst (session_End (CompleteSession no_fault ex_now) (ex_now + Minute) ex_end d1) = None"
    unfolding d1 by code_simp
  then obtain d3 where e: "session_End (CompleteSession no_fault ex_now) (ex_now + Minute) ex_end d1 = (None, d3)"
    by (metis prod.collapse)
  have i: "er_session_id ex_end = sr_session_id ex_start" "sr_session_id ex_start = ''s1''"
    "sr_decision_id ex_start = ''dec-1''" "rfc3339 (ex_now + Minute) = 1700000060" by code_simp+
  from session_lifecycle[OF s refl e i(1)] s e show ?thesis unfolding i by blast
qed

lemma GetResourceByName_no_fault:
  "GetResourceByName no_fault name d =
     (case find (\<lambda>r. p_name r = name) (db_resources d) of None \<Rightarrow> Inl SqlErrNoRows | Some r \<Rightarrow> Inr r)"
  by (simp add: GetResourceByName_def split: option.split)

lemma CreateResource_ok:
  "CreateResource drv now res d = (None, d') \<Longrightarrow>
   \<exists>r'. p_name r' = p_name res \<and> d' = d\<lparr>db_resources := db_resources d @ [r']\<rparr>"
  by (auto simp: CreateResource_def split: option.splits if_splits
      intro!: exI[of _ "res\<lparr>p_created_at := rfc3339 now, p_updated_at := rfc3339 now\<rparr>"])

lemma seed_name: "p_name (if p_id r = [] then r\<lparr>p_id := i\<rparr> else r) = p_name r"
  by simp

lemma seed_resources_names:
  assumes get: "\<And>n d. get n d =
      (case find (\<lambda>r. p_name r = n) (db_resources d) of None \<Rightarrow> Inl SqlErrNoRows | Some r \<Rightarrow> Inr r)"
  shows "seed_resources get (CreateResource drv now) rnd k seeds d = (None, d') \<Longrightarrow>
   p_name ` set (db_resources d') = p_name ` set (db_resources d) \<union> p_name ` set seeds \<and>
   (\<exists>new. db_resources d' = db_resources d @ new)"
proof (induction seeds arbitrary: k d)
  case (Cons r seeds)
  show ?case
  proof (cases "find (\<lambda>x. p_name x = p_name r) (db_resources d)")
    case (Some x)
    then have "p_name r \<in> p_name ` set (db_resources d)" by (metis find_key_Some image_eqI)
    with Some Cons show ?thesis
      by (auto simp: get[of "p_name r" d] seed_name Let_def insert_absorb)
  next
    case None
    with Cons.prems obtain r' where r': "p_name r' = p_name r" and
      s: "seed_resources get (CreateResource drv now) rnd (Suc k) seeds
          (d\<lparr>db_resources := db_resources d @ [r']\<rparr>) = (None, d')"
      by (auto simp: get[of "p_name r" d] seed_name Let_def split: prod.splits option.splits dest!: CreateResource_ok)
    from Cons.IH[OF s] r' show ?thesis by auto
  qed
qed simp

text \<open>Seeding the catalogue.  When seeding an empty table succeeds, the table holds exactly the
  names of the seed file; a table that already has resources is left as it is.\<close>

theorem resource_seed_names:
  assumes "path \<noteq> []" "readFile path = Inr (Some data)" "unmarshal data = Inr seeds"
    and "resource_SeedIfEmpty (ListResources no_fault) (GetResourceByName no_fault) (CreateResource drv now)
      rnd readFile unmarshal path d = (None, d')"
  shows "if db_resources d = [] then p_name ` set (db_resources d') = p_name ` set seeds else d' = d"
proof -
  have "sort_key p_name (db_resources d) = [] \<longleftrightarrow> db_resources d = []"
    by (metis length_0_conv length_sort)
  then show ?thesis
    using assms seed_resources_names[OF GetResourceByName_no_fault, of drv now rnd 0 seeds d d']
    by (simp add: resource_SeedIfEmpty_def ListResources_def scanResources_def split: if_splits)
qed

definition ex_res :: published_resource where
  "ex_res = \<lparr>p_id = [], p_name = ''app'', p_display_name = ''App'', p_type = ''web'', p_backend = ''http://app:80'',
     p_gateway_id = ''gw-1'', p_group_match = [''dev''], p_access_mode = ''http-proxy'', p_description = [],
     p_created_at = 0, p_updated_at = 0\<rparr>"

theorem resource_seed_names_witness:
  "\<exists>d'. resource_SeedIfEmpty (ListResources no_fault) (GetResourceByName no_fault) (CreateResource no_fault ex_now)
      (\<lambda>k. replicate 16 (of_nat k)) (\<lambda>_. Inr (Some [])) (\<lambda>_. Inr [ex_res, ex_res]) ''r.yaml'' empty_db = (None, d') \<and>
    p_name ` set (db_resources d') = {''app''}"
proof -
  let ?r = "resource_SeedIfEmpty (ListResources no_fault) (GetResourceByName no_fault) (CreateResource no_fault ex_now)
      (\<lambda>k. replicate 16 (of_nat k)) (\<lambda>_. Inr (Some [])) (\<lambda>_. Inr [ex_res, ex_res]) ''r.yaml'' empty_db"
  have "fst ?r = None" by code_simp
  then obtain d' where r: "?r = (None, d')" by (metis prod.collapse)
  have "p_name ex_res = ''app''" "db_resources empty_db = []" by code_simp+
  with resource_seed_names[OF _ _ _ r] r show ?thesis by auto
qed

text \<open>\<open>generateID\<close> gives a version 4, variant 1 identifier in the canonical form.\<close>

lemma length_hex_bytes [simp]: "length (hex_bytes bs) = 2 * length bs"
  by (induction bs) (simp_all add: hex_bytes_def hex_byte_def)

lemma generateID_length: "length b = 16 \<Longrightarrow> length (generateID b) = 36"
  by (simp add: generateID_def uuid_mark_def Let_def)

end
