(* ===== verification/CP_Handlers.thy ===== *)
theory CP_Handlers
  imports CP_Auth Policy_Service Gateway_Registry Telemetry_Services
begin

text \<open>
  The handlers of the control plane's API over the SQLite store
  (\<open>control-plane/internal/api/handlers\<close>).  A handler takes the identity the middlewares
  put into the request context (\<open>pepID\<close>, or the subject, \<open>None\<close> when missing), the decoded
  body (\<open>None\<close> where decoding fails), the clock \<open>clk\<close> read at each use, and \<open>F\<close>, the driver
  failures of its store calls in order; it returns the response and the new database.
  A failure to append to the audit log is logged only.
\<close>

subsection \<open>The decision endpoint (\<open>pep_authorize.go\<close>)\<close>

record resource_request =
  rr_type :: string
  rr_name :: string
  rr_host :: string
  rr_port :: int
  rr_ssh :: "host_port option"
  rr_http :: "host_port option"

record authorize_body =
  ab_subject :: subject
  ab_action :: string
  ab_resource :: resource_request
  ab_context :: "jmap option"

definition resolvedHost :: "resource_request \<Rightarrow> string" where
  "resolvedHost r =
     (let typed = (if ToLower (rr_type r) = ''ssh'' then rr_ssh r
                   else if ToLower (rr_type r) = ''http'' then rr_http r else None) in
      case typed of Some hp \<Rightarrow> if hp_host hp \<noteq> [] then hp_host hp else rr_host r | None \<Rightarrow> rr_host r)"

definition resolvedPort :: "resource_request \<Rightarrow> int" where
  "resolvedPort r =
     (let typed = (if ToLower (rr_type r) = ''ssh'' then rr_ssh r
                   else if ToLower (rr_type r) = ''http'' then rr_http r else None) in
      case typed of Some hp \<Rightarrow> if 0 < hp_port hp then hp_port hp else rr_port r | None \<Rightarrow> rr_port r)"

record pep_handler =
  ph_ttl_seconds :: int
  ph_require_registration :: bool

fun status_text :: "heartbeat_status \<Rightarrow> string" where
  "status_text HeartbeatRegistered = ''registered''"
| "status_text HeartbeatUnregistered = ''unregistered''"
| "status_text HeartbeatRevoked = ''revoked''"

text \<open>The check of the gateway's registration, where the server has a registry, as it always has (\<open>app.go\<close>); \<open>None\<close> lets
  the request through.\<close>

definition registration_gate :: "bool \<Rightarrow> drv \<Rightarrow> string \<Rightarrow> db \<Rightarrow> response option" where
  "registration_gate required drv pepID d =
     (if \<not> required then None
      else if pepID = [] then Some (WriteError ErrUnauthorized)
      else (case gw_Status (GetGateway drv) pepID d of (status, err) \<Rightarrow>
        if err \<noteq> None \<or> status \<noteq> HeartbeatRegistered
        then Some (WriteJSON 403 (PFields [(''error'', ''forbidden''), (''status'', status_text status)]))
        else None))"

text \<open>The subject and resource a well-formed request denotes.\<close>

definition authorize_subject :: "subject \<Rightarrow> subject" where
  "authorize_subject s = (if s_username s = [] then s\<lparr>s_username := s_sub s\<rparr> else s)"

definition authorize_resource :: "resource_request \<Rightarrow> resource" where
  "authorize_resource r =
     (let t = ToLower (rr_type r); hp = \<lparr>hp_host = resolvedHost r, hp_port = resolvedPort r\<rparr> in
      if t = ResourceHTTP \<or> t = ResourceWeb then \<lparr>rs_type = t, rs_ssh = None, rs_http = Some hp\<rparr>
      else \<lparr>rs_type = t, rs_ssh = Some hp, rs_http = None\<rparr>)"

definition authorize_invalid :: "authorize_body \<Rightarrow> bool" where
  "authorize_invalid req \<longleftrightarrow>
     (let t = ToLower (rr_type (ab_resource req)) in
      ab_action req = [] \<or> rr_type (ab_resource req) = [] \<or>
      (s_username (ab_subject req) = [] \<and> s_sub (ab_subject req) = []) \<or>
      (t \<noteq> ResourceSSH \<and> t \<noteq> ResourceHTTP \<and> t \<noteq> ResourceWeb \<and> t \<noteq> ResourceDB) \<or>
      TrimSpace (resolvedHost (ab_resource req)) = [] \<or> resolvedPort (ab_resource req) \<le> 0)"

definition authorize_event ::
    "http_request \<Rightarrow> string \<Rightarrow> authorize_body \<Rightarrow> subject \<Rightarrow> resource \<Rightarrow> decision \<Rightarrow> audit_event" where
  "authorize_event r pepID req subj res dec =
     (let ctxIP = extractContextIP (ab_context req);
          srcIP = (if ctxIP = [] then extractRemoteIP r else ctxIP) in
      \<lparr>ae_id = 0, ae_ts = None, ae_subject = formatSubjectForAudit subj, ae_action = ab_action req,
       ae_resource = Canonical res, ae_resource_name = rr_name (ab_resource req),
       ae_decision = effect_text (d_effect dec), ae_reason = d_reason dec, ae_pep_id = pepID,
       ae_src_ip = srcIP, ae_policy_version = d_policy_version dec\<rparr>)"

definition pep_Authorize ::
    "pep_handler \<Rightarrow> (nat \<Rightarrow> drv) \<Rightarrow> (nat \<Rightarrow> time) \<Rightarrow> string \<Rightarrow> authorize_body option \<Rightarrow> string
     \<Rightarrow> http_request \<Rightarrow> db \<Rightarrow> response \<times> db" where
  "pep_Authorize h F clk uuid body pepID r d =
     (case body of
        None \<Rightarrow> (WriteError ErrInvalidInput, d)
      | Some req \<Rightarrow>
       (case registration_gate (ph_require_registration h) (F 0) pepID d of
          Some resp \<Rightarrow> (resp, d)
        | None \<Rightarrow>
          if authorize_invalid req then (WriteError ErrInvalidInput, d)
          else
            (let subj = authorize_subject (ab_subject req);
                 res = authorize_resource (ab_resource req) in
             case decision_Authorize (GetActivePolicy (F 1)) (decision_ttl (ph_ttl_seconds h)) (clk 0) uuid
                    \<lparr>ar_subject = subj, ar_action = ab_action req, ar_resource = res, ar_context = ab_context req\<rparr> d of
               Inl err \<Rightarrow> (WriteError err, d)
             | Inr dec \<Rightarrow>
                 (let (_, d') = audit_Append (InsertAuditEvent (F 2)) (clk 1) (authorize_event r pepID req subj res dec) d in
                  (WriteJSON 200 (PDecision dec), d')))))"

subsection \<open>Gateways (\<open>pep_heartbeat.go\<close>, \<open>pep_register.go\<close>, \<open>pep_resources.go\<close>)\<close>

text \<open>\<open>version\<close> is the empty text where the optional body cannot be decoded.\<close>

definition pep_Beat :: "bool \<Rightarrow> (nat \<Rightarrow> drv) \<Rightarrow> time \<Rightarrow> string \<Rightarrow> string \<Rightarrow> db \<Rightarrow> response \<times> db" where
  "pep_Beat requireRegistration F now version pepID d =
     (if pepID = [] then (WriteError ErrUnauthorized, d)
      else (case gw_Heartbeat (GetGateway (F 0)) (UpdateGatewayHeartbeat (F 1) now) pepID version d of
              ((status, Some err), d') \<Rightarrow>
                (if err = ErrForbidden \<and> requireRegistration
                 then (WriteJSON 403 (PFields [(''status'', status_text status)]), d')
                 else if \<not> requireRegistration \<and> status = HeartbeatUnregistered
                 then (WriteJSON 200 (PFields [(''status'', status_text status)]), d')
                 else (WriteError err, d'))
            | ((status, None), d') \<Rightarrow> (WriteJSON 200 (PFields [(''status'', status_text status)]), d')))"

record register_body =
  rb_gateway_id :: string
  rb_name :: string
  rb_version :: string
  rb_fingerprint :: string

text \<open>An empty body (\<open>io.EOF\<close>) is accepted as the zero request.\<close>

definition pep_Register :: "drv \<Rightarrow> time \<Rightarrow> register_body option \<Rightarrow> string \<Rightarrow> db \<Rightarrow> response \<times> db" where
  "pep_Register drv now body pepID d =
     (if pepID = [] then (WriteError ErrUnauthorized, d)
      else (case body of
        None \<Rightarrow> (WriteError ErrInvalidInput, d)
      | Some req \<Rightarrow>
        if rb_gateway_id req \<noteq> [] \<and> rb_gateway_id req \<noteq> pepID then (WriteError ErrInvalidInput, d)
        else
          (let gw = \<lparr>g_id = pepID, g_name = (if rb_name req = [] then pepID else rb_name req),
                 g_registered_at = 0, g_last_seen = None, g_active = True,
                 g_fingerprint = rb_fingerprint req, g_software_version = rb_version req\<rparr> in
           case gw_Register (RegisterGateway drv now) gw d of
             (Some err, d') \<Rightarrow> (WriteError err, d')
           | (None, d') \<Rightarrow>
               (WriteJSON 200 (PFields [(''status'', ''registered''), (''gateway_id'', pepID)]), d'))))"

definition pep_Resolve :: "drv \<Rightarrow> string \<Rightarrow> string \<Rightarrow> db \<Rightarrow> response" where
  "pep_Resolve drv name pepID d =
     (if name = [] then WriteError ErrInvalidInput
      else (case GetResourceByName drv name d of
        Inl err \<Rightarrow> if err = SqlErrNoRows then WriteJSON 404 (PError ''resource not found'') else WriteError err
      | Inr res \<Rightarrow>
        if p_gateway_id res \<noteq> [] \<and> pepID \<noteq> [] \<and> p_gateway_id res \<noteq> pepID
        then WriteJSON 403 (PError ''gateway not authorized for this resource'')
        else WriteJSON 200 (PResource [(''name'', p_name res), (''type'', p_type res), (''backend'', p_backend res),
               (''gateway_id'', p_gateway_id res), (''access_mode'', p_access_mode res)])))"

subsection \<open>Sessions (\<open>pep_sessions.go\<close>)\<close>

definition pep_SessionStart :: "drv \<Rightarrow> time \<Rightarrow> start_request option \<Rightarrow> db \<Rightarrow> response \<times> db" where
  "pep_SessionStart drv now body d =
     (case body of
        None \<Rightarrow> (WriteJSON 400 (PError ''invalid request body''), d)
      | Some req \<Rightarrow>
        if sr_session_id req = [] \<or> sr_decision_id req = []
        then (WriteJSON 400 (PError ''session_id and decision_id are required''), d)
        else (case session_Start (CreateSession drv) now req d of
                (Some err, d') \<Rightarrow> (WriteError err, d')
              | (None, d') \<Rightarrow> (WriteJSON 200 (PFields [(''status'', ''started'')]), d')))"

definition pep_SessionEnd :: "drv \<Rightarrow> time \<Rightarrow> end_request option \<Rightarrow> db \<Rightarrow> response \<times> db" where
  "pep_SessionEnd drv now body d =
     (case body of
        None \<Rightarrow> (WriteJSON 400 (PError ''invalid request body''), d)
      | Some req \<Rightarrow>
        if er_session_id req = [] then (WriteJSON 400 (PError ''session_id is required''), d)
        else (case session_End (CompleteSession drv now) now req d of
                (Some err, d') \<Rightarrow> (WriteError err, d')
              | (None, d') \<Rightarrow> (WriteJSON 200 (PFields [(''status'', ''ended'')]), d')))"

text \<open>The query parameter of a listing; \<open>q\<close> is empty when it is absent.\<close>

definition query_limit :: "string \<Rightarrow> int" where
  "query_limit q = (if q = [] then 100 else case Atoi q of Some n \<Rightarrow> if 0 < n then n else 100 | None \<Rightarrow> 100)"

definition admin_Sessions :: "drv \<Rightarrow> string \<Rightarrow> db \<Rightarrow> response" where
  "admin_Sessions drv q d =
     (case session_List (ListSessions drv) (query_limit q) d of
        Inl err \<Rightarrow> WriteError err
      | Inr ss \<Rightarrow> WriteJSON 200 (PSessions ss))"

subsection \<open>Administration (\<open>admin_audit.go\<close>, \<open>admin_policies.go\<close>, \<open>admin_device_certs.go\<close>)\<close>

definition admin_Audit :: "drv \<Rightarrow> string \<Rightarrow> string \<Rightarrow> db \<Rightarrow> response" where
  "admin_Audit drv qlimit qoffset d =
     (let limit0 = query_limit qlimit;
          limit = (if 500 < limit0 then 500 else limit0);
          offset = (if qoffset = [] then 0 else case Atoi qoffset of Some n \<Rightarrow> if 0 \<le> n then n else 0 | None \<Rightarrow> 0) in
      case audit_List (ListAuditEvents drv) limit offset d of
        Inl err \<Rightarrow> WriteError err
      | Inr evs \<Rightarrow> WriteJSON 200 (PEvents evs))"

definition admin_event :: "string \<Rightarrow> string \<Rightarrow> string \<Rightarrow> string \<Rightarrow> string \<Rightarrow> audit_event" where
  "admin_event subj action res reason srcIP =
     \<lparr>ae_id = 0, ae_ts = None, ae_subject = subj, ae_action = action, ae_resource = res, ae_resource_name = [],
      ae_decision = ''allow'', ae_reason = reason, ae_pep_id = [], ae_src_ip = srcIP, ae_policy_version = 0\<rparr>"

definition admin_CreateVersion ::
    "(nat \<Rightarrow> drv) \<Rightarrow> (nat \<Rightarrow> time) \<Rightarrow> policy_rule list option \<Rightarrow> subject option \<Rightarrow> http_request \<Rightarrow> db \<Rightarrow> response \<times> db" where
  "admin_CreateVersion F clk body ctx r d =
     (case ctx of
        None \<Rightarrow> (WriteError ErrUnauthorized, d)
      | Some subj \<Rightarrow>
       (case body of
          None \<Rightarrow> (WriteError ErrInvalidInput, d)
        | Some rules \<Rightarrow>
          if rules = [] then (WriteError ErrInvalidInput, d)
          else (case CreateVersion (CreatePolicyVersion (F 0) (clk 0)) (s_username subj) rules d of
                  (Inl err, d') \<Rightarrow> (WriteError err, d')
                | (Inr vid, d') \<Rightarrow>
                    (let (_, d'') = audit_Append (InsertAuditEvent (F 1)) (clk 1)
                       (admin_event (s_username subj) ''policy_create'' ''policy'' ''created'' (rq_remote_addr r)) d' in
                     (WriteJSON 201 (PVersion vid), d'')))))"

definition admin_ActivateVersion ::
    "(nat \<Rightarrow> drv) \<Rightarrow> (nat \<Rightarrow> time) \<Rightarrow> string \<Rightarrow> subject option \<Rightarrow> http_request \<Rightarrow> db \<Rightarrow> response \<times> db" where
  "admin_ActivateVersion F clk rawID ctx r d =
     (case ctx of
        None \<Rightarrow> (WriteError ErrUnauthorized, d)
      | Some subj \<Rightarrow>
       (case Atoi rawID of
          None \<Rightarrow> (WriteError ErrInvalidInput, d)
        | Some vid \<Rightarrow>
         (case ActivateVersion (ActivatePolicyVersion (F 0)) vid d of
            (Some err, d') \<Rightarrow> (WriteError err, d')
          | (None, d') \<Rightarrow>
              (let (_, d'') = audit_Append (InsertAuditEvent (F 1)) (clk 1)
                 (admin_event (s_username subj) ''policy_activate'' ''policy'' ''activated'' (rq_remote_addr r)) d' in
               (WriteJSON 200 (PFields [(''status'', ''ok'')]), d'')))))"

definition admin_ActivePolicy :: "drv \<Rightarrow> db \<Rightarrow> response" where
  "admin_ActivePolicy drv d =
     (case GetActive (GetActivePolicy drv) d of
        Inl err \<Rightarrow> WriteError err
      | Inr sn \<Rightarrow> WriteJSON 200 (PSnapshot sn))"

definition admin_RevokeCert ::
    "(nat \<Rightarrow> drv) \<Rightarrow> (nat \<Rightarrow> time) \<Rightarrow> string \<Rightarrow> string option \<Rightarrow> subject option \<Rightarrow> http_request \<Rightarrow> db \<Rightarrow> response \<times> db" where
  "admin_RevokeCert F clk serial body ctx r d =
     (case ctx of
        None \<Rightarrow> (WriteError ErrUnauthorized, d)
      | Some subj \<Rightarrow>
        if serial = [] then (WriteError ErrInvalidInput, d)
        else
          (let reason = (case body of Some (c # cs) \<Rightarrow> c # cs | _ \<Rightarrow> ''admin-revocation'') in
           case RevokeDeviceCert (F 0) (clk 0) serial reason d of
             (Some err, d') \<Rightarrow> (WriteError err, d')
           | (None, d') \<Rightarrow>
               (let (_, d'') = audit_Append (InsertAuditEvent (F 1)) (clk 1)
                  (admin_event (formatSubjectForAudit subj) ''revoke_device_cert'' (''device_cert:'' @ serial) reason
                     (extractRemoteIP r)) d' in
                (WriteJSON 200 (PFields [(''status'', ''revoked''), (''serial'', serial)]), d''))))"

subsection \<open>The catalogue (\<open>resources.go\<close>)\<close>

definition toDTO :: "published_resource \<Rightarrow> bool \<Rightarrow> resource_dto" where
  "toDTO r includeBackend =
     \<lparr>dto_name = p_name r, dto_display_name = p_display_name r, dto_type = p_type r,
      dto_access_mode = p_access_mode r, dto_description = p_description r, dto_gateway_id = p_gateway_id r,
      dto_group_match = (if includeBackend then p_group_match r else []),
      dto_backend = (if includeBackend then p_backend r else [])\<rparr>"

definition user_Resources :: "drv \<Rightarrow> subject option \<Rightarrow> db \<Rightarrow> response" where
  "user_Resources drv ctx d =
     (case ctx of
        None \<Rightarrow> WriteError ErrUnauthorized
      | Some subj \<Rightarrow>
       (case ListResourcesForGroups drv (s_groups subj) d of
          Inl err \<Rightarrow> WriteError err
        | Inr rs \<Rightarrow> WriteJSON 200 (PResources (map (\<lambda>r. toDTO r False) rs))))"

definition admin_Resources :: "drv \<Rightarrow> db \<Rightarrow> response" where
  "admin_Resources drv d =
     (case ListResources drv d of
        Inl err \<Rightarrow> WriteError err
      | Inr rs \<Rightarrow> WriteJSON 200 (PResources (map (\<lambda>r. toDTO r True) rs)))"

record resource_body =
  cb_name :: string
  cb_display_name :: string
  cb_type :: string
  cb_backend :: string
  cb_gateway_id :: string
  cb_group_match :: "string list"
  cb_access_mode :: string
  cb_description :: string

definition body_resource :: "string \<Rightarrow> resource_body \<Rightarrow> published_resource" where
  "body_resource name req =
     \<lparr>p_id = [], p_name = name, p_display_name = cb_display_name req, p_type = cb_type req,
      p_backend = cb_backend req, p_gateway_id = cb_gateway_id req, p_group_match = cb_group_match req,
      p_access_mode = cb_access_mode req, p_description = cb_description req, p_created_at = 0, p_updated_at = 0\<rparr>"

definition admin_CreateResource ::
    "drv \<Rightarrow> time \<Rightarrow> 8 word list \<Rightarrow> resource_body option \<Rightarrow> db \<Rightarrow> response \<times> db" where
  "admin_CreateResource drv now rnd body d =
     (case body of
        None \<Rightarrow> (WriteError ErrInvalidInput, d)
      | Some req \<Rightarrow>
        if cb_name req = [] \<or> cb_type req = [] \<or> cb_backend req = [] \<or> cb_access_mode req = []
        then (WriteError ErrInvalidInput, d)
        else (case resource_Create (CreateResource drv now) rnd (body_resource (cb_name req) req) d of
                (Some err, d') \<Rightarrow> (WriteError err, d')
              | (None, d') \<Rightarrow> (WriteJSON 201 (PFields [(''status'', ''created''), (''name'', cb_name req)]), d')))"

definition admin_UpdateResource :: "drv \<Rightarrow> time \<Rightarrow> string \<Rightarrow> resource_body option \<Rightarrow> db \<Rightarrow> response \<times> db" where
  "admin_UpdateResource drv now name body d =
     (if name = [] then (WriteError ErrInvalidInput, d)
      else (case body of
        None \<Rightarrow> (WriteError ErrInvalidInput, d)
      | Some req \<Rightarrow>
       (case resource_Update (UpdateResource drv now) (body_resource name req) d of
          (Some err, d') \<Rightarrow> (WriteError err, d')
        | (None, d') \<Rightarrow> (WriteJSON 200 (PFields [(''status'', ''updated''), (''name'', name)]), d'))))"

definition admin_DeleteResource :: "drv \<Rightarrow> string \<Rightarrow> db \<Rightarrow> response \<times> db" where
  "admin_DeleteResource drv name d =
     (if name = [] then (WriteError ErrInvalidInput, d)
      else (case resource_Delete (DeleteResource drv) name d of
              (Some err, d') \<Rightarrow> (WriteError err, d')
            | (None, d') \<Rightarrow> (WriteJSON 200 (PFields [(''status'', ''deleted''), (''name'', name)]), d')))"

definition user_Whoami :: "subject option \<Rightarrow> response" where
  "user_Whoami ctx = (case ctx of None \<Rightarrow> WriteError ErrUnauthorized | Some subj \<Rightarrow> WriteJSON 200 (PSubject subj))"

end
