(* ===== verification/SSH_Credentials.thy ===== *)
theory SSH_Credentials
  imports Store_Properties
begin

text \<open>
  Issuing SSH user certificates: \<open>control-plane/internal/service/credentials/service.go\<close> and
  \<open>crypto/sshca/sshca.go\<close>.  Parsing the public key, and signing and marshalling the
  certificate are \<open>golang.org/x/crypto/ssh\<close>'s: the parameters \<open>parseKey\<close> and \<open>signCert\<close>.
\<close>

record sshca_config =
  sc_default_ttl :: string
  sc_min_ttl :: string
  sc_max_ttl :: string
  sc_allowed_principals :: "string list"

definition resolve_one :: "subject \<Rightarrow> string \<Rightarrow> string" where
  "resolve_one subj raw =
     TrimSpace (ReplaceAll (ReplaceAll raw ''${username}'' (s_username subj)) ''${sub}'' (s_sub subj))"

definition resolvePrincipals :: "string list \<Rightarrow> subject \<Rightarrow> string list" where
  "resolvePrincipals allowed subj = filter (\<lambda>v. v \<noteq> []) (map (resolve_one subj) allowed)"

definition parseDurationOrZero :: "string \<Rightarrow> duration" where
  "parseDurationOrZero raw = (if raw = [] then 0 else case ParseDuration raw of None \<Rightarrow> 0 | Some d \<Rightarrow> d)"

text \<open>The filtering loop: \<open>filtered\<close> also serves as the set \<open>seen\<close>.\<close>

fun filter_requested :: "string list \<Rightarrow> string list \<Rightarrow> string list \<Rightarrow> string list" where
  "filter_requested allowed filtered [] = filtered"
| "filter_requested allowed filtered (v # vs) =
     (let trimmed = TrimSpace v in
      if trimmed = [] then filter_requested allowed filtered vs
      else if trimmed \<notin> set allowed then filter_requested allowed filtered vs
      else if trimmed \<in> set filtered then filter_requested allowed filtered vs
      else filter_requested allowed (filtered @ [trimmed]) vs)"

fun containsPrincipal :: "string list \<Rightarrow> string \<Rightarrow> bool" where
  "containsPrincipal [] target = False"
| "containsPrincipal (v # vs) target = (v = target \<or> containsPrincipal vs target)"

lemma containsPrincipal_iff [simp]: "containsPrincipal vs target \<longleftrightarrow> target \<in> set vs"
  by (induction vs) auto

text \<open>\<open>allowed[0]\<close> of an empty list panics; the only caller has checked the length.\<close>

definition resolveRequestedPrincipals :: "string list \<Rightarrow> string list \<Rightarrow> string \<Rightarrow> string list res" where
  "resolveRequestedPrincipals requested allowed username =
     (if requested = [] then
        (if username \<noteq> [] \<and> username \<in> set allowed then Inr [username]
         else (case allowed of a # _ \<Rightarrow> Inr [a] | [] \<Rightarrow> Inl (Errorf ''panic: index out of range'')))
      else
        (let filtered = filter_requested allowed [] requested in
         if filtered = [] then Inl ErrInvalidInput
         else if username \<noteq> [] \<and> username \<in> set allowed \<and> \<not> containsPrincipal filtered username then Inl ErrInvalidInput
         else Inr filtered))"

subsection \<open>The certificate (\<open>crypto/sshca\<close>)\<close>

record 'k ssh_certificate =
  cert_key :: 'k
  cert_serial :: "64 word"
  cert_key_id :: string
  cert_principals :: "string list"
  cert_valid_after :: "64 word"
  cert_valid_before :: "64 word"

text \<open>\<open>t.Unix()\<close>\<close>

definition unix :: "time \<Rightarrow> int" where
  "unix t = t div Second"

definition ssh_template :: "'k \<Rightarrow> string list \<Rightarrow> duration \<Rightarrow> string \<Rightarrow> time \<Rightarrow> 'k ssh_certificate" where
  "ssh_template key principals ttl keyID0 now =
     (let keyID = (if keyID0 = [] \<and> principals \<noteq> [] then hd principals else keyID0) in
      \<lparr>cert_key = key, cert_serial = word_of_int now, cert_key_id = keyID, cert_principals = principals,
       cert_valid_after = word_of_int (unix (now - 30 * Second)),
       cert_valid_before = word_of_int (unix (now + ttl))\<rparr>)"

definition SignUserCert ::
    "('k ssh_certificate \<Rightarrow> goerr + string) \<Rightarrow> 'k \<Rightarrow> string list \<Rightarrow> duration \<Rightarrow> string \<Rightarrow> time \<Rightarrow> (string \<times> time) res" where
  "SignUserCert signCert key principals ttl keyID now =
     (let cert = ssh_template key principals ttl keyID now in
      case signCert cert of
        Inl err \<Rightarrow> Inl (Wrapf ''sign ssh cert: '' err [])
      | Inr text \<Rightarrow> Inr (text, sint (cert_valid_before cert) * Second))"

subsection \<open>Issuing\<close>

record issue_request =
  ir_subject :: subject
  ir_public_key :: string
  ir_ttl :: "duration option"
  ir_principals :: "string list"

record issue_response =
  is_certificate :: string
  is_valid_before :: time
  is_key_id :: string
  is_principals :: "string list"

text \<open>The lifetime \<open>IssueSSHCert\<close> and \<open>IssueDeviceCert\<close> grant: too short is refused, too long is cut.\<close>

definition clamp_ttl :: "duration \<Rightarrow> duration \<Rightarrow> duration \<Rightarrow> duration option" where
  "clamp_ttl minTTL maxTTL ttl =
     (if 0 < minTTL \<and> ttl < minTTL then None
      else if 0 < maxTTL \<and> maxTTL < ttl then Some maxTTL else Some ttl)"

definition IssueSSHCert ::
    "(subject \<Rightarrow> 's \<Rightarrow> goerr option \<times> 's) \<Rightarrow> (string \<Rightarrow> 'k res) \<Rightarrow> ('k ssh_certificate \<Rightarrow> goerr + string)
     \<Rightarrow> sshca_config \<Rightarrow> time \<Rightarrow> issue_request \<Rightarrow> 's \<Rightarrow> issue_response res \<times> 's" where
  "IssueSSHCert upsert parseKey signCert cfg now req s =
     (case upsert (ir_subject req) s of
        (Some err, s') \<Rightarrow> (Inl err, s')
      | (None, s') \<Rightarrow>
       ((case parseKey (ir_public_key req) of
           Inl err \<Rightarrow> Inl (Wrapf ''parse public key: '' err [])
         | Inr parsedKey \<Rightarrow>
        (case ParseDuration (sc_default_ttl cfg) of
           None \<Rightarrow> Inl (Wrapf ''invalid sshca default ttl: '' (Errorf ''time: invalid duration'') [])
         | Some ttl0 \<Rightarrow>
          (let ttl1 = (case ir_ttl req of None \<Rightarrow> ttl0 | Some t \<Rightarrow> t) in
           case clamp_ttl (parseDurationOrZero (sc_min_ttl cfg)) (parseDurationOrZero (sc_max_ttl cfg)) ttl1 of
             None \<Rightarrow> Inl ErrInvalidInput
           | Some ttl \<Rightarrow>
            (let allowed = resolvePrincipals (sc_allowed_principals cfg) (ir_subject req) in
             if allowed = [] then Inl ErrInvalidInput
             else (case resolveRequestedPrincipals (ir_principals req) allowed (s_username (ir_subject req)) of
                 Inl err \<Rightarrow> Inl err
               | Inr principals \<Rightarrow>
                (let keyID = (if s_sub (ir_subject req) = [] then s_username (ir_subject req) else s_sub (ir_subject req)) in
                 case SignUserCert signCert parsedKey principals ttl keyID now of
                   Inl err \<Rightarrow> Inl err
                 | Inr (cert, validBefore) \<Rightarrow>
                     Inr \<lparr>is_certificate = cert, is_valid_before = validBefore, is_key_id = keyID,
                          is_principals = principals\<rparr>)))))), s'))"

subsection \<open>Principals\<close>

lemma filter_requested_props:
  "distinct acc \<Longrightarrow> set acc \<subseteq> set allowed \<Longrightarrow> [] \<notin> set acc \<Longrightarrow>
   distinct (filter_requested allowed acc vs) \<and>
   set (filter_requested allowed acc vs) = set acc \<union> {t \<in> TrimSpace ` set vs. t \<noteq> [] \<and> t \<in> set allowed}"
  by (induction allowed acc vs rule: filter_requested.induct) (auto simp: Let_def)

lemma resolvePrincipals_nonempty: "p \<in> set (resolvePrincipals allowed subj) \<Longrightarrow> p \<noteq> []"
  by (auto simp: resolvePrincipals_def)

lemma resolveRequestedPrincipals_sound:
  assumes "resolveRequestedPrincipals requested allowed username = Inr ps"
  shows "ps \<noteq> []" "distinct ps" "set ps \<subseteq> set allowed"
    "username \<noteq> [] \<Longrightarrow> username \<in> set allowed \<Longrightarrow> username \<in> set ps"
    "requested \<noteq> [] \<Longrightarrow> set ps \<subseteq> TrimSpace ` set requested"
  using assms filter_requested_props[of "[]" allowed requested]
  by (auto simp: resolveRequestedPrincipals_def Let_def split: if_splits list.splits)

lemma clamp_ttl_bounds:
  "clamp_ttl minTTL maxTTL t = Some ttl \<Longrightarrow> (0 < maxTTL \<longrightarrow> ttl \<le> maxTTL) \<and>
     (0 < minTTL \<longrightarrow> minTTL \<le> ttl \<or> ttl = maxTTL) \<and> (ttl \<noteq> t \<longrightarrow> ttl = maxTTL \<and> maxTTL < t)"
  by (auto simp: clamp_ttl_def split: if_splits)

lemma unix_bounds: "unix t * Second \<le> t" "t < (unix t + 1) * Second"
  using div_mult_mod_eq[of t Second] pos_mod_bound[of Second t] pos_mod_sign[of Second t]
  by (simp_all add: unix_def algebra_simps)

lemma unix_small: "- (2 ^ 63) \<le> t \<Longrightarrow> t < 2 ^ 64 \<Longrightarrow> in_int64 (unix t)"
  using unix_bounds[of t] by (simp add: in_int64_def)

lemma IssueSSHCert_Inr:
  assumes "IssueSSHCert upsert parseKey signCert cfg now req s = (Inr resp, s')"
  obtains key ttl0 ttl cert where "upsert (ir_subject req) s = (None, s')"
    "parseKey (ir_public_key req) = Inr key" "ParseDuration (sc_default_ttl cfg) = Some ttl0"
    "clamp_ttl (parseDurationOrZero (sc_min_ttl cfg)) (parseDurationOrZero (sc_max_ttl cfg))
       (case ir_ttl req of None \<Rightarrow> ttl0 | Some t \<Rightarrow> t) = Some ttl"
    "resolveRequestedPrincipals (ir_principals req)
       (resolvePrincipals (sc_allowed_principals cfg) (ir_subject req)) (s_username (ir_subject req)) = Inr (is_principals resp)"
    "cert = ssh_template key (is_principals resp) ttl (is_key_id resp) now"
    "is_key_id resp = (if s_sub (ir_subject req) = [] then s_username (ir_subject req) else s_sub (ir_subject req))"
    "signCert cert = Inr (is_certificate resp)"
    "is_valid_before resp = sint (cert_valid_before cert) * Second"
  using assms unfolding IssueSSHCert_def SignUserCert_def Let_def
  by (auto split: prod.splits option.splits sum.splits if_splits)

lemma parseDurationOrZero_range: "in_int64 (parseDurationOrZero raw)"
  using ParseDuration_range by (auto simp: parseDurationOrZero_def in_int64_def split: option.split)

subsection \<open>Properties\<close>

text \<open>C19: who an SSH certificate names.  Every certificate signed for a user is for the key of the
  request and lists, without repetition, at least one principal; each is one of the configured
  patterns with the user's own name or identifier filled in, none is empty, and the username is
  among them whenever the configuration allows it.\<close>

theorem ssh_cert_principals:
  assumes "IssueSSHCert upsert parseKey signCert cfg now req s = (Inr resp, s')"
  shows "\<exists>cert. signCert cert = Inr (is_certificate resp) \<and> Inr (cert_key cert) = parseKey (ir_public_key req) \<and>
    cert_principals cert = is_principals resp \<and> is_principals resp \<noteq> [] \<and> distinct (is_principals resp) \<and>
    set (is_principals resp) \<subseteq> resolve_one (ir_subject req) ` set (sc_allowed_principals cfg) - {[]} \<and>
    (s_username (ir_subject req) \<in> set (resolvePrincipals (sc_allowed_principals cfg) (ir_subject req)) \<longrightarrow>
       s_username (ir_subject req) \<in> set (is_principals resp))"
  using assms
proof (rule IssueSSHCert_Inr)
  fix key ttl0 ttl cert
  assume a: "parseKey (ir_public_key req) = Inr key" "cert = ssh_template key (is_principals resp) ttl (is_key_id resp) now"
    "signCert cert = Inr (is_certificate resp)" and
    r: "resolveRequestedPrincipals (ir_principals req)
       (resolvePrincipals (sc_allowed_principals cfg) (ir_subject req)) (s_username (ir_subject req)) = Inr (is_principals resp)"
  note sound = resolveRequestedPrincipals_sound[OF r]
  have "set (is_principals resp) \<subseteq> resolve_one (ir_subject req) ` set (sc_allowed_principals cfg) - {[]}"
    using sound(3) by (auto simp: resolvePrincipals_def)
  moreover have "s_username (ir_subject req) \<in> set (resolvePrincipals (sc_allowed_principals cfg) (ir_subject req)) \<longrightarrow>
       s_username (ir_subject req) \<in> set (is_principals resp)"
    using sound(4) resolvePrincipals_nonempty by blast
  ultimately show ?thesis using a sound(1,2) by (intro exI[of _ cert]) (simp add: ssh_template_def Let_def)
qed

definition ex_ssh_cfg :: sshca_config where
  "ex_ssh_cfg = \<lparr>sc_default_ttl = ''5m'', sc_min_ttl = ''1m'', sc_max_ttl = ''1h'',
     sc_allowed_principals = [''${username}'', ''dev-${sub}'', ''${none} '']\<rparr>"

definition ex_issue :: issue_request where
  "ex_issue = \<lparr>ir_subject = ex_alice, ir_public_key = ''ssh-ed25519 AAAA'', ir_ttl = Some (100 * Hour),
     ir_principals = [s_username ex_alice, s_username ex_alice, ''root'']\<rparr>"

definition ex_sign :: "string ssh_certificate \<Rightarrow> goerr + string" where
  "ex_sign cert = Inr (''cert-'' @ cert_key_id cert)"

definition ex_ssh_issued :: "issue_response res \<times> db" where
  "ex_ssh_issued = IssueSSHCert (UpsertUser no_fault ex_now) Inr ex_sign ex_ssh_cfg ex_now ex_issue empty_db"

lemma ex_ssh_issued_ok: "\<exists>resp. ex_ssh_issued = (Inr resp, snd ex_ssh_issued)"
proof -
  have "is_ok (fst ex_ssh_issued)" by code_simp
  then obtain resp where "fst ex_ssh_issued = Inr resp" by (cases "fst ex_ssh_issued") auto
  then show ?thesis by (metis prod.collapse)
qed

theorem ssh_cert_principals_witness:
  "\<exists>resp. fst ex_ssh_issued = Inr resp \<and> is_principals resp \<noteq> [] \<and> distinct (is_principals resp) \<and>
     s_username ex_alice \<in> set (is_principals resp)"
proof -
  obtain resp where r: "ex_ssh_issued = (Inr resp, snd ex_ssh_issued)" using ex_ssh_issued_ok by blast
  have i: "ir_subject ex_issue = ex_alice" by (simp add: ex_issue_def)
  have "s_username ex_alice \<in> set (resolvePrincipals (sc_allowed_principals ex_ssh_cfg) ex_alice)" by code_simp
  with ssh_cert_principals[OF r[unfolded ex_ssh_issued_def]] r show ?thesis
    unfolding i by (metis fst_conv)
qed

text \<open>How long an SSH certificate lasts.  With a maximum configured, no request makes the
  certificate valid after \<open>now\<close> plus the maximum; with a minimum (not above the maximum) it is
  valid for at least the minimum, to the second; no 64-bit wrap-around enters the validity, and
  it begins no more than 31 seconds before it is issued.\<close>

theorem ssh_cert_lifetime:
  assumes "IssueSSHCert upsert parseKey signCert cfg now req s = (Inr resp, s')"
    and "0 \<le> now" "now \<le> 2 ^ 62"
    and "0 < parseDurationOrZero (sc_min_ttl cfg)"
    and "parseDurationOrZero (sc_min_ttl cfg) \<le> parseDurationOrZero (sc_max_ttl cfg)"
  shows "is_valid_before resp \<le> now + parseDurationOrZero (sc_max_ttl cfg) \<and>
    now + parseDurationOrZero (sc_min_ttl cfg) < is_valid_before resp + Second \<and>
    (\<exists>cert. signCert cert = Inr (is_certificate resp) \<and>
       is_valid_before resp = uint (cert_valid_before cert) * Second \<and>
       now - 31 * Second < sint (cert_valid_after cert) * Second)"
  using assms(1)
proof (rule IssueSSHCert_Inr)
  fix key ttl0 ttl cert
  let ?min = "parseDurationOrZero (sc_min_ttl cfg)" and ?max = "parseDurationOrZero (sc_max_ttl cfg)"
  assume c: "clamp_ttl ?min ?max (case ir_ttl req of None \<Rightarrow> ttl0 | Some t \<Rightarrow> t) = Some ttl"
    and cert: "cert = ssh_template key (is_principals resp) ttl (is_key_id resp) now"
    "signCert cert = Inr (is_certificate resp)" "is_valid_before resp = sint (cert_valid_before cert) * Second"
  have b: "?min \<le> ttl" "ttl \<le> ?max" using clamp_ttl_bounds[OF c] assms(4,5) by auto
  have "?max < 2 ^ 63" using parseDurationOrZero_range[of "sc_max_ttl cfg"] by (simp add: in_int64_def)
  with b assms have "0 \<le> now + ttl" "now + ttl < 2 ^ 64" by auto
  then have u: "in_int64 (unix (now + ttl))" "0 \<le> unix (now + ttl)"
    using unix_small[of "now + ttl"] by (simp_all add: unix_def pos_imp_zdiv_nonneg_iff)
  have vb: "sint (cert_valid_before cert) = unix (now + ttl)" "uint (cert_valid_before cert) = unix (now + ttl)"
    using u wrap64_id[OF u(1)]
    by (simp_all add: cert ssh_template_def Let_def in_int64_def wrap64_def uint_word_of_int)
  have va: "sint (cert_valid_after cert) = unix (now - 30 * Second)"
    using unix_small[of "now - 30 * Second"] assms(2,3)
    by (simp add: cert ssh_template_def Let_def wrap64_id[unfolded wrap64_def])
  show ?thesis
    using unix_bounds[of "now + ttl"] unix_bounds[of "now - 30 * Second"] b cert vb va
    by (intro conjI exI[of _ cert]) (simp_all add: algebra_simps)
qed

theorem ssh_cert_lifetime_witness:
  "\<exists>resp. fst ex_ssh_issued = Inr resp \<and> is_valid_before resp \<le> ex_now + Hour \<and>
     ex_now + Minute < is_valid_before resp + Second"
proof -
  obtain resp where r: "ex_ssh_issued = (Inr resp, snd ex_ssh_issued)" using ex_ssh_issued_ok by blast
  have d: "parseDurationOrZero (sc_min_ttl ex_ssh_cfg) = Minute" "parseDurationOrZero (sc_max_ttl ex_ssh_cfg) = Hour"
    by code_simp+
  have n: "0 \<le> ex_now" "ex_now \<le> 2 ^ 62" by (simp_all add: ex_now_def)
  have "is_valid_before resp \<le> ex_now + Hour \<and> ex_now + Minute < is_valid_before resp + Second"
    using ssh_cert_lifetime[OF r[unfolded ex_ssh_issued_def] n] unfolding d by simp
  with r show ?thesis by (metis fst_conv)
qed

end
