(* ===== verification/Device_Credentials.thy ===== *)
theory Device_Credentials
  imports SSH_Credentials Telemetry_Services
begin

text \<open>
  Issuing and revoking device certificates: \<open>control-plane/internal/crypto/deviceca/deviceca.go\<close>
  and \<open>service/credentials/device_cert.go\<close>.  PEM, ASN.1, the signatures and SHA-256 are the
  library's: the record \<open>pki\<close> of functions.  What the code relies on of them is \<open>pki_ok\<close>:
  parsing what was created and encoded gives the serial number and the expiry, to the second.
  The clock is read once per use: \<open>SignClientCSR\<close> and its caller read it separately.
\<close>

subsection \<open>Serial numbers\<close>

text \<open>\<open>fmt.Sprintf("%x", n.Bytes())\<close>: the big-endian bytes without leading zeros.\<close>

fun nat_bytes :: "nat \<Rightarrow> 8 word list" where
  "nat_bytes n = (if n = 0 then [] else nat_bytes (n div 256) @ [of_nat (n mod 256)])"

declare nat_bytes.simps [simp del]

definition serial_hex :: "nat \<Rightarrow> string" where
  "serial_hex n = hex_bytes (nat_bytes n)"

definition hex_val :: "char \<Rightarrow> nat option" where
  "hex_val c = (let n = (of_char c :: nat) in
     if 48 \<le> n \<and> n \<le> 57 then Some (n - 48)
     else if 97 \<le> n \<and> n \<le> 102 then Some (n - 87)
     else if 65 \<le> n \<and> n \<le> 70 then Some (n - 55) else None)"

fun hex_nat :: "string \<Rightarrow> nat \<Rightarrow> nat option" where
  "hex_nat [] acc = Some acc"
| "hex_nat (c # cs) acc = (case hex_val c of None \<Rightarrow> None | Some v \<Rightarrow> hex_nat cs (acc * 16 + v))"

text \<open>\<open>big.Int.SetString(h, 16)\<close>: an optional sign and at least one digit.\<close>

definition serialFromHex :: "string \<Rightarrow> int option" where
  "serialFromHex h =
     (let (neg, ds) = (case h of [] \<Rightarrow> (False, [])
                       | c # r \<Rightarrow> if c = CHR ''-'' then (True, r) else if c = CHR ''+'' then (False, r) else (False, h)) in
      if ds = [] then None
      else (case hex_nat ds 0 of None \<Rightarrow> None | Some v \<Rightarrow> Some (if neg then - int v else int v)))"

subsection \<open>The certificate authority\<close>

datatype key_kind = EcdsaP256 | EcdsaOther | RsaKey | OtherKey string

text \<open>\<open>fmt.Sprintf("%T", pub)\<close>, and the name \<open>checkKeyType\<close> gives the key.\<close>

fun key_type_name :: "key_kind \<Rightarrow> string" where
  "key_type_name EcdsaP256 = ''*ecdsa.PublicKey''"
| "key_type_name EcdsaOther = ''*ecdsa.PublicKey''"
| "key_type_name RsaKey = ''*rsa.PublicKey''"
| "key_type_name (OtherKey t) = t"

definition key_got :: "key_kind \<Rightarrow> string" where
  "key_got k =
     (let got = (case k of EcdsaP256 \<Rightarrow> ''ecdsa-p256'' | EcdsaOther \<Rightarrow> ''ecdsa-other'' | RsaKey \<Rightarrow> ''rsa''
                 | OtherKey t \<Rightarrow> t) in
      if Contains (key_type_name k) ''ed25519'' then ''ed25519'' else got)"

definition checkKeyType :: "key_kind \<Rightarrow> string list \<Rightarrow> goerr option" where
  "checkKeyType pub allowed =
     (if allowed = [] then None
      else (let got = key_got pub in
        if list_ex (\<lambda>a. EqualFold a got \<or> (EqualFold a ''ecdsa'' \<and> HasPrefix got ''ecdsa'')) allowed then None
        else Some (Errorf (''device ca: key type '' @ got @ '' not allowed''))))"

record x509_template =
  xt_serial :: nat
  xt_common_name :: string
  xt_serial_number :: string
  xt_organization :: "string list"
  xt_not_before :: time
  xt_not_after :: time
  xt_client_auth :: bool
  xt_is_ca :: bool

record revocation_list =
  rl_number :: int
  rl_this_update :: time
  rl_next_update :: time
  rl_revoked :: "(int \<times> time) list"

record ('c, 'k) pki =
  pk_decode :: "string \<Rightarrow> (string \<times> string) option"   \<comment> \<open>pem.Decode: block type and bytes\<close>
  pk_parse_csr :: "string \<Rightarrow> 'c res"
  pk_check_sig :: "'c \<Rightarrow> goerr option"
  pk_key :: "'c \<Rightarrow> 'k"
  pk_kind :: "'k \<Rightarrow> key_kind"
  pk_create :: "x509_template \<Rightarrow> 'k \<Rightarrow> string res"
  pk_encode :: "string \<Rightarrow> string"                     \<comment> \<open>pem.EncodeToMemory of a CERTIFICATE block\<close>
  pk_parse_cert :: "string \<Rightarrow> (nat \<times> time) res"        \<comment> \<open>serial number and NotAfter\<close>
  pk_sha256 :: "string \<Rightarrow> 8 word list"
  pk_ca_cert :: string                                  \<comment> \<open>the DER bytes of the authority's certificate\<close>
  pk_create_crl :: "revocation_list \<Rightarrow> string res"

definition pki_ok :: "('c, 'k) pki \<Rightarrow> bool" where
  "pki_ok P \<longleftrightarrow> (\<forall>t k raw. pk_create P t k = Inr raw \<longrightarrow>
     pk_decode P (pk_encode P raw) = Some (''CERTIFICATE'', raw) \<and>
     pk_parse_cert P raw = Inr (xt_serial t, unix (xt_not_after t) * Second))"

definition CACertPEM :: "('c, 'k) pki \<Rightarrow> string" where
  "CACertPEM P = pk_encode P (pk_ca_cert P)"

definition join_with :: "char \<Rightarrow> string list \<Rightarrow> string" where
  "join_with c parts = (case parts of [] \<Rightarrow> [] | p # ps \<Rightarrow> p @ concat (map (\<lambda>x. c # x) ps))"

definition certFingerprint :: "('c, 'k) pki \<Rightarrow> string \<Rightarrow> string" where
  "certFingerprint P raw = join_with (CHR '':'') (map hex_byte (pk_sha256 P raw))"

text \<open>\<open>rnd\<close> is what \<open>randSerial\<close> returns: a number below \<open>2 ^ 128\<close>, or the error of the generator.\<close>

definition SignClientCSR ::
    "('c, 'k) pki \<Rightarrow> nat res \<Rightarrow> time \<Rightarrow> string \<Rightarrow> string \<Rightarrow> string \<Rightarrow> string list \<Rightarrow> duration \<Rightarrow> string list
     \<Rightarrow> (string \<times> string) res" where
  "SignClientCSR P rnd now csrPEM username sub groups ttl allowedKeyTypes =
     (case pk_decode P csrPEM of
        None \<Rightarrow> Inl (Errorf ''device ca: invalid CSR PEM'')
      | Some (btype, bytes) \<Rightarrow>
        if btype \<noteq> ''CERTIFICATE REQUEST'' then Inl (Errorf ''device ca: invalid CSR PEM'')
        else (case pk_parse_csr P bytes of
          Inl err \<Rightarrow> Inl (Wrapf ''device ca: parse CSR: '' err [])
        | Inr csr \<Rightarrow>
       (case pk_check_sig P csr of
          Some err \<Rightarrow> Inl (Wrapf ''device ca: invalid CSR signature: '' err [])
        | None \<Rightarrow>
       (case checkKeyType (pk_kind P (pk_key P csr)) allowedKeyTypes of
          Some err \<Rightarrow> Inl err
        | None \<Rightarrow>
       (case rnd of
          Inl err \<Rightarrow> Inl (Wrapf ''device ca: random serial: '' err [])
        | Inr serial \<Rightarrow>
         (let tmpl = \<lparr>xt_serial = serial, xt_common_name = username, xt_serial_number = sub,
                xt_organization = groups, xt_not_before = now - 30 * Second, xt_not_after = now + ttl,
                xt_client_auth = True, xt_is_ca = False\<rparr> in
          case pk_create P tmpl (pk_key P csr) of
            Inl err \<Rightarrow> Inl (Wrapf ''device ca: sign CSR: '' err [])
          | Inr raw \<Rightarrow> Inr (pk_encode P raw, certFingerprint P raw)))))))"

definition ca_GenerateCRL :: "('c, 'k) pki \<Rightarrow> time \<Rightarrow> (int \<times> time) list \<Rightarrow> string res" where
  "ca_GenerateCRL P now revoked =
     (case pk_create_crl P \<lparr>rl_number = now, rl_this_update = now, rl_next_update = now + 24 * Hour,
             rl_revoked = revoked\<rparr> of
        Inl err \<Rightarrow> Inl (Wrapf ''device ca: create CRL: '' err [])
      | Inr der \<Rightarrow> Inr der)"

subsection \<open>The service\<close>

record deviceca_config =
  dv_default_ttl :: string
  dv_min_ttl :: string
  dv_max_ttl :: string
  dv_allowed_key_types :: "string list"

record device_request =
  dr_subject :: subject
  dr_csr_pem :: string
  dr_ttl :: "duration option"

record device_response =
  dp_certificate_pem :: string
  dp_ca_cert_pem :: string
  dp_serial :: string
  dp_expires_at :: time
  dp_fingerprint :: string

definition isKeyTypeError :: "goerr \<Rightarrow> bool" where
  "isKeyTypeError err = Contains (err_text err) ''not allowed''"

definition extractCertMeta :: "('c, 'k) pki \<Rightarrow> string \<Rightarrow> (string \<times> time) res" where
  "extractCertMeta P certPEM =
     (case pk_decode P certPEM of
        None \<Rightarrow> Inl (Errorf ''invalid cert PEM'')
      | Some (_, bytes) \<Rightarrow>
       (case pk_parse_cert P bytes of
          Inl err \<Rightarrow> Inl err
        | Inr (serial, notAfter) \<Rightarrow> Inr (serial_hex serial, notAfter)))"

definition device_ttl :: "deviceca_config \<Rightarrow> duration option \<Rightarrow> duration" where
  "device_ttl cfg req =
     (let ttl0 = parseDurationOrZero (dv_default_ttl cfg);
          ttl1 = (if ttl0 = 0 then 7 * 24 * Hour else ttl0) in
      case req of None \<Rightarrow> ttl1 | Some t \<Rightarrow> t)"

definition IssueDeviceCert ::
    "(device_cert \<Rightarrow> 's \<Rightarrow> goerr option \<times> 's) \<Rightarrow> ('c, 'k) pki \<Rightarrow> nat res \<Rightarrow> deviceca_config \<Rightarrow> time \<Rightarrow> time
     \<Rightarrow> device_request \<Rightarrow> 's \<Rightarrow> device_response res \<times> 's" where
  "IssueDeviceCert store P rnd cfg now1 now2 req s =
     (if dr_csr_pem req = [] then (Inl ErrInvalidInput, s)
      else if s_username (dr_subject req) = [] then (Inl ErrInvalidInput, s)
      else (case clamp_ttl (parseDurationOrZero (dv_min_ttl cfg)) (parseDurationOrZero (dv_max_ttl cfg))
                   (device_ttl cfg (dr_ttl req)) of
        None \<Rightarrow> (Inl (Wrapf [] ErrInvalidInput '': ttl below minimum''), s)
      | Some ttl \<Rightarrow>
       (case SignClientCSR P rnd now1 (dr_csr_pem req) (s_username (dr_subject req)) (s_sub (dr_subject req))
               (s_groups (dr_subject req)) ttl (dv_allowed_key_types cfg) of
          Inl err \<Rightarrow> if isKeyTypeError err then (Inl ErrInvalidInput, s)
                     else (Inl (Wrapf ''sign device cert: '' err []), s)
        | Inr (certPEM, fingerprint) \<Rightarrow>
       (case extractCertMeta P certPEM of
          Inl err \<Rightarrow> (Inl (Wrapf ''parse signed cert: '' err []), s)
        | Inr (serial, expiresAt) \<Rightarrow>
       (case store \<lparr>dc_id = 0, dc_serial = serial, dc_sub = s_sub (dr_subject req),
               dc_username = s_username (dr_subject req), dc_fingerprint = fingerprint,
               dc_issued_at = rfc3339 now2, dc_expires_at = rfc3339 expiresAt, dc_revoked = False,
               dc_revoked_at = None, dc_revocation_reason = []\<rparr> s of
          (Some err, s') \<Rightarrow> (Inl (Wrapf ''store device cert: '' err []), s')
        | (None, s') \<Rightarrow>
            (Inr \<lparr>dp_certificate_pem = certPEM, dp_ca_cert_pem = CACertPEM P, dp_serial = serial, dp_expires_at = expiresAt,
                  dp_fingerprint = fingerprint\<rparr>, s'))))))"

text \<open>The entries of the CRL; an unreadable serial is skipped, a missing date is the current one.\<close>

definition crl_entries :: "time \<Rightarrow> device_cert list \<Rightarrow> (int \<times> time) list" where
  "crl_entries now certs =
     List.map_filter (\<lambda>c. case serialFromHex (dc_serial c) of
        None \<Rightarrow> None
      | Some n \<Rightarrow> Some (n, case dc_revoked_at c of None \<Rightarrow> now | Some t \<Rightarrow> t * Second)) certs"

definition svc_GenerateCRL ::
    "('s \<Rightarrow> device_cert list res) \<Rightarrow> ('c, 'k) pki \<Rightarrow> time \<Rightarrow> 's \<Rightarrow> string res" where
  "svc_GenerateCRL listing P now s =
     (case listing s of
        Inl err \<Rightarrow> Inl err
      | Inr revoked \<Rightarrow> ca_GenerateCRL P now (crl_entries now revoked))"

definition svc_RevokeDeviceCert ::
    "(string \<Rightarrow> string \<Rightarrow> 's \<Rightarrow> goerr option \<times> 's) \<Rightarrow> string \<Rightarrow> string \<Rightarrow> 's \<Rightarrow> goerr option \<times> 's" where
  "svc_RevokeDeviceCert revoke serial reason s = revoke serial reason s"

subsection \<open>The serial texts\<close>

lemma hex_val_digit: "n < 16 \<Longrightarrow> hex_val (hex_digit n) = Some n"
  by (auto simp: hex_val_def hex_digit_def Let_def)

lemma byte_less: "unat (b :: 8 word) < 256"
proof -
  have "(unsigned b :: nat) < 2 ^ LENGTH(8)" by (rule unsigned_less)
  then show ?thesis by simp
qed

lemma hex_nat_byte: "hex_nat (hex_byte b @ cs) acc = hex_nat cs (acc * 256 + unat b)"
proof -
  have "unat b < 256" by (rule byte_less)
  then have "unat b div 16 < 16" by simp
  moreover have "(acc * 16 + u div 16) * 16 + u mod 16 = acc * 256 + u" for u :: nat
    by presburger
  ultimately show ?thesis by (simp add: hex_byte_def hex_val_digit add.commute mult.commute)
qed

lemma hex_bytes_append [simp]: "hex_bytes (bs @ bs') = hex_bytes bs @ hex_bytes bs'"
  by (simp add: hex_bytes_def)

lemma hex_bytes_simps [simp]: "hex_bytes [] = []" "hex_bytes (b # bs) = hex_byte b @ hex_bytes bs"
  by (simp_all add: hex_bytes_def)

lemma hex_nat_append:
  "hex_nat (xs @ ys) acc = (case hex_nat xs acc of None \<Rightarrow> None | Some v \<Rightarrow> hex_nat ys v)"
  by (induction xs arbitrary: acc) (auto split: option.split)

lemma hex_nat_bytes: "hex_nat (hex_bytes (nat_bytes n)) 0 = Some n"
proof (induction n rule: nat_bytes.induct)
  case (1 n)
  have "unat (of_nat (n mod 256) :: 8 word) = n mod 256"
    by (simp add: unat_of_nat)
  with 1 show ?case
    by (simp add: nat_bytes.simps[of n] hex_nat_append hex_nat_byte[of _ "[]", simplified])
qed

lemma serial_hex_head:
  assumes "0 < n"
  shows "\<exists>v r. serial_hex n = hex_digit v # r \<and> v < 16"
proof -
  have "nat_bytes n \<noteq> []" using assms by (simp add: nat_bytes.simps[of n])
  then obtain b bs where "nat_bytes n = b # bs" by (cases "nat_bytes n") auto
  moreover have "unat b < 256" by (rule byte_less)
  ultimately show ?thesis by (auto simp: serial_hex_def hex_byte_def)
qed

lemma hex_digit_no_sign: "v < 16 \<Longrightarrow> hex_digit v \<noteq> CHR ''-'' \<and> hex_digit v \<noteq> CHR ''+''"
  using hex_val_digit[of v] by (auto simp: hex_val_def Let_def)

lemma serialFromHex_serial_hex: "0 < n \<Longrightarrow> serialFromHex (serial_hex n) = Some (int n)"
proof -
  assume "0 < n"
  then obtain v r where h: "serial_hex n = hex_digit v # r" "v < 16" using serial_hex_head by blast
  moreover have "hex_nat (hex_digit v # r) 0 = Some n"
    using hex_nat_bytes[of n] h(1) by (simp add: serial_hex_def del: hex_nat.simps)
  moreover have "hex_digit v \<noteq> CHR ''-''" "hex_digit v \<noteq> CHR ''+''" using hex_digit_no_sign[OF h(2)] by auto
  ultimately show ?thesis by (simp add: serialFromHex_def del: hex_nat.simps)
qed

lemma serial_hex_inj: "serial_hex m = serial_hex n \<Longrightarrow> m = n"
  unfolding serial_hex_def using hex_nat_bytes by (metis option.inject)

subsection \<open>Issuing\<close>

lemma SignClientCSR_Inr:
  assumes "SignClientCSR P rnd now csrPEM username sub groups ttl allowed = Inr (certPEM, fp)"
  obtains bytes csr serial t raw where "pk_decode P csrPEM = Some (''CERTIFICATE REQUEST'', bytes)"
    "pk_parse_csr P bytes = Inr csr" "pk_check_sig P csr = None"
    "checkKeyType (pk_kind P (pk_key P csr)) allowed = None" "rnd = Inr serial"
    "t = \<lparr>xt_serial = serial, xt_common_name = username, xt_serial_number = sub,
          xt_organization = groups, xt_not_before = now - 30 * Second, xt_not_after = now + ttl,
          xt_client_auth = True, xt_is_ca = False\<rparr>"
    "pk_create P t (pk_key P csr) = Inr raw" "certPEM = pk_encode P raw" "fp = certFingerprint P raw"
  using assms unfolding SignClientCSR_def Let_def
  by (auto split: option.splits sum.splits if_splits)

lemma IssueDeviceCert_Inr:
  assumes "IssueDeviceCert store P rnd cfg now1 now2 req s = (Inr resp, s')"
  obtains ttl certPEM fp serial expiresAt where
    "clamp_ttl (parseDurationOrZero (dv_min_ttl cfg)) (parseDurationOrZero (dv_max_ttl cfg))
       (device_ttl cfg (dr_ttl req)) = Some ttl"
    "SignClientCSR P rnd now1 (dr_csr_pem req) (s_username (dr_subject req)) (s_sub (dr_subject req))
       (s_groups (dr_subject req)) ttl (dv_allowed_key_types cfg) = Inr (certPEM, fp)"
    "extractCertMeta P certPEM = Inr (serial, expiresAt)"
    "store \<lparr>dc_id = 0, dc_serial = serial, dc_sub = s_sub (dr_subject req),
       dc_username = s_username (dr_subject req), dc_fingerprint = fp, dc_issued_at = rfc3339 now2,
       dc_expires_at = rfc3339 expiresAt, dc_revoked = False, dc_revoked_at = None,
       dc_revocation_reason = []\<rparr> s = (None, s')"
    "resp = \<lparr>dp_certificate_pem = certPEM, dp_ca_cert_pem = CACertPEM P, dp_serial = serial, dp_expires_at = expiresAt, dp_fingerprint = fp\<rparr>"
  using assms unfolding IssueDeviceCert_def
  by (auto split: option.splits sum.splits prod.splits if_splits)

lemma StoreDeviceCert_find:
  assumes "StoreDeviceCert drv c d = (None, d')"
  shows "find (\<lambda>x. dc_serial x = dc_serial c) (db_certs d') = Some (c\<lparr>dc_id := db_seq_certs d + 1,
     dc_revoked := False, dc_revoked_at := None, dc_revocation_reason := []\<rparr>)"
proof -
  from assms have "\<not> list_ex (\<lambda>x. dc_serial x = dc_serial c) (db_certs d)"
    and d': "db_certs d' = db_certs d @ [c\<lparr>dc_id := db_seq_certs d + 1, dc_revoked := False,
       dc_revoked_at := None, dc_revocation_reason := []\<rparr>]"
    by (auto simp: StoreDeviceCert_def split: option.splits if_splits)
  then have "find (\<lambda>x. dc_serial x = dc_serial c) (db_certs d) = None" by (simp add: find_key_None)
  then show ?thesis by (simp add: d' find_append)
qed

lemma StoreDeviceCert_error: "StoreDeviceCert drv c d = (Some e, d') \<Longrightarrow> d' = d"
  by (auto simp: StoreDeviceCert_def split: option.splits if_splits)

lemma RevokeDeviceCert_find:
  assumes "RevokeDeviceCert drv now serial reason d = (None, d')"
  shows "\<exists>c. find (\<lambda>x. dc_serial x = serial) (db_certs d') = Some c \<and> dc_revoked c"
proof -
  let ?f = "\<lambda>c :: device_cert. if dc_serial c = serial \<and> \<not> dc_revoked c then c\<lparr>dc_revoked := True,
    dc_revoked_at := Some (rfc3339 now), dc_revocation_reason := reason\<rparr> else c"
  from assms have f: "filter (\<lambda>c. dc_serial c = serial \<and> \<not> dc_revoked c) (db_certs d) \<noteq> []"
    and d': "db_certs d' = map ?f (db_certs d)"
    by (auto simp: RevokeDeviceCert_def Let_def split: option.splits if_splits)
  from f obtain x where "x \<in> set (db_certs d)" "dc_serial x = serial" by (auto simp: filter_empty_conv)
  then obtain c where "find (\<lambda>x. dc_serial x = serial) (db_certs d) = Some c"
    by (metis (mono_tags, lifting) find_None_iff not_Some_eq)
  moreover from this have "dc_serial c = serial" by (blast dest: find_key_Some)
  ultimately show ?thesis
    by (auto simp: d' find_map_same_key[of dc_serial ?f])
qed

subsection \<open>Properties\<close>

text \<open>C17: what a device certificate says and what is recorded of it.  When issuing succeeds, the
  certificate is for the key of a correctly signed request whose type is allowed, names the
  authenticated user and not the contents of the request, is a client certificate that is not a
  CA, and expires no later than the configured maximum; and the database then has an unrevoked
  row with its serial, user and expiry.\<close>

theorem device_cert_issued:
  assumes "IssueDeviceCert (StoreDeviceCert drv) P rnd cfg now1 now2 req d = (Inr resp, d')"
    and "pki_ok P" and "0 < parseDurationOrZero (dv_max_ttl cfg)"
  shows "\<exists>t csr raw row. pk_create P t (pk_key P csr) = Inr raw \<and> dp_certificate_pem resp = pk_encode P raw \<and>
    pk_check_sig P csr = None \<and> checkKeyType (pk_kind P (pk_key P csr)) (dv_allowed_key_types cfg) = None \<and>
    xt_common_name t = s_username (dr_subject req) \<and> xt_serial_number t = s_sub (dr_subject req) \<and>
    xt_organization t = s_groups (dr_subject req) \<and> xt_client_auth t \<and> \<not> xt_is_ca t \<and>
    xt_not_after t \<le> now1 + parseDurationOrZero (dv_max_ttl cfg) \<and>
    dp_serial resp = serial_hex (xt_serial t) \<and>
    GetDeviceCert no_fault (dp_serial resp) d' = Inr row \<and> \<not> dc_revoked row \<and>
    dc_username row = s_username (dr_subject req) \<and> dc_sub row = s_sub (dr_subject req) \<and>
    dc_expires_at row = unix (xt_not_after t)"
  using assms(1)
proof (rule IssueDeviceCert_Inr)
  fix ttl certPEM fp serial expiresAt
  assume c: "clamp_ttl (parseDurationOrZero (dv_min_ttl cfg)) (parseDurationOrZero (dv_max_ttl cfg))
       (device_ttl cfg (dr_ttl req)) = Some ttl"
    and sign: "SignClientCSR P rnd now1 (dr_csr_pem req) (s_username (dr_subject req)) (s_sub (dr_subject req))
       (s_groups (dr_subject req)) ttl (dv_allowed_key_types cfg) = Inr (certPEM, fp)"
    and meta: "extractCertMeta P certPEM = Inr (serial, expiresAt)"
    and store: "StoreDeviceCert drv \<lparr>dc_id = 0, dc_serial = serial, dc_sub = s_sub (dr_subject req),
       dc_username = s_username (dr_subject req), dc_fingerprint = fp, dc_issued_at = rfc3339 now2,
       dc_expires_at = rfc3339 expiresAt, dc_revoked = False, dc_revoked_at = None,
       dc_revocation_reason = []\<rparr> d = (None, d')"
    and resp: "resp = \<lparr>dp_certificate_pem = certPEM, dp_ca_cert_pem = CACertPEM P, dp_serial = serial, dp_expires_at = expiresAt, dp_fingerprint = fp\<rparr>"
  from sign show ?thesis
  proof (rule SignClientCSR_Inr)
    fix bytes csr n t raw
    assume t: "t = \<lparr>xt_serial = n, xt_common_name = s_username (dr_subject req), xt_serial_number = s_sub (dr_subject req),
          xt_organization = s_groups (dr_subject req), xt_not_before = now1 - 30 * Second, xt_not_after = now1 + ttl,
          xt_client_auth = True, xt_is_ca = False\<rparr>"
      and cr: "pk_create P t (pk_key P csr) = Inr raw" "certPEM = pk_encode P raw"
      and k: "pk_check_sig P csr = None" "checkKeyType (pk_kind P (pk_key P csr)) (dv_allowed_key_types cfg) = None"
    have "pk_decode P certPEM = Some (''CERTIFICATE'', raw)" "pk_parse_cert P raw = Inr (n, unix (now1 + ttl) * Second)"
      using assms(2) cr t unfolding pki_ok_def by force+
    then have s: "serial = serial_hex n" "expiresAt = unix (now1 + ttl) * Second"
      using meta by (simp_all add: extractCertMeta_def)
    have "ttl \<le> parseDurationOrZero (dv_max_ttl cfg)" using clamp_ttl_bounds[OF c] assms(3) by blast
    then show ?thesis
      using StoreDeviceCert_find[OF store] t cr k s
      by (intro exI[of _ t] exI[of _ csr] exI[of _ raw]) (auto simp: resp GetDeviceCert_Inr rfc3339_def)
  qed
qed

definition ex_pki :: "(string, string) pki" where
  "ex_pki = \<lparr>pk_decode = (\<lambda>s. if HasPrefix s ''C:'' then Some (''CERTIFICATE'', drop 2 s)
       else if HasPrefix s ''R:'' then Some (''CERTIFICATE REQUEST'', drop 2 s) else None),
     pk_parse_csr = Inr, pk_check_sig = (\<lambda>_. None), pk_key = id, pk_kind = (\<lambda>_. OtherKey ''ed25519.PublicKey''),
     pk_create = (\<lambda>t k. if xt_serial t = 171 \<and> unix (xt_not_after t) = 1700003600 then Inr k else Inl (Errorf [])),
     pk_encode = (\<lambda>s. ''C:'' @ s), pk_parse_cert = (\<lambda>_. Inr (171, 1700003600 * Second)), pk_sha256 = (\<lambda>_. [171]),
     pk_ca_cert = ''ca'',
     pk_create_crl = (\<lambda>rl. Inr (concat (map (\<lambda>(n, _). Itoa n @ ''.'') (rl_revoked rl))))\<rparr>"

lemma ex_pki_ok: "pki_ok ex_pki"
  by (auto simp: pki_ok_def ex_pki_def HasPrefix_def split: if_splits)

definition ex_device_cfg :: deviceca_config where
  "ex_device_cfg = \<lparr>dv_default_ttl = ''1h'', dv_min_ttl = ''5m'', dv_max_ttl = ''24h'',
     dv_allowed_key_types = [''ecdsa'', ''Ed25519'']\<rparr>"

definition ex_device_issued :: "device_response res \<times> db" where
  "ex_device_issued = IssueDeviceCert (StoreDeviceCert no_fault) ex_pki (Inr 171) ex_device_cfg ex_now ex_now
     \<lparr>dr_subject = ex_alice, dr_csr_pem = ''R:key'', dr_ttl = None\<rparr> empty_db"

theorem device_cert_issued_witness:
  "\<exists>resp row. fst ex_device_issued = Inr resp \<and>
     GetDeviceCert no_fault (dp_serial resp) (snd ex_device_issued) = Inr row \<and> \<not> dc_revoked row \<and>
     dc_username row = s_username ex_alice"
proof -
  have "is_ok (fst ex_device_issued)" by code_simp
  then obtain resp where "fst ex_device_issued = Inr resp" by (cases "fst ex_device_issued") auto
  then have r: "ex_device_issued = (Inr resp, snd ex_device_issued)" by (metis prod.collapse)
  have "0 < parseDurationOrZero (dv_max_ttl ex_device_cfg)" by code_simp
  from device_cert_issued[OF r[unfolded ex_device_issued_def] ex_pki_ok this] r
  show ?thesis unfolding ex_device_issued_def[symmetric] by (metis device_request.select_convs(1) fst_conv)
qed

text \<open>A refused request leaves no trace: whenever issuing a device certificate returns an error,
  the database is unchanged.\<close>

theorem device_cert_refused:
  assumes "IssueDeviceCert (StoreDeviceCert drv) P rnd cfg now1 now2 req d = (Inl e, d')"
  shows "d' = d"
  using assms StoreDeviceCert_error
  by (auto simp: IssueDeviceCert_def split: option.splits sum.splits prod.splits if_splits)

theorem device_cert_refused_witness:
  "snd (IssueDeviceCert (StoreDeviceCert no_fault) ex_pki (Inr 171) ex_device_cfg ex_now ex_now
     \<lparr>dr_subject = ex_alice, dr_csr_pem = ''R:key'', dr_ttl = Some Minute\<rparr> ex_db_cert) = ex_db_cert"
proof -
  let ?r = "IssueDeviceCert (StoreDeviceCert no_fault) ex_pki (Inr 171) ex_device_cfg ex_now ex_now
     \<lparr>dr_subject = ex_alice, dr_csr_pem = ''R:key'', dr_ttl = Some Minute\<rparr> ex_db_cert"
  have "\<not> is_ok (fst ?r)" by code_simp
  then obtain e where "?r = (Inl e, snd ?r)" by (metis is_ok_simps(1) prod.collapse sum.exhaust)
  then show ?thesis by (rule device_cert_refused)
qed

lemma GenerateCRL_entries:
  assumes "svc_GenerateCRL (ListRevokedDeviceCerts no_fault) P now d = Inr der"
  obtains rl where "pk_create_crl P rl = Inr der"
    "fst ` set (rl_revoked rl) = {m. \<exists>c\<in>set (db_certs d). dc_revoked c \<and> serialFromHex (dc_serial c) = Some m}"
proof
  let ?certs = "order_desc dc_revoked_at (filter dc_revoked (db_certs d))"
  let ?rl = "\<lparr>rl_number = now, rl_this_update = now, rl_next_update = now + 24 * Hour,
             rl_revoked = crl_entries now ?certs\<rparr>"
  show "pk_create_crl P ?rl = Inr der"
    using assms by (auto simp: svc_GenerateCRL_def ListRevokedDeviceCerts_def ca_GenerateCRL_def split: sum.splits)
  show "fst ` set (rl_revoked ?rl) = {m. \<exists>c\<in>set (db_certs d). dc_revoked c \<and> serialFromHex (dc_serial c) = Some m}"
    by (force simp: crl_entries_def map_filter_def image_iff split: option.splits)
qed

text \<open>The row of a revoked certificate stays, so its number stays among those of the list.\<close>

lemma revoked_number_listed:
  assumes "RevokeDeviceCert drv now (serial_hex n) reason d = (None, d1)" "0 < n" "store_step\<^sup>*\<^sup>* d1 d2"
  shows "\<exists>c\<in>set (db_certs d2). dc_revoked c \<and> serialFromHex (dc_serial c) = Some (int n)"
proof -
  obtain c where c: "find (\<lambda>x. dc_serial x = serial_hex n) (db_certs d1) = Some c" "dc_revoked c"
    using RevokeDeviceCert_find[OF assms(1)] by blast
  from find_revoked_steps[OF assms(3) c] have "c \<in> set (db_certs d2)" "dc_serial c = serial_hex n"
    by (auto dest: find_key_Some)
  with c(2) serialFromHex_serial_hex[OF assms(2)] show ?thesis by auto
qed

text \<open>C18: revoked certificates are in every later CRL.  After a revocation of the serial of a
  certificate with number \<open>n > 0\<close> succeeds, and any store calls after it, every CRL the service
  produces carries \<open>n\<close>; and a CRL carries only numbers of revoked certificates.\<close>

theorem revoked_in_every_crl:
  assumes "RevokeDeviceCert drv now (serial_hex n) reason d = (None, d1)" "0 < n"
    and "store_step\<^sup>*\<^sup>* d1 d2"
    and "svc_GenerateCRL (ListRevokedDeviceCerts no_fault) P now' d2 = Inr der"
  shows "\<exists>rl. pk_create_crl P rl = Inr der \<and> int n \<in> fst ` set (rl_revoked rl) \<and>
    fst ` set (rl_revoked rl) \<subseteq> {m. \<exists>c\<in>set (db_certs d2). dc_revoked c \<and> serialFromHex (dc_serial c) = Some m}"
proof -
  obtain rl where "pk_create_crl P rl = Inr der"
    "fst ` set (rl_revoked rl) = {m. \<exists>c\<in>set (db_certs d2). dc_revoked c \<and> serialFromHex (dc_serial c) = Some m}"
    using GenerateCRL_entries[OF assms(4)] .
  with revoked_number_listed[OF assms(1-3)] show ?thesis by (intro exI[of _ rl]) simp
qed

theorem revoked_in_every_crl_witness:
  "\<exists>d1 rl der. RevokeDeviceCert no_fault ex_now (serial_hex 171) ''lost'' (snd ex_device_issued) = (None, d1) \<and>
     svc_GenerateCRL (ListRevokedDeviceCerts no_fault) ex_pki ex_now d1 = Inr der \<and>
     pk_create_crl ex_pki rl = Inr der \<and> 171 \<in> fst ` set (rl_revoked rl)"
proof -
  let ?r = "RevokeDeviceCert no_fault ex_now (serial_hex 171) ''lost'' (snd ex_device_issued)"
  have f: "fst ?r = None" and g: "is_ok (svc_GenerateCRL (ListRevokedDeviceCerts no_fault) ex_pki ex_now (snd ?r))"
    by code_simp+
  from f have r: "?r = (None, snd ?r)" by (metis prod.collapse)
  from g obtain der where der: "svc_GenerateCRL (ListRevokedDeviceCerts no_fault) ex_pki ex_now (snd ?r) = Inr der"
    by (metis is_ok_simps(2) sum.exhaust)
  from revoked_in_every_crl[OF r _ rtranclp.rtrancl_refl der] r der show ?thesis by auto
qed

end
