(* ===== verification/CP_Api.thy ===== *)
theory CP_Api
  imports CP_Handlers Device_Credentials
begin

text \<open>
  The credential handlers (\<open>user_credentials.go\<close>, \<open>device_cert.go\<close>, \<open>pki.go\<close>), and the
  control plane as a whole: the requests it serves as steps on the database, which are
  sequences of store calls, so that the integrity of the store carries over to the API.
\<close>

subsection \<open>Credentials\<close>

record ssh_body =
  sb_public_key :: string
  sb_ttl_seconds :: "int option"
  sb_principals :: "string list"

text \<open>The lifetime a request asks for: \<open>Inl\<close> where it is not positive.\<close>

definition requested_ttl :: "int option \<Rightarrow> goerr + duration option" where
  "requested_ttl secs =
     (case secs of None \<Rightarrow> Inr None
      | Some n \<Rightarrow> if n \<le> 0 then Inl ErrInvalidInput else Inr (Some (dur_seconds n)))"

definition user_IssueSSHCert ::
    "(string \<Rightarrow> 'k res) \<Rightarrow> ('k ssh_certificate \<Rightarrow> goerr + string) \<Rightarrow> sshca_config \<Rightarrow> (nat \<Rightarrow> drv) \<Rightarrow> (nat \<Rightarrow> time)
     \<Rightarrow> ssh_body option \<Rightarrow> subject option \<Rightarrow> http_request \<Rightarrow> db \<Rightarrow> response \<times> db" where
  "user_IssueSSHCert parseKey signCert cfg F clk body ctx r d =
     (case ctx of
        None \<Rightarrow> (WriteError ErrUnauthorized, d)
      | Some subj \<Rightarrow>
       (case body of
          None \<Rightarrow> (WriteError ErrInvalidInput, d)
        | Some req \<Rightarrow>
          if sb_public_key req = [] then (WriteError ErrInvalidInput, d)
          else (case requested_ttl (sb_ttl_seconds req) of
            Inl err \<Rightarrow> (WriteError err, d)
          | Inr ttl \<Rightarrow>
           (case IssueSSHCert (UpsertUser (F 0) (clk 0)) parseKey signCert cfg (clk 1)
                   \<lparr>ir_subject = subj, ir_public_key = sb_public_key req, ir_ttl = ttl, ir_principals = sb_principals req\<rparr> d of
              (Inl err, d') \<Rightarrow> (WriteError err, d')
            | (Inr resp, d') \<Rightarrow>
                (let (_, d'') = audit_Append (InsertAuditEvent (F 1)) (clk 2)
                   (admin_event (formatSubjectForAudit subj) ''issue_ssh_cert'' ''ssh_cert'' ''issued'' (extractRemoteIP r)) d' in
                 (WriteJSON 200 (PSSHCert (is_certificate resp) (is_valid_before resp) (is_key_id resp) (is_principals resp)), d''))))))"

record device_body =
  db_csr_pem :: string
  db_ttl_seconds :: "int option"

definition user_IssueDeviceCert ::
    "('c, 'k) pki \<Rightarrow> nat res \<Rightarrow> deviceca_config \<Rightarrow> (nat \<Rightarrow> drv) \<Rightarrow> (nat \<Rightarrow> time)
     \<Rightarrow> device_body option \<Rightarrow> subject option \<Rightarrow> http_request \<Rightarrow> db \<Rightarrow> response \<times> db" where
  "user_IssueDeviceCert P rnd cfg F clk body ctx r d =
     (case ctx of
        None \<Rightarrow> (WriteError ErrUnauthorized, d)
      | Some subj \<Rightarrow>
       (case body of
          None \<Rightarrow> (WriteError ErrInvalidInput, d)
        | Some req \<Rightarrow>
          if db_csr_pem req = [] then (WriteError ErrInvalidInput, d)
          else (case requested_ttl (db_ttl_seconds req) of
            Inl err \<Rightarrow> (WriteError err, d)
          | Inr ttl \<Rightarrow>
           (case IssueDeviceCert (StoreDeviceCert (F 0)) P rnd cfg (clk 0) (clk 1)
                   \<lparr>dr_subject = subj, dr_csr_pem = db_csr_pem req, dr_ttl = ttl\<rparr> d of
              (Inl err, d') \<Rightarrow> (WriteError err, d')
            | (Inr resp, d') \<Rightarrow>
                (let (_, d'') = audit_Append (InsertAuditEvent (F 1)) (clk 2)
                   (admin_event (formatSubjectForAudit subj) ''issue_device_cert'' (''device_cert:'' @ dp_serial resp)
                      ''issued'' (extractRemoteIP r)) d' in
                 (WriteJSON 200 (PDeviceCert (dp_certificate_pem resp) (dp_ca_cert_pem resp) (dp_serial resp) (dp_expires_at resp) (dp_fingerprint resp)), d''))))))"

definition pki_CRL :: "('c, 'k) pki \<Rightarrow> drv \<Rightarrow> time \<Rightarrow> db \<Rightarrow> response" where
  "pki_CRL P drv now d =
     (case svc_GenerateCRL (ListRevokedDeviceCerts drv) P now d of
        Inl err \<Rightarrow> WriteError err
      | Inr der \<Rightarrow> \<lparr>rp_status = 200, rp_body = PRaw der\<rparr>)"

subsection \<open>Requests as steps\<close>

text \<open>
  The requests that may change the database, as the middlewares admit them, and the seeding
  at start-up.  The library parameters are arbitrary.
\<close>

inductive api_step :: "db \<Rightarrow> db \<Rightarrow> bool" where
  api_authorize: "api_step d (snd (pep_Authorize h F clk uuid body pepID r d))"
| api_beat: "api_step d (snd (pep_Beat req F now version pepID d))"
| api_register: "api_step d (snd (pep_Register drv now gwbody pepID d))"
| api_session_start: "api_step d (snd (pep_SessionStart drv now sbody d))"
| api_session_end: "api_step d (snd (pep_SessionEnd drv now ebody d))"
| api_policy_create: "api_step d (snd (admin_CreateVersion F clk rules ctx r d))"
| api_policy_activate: "api_step d (snd (admin_ActivateVersion F clk raw ctx r d))"
| api_revoke: "api_step d (snd (admin_RevokeCert F clk serial rbody ctx r d))"
| api_resource_create: "api_step d (snd (admin_CreateResource drv now rnd cbody d))"
| api_resource_update: "api_step d (snd (admin_UpdateResource drv now name cbody d))"
| api_resource_delete: "api_step d (snd (admin_DeleteResource drv name d))"
| api_ssh_cert: "api_step d (snd (user_IssueSSHCert (parseKey :: string \<Rightarrow> string res) signCert scfg F clk kbody ctx r d))"
| api_device_cert: "api_step d (snd (user_IssueDeviceCert (P :: (string, string) pki) rnd' dcfg F clk dbody ctx r d))"
| api_seed_policy: "api_step d (snd (SeedIfEmpty (GetActivePolicy drv) (CreatePolicyVersion drv' now)
      (ActivatePolicyVersion drv'') readFile unmarshal path d))"

lemmas store_steps_intros = step_user step_create step_activate step_audit step_cert step_revoke step_register
  step_heartbeat step_gateway_active step_res_create step_res_update step_res_delete step_session_start step_session_end

text \<open>A call whose result is known is a step to its state.\<close>

lemma call_steps:
  "UpsertUser drv now subj d = (x, d') \<Longrightarrow> store_step\<^sup>*\<^sup>* d d'"
  "CreatePolicyVersion drv now by rules d = (y, d') \<Longrightarrow> store_step\<^sup>*\<^sup>* d d'"
  "ActivatePolicyVersion drv vid d = (x, d') \<Longrightarrow> store_step\<^sup>*\<^sup>* d d'"
  "InsertAuditEvent drv ev d = (x, d') \<Longrightarrow> store_step\<^sup>*\<^sup>* d d'"
  "StoreDeviceCert drv cert d = (x, d') \<Longrightarrow> store_step\<^sup>*\<^sup>* d d'"
  "RevokeDeviceCert drv now serial reason d = (x, d') \<Longrightarrow> store_step\<^sup>*\<^sup>* d d'"
  "RegisterGateway drv now gw d = (x, d') \<Longrightarrow> store_step\<^sup>*\<^sup>* d d'"
  "UpdateGatewayHeartbeat drv now gid version d = (x, d') \<Longrightarrow> store_step\<^sup>*\<^sup>* d d'"
  "CreateResource drv now res d = (x, d') \<Longrightarrow> store_step\<^sup>*\<^sup>* d d'"
  "UpdateResource drv now res d = (x, d') \<Longrightarrow> store_step\<^sup>*\<^sup>* d d'"
  "DeleteResource drv name d = (x, d') \<Longrightarrow> store_step\<^sup>*\<^sup>* d d'"
  "CreateSession drv sess d = (x, d') \<Longrightarrow> store_step\<^sup>*\<^sup>* d d'"
  "CompleteSession drv now sess d = (x, d') \<Longrightarrow> store_step\<^sup>*\<^sup>* d d'"
  by (drule arg_cong[where f = snd], simp, hypsubst, rule r_into_rtranclp[of store_step], rule store_steps_intros)+

lemma service_steps:
  "audit_Append (InsertAuditEvent drv) now ev d = (x, d') \<Longrightarrow> store_step\<^sup>*\<^sup>* d d'"
  "CreateVersion (CreatePolicyVersion drv now) by rules d = (y, d') \<Longrightarrow> store_step\<^sup>*\<^sup>* d d'"
  "ActivateVersion (ActivatePolicyVersion drv) vid d = (x, d') \<Longrightarrow> store_step\<^sup>*\<^sup>* d d'"
  "gw_Register (RegisterGateway drv now) gw d = (x, d') \<Longrightarrow> store_step\<^sup>*\<^sup>* d d'"
  "gw_Heartbeat get (UpdateGatewayHeartbeat drv now) gid version d = (z, d') \<Longrightarrow> store_step\<^sup>*\<^sup>* d d'"
  "session_Start (CreateSession drv) now sreq d = (x, d') \<Longrightarrow> store_step\<^sup>*\<^sup>* d d'"
  "session_End (CompleteSession drv now') now ereq d = (x, d') \<Longrightarrow> store_step\<^sup>*\<^sup>* d d'"
  "resource_Create (CreateResource drv now) rnd res d = (x, d') \<Longrightarrow> store_step\<^sup>*\<^sup>* d d'"
  by (auto simp: audit_Append_def CreateVersion_def ActivateVersion_def gw_Register_def gw_Heartbeat_def
      session_Start_def session_End_def resource_Create_def Let_def
      intro: call_steps split: if_splits sum.splits prod.splits option.splits)

lemma issue_steps:
  "IssueSSHCert (UpsertUser drv now) parseKey signCert cfg now' req d = (x, d') \<Longrightarrow> store_step\<^sup>*\<^sup>* d d'"
  "IssueDeviceCert (StoreDeviceCert drv) P rnd dcfg now1 now2 dreq d = (y, d') \<Longrightarrow> store_step\<^sup>*\<^sup>* d d'"
  by (auto simp: IssueSSHCert_def IssueDeviceCert_def intro: call_steps
      split: if_splits sum.splits prod.splits option.splits)

lemma two_steps: "store_step\<^sup>*\<^sup>* d d' \<Longrightarrow> store_step\<^sup>*\<^sup>* d' d'' \<Longrightarrow> store_step\<^sup>*\<^sup>* d d''"
  by (rule rtranclp_trans)

lemma pep_Authorize_steps: "store_step\<^sup>*\<^sup>* d (snd (pep_Authorize h F clk uuid body pepID r d))"
  by (auto simp: pep_Authorize_def Let_def intro: service_steps split: option.split sum.split prod.split)

lemma pep_Beat_steps: "store_step\<^sup>*\<^sup>* d (snd (pep_Beat req F now version pepID d))"
  by (auto simp: pep_Beat_def intro: service_steps split: option.split prod.split)

lemma pep_Register_steps: "store_step\<^sup>*\<^sup>* d (snd (pep_Register drv now body pepID d))"
  by (auto simp: pep_Register_def Let_def intro: service_steps split: option.split prod.split)

lemma session_handler_steps:
  "store_step\<^sup>*\<^sup>* d (snd (pep_SessionStart drv now sbody d))"
  "store_step\<^sup>*\<^sup>* d (snd (pep_SessionEnd drv now ebody d))"
  by (auto simp: pep_SessionStart_def pep_SessionEnd_def intro: service_steps split: option.split prod.split)

lemma admin_policy_steps:
  "store_step\<^sup>*\<^sup>* d (snd (admin_CreateVersion F clk rules ctx r d))"
  "store_step\<^sup>*\<^sup>* d (snd (admin_ActivateVersion F clk raw ctx r d))"
  by (auto simp: admin_CreateVersion_def admin_ActivateVersion_def Let_def
      intro: two_steps service_steps split: option.split prod.split sum.split)

lemma admin_RevokeCert_steps: "store_step\<^sup>*\<^sup>* d (snd (admin_RevokeCert F clk serial body ctx r d))"
  by (auto simp: admin_RevokeCert_def Let_def intro: two_steps call_steps service_steps split: option.split prod.split)

lemma admin_resource_steps:
  "store_step\<^sup>*\<^sup>* d (snd (admin_CreateResource drv now rnd body d))"
  "store_step\<^sup>*\<^sup>* d (snd (admin_UpdateResource drv now name body d))"
  "store_step\<^sup>*\<^sup>* d (snd (admin_DeleteResource drv name d))"
  by (auto simp: admin_CreateResource_def admin_UpdateResource_def admin_DeleteResource_def
      resource_Update_def resource_Delete_def intro: service_steps call_steps split: option.split prod.split)

lemma user_cert_steps:
  "store_step\<^sup>*\<^sup>* d (snd (user_IssueSSHCert parseKey signCert scfg F clk kbody ctx r d))"
  "store_step\<^sup>*\<^sup>* d (snd (user_IssueDeviceCert P rnd dcfg F clk dbody ctx r d))"
  by (auto simp: user_IssueSSHCert_def user_IssueDeviceCert_def Let_def
      intro: two_steps issue_steps service_steps split: option.split prod.split sum.split)

lemma SeedIfEmpty_steps:
  "store_step\<^sup>*\<^sup>* d (snd (SeedIfEmpty get (CreatePolicyVersion drv now) (ActivatePolicyVersion drv') readFile unmarshal path d))"
proof -
  have "store_step\<^sup>*\<^sup>* d (snd (ActivateVersion (ActivatePolicyVersion drv') vid d))" for vid d
    by (metis service_steps(3) prod.collapse)
  then show ?thesis
    by (auto simp: SeedIfEmpty_def Let_def intro: two_steps service_steps split: prod.split sum.split)
qed

lemmas handler_steps = pep_Authorize_steps pep_Beat_steps pep_Register_steps session_handler_steps
  admin_policy_steps admin_RevokeCert_steps admin_resource_steps user_cert_steps SeedIfEmpty_steps

lemma api_step_steps: "api_step d d' \<Longrightarrow> store_step\<^sup>*\<^sup>* d d'"
  by (induction rule: api_step.induct) (rule handler_steps)+

lemma api_steps_steps: "api_step\<^sup>*\<^sup>* d d' \<Longrightarrow> store_step\<^sup>*\<^sup>* d d'"
  by (induction rule: rtranclp_induct) (auto intro: two_steps api_step_steps)

subsection \<open>Only allow and deny rules are ever stored\<close>

definition effects_ok :: "db \<Rightarrow> bool" where
  "effects_ok d \<longleftrightarrow> (\<forall>r\<in>set (db_rules d). r_effect r = ''allow'' \<or> r_effect r = ''deny'')"

lemma CreateVersion_effects:
  assumes "CreateVersion (CreatePolicyVersion drv now) by rules d = (y, d')" "effects_ok d"
  shows "effects_ok d'"
proof (cases y)
  case (Inl e)
  then have "d' = d" using assms(1) sqlite_policies.CreateVersion_error[of drv now "by" rules d e d'] by simp
  with assms(2) show ?thesis by simp
next
  case (Inr vid)
  then have ok: "\<forall>r\<in>set rules. r_effect (normalise_rule r) \<in> {''allow'', ''deny''}"
      and c: "CreatePolicyVersion drv now by (map normalise_rule rules) d = (Inr vid, d')"
    using assms(1) sqlite_policies.CreateVersion_ok[of drv now] by auto
  from c have d': "d' = with_version now by (map normalise_rule rules) d"
    using CreatePolicyVersion_cases[of drv now "by" "map normalise_rule rules" d] by auto
  have "r_effect r = ''allow'' \<or> r_effect r = ''deny''"
    if "r \<in> set (stored_rules now vid seq (map normalise_rule rules))" for r seq
  proof -
    from that obtain r' where "r' \<in> set (map normalise_rule rules)" "same_rule r r'"
      using same_rule_stored by (metis in_set_conv_nth list_all2_conv_all_nth)
    with ok show ?thesis by (auto simp: same_rule_def)
  qed
  then show ?thesis
    using assms(2) CreatePolicyVersion_cases[of drv now "by" "map normalise_rule rules" d] c
    by (auto simp: effects_ok_def d' with_version_def)
qed

lemma rules_unchanged:
  "ActivatePolicyVersion drv vid d = (x, d') \<Longrightarrow> db_rules d' = db_rules d"
  "InsertAuditEvent drv ev d = (x, d') \<Longrightarrow> db_rules d' = db_rules d"
  "audit_Append (InsertAuditEvent drv) now ev d = (x, d') \<Longrightarrow> db_rules d' = db_rules d"
  using ActivatePolicyVersion_cases[of drv vid d]
  by (auto simp: with_active_def InsertAuditEvent_def audit_Append_def Let_def split: option.splits)

lemma rules_unchanged_services:
  "ActivateVersion (ActivatePolicyVersion drv) vid d = (x, d') \<Longrightarrow> db_rules d' = db_rules d"
  "gw_Register (RegisterGateway drv now) gw d = (x, d') \<Longrightarrow> db_rules d' = db_rules d"
  "gw_Heartbeat get (UpdateGatewayHeartbeat drv now) gid version d = (z, d') \<Longrightarrow> db_rules d' = db_rules d"
  "session_Start (CreateSession drv) now sreq d = (x, d') \<Longrightarrow> db_rules d' = db_rules d"
  "session_End (CompleteSession drv now') now ereq d = (x, d') \<Longrightarrow> db_rules d' = db_rules d"
  "RevokeDeviceCert drv now serial reason d = (x, d') \<Longrightarrow> db_rules d' = db_rules d"
  "resource_Create (CreateResource drv now) rnd res d = (x, d') \<Longrightarrow> db_rules d' = db_rules d"
  "UpdateResource drv now res d = (x, d') \<Longrightarrow> db_rules d' = db_rules d"
  "DeleteResource drv name d = (x, d') \<Longrightarrow> db_rules d' = db_rules d"
  "IssueSSHCert (UpsertUser drv now) parseKey signCert cfg now' req d = (x', d') \<Longrightarrow> db_rules d' = db_rules d"
  "IssueDeviceCert (StoreDeviceCert drv) P rn dcfg now1 now2 dreq d = (y, d') \<Longrightarrow> db_rules d' = db_rules d"
  by (auto simp: ActivateVersion_def gw_Register_def RegisterGateway_def gw_Heartbeat_def UpdateGatewayHeartbeat_def
      session_Start_def session_End_def CreateSession_def CompleteSession_def RevokeDeviceCert_def resource_Create_def
      CreateResource_def UpdateResource_def DeleteResource_def IssueSSHCert_def UpsertUser_def IssueDeviceCert_def
      StoreDeviceCert_def Let_def
      dest: rules_unchanged split: if_splits sum.splits prod.splits option.splits)

lemma effects_ok_rules: "db_rules d' = db_rules d \<Longrightarrow> effects_ok d \<Longrightarrow> effects_ok d'"
  by (simp add: effects_ok_def)

lemma handler_rules:
  "db_rules (snd (pep_Authorize h F clk uuid body pepID r d)) = db_rules d"
  "db_rules (snd (pep_Beat req F now version pepID d)) = db_rules d"
  "db_rules (snd (pep_Register drv now gwbody pepID d)) = db_rules d"
  "db_rules (snd (pep_SessionStart drv now sbody d)) = db_rules d"
  "db_rules (snd (pep_SessionEnd drv now ebody d)) = db_rules d"
  "db_rules (snd (admin_ActivateVersion F clk raw ctx r d)) = db_rules d"
  "db_rules (snd (admin_RevokeCert F clk serial rbody ctx r d)) = db_rules d"
  "db_rules (snd (admin_CreateResource drv now rnd cbody d)) = db_rules d"
  "db_rules (snd (admin_UpdateResource drv now name cbody d)) = db_rules d"
  "db_rules (snd (admin_DeleteResource drv name d)) = db_rules d"
  "db_rules (snd (user_IssueSSHCert parseKey signCert scfg F clk kbody ctx r d)) = db_rules d"
  "db_rules (snd (user_IssueDeviceCert P rn dcfg F clk dbody ctx r d)) = db_rules d"
  by (auto simp: pep_Authorize_def pep_Beat_def pep_Register_def pep_SessionStart_def pep_SessionEnd_def
      admin_ActivateVersion_def admin_RevokeCert_def admin_CreateResource_def admin_UpdateResource_def
      admin_DeleteResource_def user_IssueSSHCert_def user_IssueDeviceCert_def resource_Update_def resource_Delete_def
      Let_def dest!: rules_unchanged rules_unchanged_services split: option.split sum.split prod.split)

lemma admin_CreateVersion_effects: "effects_ok d \<Longrightarrow> effects_ok (snd (admin_CreateVersion F clk rules ctx r d))"
  by (auto simp: admin_CreateVersion_def Let_def dest: CreateVersion_effects rules_unchanged
      intro: effects_ok_rules split: option.split sum.split prod.split)

lemma SeedIfEmpty_effects:
  "effects_ok d \<Longrightarrow> effects_ok (snd (SeedIfEmpty get (CreatePolicyVersion drv now) (ActivatePolicyVersion drv')
     readFile unmarshal path d))"
proof -
  assume e: "effects_ok d"
  have "db_rules (snd (ActivateVersion (ActivatePolicyVersion drv') vid d')) = db_rules d'" for vid d'
    by (metis rules_unchanged_services(1) prod.collapse)
  then show ?thesis
    using e by (auto simp: SeedIfEmpty_def Let_def dest: CreateVersion_effects
        intro: effects_ok_rules split: prod.split sum.split)
qed

lemma api_step_effects: "api_step d d' \<Longrightarrow> effects_ok d \<Longrightarrow> effects_ok d'"
  by (induction rule: api_step.induct)
    (erule admin_CreateVersion_effects SeedIfEmpty_effects | rule effects_ok_rules, rule handler_rules, assumption)+

interpretation api_effects: started_system api_step effects_ok empty_db
  by unfold_locales (rule api_step_effects, assumption+, simp add: effects_ok_def empty_db_def)

subsection \<open>Properties\<close>

definition ex_api_db :: db where
  "ex_api_db = snd (admin_CreateVersion (\<lambda>_. no_fault) (\<lambda>_. ex_now) (Some [ex_raw_rule]) (Some ex_alice)
     \<lparr>rq_header = (\<lambda>_. []), rq_remote_addr = ''10.0.0.1:99'', rq_peer_cn = None\<rparr> empty_db)"

text \<open>C7: the API keeps the store's promises.  Whatever requests the control plane serves, in any
  order and under any driver failures, starting from the empty database: the database stays well
  formed, every stored rule is an allow or a deny rule, recorded audit events stay, and a
  certificate seen as revoked stays revoked.\<close>

theorem api_integrity:
  assumes "api_step\<^sup>*\<^sup>* empty_db d" "api_step\<^sup>*\<^sup>* d d'"
  shows "db_wf d' \<and> (\<forall>r\<in>set (db_rules d'). r_effect r = ''allow'' \<or> r_effect r = ''deny'') \<and>
    (\<exists>new. db_audit d' = db_audit d @ new) \<and>
    (\<forall>serial c. GetDeviceCert no_fault serial d = Inr c \<longrightarrow> dc_revoked c \<longrightarrow> GetDeviceCert no_fault serial d' = Inr c)"
proof -
  have s: "store_step\<^sup>*\<^sup>* empty_db d" "store_step\<^sup>*\<^sup>* d d'" using assms api_steps_steps by blast+
  have "api_step\<^sup>*\<^sup>* empty_db d'" using assms by (rule rtranclp_trans)
  then have "effects_ok d'" by (rule api_effects.reached_inv)
  moreover have "db_wf d'" using store_steps_wf[OF rtranclp_trans[OF s] empty_db_wf] .
  ultimately show ?thesis
    using store_steps_audit[OF s(2)] find_revoked_steps[OF s(2)]
    by (simp add: effects_ok_def GetDeviceCert_Inr)
qed

theorem api_integrity_witness:
  "db_wf ex_api_db \<and> db_rules ex_api_db \<noteq> [] \<and> list_all (\<lambda>r. r_effect r \<in> {''allow'', ''deny''}) (db_rules ex_api_db)"
proof -
  have s: "api_step empty_db ex_api_db" unfolding ex_api_db_def by (rule api_policy_create)
  have "db_rules ex_api_db \<noteq> []" by code_simp
  with api_integrity[OF rtranclp.rtrancl_refl r_into_rtranclp[of api_step, OF s]] show ?thesis
    unfolding list_all_iff by blast
qed

text \<open>C8: the decision endpoint.  An allow answer is given only to a well-formed request, only (when
  registration is required) to a gateway that is registered and active, and only on the strength of
  a stored allow rule of an active version that applies to the request's subject and resource; and
  unless the audit insert itself fails, the decision is recorded with gateway, subject and effect.\<close>

theorem pep_Authorize_allow:
  assumes "pep_Authorize h F clk uuid body pepID r d = (resp, d')"
    and "rp_body resp = PDecision dec" "d_effect dec = DecisionAllow"
  shows "\<exists>req v rule. body = Some req \<and> \<not> authorize_invalid req \<and>
    (ph_require_registration h \<longrightarrow> gw_Status (GetGateway (F 0)) pepID d = (HeartbeatRegistered, None)) \<and>
    v \<in> set (db_versions d) \<and> pv_active v \<and> rule \<in> set (db_rules d) \<and> r_version_id rule = pv_id v \<and>
    r_effect rule = ''allow'' \<and>
    rule_applies (clk 0) (authorize_subject (ab_subject req)) (ab_action req)
      (authorize_resource (ab_resource req)) (ab_context req) rule \<and>
    (F 2 0 = None \<longrightarrow> (\<exists>ev. db_audit d' = db_audit d @ [ev] \<and> ae_decision ev = ''allow'' \<and> ae_pep_id ev = pepID \<and>
       ae_subject ev = formatSubjectForAudit (authorize_subject (ab_subject req)) \<and>
       ae_policy_version ev = pv_id v))"
proof -
  have nE: "rp_body (WriteError e) \<noteq> PDecision dec" for e by (simp add: WriteError_def WriteJSON_def)
  from assms(1,2) obtain req where req: "body = Some req"
      and gate: "registration_gate (ph_require_registration h) (F 0) pepID d = None" and valid: "\<not> authorize_invalid req"
    by (auto simp: pep_Authorize_def nE registration_gate_def WriteJSON_def
        split: option.splits if_splits prod.splits)
  let ?subj = "authorize_subject (ab_subject req)" and ?res = "authorize_resource (ab_resource req)"
  let ?q = "\<lparr>ar_subject = ?subj, ar_action = ab_action req, ar_resource = ?res, ar_context = ab_context req\<rparr>"
  from assms(1,2) req gate valid
  have dec: "decision_Authorize (GetActivePolicy (F 1)) (decision_ttl (ph_ttl_seconds h)) (clk 0) uuid ?q d = Inr dec"
    and d': "d' = snd (audit_Append (InsertAuditEvent (F 2)) (clk 1) (authorize_event r pepID req ?subj ?res dec) d)"
    by (auto simp: pep_Authorize_def Let_def nE WriteJSON_def split: sum.splits prod.splits)
  from authorize_grounded[OF dec assms(3)] obtain v rule where g: "v \<in> set (db_versions d)" "pv_active v"
    "rule \<in> set (db_rules d)" "r_version_id rule = pv_id v" "r_effect rule = ''allow''"
    "rule_applies (clk 0) ?subj (ab_action req) ?res (ab_context req) rule" "d_policy_version dec = pv_id v"
    by auto
  have "ph_require_registration h \<longrightarrow> gw_Status (GetGateway (F 0)) pepID d = (HeartbeatRegistered, None)"
    using gate by (auto simp: registration_gate_def split: if_splits prod.splits)
  moreover have "F 2 0 = None \<longrightarrow> (\<exists>ev. db_audit d' = db_audit d @ [ev] \<and> ae_decision ev = ''allow'' \<and>
       ae_pep_id ev = pepID \<and> ae_subject ev = formatSubjectForAudit ?subj \<and> ae_policy_version ev = pv_id v)"
    by (simp add: d' audit_Append_def InsertAuditEvent_def authorize_event_def Let_def assms(3) g(7))
  ultimately show ?thesis using req valid g(1-6)
    by (intro exI[of _ req] exI[of _ v] exI[of _ rule]) simp
qed

definition ex_pep_body :: authorize_body where
  "ex_pep_body = \<lparr>ab_subject = ex_alice, ab_action = ''connect'',
     ab_resource = \<lparr>rr_type = ''SSH'', rr_name = ''lan'', rr_host = [], rr_port = 0, rr_ssh = rs_ssh ex_ssh, rr_http = None\<rparr>,
     ab_context = Some ex_ctx\<rparr>"

definition ex_request_http :: http_request where
  "ex_request_http = \<lparr>rq_header = (\<lambda>_. []), rq_remote_addr = ''10.0.0.1:99'', rq_peer_cn = None\<rparr>"

definition ex_db_pep :: db where
  "ex_db_pep = snd (gw_Register (RegisterGateway no_fault ex_now) ex_gw ex_db_active)"

definition ex_pep_answer :: "response \<times> db" where
  "ex_pep_answer = pep_Authorize \<lparr>ph_ttl_seconds = 30, ph_require_registration = True\<rparr> (\<lambda>_. no_fault) (\<lambda>_. ex_now)
     ''0000'' (Some ex_pep_body) ''gw-1'' ex_request_http ex_db_pep"

theorem pep_Authorize_allow_witness:
  "rp_status (fst ex_pep_answer) = 200 \<and>
   (\<exists>ev. db_audit (snd ex_pep_answer) = db_audit ex_db_pep @ [ev] \<and> ae_decision ev = ''allow'' \<and> ae_pep_id ev = ''gw-1'')"
proof -
  let ?dec = "\<lparr>d_effect = DecisionAllow, d_reason = ''rule:1'', d_ttl_seconds = 30, d_policy_version = 1,
    d_decision_id = ''dec-0000''\<rparr>"
  have f: "fst ex_pep_answer = \<lparr>rp_status = 200, rp_body = PDecision ?dec\<rparr>" by code_simp
  have r: "pep_Authorize \<lparr>ph_ttl_seconds = 30, ph_require_registration = True\<rparr> (\<lambda>_. no_fault) (\<lambda>_. ex_now)
     ''0000'' (Some ex_pep_body) ''gw-1'' ex_request_http ex_db_pep = (fst ex_pep_answer, snd ex_pep_answer)"
    by (simp add: ex_pep_answer_def)
  from pep_Authorize_allow[OF r, of ?dec] f show ?thesis by auto
qed

text \<open>A gateway that is not registered, or was revoked, gets no decision.  When registration is
  required, its requests are refused with status 400, 401 or 403 and leave no trace.\<close>

theorem pep_Authorize_unregistered:
  assumes "ph_require_registration h"
    and "gw_Status (GetGateway (F 0)) pepID d \<noteq> (HeartbeatRegistered, None)"
  shows "\<exists>resp. pep_Authorize h F clk uuid body pepID r d = (resp, d) \<and> rp_status resp \<in> {400, 401, 403}"
proof (cases body)
  case None
  then show ?thesis by (simp add: pep_Authorize_def WriteError_def WriteJSON_def)
next
  case (Some req)
  have "\<exists>resp. registration_gate True (F 0) pepID d = Some resp \<and> rp_status resp \<in> {401, 403}"
    using assms(2) by (auto simp: registration_gate_def WriteError_def WriteJSON_def split: prod.splits)
  with Some assms(1) show ?thesis by (auto simp: pep_Authorize_def)
qed

theorem pep_Authorize_unregistered_witness:
  "\<exists>resp. pep_Authorize \<lparr>ph_ttl_seconds = 30, ph_require_registration = True\<rparr> (\<lambda>_. no_fault) (\<lambda>_. ex_now)
     ''0000'' (Some ex_pep_body) ''gw-9'' ex_request_http ex_db_pep = (resp, ex_db_pep) \<and> rp_status resp \<in> {400, 401, 403}"
proof (rule pep_Authorize_unregistered)
  show "gw_Status (GetGateway no_fault) ''gw-9'' ex_db_pep \<noteq> (HeartbeatRegistered, None)" by code_simp
qed simp

text \<open>The backend address of a resource is disclosed to its own gateway only: a request with an
  identity is answered with the address only if the resource exists and is bound to no gateway or
  to exactly this one; and the listing for users never contains addresses or groups.\<close>

theorem backend_disclosure:
  assumes "rp_body (pep_Resolve drv name pepID d) = PResource info" "pepID \<noteq> []"
  shows "(\<exists>res\<in>set (db_resources d). p_name res = name \<and> (p_gateway_id res = [] \<or> p_gateway_id res = pepID) \<and>
      map_of info ''backend'' = Some (p_backend res)) \<and>
    (\<forall>dtos. rp_body (user_Resources drv' ctx d) = PResources dtos \<longrightarrow> (\<forall>dto\<in>set dtos. dto_backend dto = [] \<and> dto_group_match dto = []))"
proof -
  have nE: "rp_body (WriteError e) \<noteq> PResource info" "rp_body (WriteError e) \<noteq> PResources dtos" for e dtos
    by (simp_all add: WriteError_def WriteJSON_def)
  from assms obtain res where r: "GetResourceByName drv name d = Inr res"
      "p_gateway_id res = [] \<or> p_gateway_id res = pepID" "map_of info ''backend'' = Some (p_backend res)"
    by (auto simp: pep_Resolve_def nE WriteJSON_def split: sum.splits if_splits)
  from r(1) have "find (\<lambda>r. p_name r = name) (db_resources d) = Some res"
    by (auto simp: GetResourceByName_def Let_def split: option.splits sum.splits if_splits)
  then have "res \<in> set (db_resources d)" "p_name res = name" by (blast dest: find_key_Some)+
  with r show ?thesis by (auto simp: user_Resources_def nE WriteJSON_def toDTO_def split: option.splits sum.splits)
qed

theorem backend_disclosure_witness:
  "\<exists>info. rp_body (pep_Resolve no_fault ''app'' ''gw-1'' (snd (CreateResource no_fault ex_now ex_res empty_db))) = PResource info \<and>
     map_of info ''backend'' = Some ''http://app:80''"
proof -
  let ?d = "snd (CreateResource no_fault ex_now ex_res empty_db)"
  let ?f = "[(''name'', ''app''), (''type'', ''web''), (''backend'', ''http://app:80''), (''gateway_id'', ''gw-1''), (''access_mode'', ''http-proxy'')]"
  have r: "rp_body (pep_Resolve no_fault ''app'' ''gw-1'' ?d) = PResource ?f" by code_simp
  have "db_resources ?d = [ex_res\<lparr>p_created_at := 1700000000, p_updated_at := 1700000000\<rparr>]" by code_simp
  with backend_disclosure[OF r] r show ?thesis by (auto simp: ex_res_def)
qed

text \<open>What a missing row is answered with.  The store reports a missing certificate or resource
  as \<open>sql.ErrNoRows\<close>, which the error mapping does not know: revoking an unknown serial, updating
  or deleting an unknown resource is answered 500, not 404, while an unknown policy version is 404;
  nothing is changed in either case.\<close>

theorem missing_row_status:
  assumes "\<forall>c\<in>set (db_certs d). dc_serial c \<noteq> serial" "serial \<noteq> []"
    and "\<forall>r\<in>set (db_resources d). p_name r \<noteq> name" "name \<noteq> []"
    and "\<forall>v\<in>set (db_versions d). pv_id v \<noteq> vid" "in_int64 vid"
  shows "(rp_status (fst (admin_RevokeCert (\<lambda>_. no_fault) clk serial rbody (Some subj) r d)) = 500 \<and>
      rp_status (fst (admin_UpdateResource no_fault now name (Some body) d)) = 500 \<and>
      rp_status (fst (admin_DeleteResource no_fault name d)) = 500 \<and>
      rp_status (fst (admin_ActivateVersion (\<lambda>_. no_fault) clk (Itoa vid) (Some subj) r d)) = 404) \<and>
    snd (admin_RevokeCert (\<lambda>_. no_fault) clk serial rbody (Some subj) r d) = d \<and>
    snd (admin_UpdateResource no_fault now name (Some body) d) = d \<and>
    snd (admin_DeleteResource no_fault name d) = d \<and>
    snd (admin_ActivateVersion (\<lambda>_. no_fault) clk (Itoa vid) (Some subj) r d) = d"
proof -
  have "filter (\<lambda>c. dc_serial c = serial \<and> \<not> dc_revoked c) (db_certs d) = []"
    "filter (\<lambda>r. p_name r = name) (db_resources d) = []" "vid \<notin> pv_id ` set (db_versions d)"
    using assms by (auto simp: filter_empty_conv)
  then show ?thesis
    using assms(2,4,6)
    by (auto simp: admin_RevokeCert_def RevokeDeviceCert_def admin_UpdateResource_def resource_Update_def UpdateResource_def
        admin_DeleteResource_def resource_Delete_def DeleteResource_def admin_ActivateVersion_def ActivateVersion_def
        ActivatePolicyVersion_no_fault Atoi_Itoa body_resource_def WriteError_def WriteJSON_def Let_def)
qed

theorem missing_row_status_witness:
  "rp_status (fst (admin_DeleteResource no_fault ''nope'' ex_db_cert)) = 500 \<and>
   rp_status (fst (admin_ActivateVersion (\<lambda>_. no_fault) (\<lambda>_. ex_now) (Itoa 7) (Some ex_alice) ex_request_http ex_db_cert)) = 404"
proof -
  have "\<forall>c\<in>set (db_certs ex_db_cert). dc_serial c \<noteq> ''99''" "\<forall>r\<in>set (db_resources ex_db_cert). p_name r \<noteq> ''nope''"
    "\<forall>v\<in>set (db_versions ex_db_cert). pv_id v \<noteq> 7" by code_simp+
  from missing_row_status[OF this(1) _ this(2) _ this(3)] show ?thesis by (simp add: in_int64_def)
qed

end
