(* ===== verification/CP_CA.thy ===== *)
theory CP_CA
  imports CP_Api Go_Files
begin

text \<open>
  The files of the two authorities (\<open>crypto/deviceca/deviceca.go\<close>, \<open>crypto/sshca/sshca.go\<close>): loading them at the
  start, or making them, and the endpoints that publish the authorities' keys
  (\<open>api/handlers/pki.go\<close>).

  Key generation, X.509 and PEM are the record \<open>ca_lib\<close>.  A generated key is an argument, as are the
  outcomes of the reads, the directory creations (\<open>fa_mkdir k\<close> for the \<open>k\<close>-th) and the writes.
\<close>

record ('k, 'x) ca_lib =
  ca_pem_decode :: "string \<Rightarrow> (string \<times> string) option"
  ca_pem_encode :: "string \<Rightarrow> string \<Rightarrow> string"
  ca_parse_key :: "string \<Rightarrow> 'k res"
  ca_marshal_key :: "'k \<Rightarrow> string res"
  ca_parse_cert :: "string \<Rightarrow> 'x res"
  ca_self_sign :: "x509_template \<Rightarrow> 'k \<Rightarrow> string res"
  ca_dir :: "string \<Rightarrow> string"

record ('k, 'x) device_ca =
  da_cert :: 'x
  da_key :: 'k
  da_raw :: string

record ca_faults =
  fa_read_key :: "goerr option"
  fa_read_cert :: "goerr option"
  fa_mkdir :: "nat \<Rightarrow> goerr option"
  fa_write_key :: write_outcome
  fa_write_cert :: write_outcome

subsection \<open>The device authority\<close>

definition parseECKey :: "('k, 'x) ca_lib \<Rightarrow> string \<Rightarrow> 'k res" where
  "parseECKey L pemData =
     (case ca_pem_decode L pemData of
        None \<Rightarrow> Inl (Errorf ''no PEM block found'')
      | Some (_, bytes) \<Rightarrow> ca_parse_key L bytes)"

definition parseCert :: "('k, 'x) ca_lib \<Rightarrow> string \<Rightarrow> ('x \<times> string) res" where
  "parseCert L pemData =
     (case ca_pem_decode L pemData of
        None \<Rightarrow> Inl (Errorf ''no PEM block found'')
      | Some (_, bytes) \<Rightarrow> (case ca_parse_cert L bytes of Inl e \<Rightarrow> Inl e | Inr c \<Rightarrow> Inr (c, bytes)))"

definition ca_mkdirAll :: "('k, 'x) ca_lib \<Rightarrow> goerr option \<Rightarrow> string \<Rightarrow> goerr option" where
  "ca_mkdirAll L mk path = map_option (\<lambda>e. Wrapf (''device ca: mkdir '' @ ca_dir L path @ '': '') e []) mk"

definition ca_writeFile ::
    "('k, 'x) ca_lib \<Rightarrow> goerr option \<Rightarrow> write_outcome \<Rightarrow> string \<Rightarrow> string \<Rightarrow> files \<Rightarrow> goerr option \<times> files" where
  "ca_writeFile L mk w path data fs =
     (case ca_mkdirAll L mk path of
        Some e \<Rightarrow> (Some e, fs)
      | None \<Rightarrow>
          (case write_file w path data fs of
             (Some e, fs') \<Rightarrow> (Some (Wrapf (''device ca: write '' @ path @ '': '') e []), fs')
           | (None, fs') \<Rightarrow> (None, fs')))"

definition ca_template :: "nat \<Rightarrow> time \<Rightarrow> x509_template" where
  "ca_template serial now =
     \<lparr>xt_serial = serial, xt_common_name = ''ZTNA Device CA'', xt_serial_number = [], xt_organization = [''ZTNA''],
      xt_not_before = now - 30 * Second, xt_not_after = now + 10 * 365 * 24 * Hour,
      xt_client_auth = False, xt_is_ca = True\<rparr>"

text \<open>The second half of \<open>LoadOrCreate\<close>: a new authority, written key first.\<close>

definition ca_create ::
    "('k, 'x) ca_lib \<Rightarrow> ca_faults \<Rightarrow> 'k res \<Rightarrow> nat res \<Rightarrow> time \<Rightarrow> string \<Rightarrow> string \<Rightarrow> files
     \<Rightarrow> ('k, 'x) device_ca res \<times> files" where
  "ca_create L A gen rnd now keyPath certPath fs =
     (case gen of
        Inl e \<Rightarrow> (Inl (Wrapf ''device ca: generate key: '' e []), fs)
      | Inr key \<Rightarrow>
     (case rnd of
        Inl e \<Rightarrow> (Inl (Wrapf ''device ca: random serial: '' e []), fs)
      | Inr serial \<Rightarrow>
     (case ca_self_sign L (ca_template serial now) key of
        Inl e \<Rightarrow> (Inl (Wrapf ''device ca: create self-signed cert: '' e []), fs)
      | Inr raw \<Rightarrow>
     (case ca_parse_cert L raw of
        Inl e \<Rightarrow> (Inl (Wrapf ''device ca: parse generated cert: '' e []), fs)
      | Inr cert \<Rightarrow>
     (case ca_mkdirAll L (fa_mkdir A 0) keyPath of
        Some e \<Rightarrow> (Inl e, fs)
      | None \<Rightarrow>
     (case ca_marshal_key L key of
        Inl e \<Rightarrow> (Inl (Wrapf ''device ca: marshal key: '' e []), fs)
      | Inr keyDER \<Rightarrow>
     (case ca_writeFile L (fa_mkdir A 1) (fa_write_key A) keyPath (ca_pem_encode L ''EC PRIVATE KEY'' keyDER) fs of
        (Some e, fs1) \<Rightarrow> (Inl e, fs1)
      | (None, fs1) \<Rightarrow>
     (case ca_writeFile L (fa_mkdir A 2) (fa_write_cert A) certPath (ca_pem_encode L ''CERTIFICATE'' raw) fs1 of
        (Some e, fs2) \<Rightarrow> (Inl e, fs2)
      | (None, fs2) \<Rightarrow> (Inr \<lparr>da_cert = cert, da_key = key, da_raw = raw\<rparr>, fs2)))))))))"

definition deviceca_LoadOrCreate ::
    "('k, 'x) ca_lib \<Rightarrow> ca_faults \<Rightarrow> 'k res \<Rightarrow> nat res \<Rightarrow> time \<Rightarrow> string \<Rightarrow> string \<Rightarrow> files
     \<Rightarrow> ('k, 'x) device_ca res \<times> files" where
  "deviceca_LoadOrCreate L A gen rnd now keyPath certPath fs =
     (case (read_file (fa_read_key A) keyPath fs, read_file (fa_read_cert A) certPath fs) of
        (ReadOK keyData, ReadOK certData) \<Rightarrow>
          (case parseECKey L keyData of
             Inl e \<Rightarrow> (Inl (Wrapf ''device ca: parse key: '' e []), fs)
           | Inr key \<Rightarrow>
               (case parseCert L certData of
                  Inl e \<Rightarrow> (Inl (Wrapf ''device ca: parse cert: '' e []), fs)
                | Inr (cert, raw) \<Rightarrow> (Inr \<lparr>da_cert = cert, da_key = key, da_raw = raw\<rparr>, fs)))
      | _ \<Rightarrow> ca_create L A gen rnd now keyPath certPath fs)"

subsection \<open>The SSH authority\<close>

text \<open>\<open>parse\<close> is \<open>ssh.ParsePrivateKey\<close>, \<open>marshal\<close> the PKCS 8 encoding.\<close>

definition marshalEd25519PrivateKey :: "('p \<Rightarrow> string res) \<Rightarrow> (string \<Rightarrow> string \<Rightarrow> string) \<Rightarrow> 'p \<Rightarrow> string res" where
  "marshalEd25519PrivateKey marshal pem_encode key =
     (case marshal key of Inl e \<Rightarrow> Inl e | Inr bytes \<Rightarrow> Inr (pem_encode ''PRIVATE KEY'' bytes))"

definition sshca_LoadOrCreate ::
    "(string \<Rightarrow> 's res) \<Rightarrow> ('p \<Rightarrow> string res) \<Rightarrow> (string \<Rightarrow> string \<Rightarrow> string) \<Rightarrow> goerr option \<Rightarrow> write_outcome \<Rightarrow> 'p res
     \<Rightarrow> string \<Rightarrow> files \<Rightarrow> 's res \<times> files" where
  "sshca_LoadOrCreate parse marshal pem_encode rd w gen keyPath fs =
     (let signer = (\<lambda>keyData fs'. case parse keyData of
            Inl e \<Rightarrow> (Inl (Wrapf ''parse ssh ca key: '' e []), fs')
          | Inr s \<Rightarrow> (Inr s, fs')) in
      case read_file rd keyPath fs of
        ReadOK keyData \<Rightarrow> signer keyData fs
      | ReadError e \<Rightarrow> (Inl (Wrapf ''read ssh ca key: '' e []), fs)
      | ReadAbsent \<Rightarrow>
          (case gen of
             Inl e \<Rightarrow> (Inl (Wrapf ''generate ssh ca key: '' e []), fs)
           | Inr priv \<Rightarrow>
               (case marshalEd25519PrivateKey marshal pem_encode priv of
                  Inl e \<Rightarrow> (Inl (Wrapf ''marshal ssh ca key: '' e []), fs)
                | Inr pemBytes \<Rightarrow>
                    (case write_file w keyPath pemBytes fs of
                       (Some e, fs') \<Rightarrow> (Inl (Wrapf ''write ssh ca key: '' e []), fs')
                     | (None, fs') \<Rightarrow> signer pemBytes fs'))))"

subsection \<open>The published keys\<close>

definition pki_CACert :: "('c, 'k) pki \<Rightarrow> response" where
  "pki_CACert P = \<lparr>rp_status = 200, rp_body = PRaw (CACertPEM P)\<rparr>"

text \<open>\<open>authorized_key\<close> is \<open>ssh.MarshalAuthorizedKey\<close> of the public key of a signer.\<close>

definition pki_SSHCAPubKey :: "('s \<Rightarrow> string) \<Rightarrow> 's \<Rightarrow> response" where
  "pki_SSHCAPubKey authorized_key signer = \<lparr>rp_status = 200, rp_body = PRaw (authorized_key signer)\<rparr>"

subsection \<open>Facts\<close>

text \<open>The round trips of PEM and of the key encoding.\<close>

definition ca_lib_ok :: "('k, 'x) ca_lib \<Rightarrow> bool" where
  "ca_lib_ok L \<longleftrightarrow> (\<forall>b. ca_pem_decode L (ca_pem_encode L ''EC PRIVATE KEY'' b) = Some (''EC PRIVATE KEY'', b)
       \<and> ca_pem_decode L (ca_pem_encode L ''CERTIFICATE'' b) = Some (''CERTIFICATE'', b))
     \<and> (\<forall>k der. ca_marshal_key L k = Inr der \<longrightarrow> ca_parse_key L der = Inr k)"

lemma ca_writeFile_ok: "ca_writeFile L mk w path data fs = (None, fs') \<Longrightarrow> fs' = fs(path \<mapsto> data)"
  by (auto simp: ca_writeFile_def dest: write_file_ok split: option.splits prod.splits)

lemma ca_create_Inr:
  assumes "ca_create L A gen rnd now keyPath certPath fs = (Inr ca, fs')"
  obtains keyDER where "gen = Inr (da_key ca)" "ca_marshal_key L (da_key ca) = Inr keyDER"
    "ca_parse_cert L (da_raw ca) = Inr (da_cert ca)"
    "fs' = fs(keyPath \<mapsto> ca_pem_encode L ''EC PRIVATE KEY'' keyDER, certPath \<mapsto> ca_pem_encode L ''CERTIFICATE'' (da_raw ca))"
  using assms
  by (auto simp: ca_create_def split: sum.splits option.splits prod.splits dest!: ca_writeFile_ok)

text \<open>Two readable files are loaded as they are, and the file system stays the same.\<close>

definition ca_loaded :: "('k, 'x) ca_lib \<Rightarrow> string \<Rightarrow> string \<Rightarrow> files \<Rightarrow> ('k, 'x) device_ca \<Rightarrow> bool" where
  "ca_loaded L keyPath certPath fs ca \<longleftrightarrow>
     (\<exists>keyData certData. fs keyPath = Some keyData \<and> fs certPath = Some certData
        \<and> parseECKey L keyData = Inr (da_key ca) \<and> parseCert L certData = Inr (da_cert ca, da_raw ca))"

lemma ca_loaded_load:
  assumes "ca_loaded L keyPath certPath fs ca" "fa_read_key A = None" "fa_read_cert A = None"
  shows "deviceca_LoadOrCreate L A gen rnd now keyPath certPath fs = (Inr ca, fs)"
  using assms by (auto simp: ca_loaded_def deviceca_LoadOrCreate_def read_file_def)

lemma LoadOrCreate_loaded:
  assumes "deviceca_LoadOrCreate L A gen rnd now keyPath certPath fs = (Inr ca, fs')"
    and "ca_lib_ok L" "keyPath \<noteq> certPath"
  shows "ca_loaded L keyPath certPath fs' ca"
proof (cases "ca_create L A gen rnd now keyPath certPath fs = (Inr ca, fs')")
  case True
  then obtain keyDER where c: "ca_marshal_key L (da_key ca) = Inr keyDER"
    "ca_parse_cert L (da_raw ca) = Inr (da_cert ca)"
    "fs' = fs(keyPath \<mapsto> ca_pem_encode L ''EC PRIVATE KEY'' keyDER, certPath \<mapsto> ca_pem_encode L ''CERTIFICATE'' (da_raw ca))"
    by (rule ca_create_Inr)
  with assms(2,3) show ?thesis by (simp add: ca_loaded_def ca_lib_ok_def parseECKey_def parseCert_def)
next
  case False
  with assms(1) show ?thesis
    by (auto simp: deviceca_LoadOrCreate_def ca_loaded_def read_file_OK split: read_result.splits sum.splits)
qed

definition ex_ca_lib :: "(string, string) ca_lib" where
  "ex_ca_lib = \<lparr>ca_pem_decode = (\<lambda>s. case s of c # rest \<Rightarrow> Some (if c = CHR ''K'' then ''EC PRIVATE KEY'' else ''CERTIFICATE'', rest) | [] \<Rightarrow> None),
     ca_pem_encode = (\<lambda>t b. (if t = ''EC PRIVATE KEY'' then CHR ''K'' else CHR ''C'') # b),
     ca_parse_key = Inr, ca_marshal_key = Inr, ca_parse_cert = Inr, ca_self_sign = (\<lambda>t k. Inr (''cert of '' @ k)),
     ca_dir = (\<lambda>_. ''pki'')\<rparr>"

definition ex_ca_faults :: ca_faults where
  "ex_ca_faults = \<lparr>fa_read_key = None, fa_read_cert = None, fa_mkdir = (\<lambda>_. None), fa_write_key = WriteOK, fa_write_cert = WriteOK\<rparr>"

lemma ex_ca_lib_ok: "ca_lib_ok ex_ca_lib"
  by (simp add: ca_lib_ok_def ex_ca_lib_def)

definition ex_ca_start :: "(string, string) device_ca res \<times> files" where
  "ex_ca_start = deviceca_LoadOrCreate ex_ca_lib ex_ca_faults (Inr ''k1'') (Inr 7) 0 ''ca.key'' ''ca.crt'' Map.empty"

lemma ex_ca_started: "ex_ca_start = (Inr \<lparr>da_cert = ''cert of k1'', da_key = ''k1'', da_raw = ''cert of k1''\<rparr>,
    [''ca.key'' \<mapsto> ''Kk1'', ''ca.crt'' \<mapsto> ''Ccert of k1''])"
  by (simp add: ex_ca_start_def deviceca_LoadOrCreate_def read_file_def ca_create_def ex_ca_lib_def ex_ca_faults_def
      ca_mkdirAll_def ca_writeFile_def write_file_def)

text \<open>The device authority survives a restart.  Once the authority was loaded or made, every later start that can
  read both files, whatever happened to other files, works with the same key and certificate and writes nothing.\<close>

theorem ca_survives_restart:
  assumes "deviceca_LoadOrCreate L A gen rnd now keyPath certPath fs = (Inr ca, fs')"
    and "ca_lib_ok L" "keyPath \<noteq> certPath" "fs2 keyPath = fs' keyPath" "fs2 certPath = fs' certPath"
    and "fa_read_key A2 = None" "fa_read_cert A2 = None"
  shows "deviceca_LoadOrCreate L A2 gen2 rnd2 now2 keyPath certPath fs2 = (Inr ca, fs2)"
proof -
  have "ca_loaded L keyPath certPath fs' ca" using LoadOrCreate_loaded[OF assms(1-3)] .
  then have "ca_loaded L keyPath certPath fs2 ca" using assms(4,5) by (simp add: ca_loaded_def)
  then show ?thesis by (rule ca_loaded_load[OF _ assms(6,7)])
qed

theorem ca_survives_restart_witness:
  "fst (deviceca_LoadOrCreate ex_ca_lib ex_ca_faults (Inr ''k2'') (Inr 8) 99 ''ca.key'' ''ca.crt''
     ((snd ex_ca_start)(''ssh.key'' \<mapsto> ''x''))) = fst ex_ca_start"
  using ca_survives_restart[OF ex_ca_started[unfolded ex_ca_start_def] ex_ca_lib_ok, of _ ex_ca_faults "Inr ''k2''" "Inr 8" 99]
  by (simp add: ex_ca_started ex_ca_faults_def)

text \<open>What the making of an authority needs: a key, a number, a certificate that is signed and parsed, and writes that succeed.\<close>

definition ca_makes :: "('k, 'x) ca_lib \<Rightarrow> ca_faults \<Rightarrow> 'k res \<Rightarrow> nat res \<Rightarrow> time \<Rightarrow> bool" where
  "ca_makes L A gen rnd now \<longleftrightarrow>
     (\<exists>k n raw. gen = Inr k \<and> rnd = Inr n \<and> ca_self_sign L (ca_template n now) k = Inr raw \<and> is_ok (ca_parse_cert L raw)
        \<and> is_ok (ca_marshal_key L k))
     \<and> (\<forall>i. fa_mkdir A i = None) \<and> fa_write_key A = WriteOK \<and> fa_write_cert A = WriteOK"

lemma ca_create_makes:
  assumes "ca_makes L A gen rnd now"
  shows "is_ok (fst (ca_create L A gen rnd now keyPath certPath fs))"
proof -
  obtain k n raw where "gen = Inr k" "rnd = Inr n" "ca_self_sign L (ca_template n now) k = Inr raw"
    "is_ok (ca_parse_cert L raw)" "is_ok (ca_marshal_key L k)" and w: "fa_mkdir A = (\<lambda>_. None)" "fa_write_key A = WriteOK" "fa_write_cert A = WriteOK"
    using assms by (auto simp: ca_makes_def fun_eq_iff)
  moreover obtain cert der where "ca_parse_cert L raw = Inr cert" "ca_marshal_key L k = Inr der"
    using calculation(4,5) by (auto simp: is_ok_def split: sum.splits)
  ultimately show ?thesis by (simp add: ca_create_def ca_mkdirAll_def ca_writeFile_def write_file_def)
qed

text \<open>C24: a read error destroys the device authority.  When one of the two files of an authority cannot be read, for
  whatever reason, a start does not stop for it: it makes a new authority.  If that succeeds, as it does when the key, the
  number and the certificate can be made and encoded and the files written, the new authority stands over the files of the old one and
  is the one every later start loads; the start fails only where the making does.\<close>

theorem ca_replaced_on_read_error:
  assumes "ca_loaded L keyPath certPath fs ca" "fa_read_key A \<noteq> None \<or> fa_read_cert A \<noteq> None"
    and "ca_lib_ok L" "keyPath \<noteq> certPath"
  shows "case deviceca_LoadOrCreate L A gen rnd now keyPath certPath fs of
      (Inl e, fs') \<Rightarrow> \<not> ca_makes L A gen rnd now
    | (Inr ca', fs') \<Rightarrow> gen = Inr (da_key ca')
        \<and> (\<forall>A2 gen2 rnd2 now2. fa_read_key A2 = None \<and> fa_read_cert A2 = None \<longrightarrow>
             deviceca_LoadOrCreate L A2 gen2 rnd2 now2 keyPath certPath fs' = (Inr ca', fs'))"
proof -
  have c: "deviceca_LoadOrCreate L A gen rnd now keyPath certPath fs = ca_create L A gen rnd now keyPath certPath fs"
    using assms(1,2) by (auto simp: deviceca_LoadOrCreate_def ca_loaded_def read_file_def split: read_result.splits)
  show ?thesis
  proof (cases "ca_create L A gen rnd now keyPath certPath fs")
    case (Pair r fs')
    show ?thesis
    proof (cases r)
      case (Inl e)
      with Pair c ca_create_makes[of L A gen rnd now keyPath certPath fs] show ?thesis by auto
    next
      case (Inr ca')
      with Pair c have l: "deviceca_LoadOrCreate L A gen rnd now keyPath certPath fs = (Inr ca', fs')" by simp
      have "gen = Inr (da_key ca')" using ca_create_Inr Pair Inr by blast
      moreover have "ca_loaded L keyPath certPath fs' ca'" using LoadOrCreate_loaded[OF l assms(3,4)] .
      ultimately show ?thesis using ca_loaded_load l by auto
    qed
  qed
qed

theorem ca_replaced_on_read_error_witness:
  "\<exists>ca fs. deviceca_LoadOrCreate ex_ca_lib (ex_ca_faults\<lparr>fa_read_cert := Some (Errorf ''permission denied'')\<rparr>) (Inr ''k2'')
        (Inr 8) 99 ''ca.key'' ''ca.crt'' (snd ex_ca_start) = (Inr ca, fs)
     \<and> da_key ca = ''k2''
     \<and> deviceca_LoadOrCreate ex_ca_lib ex_ca_faults (Inr ''k3'') (Inr 9) 100 ''ca.key'' ''ca.crt'' fs = (Inr ca, fs)"
proof -
  let ?A = "ex_ca_faults\<lparr>fa_read_cert := Some (Errorf ''permission denied'')\<rparr>"
  let ?ca = "\<lparr>da_cert = ''cert of k2'', da_key = ''k2'', da_raw = ''cert of k2''\<rparr>"
  have l: "ca_loaded ex_ca_lib ''ca.key'' ''ca.crt'' (snd ex_ca_start) \<lparr>da_cert = ''cert of k1'', da_key = ''k1'', da_raw = ''cert of k1''\<rparr>"
    by (simp add: ca_loaded_def ex_ca_started parseECKey_def parseCert_def ex_ca_lib_def)
  have r: "deviceca_LoadOrCreate ex_ca_lib ?A (Inr ''k2'') (Inr 8) 99 ''ca.key'' ''ca.crt'' (snd ex_ca_start) =
      (Inr ?ca, (snd ex_ca_start)(''ca.key'' \<mapsto> ''Kk2'', ''ca.crt'' \<mapsto> ''Ccert of k2''))"
    by (simp add: ex_ca_started deviceca_LoadOrCreate_def read_file_def ca_create_def ex_ca_lib_def ex_ca_faults_def
        ca_mkdirAll_def ca_writeFile_def write_file_def)
  from ca_replaced_on_read_error[OF l _ ex_ca_lib_ok, of ?A "Inr ''k2''" "Inr 8" 99] r show ?thesis
    by (auto simp: ex_ca_faults_def)
qed

text \<open>When the write of the certificate fails over an old certificate, the next start pairs the new key with the old
  certificate: nothing checks that the two belong together.\<close>

lemma ca_half_written:
  assumes "fa_mkdir A = (\<lambda>_. None)" "fa_write_key A = WriteOK" "fa_write_cert A = WriteFails e None"
    and "ca_self_sign L (ca_template n now) k = Inr raw'" "ca_parse_cert L raw' = Inr cert'" "ca_marshal_key L k = Inr der"
    and "fs certPath = Some old" "parseCert L old = Inr (cert, raw)" "keyPath \<noteq> certPath" "ca_lib_ok L"
    and "fa_read_key A2 = None" "fa_read_cert A2 = None"
  shows "\<exists>e fs1. ca_create L A (Inr k) (Inr n) now keyPath certPath fs = (Inl e, fs1)
     \<and> deviceca_LoadOrCreate L A2 gen2 rnd2 now2 keyPath certPath fs1 = (Inr \<lparr>da_cert = cert, da_key = k, da_raw = raw\<rparr>, fs1)"
proof -
  let ?fs = "fs(keyPath \<mapsto> ca_pem_encode L ''EC PRIVATE KEY'' der)"
  have "ca_loaded L keyPath certPath ?fs \<lparr>da_cert = cert, da_key = k, da_raw = raw\<rparr>"
    using assms(6-10) by (simp add: ca_loaded_def ca_lib_ok_def parseECKey_def)
  from ca_loaded_load[OF this assms(11,12)] show ?thesis
    using assms(1-6) by (simp add: ca_create_def ca_mkdirAll_def ca_writeFile_def write_file_def)
qed

text \<open>The SSH authority: a key that exists and cannot be read is an error, and the file stays; a start that succeeded
  is repeated with the same signer.\<close>

lemma sshca_read_error:
  "fs keyPath \<noteq> None \<Longrightarrow> sshca_LoadOrCreate parse marshal enc (Some e) w gen keyPath fs =
     (Inl (Wrapf ''read ssh ca key: '' e []), fs)"
  by (auto simp: sshca_LoadOrCreate_def read_file_def)

lemma sshca_reload:
  assumes "sshca_LoadOrCreate parse marshal enc rd w gen keyPath fs = (Inr s, fs')" "fs2 keyPath = fs' keyPath"
  shows "sshca_LoadOrCreate parse marshal enc None w2 gen2 keyPath fs2 = (Inr s, fs2)"
  using assms
  by (auto simp: sshca_LoadOrCreate_def Let_def read_file_OK read_file_def dest!: write_file_ok
      split: read_result.splits sum.splits prod.splits option.splits)

end
