(* ===== verification/CP_Config.thy ===== *)
theory CP_Config
  imports SSH_Credentials Device_Credentials CP_Auth
begin

text \<open>
  The control plane's configuration (\<open>control-plane/internal/config/config.go\<close>): its defaults,
  its validation and its durations.  The YAML decoder and the existence of a file are
  arguments.  The blocks other components read (\<open>sshca\<close>, \<open>device_ca\<close>, \<open>pep\<close>) are the records of
  their theories.
\<close>

record tls_block =
  tb_enabled :: bool
  tb_cert_file :: string
  tb_key_file :: string
  tb_client_ca_file :: string
  tb_require_client_auth :: bool

record server_block =
  sv_address :: string
  sv_port :: int
  sv_read_timeout :: string
  sv_write_timeout :: string
  sv_idle_timeout :: string
  sv_read_header_timeout :: string
  sv_tls :: tls_block

record cp_config =
  cg_server :: server_block
  cg_pep_server :: server_block
  cg_db_path :: string
  cg_busy_timeout :: string
  cg_pragmas :: "string list"
  cg_issuer :: string
  cg_audience :: string
  cg_username_claim :: string
  cg_groups_claim :: string
  cg_allowed_algs :: "string list"
  cg_jwks_ttl :: string
  cg_audience_mode :: string
  cg_admin_group :: string
  cg_allow_http :: bool
  cg_oidc_ca :: string
  cg_oidc_insecure :: bool
  cg_pep :: pep_config
  cg_decision_ttl :: int
  cg_require_registration :: "bool option"
  cg_ssh_key :: string
  cg_ssh :: sshca_config
  cg_device_key :: string
  cg_device_cert :: string
  cg_device :: deviceca_config
  cg_policy_seed :: string
  cg_resource_seed :: string
  cg_log_level :: string
  cg_log_format :: string

subsection \<open>Durations\<close>

definition parseDurationOrDefault :: "string \<Rightarrow> duration \<Rightarrow> duration" where
  "parseDurationOrDefault raw fallback =
     (if raw = [] then fallback else case ParseDuration raw of None \<Rightarrow> fallback | Some d \<Rightarrow> d)"

definition ReadTimeoutDuration :: "server_block \<Rightarrow> duration" where
  "ReadTimeoutDuration s = parseDurationOrDefault (sv_read_timeout s) (10 * Second)"
definition WriteTimeoutDuration :: "server_block \<Rightarrow> duration" where
  "WriteTimeoutDuration s = parseDurationOrDefault (sv_write_timeout s) (10 * Second)"
definition IdleTimeoutDuration :: "server_block \<Rightarrow> duration" where
  "IdleTimeoutDuration s = parseDurationOrDefault (sv_idle_timeout s) (60 * Second)"
definition ReadHeaderTimeoutDuration :: "server_block \<Rightarrow> duration" where
  "ReadHeaderTimeoutDuration s = parseDurationOrDefault (sv_read_header_timeout s) (5 * Second)"
definition BusyTimeout :: "cp_config \<Rightarrow> duration" where
  "BusyTimeout c = parseDurationOrDefault (cg_busy_timeout c) (5 * Second)"
definition DeviceDefaultTTL :: "cp_config \<Rightarrow> duration" where
  "DeviceDefaultTTL c = parseDurationOrDefault (dv_default_ttl (cg_device c)) (7 * 24 * Hour)"
definition DeviceMinTTL :: "cp_config \<Rightarrow> duration" where
  "DeviceMinTTL c = parseDurationOrDefault (dv_min_ttl (cg_device c)) Hour"
definition DeviceMaxTTL :: "cp_config \<Rightarrow> duration" where
  "DeviceMaxTTL c = parseDurationOrDefault (dv_max_ttl (cg_device c)) (30 * 24 * Hour)"
definition PEPRequireRegistrationEnabled :: "cp_config \<Rightarrow> bool" where
  "PEPRequireRegistrationEnabled c = (case cg_require_registration c of None \<Rightarrow> True | Some b \<Rightarrow> b)"

subsection \<open>Defaults\<close>

definition or_else :: "string \<Rightarrow> string \<Rightarrow> string" where
  "or_else s dflt = (if s = [] then dflt else s)"

definition applyServerDefaults :: "int \<Rightarrow> server_block \<Rightarrow> server_block" where
  "applyServerDefaults defaultPort s = s\<lparr>
     sv_address := or_else (sv_address s) ''0.0.0.0'',
     sv_port := (if sv_port s = 0 then defaultPort else sv_port s),
     sv_read_timeout := or_else (sv_read_timeout s) ''10s'',
     sv_write_timeout := or_else (sv_write_timeout s) ''10s'',
     sv_idle_timeout := or_else (sv_idle_timeout s) ''60s'',
     sv_read_header_timeout := or_else (sv_read_header_timeout s) ''5s''\<rparr>"

text \<open>In mTLS mode the listener of the gateways is a TLS server that asks for client certificates,
  with the public server's files where it has none of its own.\<close>

definition mtls_server :: "tls_block \<Rightarrow> server_block \<Rightarrow> server_block" where
  "mtls_server public s =
     (let s' = applyServerDefaults 8443 s; t = sv_tls s' in
      s'\<lparr>sv_tls := \<lparr>tb_enabled = True, tb_cert_file = or_else (tb_cert_file t) (tb_cert_file public),
                    tb_key_file = or_else (tb_key_file t) (tb_key_file public),
                    tb_client_ca_file = or_else (tb_client_ca_file t) (tb_client_ca_file public),
                    tb_require_client_auth = True\<rparr>\<rparr>)"

definition cp_applyDefaults :: "cp_config \<Rightarrow> cp_config" where
  "cp_applyDefaults c =
     (let server = applyServerDefaults 8080 (cg_server c);
          mode = or_else (pc_auth_mode (cg_pep c)) ''mtls'' in
      c\<lparr>cg_server := server,
        cg_busy_timeout := or_else (cg_busy_timeout c) ''5s'',
        cg_groups_claim := or_else (cg_groups_claim c) ''groups'',
        cg_allowed_algs := (if cg_allowed_algs c = [] then [''RS256''] else cg_allowed_algs c),
        cg_jwks_ttl := or_else (cg_jwks_ttl c) ''10m'',
        cg_audience_mode := or_else (cg_audience_mode c) ''aud'',
        cg_pep := (cg_pep c)\<lparr>pc_auth_mode := mode\<rparr>,
        cg_decision_ttl := (if cg_decision_ttl c \<le> 0 then 60 else cg_decision_ttl c),
        cg_pep_server := (if mode = ''mtls'' then mtls_server (sv_tls server) (cg_pep_server c) else cg_pep_server c),
        cg_ssh := (cg_ssh c)\<lparr>sc_default_ttl := or_else (sc_default_ttl (cg_ssh c)) ''15m'',
                             sc_min_ttl := or_else (sc_min_ttl (cg_ssh c)) ''1m'',
                             sc_max_ttl := or_else (sc_max_ttl (cg_ssh c)) ''60m''\<rparr>,
        cg_device_key := or_else (cg_device_key c) ''pki/device_ca.key'',
        cg_device_cert := or_else (cg_device_cert c) ''pki/device_ca.crt'',
        cg_device := (cg_device c)\<lparr>dv_default_ttl := or_else (dv_default_ttl (cg_device c)) ''168h'',
                                   dv_min_ttl := or_else (dv_min_ttl (cg_device c)) ''1h'',
                                   dv_max_ttl := or_else (dv_max_ttl (cg_device c)) ''720h'',
                                   dv_allowed_key_types := (if dv_allowed_key_types (cg_device c) = []
                                     then [''ed25519'', ''ecdsa-p256''] else dv_allowed_key_types (cg_device c))\<rparr>,
        cg_log_level := or_else (cg_log_level c) ''info'',
        cg_log_format := or_else (cg_log_format c) ''json''\<rparr>)"

subsection \<open>Validation\<close>

text \<open>The checks in the order of the code; the first that fails gives the error.  Of a library's error
  that the code appends, and of file names, the texts are left out.\<close>

fun first_error :: "(bool \<times> string) list \<Rightarrow> goerr option" where
  "first_error [] = None"
| "first_error ((bad, text) # cs) = (if bad then Some (Errorf text) else first_error cs)"

definition bad_duration :: "string \<Rightarrow> bool" where
  "bad_duration s = (ParseDuration s = None)"

text \<open>\<open>d, _ := time.ParseDuration(s)\<close>.\<close>

definition duration_or_zero :: "string \<Rightarrow> duration" where
  "duration_or_zero s = (case ParseDuration s of None \<Rightarrow> 0 | Some d \<Rightarrow> d)"

definition ttl_order_bad :: "string \<Rightarrow> string \<Rightarrow> bool" where
  "ttl_order_bad minTTL maxTTL =
     (minTTL \<noteq> [] \<and> maxTTL \<noteq> [] \<and> duration_or_zero maxTTL > 0 \<and> duration_or_zero minTTL > duration_or_zero maxTTL)"

definition bad_port :: "int \<Rightarrow> bool" where
  "bad_port p = (p < 1 \<or> p > 65535)"

definition server_checks :: "cp_config \<Rightarrow> (bool \<times> string) list" where
  "server_checks c = (let t = sv_tls (cg_server c) in
     [(bad_port (sv_port (cg_server c)), ''server.port must be 1-65535''),
      (tb_enabled t \<and> (tb_cert_file t = [] \<or> tb_key_file t = []),
       ''server.tls cert_file and key_file are required when server.tls.enabled=true'')])"

definition oidc_checks :: "(string \<Rightarrow> bool) \<Rightarrow> cp_config \<Rightarrow> (bool \<times> string) list" where
  "oidc_checks exists c =
     [(cg_issuer c = [], ''oidc.issuer is required''),
      (\<not> cg_allow_http c \<and> HasPrefix (ToLower (TrimSpace (cg_issuer c))) ''http://'',
       ''oidc.issuer uses http:// but oidc.allow_http_issuer=false''),
      (cg_audience c = [], ''oidc.audience is required''),
      (cg_username_claim c = [], ''oidc.username_claim is required''),
      (cg_groups_claim c = [], ''oidc.groups_claim is required''),
      (cg_allowed_algs c = [], ''oidc.allowed_algs is required''),
      (list_ex (\<lambda>alg. ToUpper (TrimSpace alg) \<noteq> ''RS256'') (cg_allowed_algs c),
       ''oidc.allowed_algs must contain only RS256''),
      (cg_jwks_ttl c \<noteq> [] \<and> bad_duration (cg_jwks_ttl c), ''oidc.jwks_cache_ttl invalid''),
      (cg_audience_mode c \<noteq> [] \<and> cg_audience_mode c \<noteq> ''aud'' \<and> cg_audience_mode c \<noteq> ''aud_or_azp'',
       ''oidc.audience_mode must be aud or aud_or_azp''),
      (cg_oidc_ca c \<noteq> [] \<and> \<not> exists (cg_oidc_ca c), ''oidc.ca_file not found'')]"

definition store_checks :: "cp_config \<Rightarrow> (bool \<times> string) list" where
  "store_checks c =
     [(cg_db_path c = [], ''database.path is required''),
      (cg_busy_timeout c \<noteq> [] \<and> bad_duration (cg_busy_timeout c), ''database.busy_timeout invalid'')]"

definition ssh_checks :: "cp_config \<Rightarrow> (bool \<times> string) list" where
  "ssh_checks c = (let s = cg_ssh c in
     [(cg_ssh_key c = [], ''sshca.key_path is required''),
      (bad_duration (sc_default_ttl s), ''sshca.default_ttl invalid''),
      (sc_min_ttl s \<noteq> [] \<and> bad_duration (sc_min_ttl s), ''sshca.min_ttl invalid''),
      (sc_max_ttl s \<noteq> [] \<and> bad_duration (sc_max_ttl s), ''sshca.max_ttl invalid''),
      (ttl_order_bad (sc_min_ttl s) (sc_max_ttl s), ''sshca.min_ttl must be <= sshca.max_ttl'')])"

definition device_checks :: "cp_config \<Rightarrow> (bool \<times> string) list" where
  "device_checks c = (let d = cg_device c in
     [(cg_device_key c = [], ''device_ca.key_path is required''),
      (cg_device_cert c = [], ''device_ca.cert_path is required''),
      (bad_duration (dv_default_ttl d), ''device_ca.default_ttl invalid''),
      (dv_min_ttl d \<noteq> [] \<and> bad_duration (dv_min_ttl d), ''device_ca.min_ttl invalid''),
      (dv_max_ttl d \<noteq> [] \<and> bad_duration (dv_max_ttl d), ''device_ca.max_ttl invalid''),
      (ttl_order_bad (dv_min_ttl d) (dv_max_ttl d), ''device_ca.min_ttl must be <= device_ca.max_ttl''),
      (list_ex (\<lambda>kt. ToLower (TrimSpace kt) \<notin> {''ed25519'', ''ecdsa-p256'', []}) (dv_allowed_key_types d),
       ''device_ca.allowed_key_types must be ed25519 and/or ecdsa-p256'')])"

definition pep_checks :: "cp_config \<Rightarrow> (bool \<times> string) list" where
  "pep_checks c =
     (let p = cg_pep c; mtls = (pc_auth_mode p = ''mtls''); s = cg_pep_server c; t = sv_tls s in
      [(pc_auth_mode p \<noteq> ''token'' \<and> pc_auth_mode p \<noteq> ''mtls'', ''pep.auth_mode must be token or mtls''),
       (pc_auth_mode p = ''token'' \<and> pc_tokens p = [], ''pep.tokens required for token auth''),
       (mtls \<and> bad_port (sv_port s), ''pep_server.port must be 1-65535 when pep.auth_mode=mtls''),
       (mtls \<and> \<not> tb_enabled t, ''pep_server.tls.enabled must be true when pep.auth_mode=mtls''),
       (mtls \<and> (tb_cert_file t = [] \<or> tb_key_file t = []),
        ''pep_server.tls cert_file and key_file are required when pep.auth_mode=mtls''),
       (mtls \<and> tb_client_ca_file t = [], ''pep_server.tls.client_ca_file is required when pep.auth_mode=mtls''),
       (list_ex (\<lambda>i. TrimSpace i = []) (pc_revoked_pep_ids p), ''pep.revoked_pep_ids must not contain empty values'')])"

definition cp_Validate :: "(string \<Rightarrow> bool) \<Rightarrow> cp_config \<Rightarrow> goerr option" where
  "cp_Validate exists c =
     first_error (server_checks c @ oidc_checks exists c @ store_checks c @ ssh_checks c @ device_checks c @ pep_checks c)"

definition cp_Load :: "string res \<Rightarrow> (string \<Rightarrow> cp_config res) \<Rightarrow> (string \<Rightarrow> bool) \<Rightarrow> cp_config res" where
  "cp_Load content yaml exists =
     (case content of
        Inl e \<Rightarrow> Inl (Wrapf ''read config: '' e [])
      | Inr text \<Rightarrow>
          (case yaml text of
             Inl e \<Rightarrow> Inl (Wrapf ''parse config: '' e [])
           | Inr c0 \<Rightarrow>
               (let c = cp_applyDefaults c0 in
                case cp_Validate exists c of
                  Some e \<Rightarrow> Inl (Wrapf ''validate config: '' e [])
                | None \<Rightarrow> Inr c)))"

subsection \<open>Facts\<close>

lemma first_error_None: "first_error cs = None \<longleftrightarrow> (\<forall>(bad, text)\<in>set cs. \<not> bad)"
  by (induction cs rule: first_error.induct) auto

lemma cp_Validate_None:
  "cp_Validate exists c = None \<longleftrightarrow>
     (\<forall>(bad, text)\<in>set (server_checks c) \<union> set (oidc_checks exists c) \<union> set (store_checks c)
        \<union> set (ssh_checks c) \<union> set (device_checks c) \<union> set (pep_checks c). \<not> bad)"
  by (auto simp: cp_Validate_def first_error_None)

lemma cp_Load_Inr:
  "cp_Load content yaml exists = Inr c \<Longrightarrow> cp_Validate exists c = None \<and> (\<exists>c0. c = cp_applyDefaults c0)"
  by (auto simp: cp_Load_def Let_def split: sum.splits option.splits)

lemma applied_defaults:
  "0 < cg_decision_ttl (cp_applyDefaults c0)"
  "pc_auth_mode (cg_pep (cp_applyDefaults c0)) = ''mtls'' \<Longrightarrow>
     tb_require_client_auth (sv_tls (cg_pep_server (cp_applyDefaults c0)))"
  by (auto simp: cp_applyDefaults_def mtls_server_def Let_def)

lemma ttl_order: "\<not> ttl_order_bad a b \<Longrightarrow> a \<noteq> [] \<Longrightarrow> ParseDuration a = Some m \<Longrightarrow> ParseDuration b = Some n \<Longrightarrow>
    b \<noteq> [] \<Longrightarrow> 0 < n \<Longrightarrow> m \<le> n"
  by (auto simp: ttl_order_bad_def duration_or_zero_def)

subsection \<open>Properties\<close>

text \<open>C39: a configuration that loads accepts access tokens signed with RS256 only, makes gateways
  authenticate, in mTLS mode by a TLS listener that requires client certificates and in token
  mode with at least one token, revokes no empty name, gives decisions a positive lifetime,
  has ports in range, and lifetimes for both kinds of certificates that parse.\<close>

theorem cp_Load_validated:
  assumes "cp_Load content yaml exists = Inr c"
  shows "list_all (\<lambda>alg. ToUpper (TrimSpace alg) = ''RS256'') (cg_allowed_algs c) \<and> cg_allowed_algs c \<noteq> []
     \<and> (if pc_auth_mode (cg_pep c) = ''mtls''
        then tb_enabled (sv_tls (cg_pep_server c)) \<and> tb_require_client_auth (sv_tls (cg_pep_server c))
             \<and> tb_client_ca_file (sv_tls (cg_pep_server c)) \<noteq> [] \<and> \<not> bad_port (sv_port (cg_pep_server c))
        else pc_auth_mode (cg_pep c) = ''token'' \<and> pc_tokens (cg_pep c) \<noteq> [])
     \<and> [] \<notin> set (pc_revoked_pep_ids (cg_pep c)) \<and> 0 < cg_decision_ttl c \<and> \<not> bad_port (sv_port (cg_server c))
     \<and> ParseDuration (sc_default_ttl (cg_ssh c)) \<noteq> None \<and> ParseDuration (dv_default_ttl (cg_device c)) \<noteq> None"
proof -
  from cp_Load_Inr[OF assms] obtain c0 where v: "cp_Validate exists c = None" and c: "c = cp_applyDefaults c0"
    by blast
  note ok = v[unfolded cp_Validate_None]
  have "list_all (\<lambda>alg. ToUpper (TrimSpace alg) = ''RS256'') (cg_allowed_algs c) \<and> cg_allowed_algs c \<noteq> []"
    using ok by (simp add: oidc_checks_def list_all_iff list_ex_iff)
  moreover have "if pc_auth_mode (cg_pep c) = ''mtls''
        then tb_enabled (sv_tls (cg_pep_server c)) \<and> tb_require_client_auth (sv_tls (cg_pep_server c))
             \<and> tb_client_ca_file (sv_tls (cg_pep_server c)) \<noteq> [] \<and> \<not> bad_port (sv_port (cg_pep_server c))
        else pc_auth_mode (cg_pep c) = ''token'' \<and> pc_tokens (cg_pep c) \<noteq> []"
    using ok applied_defaults(2)[of c0] by (auto simp: pep_checks_def Let_def c[symmetric])
  moreover have "[] \<notin> set (pc_revoked_pep_ids (cg_pep c))"
    using ok by (force simp: pep_checks_def Let_def list_ex_iff TrimSpace_def)
  moreover have "\<not> bad_port (sv_port (cg_server c))"
    using ok by (simp add: server_checks_def Let_def)
  moreover have "ParseDuration (sc_default_ttl (cg_ssh c)) \<noteq> None" "ParseDuration (dv_default_ttl (cg_device c)) \<noteq> None"
    using ok by (simp_all add: ssh_checks_def device_checks_def Let_def bad_duration_def)
  ultimately show ?thesis using applied_defaults(1)[of c0] by (simp add: c)
qed

definition ex_tls_block :: tls_block where
  "ex_tls_block = \<lparr>tb_enabled = True, tb_cert_file = ''cp.crt'', tb_key_file = ''cp.key'', tb_client_ca_file = ''ca.pem'',
     tb_require_client_auth = False\<rparr>"

definition ex_server_block :: server_block where
  "ex_server_block = \<lparr>sv_address = [], sv_port = 0, sv_read_timeout = [], sv_write_timeout = [], sv_idle_timeout = [],
     sv_read_header_timeout = [], sv_tls = ex_tls_block\<rparr>"

text \<open>A file that sets only what has no default.\<close>

definition ex_cp_yaml :: cp_config where
  "ex_cp_yaml = \<lparr>cg_server = ex_server_block,
     cg_pep_server = ex_server_block\<lparr>sv_tls := \<lparr>tb_enabled = False, tb_cert_file = [], tb_key_file = [],
       tb_client_ca_file = [], tb_require_client_auth = False\<rparr>\<rparr>,
     cg_db_path = ''cp.db'', cg_busy_timeout = [], cg_pragmas = [], cg_issuer = ''https://idp/realms/z'', cg_audience = ''ztna'',
     cg_username_claim = ''preferred_username'', cg_groups_claim = [], cg_allowed_algs = [], cg_jwks_ttl = [],
     cg_audience_mode = [], cg_admin_group = ''ztna-admins'', cg_allow_http = False, cg_oidc_ca = [], cg_oidc_insecure = False,
     cg_pep = \<lparr>pc_auth_mode = [], pc_tokens = [], pc_revoked_pep_ids = []\<rparr>, cg_decision_ttl = 0,
     cg_require_registration = None, cg_ssh_key = ''ssh_ca'',
     cg_ssh = \<lparr>sc_default_ttl = [], sc_min_ttl = [], sc_max_ttl = [], sc_allowed_principals = [''${username}'']\<rparr>,
     cg_device_key = [], cg_device_cert = [],
     cg_device = \<lparr>dv_default_ttl = [], dv_min_ttl = [], dv_max_ttl = [], dv_allowed_key_types = []\<rparr>,
     cg_policy_seed = [], cg_resource_seed = [], cg_log_level = [], cg_log_format = []\<rparr>"

definition ex_cp_config :: cp_config where
  "ex_cp_config = cp_applyDefaults ex_cp_yaml"

lemma ex_cp_loaded: "cp_Load (Inr ''yaml'') (\<lambda>_. Inr ex_cp_yaml) (\<lambda>_. True) = Inr ex_cp_config"
proof -
  have "cp_Validate (\<lambda>_. True) (cp_applyDefaults ex_cp_yaml) = None" by code_simp
  then show ?thesis by (simp add: cp_Load_def ex_cp_config_def)
qed

theorem cp_Load_validated_witness:
  "tb_require_client_auth (sv_tls (cg_pep_server ex_cp_config)) \<and> cg_allowed_algs ex_cp_config = [''RS256'']
   \<and> ParseDuration (sc_default_ttl (cg_ssh ex_cp_config)) \<noteq> None"
  using cp_Load_validated[OF ex_cp_loaded] by (simp add: ex_cp_config_def ex_cp_yaml_def cp_applyDefaults_def
      or_else_def mtls_server_def Let_def)

end
