(* ===== verification/CP_Server.thy ===== *)
theory CP_Server
  imports CP_Config
begin

text \<open>
  The control plane's HTTP servers (\<open>control-plane/internal/api/httpserver/server.go\<close>): the two routers
  with their middlewares, the TLS configurations, and how the servers run and stop.

  A router of go-chi is a tree: routes, with the middlewares of their group, and mounted
  routers, whose middlewares also run for a path that no route of theirs matches.  A path is the list
  of its segments.  The handlers are arguments, named by \<open>endpoint\<close>.
\<close>

subsection \<open>Routers\<close>

datatype middleware = MRecoverer | MRequestID | MRateByIP | MRateByPEP | MUser | MAdmin | MPep

datatype endpoint =
    EHealthz | EDeviceCACert | EDeviceCACrl | ESSHCAPubKey
  | EWhoami | ESSHCert | EDeviceCert | EListForUser
  | EPepRegister | EPepAuthorize | EPepHeartbeat | EPepSessionStart | EPepSessionEnd | EPepResource
  | EPolicyCreate | EPolicyActivate | EPolicyActive | EAudit | ECertRevoke | ESessions
  | EAdminList | EAdminCreate | EAdminUpdate | EAdminDelete

datatype seg = Lit string | Par string

datatype node =
    Handle string "seg list" "middleware list" endpoint
  | Mount "string list" "middleware list" "node list"

text \<open>Which optional parts of \<open>Dependencies\<close> are not nil.\<close>

record dependencies =
  dp_device_cert :: bool
  dp_pki :: bool
  dp_admin_certs :: bool
  dp_register :: bool
  dp_heartbeat :: bool
  dp_session :: bool
  dp_resource :: bool
  dp_pep_resource :: bool
  dp_public_limiter :: bool
  dp_pep_limiter :: bool

definition only_if :: "bool \<Rightarrow> 'a list \<Rightarrow> 'a list" where
  "only_if b xs = (if b then xs else [])"

definition pep_routes :: "dependencies \<Rightarrow> node list" where
  "pep_routes D =
     only_if (dp_register D) [Handle ''POST'' [Lit ''register''] [] EPepRegister]
     @ [Handle ''POST'' [Lit ''authorize''] [] EPepAuthorize]
     @ only_if (dp_heartbeat D) [Handle ''POST'' [Lit ''heartbeat''] [] EPepHeartbeat]
     @ only_if (dp_session D) [Handle ''POST'' [Lit ''sessions'', Lit ''start''] [] EPepSessionStart,
                            Handle ''POST'' [Lit ''sessions'', Lit ''end''] [] EPepSessionEnd]
     @ only_if (dp_pep_resource D) [Handle ''GET'' [Lit ''resources'', Par ''name''] [] EPepResource]"

definition admin_routes :: "dependencies \<Rightarrow> node list" where
  "admin_routes D =
     [Handle ''POST'' [Lit ''policies''] [] EPolicyCreate,
      Handle ''POST'' [Lit ''policies'', Par ''id'', Lit ''activate''] [] EPolicyActivate,
      Handle ''GET'' [Lit ''policies'', Lit ''active''] [] EPolicyActive,
      Handle ''GET'' [Lit ''audit''] [] EAudit]
     @ only_if (dp_admin_certs D) [Handle ''DELETE'' [Lit ''device-certs'', Par ''serial''] [] ECertRevoke]
     @ only_if (dp_session D) [Handle ''GET'' [Lit ''sessions''] [] ESessions]
     @ only_if (dp_resource D) [Handle ''GET'' [Lit ''resources''] [] EAdminList,
                             Handle ''POST'' [Lit ''resources''] [] EAdminCreate,
                             Handle ''PUT'' [Lit ''resources'', Par ''name''] [] EAdminUpdate,
                             Handle ''DELETE'' [Lit ''resources'', Par ''name''] [] EAdminDelete]"

definition api_routes :: "cp_config \<Rightarrow> dependencies \<Rightarrow> node list" where
  "api_routes cfg D =
     [Handle ''GET'' [Lit ''whoami''] [MUser] EWhoami,
      Mount [''credentials''] [MUser]
        ([Handle ''POST'' [Lit ''ssh-cert''] [] ESSHCert]
         @ only_if (dp_device_cert D) [Handle ''POST'' [Lit ''device-cert''] [] EDeviceCert])]
     @ only_if (dp_resource D) [Handle ''GET'' [Lit ''resources''] [MUser] EListForUser]
     @ only_if (pc_auth_mode (cg_pep cfg) \<noteq> ''mtls'') [Mount [''pep''] [MPep] (pep_routes D)]
     @ [Mount [''admin''] [MUser, MAdmin] (admin_routes D)]"

definition public_router :: "cp_config \<Rightarrow> dependencies \<Rightarrow> node" where
  "public_router cfg D =
     Mount [] ([MRecoverer, MRequestID] @ only_if (dp_public_limiter D) [MRateByIP])
       ([Handle ''GET'' [Lit ''healthz''] [] EHealthz,
         Mount [''api'', ''v1''] [] (api_routes cfg D)]
        @ only_if (dp_pki D)
            [Mount [''pki''] [] [Handle ''GET'' [Lit ''device-ca'', Lit ''cert''] [] EDeviceCACert,
                                Handle ''GET'' [Lit ''device-ca'', Lit ''crl''] [] EDeviceCACrl,
                                Handle ''GET'' [Lit ''ssh-ca'', Lit ''pubkey''] [] ESSHCAPubKey]])"

definition pep_router :: "dependencies \<Rightarrow> node" where
  "pep_router D =
     Mount [] ([MRecoverer, MRequestID] @ only_if (dp_pep_limiter D) [MRateByPEP])
       [Mount [''api'', ''v1'', ''pep''] [MPep] (pep_routes D)]"

text \<open>Matching a path, which binds the parameters, and the search of the tree.\<close>

fun match_segs :: "seg list \<Rightarrow> string list \<Rightarrow> (string \<times> string) list option" where
  "match_segs [] [] = Some []"
| "match_segs (Lit s # ps) (x # xs) = (if s = x then match_segs ps xs else None)"
| "match_segs (Par n # ps) (x # xs) = map_option ((#) (n, x)) (match_segs ps xs)"
| "match_segs _ _ = None"

fun strip :: "string list \<Rightarrow> string list \<Rightarrow> string list option" where
  "strip [] xs = Some xs"
| "strip (p # ps) (x # xs) = (if p = x then strip ps xs else None)"
| "strip (p # ps) [] = None"

datatype outcome = RouteTo endpoint "(string \<times> string) list" | RouteMissing int

fun dispatch :: "node list \<Rightarrow> bool \<Rightarrow> string \<Rightarrow> string list \<Rightarrow> middleware list \<times> outcome" where
  "dispatch [] other_method m path = ([], RouteMissing (if other_method then 405 else 404))"
| "dispatch (Handle m' pat chain ep # ns) other_method m path =
     (case match_segs pat path of
        None \<Rightarrow> dispatch ns other_method m path
      | Some params \<Rightarrow>
          if m = m' then (chain, RouteTo ep params) else dispatch ns True m path)"
| "dispatch (Mount pre chain inner # ns) other_method m path =
     (case strip pre path of
        None \<Rightarrow> dispatch ns other_method m path
      | Some rest \<Rightarrow> (let (chain', out) = dispatch inner False m rest in (chain @ chain', out)))"

subsection \<open>Serving a request\<close>

text \<open>What the middlewares of a server hold: the settings of the authentication, the validator of
  access tokens with its cache \<open>'c\<close>, the token buckets \<open>'l\<close>.\<close>

record ('c, 'l) edge =
  ed_pep :: pep_config
  ed_admin_group :: string
  ed_validate :: "string \<Rightarrow> 'c \<Rightarrow> subject res \<times> 'c"
  ed_fresh :: 'l
  ed_allow :: "'l \<Rightarrow> time \<Rightarrow> bool \<times> 'l"
  ed_now :: time

record caller =
  cc_subject :: "subject option"
  cc_pep :: "string option"

definition anonymous :: caller where
  "anonymous = \<lparr>cc_subject = None, cc_pep = None\<rparr>"

text \<open>A middleware lets a request through to the next one (\<open>Inr\<close>) or answers it (\<open>Inl\<close>).  Each is run with
  a next handler that reports what it got.\<close>

definition passed :: response where
  "passed = WriteJSON 200 (PFields [])"

definition run_middleware ::
    "('c, 'l) edge \<Rightarrow> middleware \<Rightarrow> caller \<Rightarrow> http_request \<Rightarrow> 'l limiters \<times> 'c
     \<Rightarrow> (response + caller) \<times> 'l limiters \<times> 'c" where
  "run_middleware E m who r w =
     (case w of (ls, c) \<Rightarrow>
      (case m of
         MRecoverer \<Rightarrow> (Inr who, w)
       | MRequestID \<Rightarrow> (Inr who, w)
       | MRateByIP \<Rightarrow>
           (case rl_Handler (ed_fresh E) (ed_allow E) (ed_now E) (\<lambda>_ _. (passed, True)) r ls False of
              (resp, ls', ok) \<Rightarrow> (if ok then Inr who else Inl resp, ls', c))
       | MRateByPEP \<Rightarrow>
           (case rl_HandlerByPEP (ed_fresh E) (ed_allow E) (ed_now E) (\<lambda>_ _. (passed, True)) r ls False of
              (resp, ls', ok) \<Rightarrow> (if ok then Inr who else Inl resp, ls', c))
       | MUser \<Rightarrow>
           (case RequireUser (ed_validate E) (\<lambda>subj _ _. (passed, Some subj)) r c None of
              (resp, c', None) \<Rightarrow> (Inl resp, ls, c')
            | (resp, c', Some subj) \<Rightarrow> (Inr (who\<lparr>cc_subject := subj\<rparr>), ls, c'))
       | MAdmin \<Rightarrow>
           (case RequireAdmin (ed_admin_group E) (\<lambda>_ _ _. (passed, True)) (cc_subject who) r False of
              (resp, ok) \<Rightarrow> (if ok then Inr who else Inl resp, w))
       | MPep \<Rightarrow>
           (case RequirePEP (ed_pep E) (\<lambda>pepID _ _. (passed, Some pepID)) r None of
              (resp, None) \<Rightarrow> (Inl resp, w)
            | (resp, Some pepID) \<Rightarrow> (Inr (who\<lparr>cc_pep := Some pepID\<rparr>), w))))"

fun run_chain ::
    "('c, 'l) edge \<Rightarrow> middleware list \<Rightarrow> caller \<Rightarrow> http_request \<Rightarrow> 'l limiters \<times> 'c
     \<Rightarrow> (response + caller) \<times> 'l limiters \<times> 'c" where
  "run_chain E [] who r w = (Inr who, w)"
| "run_chain E (m # ms) who r w =
     (case run_middleware E m who r w of
        (Inl resp, w') \<Rightarrow> (Inl resp, w')
      | (Inr who', w') \<Rightarrow> run_chain E ms who' r w')"

text \<open>\<open>handler\<close> runs an endpoint for a caller.  The last component of the result is the endpoint that ran.\<close>

definition serve ::
    "('c, 'l) edge \<Rightarrow> node \<Rightarrow> (endpoint \<Rightarrow> (string \<times> string) list \<Rightarrow> caller \<Rightarrow> http_request \<Rightarrow> 's \<Rightarrow> response \<times> 's)
     \<Rightarrow> string \<Rightarrow> string list \<Rightarrow> http_request \<Rightarrow> ('l limiters \<times> 'c) \<Rightarrow> 's
     \<Rightarrow> response \<times> ('l limiters \<times> 'c) \<times> 's \<times> (endpoint \<times> caller) option" where
  "serve E router handler m path r w s =
     (case dispatch [router] False m path of (chain, out) \<Rightarrow>
      (case run_chain E chain anonymous r w of
         (Inl resp, w') \<Rightarrow> (resp, w', s, None)
       | (Inr who, w') \<Rightarrow>
           (case out of
              RouteMissing status \<Rightarrow> (WriteJSON status (PRaw []), w', s, None)
            | RouteTo ep params \<Rightarrow>
                (case handler ep params who r s of (resp, s') \<Rightarrow> (resp, w', s', Some (ep, who))))))"

subsection \<open>The servers\<close>

record server_tls =
  st_min :: nat
  st_client_cas :: "string option"
  st_require_client_cert :: bool

definition cp_buildTLSConfig ::
    "(string \<Rightarrow> string res) \<Rightarrow> (string \<Rightarrow> bool) \<Rightarrow> tls_block \<Rightarrow> bool \<Rightarrow> (server_tls option \<times> string \<times> string) res" where
  "cp_buildTLSConfig read_path pem_ok t forceClientAuth =
     (if \<not> tb_enabled t then Inr (None, [], [])
      else if forceClientAuth \<or> tb_require_client_auth t then
        (case read_path (tb_client_ca_file t) of
           Inl e \<Rightarrow> Inl (Wrapf ''read client ca: '' e [])
         | Inr caCert \<Rightarrow>
             if \<not> pem_ok caCert then Inl (Errorf ''parse client ca'')
             else Inr (Some \<lparr>st_min = 13, st_client_cas = Some caCert, st_require_client_cert = True\<rparr>,
                       tb_cert_file t, tb_key_file t))
      else Inr (Some \<lparr>st_min = 13, st_client_cas = None, st_require_client_cert = False\<rparr>,
                tb_cert_file t, tb_key_file t))"

record http_server =
  hs_addr :: string
  hs_router :: node
  hs_read_timeout :: duration
  hs_write_timeout :: duration
  hs_idle_timeout :: duration
  hs_read_header_timeout :: duration
  hs_tls :: "server_tls option"
  hs_cert :: string
  hs_key :: string

definition http_server_of :: "server_block \<Rightarrow> node \<Rightarrow> server_tls option \<times> string \<times> string \<Rightarrow> http_server" where
  "http_server_of b router t =
     \<lparr>hs_addr = sv_address b @ '':'' @ Itoa (sv_port b), hs_router = router,
      hs_read_timeout = ReadTimeoutDuration b, hs_write_timeout = WriteTimeoutDuration b,
      hs_idle_timeout = IdleTimeoutDuration b, hs_read_header_timeout = ReadHeaderTimeoutDuration b,
      hs_tls = fst t, hs_cert = fst (snd t), hs_key = snd (snd t)\<rparr>"

definition server_New ::
    "(string \<Rightarrow> string res) \<Rightarrow> (string \<Rightarrow> bool) \<Rightarrow> cp_config \<Rightarrow> dependencies \<Rightarrow> (http_server \<times> http_server option) res" where
  "server_New read_path pem_ok cfg D =
     (case cp_buildTLSConfig read_path pem_ok (sv_tls (cg_server cfg)) False of
        Inl e \<Rightarrow> Inl e
      | Inr t \<Rightarrow>
          (let public = http_server_of (cg_server cfg) (public_router cfg D) t in
           if pc_auth_mode (cg_pep cfg) = ''mtls'' then
             (case cp_buildTLSConfig read_path pem_ok (sv_tls (cg_pep_server cfg)) True of
                Inl e \<Rightarrow> Inl e
              | Inr t' \<Rightarrow> Inr (public, Some (http_server_of (cg_pep_server cfg) (pep_router D) t')))
           else Inr (public, None)))"

text \<open>
  \<open>Run\<close> waits for every server; the ends are listed in the order they arrive.  The result is the first
  error, and whether the others were asked to stop.  \<open>http.ErrServerClosed\<close> is no error.
\<close>

definition ErrServerClosed :: goerr where
  "ErrServerClosed = Errorf ''http: Server closed''"

definition runServer :: "goerr option \<Rightarrow> goerr option" where
  "runServer listen_end = (if listen_end = Some ErrServerClosed then None else listen_end)"

fun server_Run :: "goerr option list \<Rightarrow> goerr option \<times> bool" where
  "server_Run [] = (None, False)"
| "server_Run (e # es) = (case runServer e of None \<Rightarrow> server_Run es | Some err \<Rightarrow> (Some err, True))"

text \<open>\<open>Close\<close>: both are shut down, the public one first; the first error counts.\<close>

definition server_Close :: "goerr option \<Rightarrow> goerr option option \<Rightarrow> goerr option" where
  "server_Close public pep =
     (case public of Some e \<Rightarrow> Some e | None \<Rightarrow> (case pep of None \<Rightarrow> None | Some r \<Rightarrow> r))"

subsection \<open>Facts about the routers\<close>

text \<open>The routes of a tree, each with all its middlewares.\<close>

fun routes_of :: "node list \<Rightarrow> (endpoint \<times> middleware list) list" where
  "routes_of [] = []"
| "routes_of (Handle m pat chain ep # ns) = (ep, chain) # routes_of ns"
| "routes_of (Mount pre chain inner # ns) =
     map (\<lambda>(ep, chain'). (ep, chain @ chain')) (routes_of inner) @ routes_of ns"

lemma dispatch_route:
  "dispatch ns other m path = (chain, RouteTo ep params) \<Longrightarrow> (ep, chain) \<in> set (routes_of ns)"
  by (induction ns other m path arbitrary: chain rule: dispatch.induct)
    (force split: option.splits if_splits prod.splits)+

lemma routes_append [simp]: "routes_of (xs @ ys) = routes_of xs @ routes_of ys"
  by (induction xs rule: routes_of.induct) auto

lemma only_if_simps [simp]: "only_if True xs = xs" "only_if False xs = []"
  by (simp_all add: only_if_def)

text \<open>The authentication an endpoint is meant to have.\<close>

fun required :: "endpoint \<Rightarrow> middleware list" where
  "required ep =
     (if ep \<in> {EHealthz, EDeviceCACert, EDeviceCACrl, ESSHCAPubKey} then []
      else if ep \<in> {EWhoami, ESSHCert, EDeviceCert, EListForUser} then [MUser]
      else if ep \<in> {EPepRegister, EPepAuthorize, EPepHeartbeat, EPepSessionStart, EPepSessionEnd, EPepResource}
      then [MPep]
      else [MUser, MAdmin])"

definition plain :: "middleware list \<Rightarrow> bool" where
  "plain ms \<longleftrightarrow> set ms \<subseteq> {MRecoverer, MRequestID, MRateByIP, MRateByPEP}"

lemma pep_routes_required: "(ep, chain) \<in> set (routes_of (pep_routes D)) \<Longrightarrow> chain = [] \<and> required ep = [MPep]"
  by (auto simp: pep_routes_def only_if_def split: if_splits)

lemma admin_routes_required: "(ep, chain) \<in> set (routes_of (admin_routes D)) \<Longrightarrow> chain = [] \<and> required ep = [MUser, MAdmin]"
  by (auto simp: admin_routes_def only_if_def split: if_splits)

lemma api_routes_required:
  "(ep, chain) \<in> set (routes_of (api_routes cfg D)) \<Longrightarrow>
     chain = required ep \<and> (required ep = [MPep] \<longrightarrow> pc_auth_mode (cg_pep cfg) \<noteq> ''mtls'')"
  by (auto simp: api_routes_def only_if_def simp del: required.simps split: if_splits
      dest!: pep_routes_required admin_routes_required) auto

lemma public_routes_required:
  "(ep, chain) \<in> set (routes_of [public_router cfg D]) \<Longrightarrow>
     (\<exists>pre. plain pre \<and> chain = pre @ required ep)
     \<and> (required ep = [MPep] \<longrightarrow> pc_auth_mode (cg_pep cfg) \<noteq> ''mtls'')"
  by (auto simp: public_router_def only_if_def plain_def simp del: required.simps split: if_splits
      dest!: api_routes_required) auto

lemma pep_router_required:
  "(ep, chain) \<in> set (routes_of [pep_router D]) \<Longrightarrow>
     (\<exists>pre. plain pre \<and> chain = pre @ [MPep]) \<and> required ep = [MPep]"
  by (auto simp: pep_router_def only_if_def plain_def simp del: required.simps split: if_splits
      dest!: pep_routes_required)

subsection \<open>Facts about the middlewares\<close>

lemma run_chain_plain:
  "plain pre \<Longrightarrow> run_chain E (pre @ ms) who r w = (Inr who', w') \<Longrightarrow>
     \<exists>ls. run_chain E ms who r (ls, snd w) = (Inr who', w')"
proof (induction pre arbitrary: w)
  case Nil
  then show ?case by (cases w) auto
next
  case (Cons m pre)
  then have "plain pre" "m \<in> {MRecoverer, MRequestID, MRateByIP, MRateByPEP}" by (auto simp: plain_def)
  then obtain ls1 where "run_chain E (pre @ ms) who r (ls1, snd w) = (Inr who', w')"
    using Cons.prems(2)
    by (cases w) (auto simp: run_middleware_def rl_Handler_def rl_HandlerByPEP_def Let_def split: prod.splits if_splits)
  from Cons.IH[OF \<open>plain pre\<close> this] show ?case by simp
qed

lemma run_MUser:
  "run_middleware E MUser who r w = (Inr who', w') \<longleftrightarrow>
     (\<exists>token subj c'. bearerToken (rq_header r ''Authorization'') = Inr token
        \<and> ed_validate E token (snd w) = (Inr subj, c') \<and> w' = (fst w, c') \<and> who' = who\<lparr>cc_subject := Some subj\<rparr>)"
  by (cases w) (auto simp: run_middleware_def RequireUser_def split: sum.splits prod.splits)

lemma run_MAdmin:
  "run_middleware E MAdmin who r w = (Inr who', w') \<longleftrightarrow>
     (\<exists>subj. cc_subject who = Some subj \<and> ed_admin_group E \<noteq> [] \<and> is_admin (ed_admin_group E) (s_groups subj))
     \<and> w' = w \<and> who' = who"
  by (cases w) (auto simp: run_middleware_def RequireAdmin_def split: option.splits)

lemma run_MPep:
  "run_middleware E MPep who r w = (Inr who', w') \<longleftrightarrow>
     (\<exists>pepID. pep_identity (ed_pep E) r = Inr pepID \<and> w' = w \<and> who' = who\<lparr>cc_pep := Some pepID\<rparr>)"
  by (cases w) (auto simp: run_middleware_def RequirePEP_def split: sum.splits)

lemma run_chain_Cons_Inr:
  "run_chain E (m # ms) who r w = (Inr who', w') \<longleftrightarrow>
     (\<exists>who1 w1. run_middleware E m who r w = (Inr who1, w1) \<and> run_chain E ms who1 r w1 = (Inr who', w'))"
  by (auto split: prod.splits sum.splits)

text \<open>What the caller of an endpoint has shown.\<close>

definition entitled :: "('c, 'l) edge \<Rightarrow> http_request \<Rightarrow> 'c \<Rightarrow> endpoint \<Rightarrow> caller \<Rightarrow> bool" where
  "entitled E r c ep who =
     (if MUser \<in> set (required ep)
      then (case (bearerToken (rq_header r ''Authorization''), cc_subject who) of
              (Inr token, Some subj) \<Rightarrow>
                fst (ed_validate E token c) = Inr subj
                \<and> (MAdmin \<in> set (required ep) \<longrightarrow>
                     ed_admin_group E \<noteq> [] \<and> is_admin (ed_admin_group E) (s_groups subj))
            | _ \<Rightarrow> False)
      else if MPep \<in> set (required ep)
      then (case cc_pep who of Some pepID \<Rightarrow> pep_identity (ed_pep E) r = Inr pepID | None \<Rightarrow> False)
      else True)"

lemma required_cases: "required ep \<in> {[], [MUser], [MPep], [MUser, MAdmin]}"
  by simp

lemma run_required:
  assumes "run_chain E (required ep) anonymous r w = (Inr who, w')"
  shows "entitled E r (snd w) ep who"
proof -
  from required_cases[of ep] consider "required ep = []" | "required ep = [MUser]" | "required ep = [MPep]"
    | "required ep = [MUser, MAdmin]" by auto
  then show ?thesis
    using assms
    by cases (auto simp: entitled_def run_chain_Cons_Inr run_MUser run_MAdmin run_MPep anonymous_def
        simp del: run_chain.simps(2) required.simps)
qed

declare required.simps [simp del]

lemma serve_cases:
  "serve E router handler m path r w s = (resp, w', s', executed) \<Longrightarrow>
     (case executed of
        None \<Rightarrow> s' = s
      | Some (ep, who) \<Rightarrow> \<exists>chain params. (ep, chain) \<in> set (routes_of [router])
          \<and> run_chain E chain anonymous r w = (Inr who, w') \<and> handler ep params who r s = (resp, s'))"
  by (auto simp: serve_def dest!: dispatch_route simp del: routes_of.simps dispatch.simps
      split: prod.splits sum.splits outcome.splits) blast?

subsection \<open>Properties\<close>

text \<open>C9: the edge of the control plane admits only who is entitled.  Whatever the path and the
  method of a request, a handler runs only for a caller who has shown what its endpoint requires: a
  valid access token, one of a member of the administrators' group, or a gateway's
  identity; only the health check and the public keys are open to all.  Where no handler
  runs nothing changes, and in mTLS mode the gateways' endpoints are not on the public
  server.\<close>

theorem edge_access_control:
  assumes "serve E router handler m path r w s = (resp, w', s', executed)"
    and "router = public_router cfg D \<or> router = pep_router D"
  shows "case executed of
      None \<Rightarrow> s' = s
    | Some (ep, who) \<Rightarrow> entitled E r (snd w) ep who
        \<and> (router = public_router cfg D \<and> pc_auth_mode (cg_pep cfg) = ''mtls'' \<longrightarrow> required ep \<noteq> [MPep])"
proof (cases executed)
  case None
  then show ?thesis using serve_cases[OF assms(1)] by simp
next
  case (Some p)
  obtain ep who where p: "p = (ep, who)" by (cases p)
  from serve_cases[OF assms(1)] Some p obtain chain where
    route: "(ep, chain) \<in> set (routes_of [router])" and rc: "run_chain E chain anonymous r w = (Inr who, w')"
    by auto
  have "\<exists>pre. plain pre \<and> chain = pre @ required ep"
    using assms(2)
  proof
    assume "router = public_router cfg D"
    with route public_routes_required show ?thesis by blast
  next
    assume "router = pep_router D"
    with route pep_router_required[of ep chain D] show ?thesis by (simp only: simp_thms)
  qed
  then obtain pre where pre: "plain pre" "chain = pre @ required ep" by blast
  obtain ls where "run_chain E (required ep) anonymous r (ls, snd w) = (Inr who, w')"
    using run_chain_plain[OF pre(1)] rc unfolding pre(2) by blast
  from run_required[OF this] have "entitled E r (snd w) ep who" by simp
  moreover have "required ep \<noteq> [MPep]" if "router = public_router cfg D" "pc_auth_mode (cg_pep cfg) = ''mtls''"
    using that(2) public_routes_required[of ep chain cfg D] route[unfolded that(1)] by blast
  ultimately show ?thesis using Some p by simp
qed

definition ex_edge :: "(unit, unit) edge" where
  "ex_edge = \<lparr>ed_pep = cg_pep ex_cp_config, ed_admin_group = ''ztna-admins'',
     ed_validate = (\<lambda>token c. if token = ''jwt'' then (Inr \<lparr>s_sub = ''u1'', s_username = ''alice'', s_groups = [''/ztna-admins'']\<rparr>, c)
                              else (Inl (Errorf ''bad token''), c)),
     ed_fresh = (), ed_allow = (\<lambda>l t. (True, l)), ed_now = 0\<rparr>"

definition ex_deps :: dependencies where
  "ex_deps = \<lparr>dp_device_cert = True, dp_pki = True, dp_admin_certs = True, dp_register = True, dp_heartbeat = True,
     dp_session = True, dp_resource = True, dp_pep_resource = True, dp_public_limiter = True, dp_pep_limiter = True\<rparr>"

definition ex_admin_request :: http_request where
  "ex_admin_request = \<lparr>rq_header = (\<lambda>h. if h = ''Authorization'' then ''Bearer jwt'' else []),
     rq_remote_addr = ''10.0.0.9:4711'', rq_peer_cn = None\<rparr>"

definition ex_deletion :: "response \<times> ((string \<times> unit ip_limiter) list \<times> unit) \<times> string list \<times> (endpoint \<times> caller) option" where
  "ex_deletion = serve ex_edge (public_router ex_cp_config ex_deps)
     (\<lambda>ep params who r s. (passed, map snd params @ s)) ''DELETE'' [''api'', ''v1'', ''admin'', ''resources'', ''db1'']
     ex_admin_request ([], ()) []"

theorem edge_access_control_witness:
  "\<exists>who. snd (snd (snd ex_deletion)) = Some (EAdminDelete, who) \<and> fst (snd (snd ex_deletion)) = [''db1'']
     \<and> entitled ex_edge ex_admin_request () EAdminDelete who"
proof -
  have e: "map_option fst (snd (snd (snd ex_deletion))) = Some EAdminDelete" "fst (snd (snd ex_deletion)) = [''db1'']"
    by code_simp+
  obtain resp w' s' executed where s: "ex_deletion = (resp, w', s', executed)" by (cases ex_deletion)
  have "map_option fst executed = Some EAdminDelete" using e(1) unfolding s by (simp only: snd_conv)
  then obtain who where x: "executed = Some (EAdminDelete, who)" by (cases executed) auto
  have "serve ex_edge (public_router ex_cp_config ex_deps) (\<lambda>ep params who r s. (passed, map snd params @ s)) ''DELETE''
      [''api'', ''v1'', ''admin'', ''resources'', ''db1''] ex_admin_request ([], ()) [] = (resp, w', s', Some (EAdminDelete, who))"
    using s x by (simp only: ex_deletion_def)
  from edge_access_control[OF this disjI1[OF refl]]
  have "entitled ex_edge ex_admin_request () EAdminDelete who" by (simp only: option.case prod.case snd_conv)
  moreover have "snd (snd (snd ex_deletion)) = Some (EAdminDelete, who)" unfolding s x by (simp only: snd_conv)
  ultimately show ?thesis using e(2) by blast
qed

text \<open>In mTLS mode, a control plane that starts from a configuration that loads has a second server that
  carries the gateways' endpoints and no others, and whose TLS listener, version 1.3 at least, demands
  a client certificate verified against the configured authority.\<close>

theorem mtls_pep_listener:
  assumes "cp_Load content yaml exists = Inr cfg" and "pc_auth_mode (cg_pep cfg) = ''mtls''"
    and "server_New read_path pem_ok cfg D = Inr (public, pep)"
  shows "\<exists>srv ca. pep = Some srv \<and> hs_tls srv = Some \<lparr>st_min = 13, st_client_cas = Some ca, st_require_client_cert = True\<rparr>
     \<and> read_path (tb_client_ca_file (sv_tls (cg_pep_server cfg))) = Inr ca \<and> hs_cert srv \<noteq> [] \<and> hs_key srv \<noteq> []
     \<and> fst ` set (routes_of [hs_router srv]) \<subseteq> {ep. required ep = [MPep]}"
proof -
  have "cp_Validate exists cfg = None" using cp_Load_Inr[OF assms(1)] by blast
  then have t: "tb_enabled (sv_tls (cg_pep_server cfg))" "tb_cert_file (sv_tls (cg_pep_server cfg)) \<noteq> []"
      "tb_key_file (sv_tls (cg_pep_server cfg)) \<noteq> []"
    using assms(2) by (auto simp: cp_Validate_None pep_checks_def Let_def)
  obtain tls where conf: "cp_buildTLSConfig read_path pem_ok (sv_tls (cg_pep_server cfg)) True = Inr tls"
    and srv: "pep = Some (http_server_of (cg_pep_server cfg) (pep_router D) tls)"
    using assms(2,3) by (auto simp: server_New_def Let_def split: sum.splits)
  have r: "fst ` set (routes_of [pep_router D]) \<subseteq> {ep. required ep = [MPep]}"
    by (auto dest: pep_router_required simp del: routes_of.simps)
  from conf t obtain ca where "read_path (tb_client_ca_file (sv_tls (cg_pep_server cfg))) = Inr ca"
    "tls = (Some \<lparr>st_min = 13, st_client_cas = Some ca, st_require_client_cert = True\<rparr>,
       tb_cert_file (sv_tls (cg_pep_server cfg)), tb_key_file (sv_tls (cg_pep_server cfg)))"
    by (auto simp: cp_buildTLSConfig_def split: sum.splits if_splits)
  with srv t r show ?thesis by (simp add: http_server_of_def del: routes_of.simps)
qed

theorem mtls_pep_listener_witness:
  "\<exists>public srv. server_New (\<lambda>_. Inr ''CA'') (\<lambda>_. True) ex_cp_config ex_deps = Inr (public, Some srv)
     \<and> hs_tls srv = Some \<lparr>st_min = 13, st_client_cas = Some ''CA'', st_require_client_cert = True\<rparr>"
proof -
  have m: "pc_auth_mode (cg_pep ex_cp_config) = ''mtls''" by code_simp
  have "server_New (\<lambda>_. Inr ''CA'') (\<lambda>_. True) ex_cp_config ex_deps \<noteq> Inl e" for e
    by (auto simp: server_New_def cp_buildTLSConfig_def Let_def split: if_splits sum.splits)
  then obtain public pep where s: "server_New (\<lambda>_. Inr ''CA'') (\<lambda>_. True) ex_cp_config ex_deps = Inr (public, pep)"
    by (cases "server_New (\<lambda>_. Inr ''CA'') (\<lambda>_. True) ex_cp_config ex_deps") auto
  from mtls_pep_listener[OF ex_cp_loaded m s] s show ?thesis by auto
qed

end
