(* ===== verification/Sqlite_Migrations.thy ===== *)
theory Sqlite_Migrations
  imports Sqlite_Store
begin

text \<open>
  \<open>applyMigrations\<close> of \<open>control-plane/internal/store/sqlite/sqlite.go\<close>: the embedded SQL files
  that are not recorded in \<open>schema_migrations\<close> are executed in the order of their names, each
  in a transaction with its record.  The state is the table of applied versions and the rest
  of the database, an arbitrary type \<open>'d\<close>; what executing a file does is the parameter \<open>exec\<close>,
  the database engine's.  \<open>drv\<close> is as in the store.
\<close>

record 'd mig_state =
  mg_applied :: "string list"
  mg_db :: 'd

record dir_entry =
  en_name :: string
  en_is_dir :: bool
  en_data :: string

text \<open>The versions to consider, sorted.\<close>

definition migration_versions :: "dir_entry list \<Rightarrow> string list" where
  "migration_versions entries = sort (map en_name (filter (\<lambda>e. \<not> en_is_dir e) entries))"

definition migration_data :: "dir_entry list \<Rightarrow> string \<Rightarrow> string option" where
  "migration_data entries v = map_option en_data (find (\<lambda>e. en_name e = v) entries)"

fun migration_loop ::
    "drv \<Rightarrow> nat \<Rightarrow> (string \<Rightarrow> 'd \<Rightarrow> goerr + 'd) \<Rightarrow> dir_entry list \<Rightarrow> string list \<Rightarrow> string list
     \<Rightarrow> 'd mig_state \<Rightarrow> goerr option \<times> 'd mig_state" where
  "migration_loop drv k exec entries applied [] st = (None, st)"
| "migration_loop drv k exec entries applied (version # versions) st =
     (if version \<in> set applied then migration_loop drv k exec entries applied versions st
      else
       (case migration_data entries version of
          None \<Rightarrow> (Some (Wrapf (''read migration '' @ version @ '': '') (Errorf ''file does not exist'') []), st)
        | Some data \<Rightarrow>
       (case drv k of
          Some e \<Rightarrow> (Some (Wrapf (''begin migration '' @ version @ '': '') e []), st)
        | None \<Rightarrow>
       (case (case drv (k + 1) of Some e \<Rightarrow> Inl e | None \<Rightarrow> exec data (mg_db st)) of
          Inl e \<Rightarrow> (Some (Wrapf (''exec migration '' @ version @ '': '') e []), st)
        | Inr db' \<Rightarrow>
       (case (case drv (k + 2) of Some e \<Rightarrow> Some e
              | None \<Rightarrow> if version \<in> set (mg_applied st) then Some constraint_error else None) of
          Some e \<Rightarrow> (Some (Wrapf (''record migration '' @ version @ '': '') e []), st)
        | None \<Rightarrow>
       (case drv (k + 3) of
          Some e \<Rightarrow> (Some (Wrapf (''commit migration '' @ version @ '': '') e []), st)
        | None \<Rightarrow> migration_loop drv (k + 4) exec entries applied versions
                    \<lparr>mg_applied = mg_applied st @ [version], mg_db = db'\<rparr>))))))"

definition applyMigrations ::
    "drv \<Rightarrow> (string \<Rightarrow> 'd \<Rightarrow> goerr + 'd) \<Rightarrow> dir_entry list \<Rightarrow> 'd mig_state \<Rightarrow> goerr option \<times> 'd mig_state" where
  "applyMigrations drv exec entries st =
     (case drv 0 of
        Some e \<Rightarrow> (Some (Wrapf ''create schema_migrations: '' e []), st)
      | None \<Rightarrow>
     (case drv 1 of
        Some e \<Rightarrow> (Some (Wrapf ''read migrations: '' e []), st)
      | None \<Rightarrow>
     (case drv 2 of
        Some e \<Rightarrow> (Some (Wrapf ''list schema_migrations: '' e []), st)
      | None \<Rightarrow>
     (case drv 3 of
        Some e \<Rightarrow> (Some (Wrapf ''scan schema_migrations: '' e []), st)
      | None \<Rightarrow>
     (case drv 4 of
        Some e \<Rightarrow> (Some (Wrapf ''read schema_migrations: '' e []), st)
      | None \<Rightarrow> migration_loop drv 5 exec entries (mg_applied st) (migration_versions entries) st)))))"

text \<open>The versions still to apply, and what applying a list of them does to the database.\<close>

definition pending :: "dir_entry list \<Rightarrow> string list \<Rightarrow> string list" where
  "pending entries applied = filter (\<lambda>v. v \<notin> set applied) (migration_versions entries)"

fun exec_all ::
    "(string \<Rightarrow> 'd \<Rightarrow> goerr + 'd) \<Rightarrow> dir_entry list \<Rightarrow> string list \<Rightarrow> 'd \<Rightarrow> 'd option" where
  "exec_all exec entries [] d = Some d"
| "exec_all exec entries (v # vs) d =
     (case migration_data entries v of
        None \<Rightarrow> None
      | Some data \<Rightarrow> (case exec data d of Inl _ \<Rightarrow> None | Inr d' \<Rightarrow> exec_all exec entries vs d'))"

lemma migration_loop_prefix:
  assumes "migration_loop drv k exec entries applied vs st = (e, st')"
  shows "\<exists>done rest. filter (\<lambda>v. v \<notin> set applied) vs = done @ rest \<and>
     mg_applied st' = mg_applied st @ done \<and>
     exec_all exec entries done (mg_db st) = Some (mg_db st') \<and> (e = None \<longrightarrow> rest = [])"
  using assms
proof (induction vs arbitrary: k st)
  case (Cons v vs)
  show ?case
  proof (cases "v \<in> set applied")
    case True
    with Cons show ?thesis by simp
  next
    case False
    show ?thesis
    proof (cases "\<exists>data db'. migration_data entries v = Some data \<and> exec data (mg_db st) = Inr db' \<and>
        migration_loop drv (k + 4) exec entries applied vs
          \<lparr>mg_applied = mg_applied st @ [v], mg_db = db'\<rparr> = (e, st')")
      case True
      then obtain data db' where x: "migration_data entries v = Some data" "exec data (mg_db st) = Inr db'"
        and l: "migration_loop drv (k + 4) exec entries applied vs
          \<lparr>mg_applied = mg_applied st @ [v], mg_db = db'\<rparr> = (e, st')" by blast
      from Cons.IH[OF l] obtain xs rest where
        "filter (\<lambda>v. v \<notin> set applied) vs = xs @ rest" "mg_applied st' = mg_applied st @ v # xs"
        "exec_all exec entries xs db' = Some (mg_db st')" "e = None \<longrightarrow> rest = []" by auto
      with False x show ?thesis by (intro exI[of _ "v # xs"] exI[of _ rest]) simp
    next
      case stop: False
      with Cons.prems False have "st' = st \<and> e \<noteq> None"
        by (auto split: option.splits sum.splits if_splits)
      with False show ?thesis
        by (intro exI[of _ "[]"] exI[of _ "v # filter (\<lambda>v. v \<notin> set applied) vs"]) auto
    qed
  qed
qed simp

lemma migration_run:
  "\<exists>done rest. pending entries (mg_applied st) = done @ rest \<and>
     mg_applied (snd (applyMigrations drv exec entries st)) = mg_applied st @ done \<and>
     exec_all exec entries done (mg_db st) = Some (mg_db (snd (applyMigrations drv exec entries st))) \<and>
     (case fst (applyMigrations drv exec entries st) of None \<Rightarrow> rest = [] | Some _ \<Rightarrow> True)"
proof (cases "\<exists>e. applyMigrations drv exec entries st = (Some e, st)")
  case True
  then show ?thesis
    by (intro exI[of _ "[]"] exI[of _ "pending entries (mg_applied st)"]) auto
next
  case False
  then have "applyMigrations drv exec entries st =
      migration_loop drv 5 exec entries (mg_applied st) (migration_versions entries) st"
    by (auto simp: applyMigrations_def split: option.splits)
  with migration_loop_prefix[of drv 5 exec entries "mg_applied st" "migration_versions entries" st
      "fst (applyMigrations drv exec entries st)" "snd (applyMigrations drv exec entries st)"]
  obtain xs rest where "pending entries (mg_applied st) = xs @ rest"
      "mg_applied (snd (applyMigrations drv exec entries st)) = mg_applied st @ xs"
      "exec_all exec entries xs (mg_db st) = Some (mg_db (snd (applyMigrations drv exec entries st)))"
      "fst (applyMigrations drv exec entries st) = None \<longrightarrow> rest = []"
    unfolding pending_def by auto
  then show ?thesis by (intro exI[of _ xs] exI[of _ rest]) (simp split: option.split)
qed

text \<open>Migrations.  Whatever call fails, the database after \<open>applyMigrations\<close> is the one after
  executing some first part of the pending files, in the order of their names, and exactly these
  are recorded as applied; when it returns no error the part is all of them.\<close>

theorem applyMigrations_prefix:
  "\<exists>done rest. pending entries (mg_applied st) = done @ rest \<and>
     mg_applied (snd (applyMigrations drv exec entries st)) = mg_applied st @ done \<and>
     exec_all exec entries done (mg_db st) = Some (mg_db (snd (applyMigrations drv exec entries st))) \<and>
     (case fst (applyMigrations drv exec entries st) of None \<Rightarrow> rest = [] | Some _ \<Rightarrow> True)"
  by (rule migration_run)

lemma pending_done: "pending entries (applied @ pending entries applied) = []"
  by (auto simp: pending_def filter_empty_conv)

text \<open>Applying the migrations again does nothing: after a run without error, any later run,
  with any driver failures, changes nothing.\<close>

theorem applyMigrations_idempotent:
  assumes "applyMigrations drv exec entries st = (None, st')"
  shows "snd (applyMigrations drv' exec entries st') = st'"
proof -
  obtain xs rest where a: "pending entries (mg_applied st) = xs @ rest"
    "mg_applied st' = mg_applied st @ xs" "rest = []"
    using migration_run[of entries st drv exec] assms by auto
  then have "pending entries (mg_applied st') = []" using pending_done by auto
  then have "v \<in> set (mg_applied st')" if "v \<in> set (migration_versions entries)" for v
    using that by (auto simp: pending_def filter_empty_conv)
  then have "migration_loop drv' k exec entries (mg_applied st') vs st' = (None, st')"
    if "set vs \<subseteq> set (migration_versions entries)" for vs k
    using that by (induction vs) auto
  then show ?thesis by (simp add: applyMigrations_def split: option.split)
qed

definition ex_entries :: "dir_entry list" where
  "ex_entries = [\<lparr>en_name = ''002.sql'', en_is_dir = False, en_data = ''B''\<rparr>,
     \<lparr>en_name = ''001.sql'', en_is_dir = False, en_data = ''A''\<rparr>,
     \<lparr>en_name = ''old'', en_is_dir = True, en_data = []\<rparr>]"

theorem applyMigrations_idempotent_witness:
  "applyMigrations no_fault (\<lambda>s d. Inr (d @ s)) ex_entries \<lparr>mg_applied = [], mg_db = []\<rparr>
     = (None, \<lparr>mg_applied = [''001.sql'', ''002.sql''], mg_db = ''AB''\<rparr>) \<and>
   snd (applyMigrations no_fault (\<lambda>s d. Inr (d @ s)) ex_entries
     \<lparr>mg_applied = [''001.sql'', ''002.sql''], mg_db = ''AB''\<rparr>)
     = \<lparr>mg_applied = [''001.sql'', ''002.sql''], mg_db = ''AB''\<rparr>"
proof -
  have "applyMigrations no_fault (\<lambda>s d. Inr (d @ s)) ex_entries \<lparr>mg_applied = [], mg_db = []\<rparr>
     = (None, \<lparr>mg_applied = [''001.sql'', ''002.sql''], mg_db = ''AB''\<rparr>)" by code_simp
  with applyMigrations_idempotent[OF this, of no_fault] show ?thesis by simp
qed

end
