(* ===== verification/CP_App.thy ===== *)
theory CP_App
  imports CP_CA CP_Server Sqlite_Migrations
begin

text \<open>
  The start and the stop of the control plane (\<open>control-plane/internal/app/app.go\<close>), with the opening of the database
  (\<open>Open\<close> of \<open>store/sqlite/sqlite.go\<close>) and the construction of the token validator (\<open>NewValidator\<close> of
  \<open>security/oidc/validator.go\<close>).

  The world is the database file, the other files, and whether the database handle is open.
\<close>

subsection \<open>Opening the database\<close>

text \<open>The statements run on the new connection, each with the text its error is wrapped in.  The number of
  milliseconds is part of the statement; the pragma's text is left out of the error.\<close>

definition pragma_statements :: "duration \<Rightarrow> string list \<Rightarrow> (string \<times> string) list" where
  "pragma_statements busyTimeout pragmas =
     [(''enable foreign_keys: '', ''PRAGMA foreign_keys = ON;'')]
     @ (if busyTimeout > 0
        then [(''set busy_timeout: '', ''PRAGMA busy_timeout = '' @ Itoa (busyTimeout div 1000000) @ '';'')] else [])
     @ map (\<lambda>p. (''apply pragma: '', ''PRAGMA '' @ p @ '';'')) (filter (\<lambda>p. p \<noteq> []) (map TrimSpace pragmas))"

fun run_statements :: "drv \<Rightarrow> nat \<Rightarrow> (string \<times> string) list \<Rightarrow> goerr option" where
  "run_statements drv k [] = None"
| "run_statements drv k ((msg, stmt) # rest) =
     (case drv k of Some e \<Rightarrow> Some (Wrapf msg e []) | None \<Rightarrow> run_statements drv (Suc k) rest)"

text \<open>The result: the error, the state of the file, and whether the handle is open.  \<open>drv\<close> are the failures up to the
  migrations, \<open>mdrv\<close> those of the migrations.\<close>

definition sqlite_Open ::
    "drv \<Rightarrow> drv \<Rightarrow> (string \<Rightarrow> 'd \<Rightarrow> goerr + 'd) \<Rightarrow> dir_entry list \<Rightarrow> duration \<Rightarrow> string list \<Rightarrow> 'd mig_state
     \<Rightarrow> goerr option \<times> 'd mig_state \<times> bool" where
  "sqlite_Open drv mdrv exec entries busyTimeout pragmas st =
     (case drv 0 of
        Some e \<Rightarrow> (Some (Wrapf ''open sqlite: '' e []), st, False)
      | None \<Rightarrow>
     (case drv 1 of
        Some e \<Rightarrow> (Some (Wrapf ''ping sqlite: '' e []), st, False)
      | None \<Rightarrow>
     (case run_statements drv 2 (pragma_statements busyTimeout pragmas) of
        Some e \<Rightarrow> (Some e, st, False)
      | None \<Rightarrow>
          (case applyMigrations mdrv exec entries st of
             (Some e, st') \<Rightarrow> (Some e, st', False)
           | (None, st') \<Rightarrow> (None, st', True)))))"

subsection \<open>The token validator\<close>

record jwks_client =
  jc_min :: "nat option"
  jc_insecure :: bool
  jc_roots :: "string option"

definition buildJWKSHTTPClient :: "(string \<Rightarrow> string res) \<Rightarrow> (string \<Rightarrow> bool) \<Rightarrow> cp_config \<Rightarrow> jwks_client res" where
  "buildJWKSHTTPClient read_path pem_ok cfg =
     (if cg_oidc_ca cfg = [] \<and> \<not> cg_oidc_insecure cfg then Inr \<lparr>jc_min = None, jc_insecure = False, jc_roots = None\<rparr>
      else if cg_oidc_ca cfg = [] then Inr \<lparr>jc_min = Some 13, jc_insecure = cg_oidc_insecure cfg, jc_roots = None\<rparr>
      else (case read_path (cg_oidc_ca cfg) of
          Inl e \<Rightarrow> Inl (Wrapf (''impossible de lire oidc.ca_file '' @ cg_oidc_ca cfg @ '': '') e [])
        | Inr caData \<Rightarrow>
            if \<not> pem_ok caData then Inl (Errorf (''oidc.ca_file invalide (PEM): '' @ cg_oidc_ca cfg))
            else Inr \<lparr>jc_min = Some 13, jc_insecure = cg_oidc_insecure cfg, jc_roots = Some caData\<rparr>))"

text \<open>The validator, the URL of the keys and the client that fetches them; its cache starts empty.\<close>

definition NewValidator ::
    "(string \<Rightarrow> string res) \<Rightarrow> (string \<Rightarrow> bool) \<Rightarrow> cp_config \<Rightarrow> (oidc_validator \<times> string \<times> jwks_client) res" where
  "NewValidator read_path pem_ok cfg =
     (case ParseDuration (cg_jwks_ttl cfg) of
        None \<Rightarrow> Inl (Errorf ''parse jwks cache ttl: '')
      | Some ttl \<Rightarrow>
          (let allowed = filter (\<lambda>a. a \<noteq> []) (map (\<lambda>a. ToUpper (TrimSpace a)) (cg_allowed_algs cfg));
               issuer = TrimRightSlash (cg_issuer cfg) in
           case buildJWKSHTTPClient read_path pem_ok cfg of
             Inl e \<Rightarrow> Inl (Wrapf ''build jwks http client: '' e [])
           | Inr client \<Rightarrow>
               Inr (\<lparr>ov_issuer = issuer, ov_audience = cg_audience cfg, ov_username_claim = cg_username_claim cfg,
                     ov_groups_claim = cg_groups_claim cfg, ov_audience_mode = cg_audience_mode cfg,
                     ov_allowed_algs = allowed, ov_cache_ttl = ttl\<rparr>,
                    issuer @ ''/protocol/openid-connect/certs'', client)))"

definition empty_validator_cache :: "'k validator_cache" where
  "empty_validator_cache = \<lparr>vc_keys = Map.empty, vc_expires_at = None\<rparr>"

subsection \<open>The application\<close>

record world =
  wo_store :: "db mig_state"
  wo_files :: files
  wo_open :: bool

text \<open>What the start gets from the libraries and the operating system.  The store calls of the two seedings have
  their failures, \<open>ap_drv k\<close> for the \<open>k\<close>-th kind.\<close>

record ('k, 'x, 's, 'p) app_env =
  ap_drv :: "nat \<Rightarrow> drv"
  ap_exec :: "string \<Rightarrow> db \<Rightarrow> goerr + db"
  ap_migrations :: "dir_entry list"
  ap_ssh_parse :: "string \<Rightarrow> 's res"
  ap_ssh_marshal :: "'p \<Rightarrow> string res"
  ap_ssh_read :: "goerr option"
  ap_ssh_write :: write_outcome
  ap_ssh_gen :: "'p res"
  ap_ca :: "('k, 'x) ca_lib"
  ap_ca_faults :: ca_faults
  ap_ca_gen :: "'k res"
  ap_ca_serial :: "nat res"
  ap_now :: time
  ap_read_policy :: "string \<Rightarrow> string res"
  ap_parse_policy :: "string \<Rightarrow> seed_file res"
  ap_read_resources :: "string \<Rightarrow> goerr + string option"
  ap_parse_resources :: "string \<Rightarrow> published_resource list res"
  ap_random :: "nat \<Rightarrow> 8 word list"
  ap_read_path :: "string \<Rightarrow> string res"
  ap_pem_ok :: "string \<Rightarrow> bool"

record ('k, 'x, 's) control_plane =
  cn_ssh_ca :: 's
  cn_device_ca :: "('k, 'x) device_ca"
  cn_validator :: "oidc_validator \<times> string \<times> jwks_client"
  cn_servers :: "http_server \<times> http_server option"

definition all_dependencies :: dependencies where
  "all_dependencies = \<lparr>dp_device_cert = True, dp_pki = True, dp_admin_certs = True, dp_register = True,
     dp_heartbeat = True, dp_session = True, dp_resource = True, dp_pep_resource = True,
     dp_public_limiter = True, dp_pep_limiter = True\<rparr>"

definition set_db :: "world \<Rightarrow> db \<Rightarrow> world" where
  "set_db w d = w\<lparr>wo_store := (wo_store w)\<lparr>mg_db := d\<rparr>\<rparr>"

text \<open>\<open>New\<close>, from the opened store on: the authorities, the seeds, the validator and the servers.\<close>

definition app_servers ::
    "('k, 'x, 's, 'p) app_env \<Rightarrow> cp_config \<Rightarrow> 's \<Rightarrow> ('k, 'x) device_ca \<Rightarrow> world \<Rightarrow> ('k, 'x, 's) control_plane res \<times> world" where
  "app_servers E cfg ssh ca w =
     (case NewValidator (ap_read_path E) (ap_pem_ok E) cfg of
        Inl e \<Rightarrow> (Inl (Wrapf ''init oidc: '' e []), w\<lparr>wo_open := False\<rparr>)
      | Inr v \<Rightarrow>
     (case server_New (ap_read_path E) (ap_pem_ok E) cfg all_dependencies of
        Inl e \<Rightarrow> (Inl e, w\<lparr>wo_open := False\<rparr>)
      | Inr servers \<Rightarrow>
          (Inr \<lparr>cn_ssh_ca = ssh, cn_device_ca = ca, cn_validator = v, cn_servers = servers\<rparr>, w)))"

definition app_seeds ::
    "('k, 'x, 's, 'p) app_env \<Rightarrow> cp_config \<Rightarrow> 's \<Rightarrow> ('k, 'x) device_ca \<Rightarrow> world \<Rightarrow> ('k, 'x, 's) control_plane res \<times> world" where
  "app_seeds E cfg ssh ca w =
     (case SeedIfEmpty (GetActivePolicy (ap_drv E 2)) (CreatePolicyVersion (ap_drv E 3) (ap_now E))
             (ActivatePolicyVersion (ap_drv E 4)) (ap_read_policy E) (ap_parse_policy E) (cg_policy_seed cfg)
             (mg_db (wo_store w)) of
        (Some e, d) \<Rightarrow> (Inl e, (set_db w d)\<lparr>wo_open := False\<rparr>)
      | (None, d) \<Rightarrow>
     (case resource_SeedIfEmpty (ListResources (ap_drv E 5)) (GetResourceByName (ap_drv E 6))
             (CreateResource (ap_drv E 7) (ap_now E)) (ap_random E) (ap_read_resources E) (ap_parse_resources E)
             (cg_resource_seed cfg) d of
        (Some e, d') \<Rightarrow> (Inl (Wrapf ''seed resources: '' e []), (set_db w d')\<lparr>wo_open := False\<rparr>)
      | (None, d') \<Rightarrow> app_servers E cfg ssh ca (set_db w d')))"

definition app_New ::
    "('k, 'x, 's, 'p) app_env \<Rightarrow> cp_config \<Rightarrow> world \<Rightarrow> ('k, 'x, 's) control_plane res \<times> world" where
  "app_New E cfg w0 =
     (case sqlite_Open (ap_drv E 0) (ap_drv E 1) (ap_exec E) (ap_migrations E) (BusyTimeout cfg) (cg_pragmas cfg)
             (wo_store w0) of
        (Some e, st, _) \<Rightarrow> (Inl e, w0\<lparr>wo_store := st, wo_open := False\<rparr>)
      | (None, st, _) \<Rightarrow>
     (let w1 = w0\<lparr>wo_store := st, wo_open := True\<rparr> in
      case sshca_LoadOrCreate (ap_ssh_parse E) (ap_ssh_marshal E) (ca_pem_encode (ap_ca E)) (ap_ssh_read E)
             (ap_ssh_write E) (ap_ssh_gen E) (cg_ssh_key cfg) (wo_files w1) of
        (Inl e, fs) \<Rightarrow> (Inl e, w1\<lparr>wo_files := fs, wo_open := False\<rparr>)
      | (Inr ssh, fs) \<Rightarrow>
     (case deviceca_LoadOrCreate (ap_ca E) (ap_ca_faults E) (ap_ca_gen E) (ap_ca_serial E) (ap_now E)
             (cg_device_key cfg) (cg_device_cert cfg) fs of
        (Inl e, fs') \<Rightarrow> (Inl (Wrapf ''init device ca: '' e []), w1\<lparr>wo_files := fs', wo_open := False\<rparr>)
      | (Inr ca, fs') \<Rightarrow> app_seeds E cfg ssh ca (w1\<lparr>wo_files := fs'\<rparr>))))"

text \<open>\<open>Run\<close> and \<open>Close\<close>: the errors of the stop are logged only; the second part of the result of \<open>app_Close\<close> lists
  them.\<close>

definition app_Run :: "goerr option list \<Rightarrow> goerr option" where
  "app_Run ends = fst (server_Run ends)"

definition app_Close :: "goerr option \<Rightarrow> goerr option option \<Rightarrow> goerr option \<Rightarrow> world \<Rightarrow> goerr option \<times> goerr option list \<times> world" where
  "app_Close public pep db_close w = (None, [server_Close public pep, db_close], w\<lparr>wo_open := False\<rparr>)"

subsection \<open>Facts\<close>

lemma run_statements_no_fault [simp]: "run_statements no_fault k stmts = None"
  by (induction stmts arbitrary: k) (auto simp: no_fault_def)

text \<open>The last steps of a start end with a closed database, unless they succeed.\<close>

lemma app_servers_result:
  "app_servers E cfg ssh ca w = (r, w') \<Longrightarrow>
     (case r of Inl _ \<Rightarrow> w' = w\<lparr>wo_open := False\<rparr>
      | Inr p \<Rightarrow> w' = w \<and> NewValidator (ap_read_path E) (ap_pem_ok E) cfg = Inr (cn_validator p)
          \<and> server_New (ap_read_path E) (ap_pem_ok E) cfg all_dependencies = Inr (cn_servers p))"
  by (auto simp: app_servers_def split: sum.splits)

lemma app_seeds_error: "app_seeds E cfg ssh ca w = (Inl e, w') \<Longrightarrow> \<not> wo_open w'"
  by (auto simp: app_seeds_def split: prod.splits option.splits dest!: app_servers_result)

lemma app_New_error: "app_New E cfg w = (Inl e, w') \<Longrightarrow> \<not> wo_open w'"
  by (auto simp: app_New_def Let_def split: prod.splits option.splits sum.splits dest: app_seeds_error)

text \<open>What a failing driver changes in the answer for the active policy.\<close>

lemma GetActivePolicy_fault: "GetActivePolicy drv d = Inr sn \<Longrightarrow> GetActivePolicy no_fault d = Inr sn"
  by (auto simp: GetActivePolicy_def no_fault_def Let_def split: option.splits list.splits if_splits)

lemma seed_active:
  assumes "db_wf d" "path \<noteq> []"
    and "SeedIfEmpty (GetActivePolicy drv) (CreatePolicyVersion drv' now) (ActivatePolicyVersion drv'')
           readFile unmarshal path d = (None, d')"
  shows "\<exists>sn. GetActivePolicy no_fault d' = Inr sn"
proof (cases "GetActive (GetActivePolicy drv) d")
  case (Inr sn)
  with assms(2,3) have "d' = d" by (simp add: SeedIfEmpty_def)
  with Inr show ?thesis by (auto simp: GetActive_def dest: GetActivePolicy_fault split: sum.splits if_splits)
next
  case (Inl err)
  with assms(2,3) obtain "by" rules vid s1 where
      c: "CreateVersion (CreatePolicyVersion drv' now) by rules d = (Inr vid, s1)"
      and a: "ActivateVersion (ActivatePolicyVersion drv'') vid s1 = (None, d')"
    by (auto simp: SeedIfEmpty_def Let_def split: sum.splits prod.splits if_splits)
  then have "CreatePolicyVersion drv' now by (map normalise_rule rules) d = (Inr vid, s1)"
    "ActivatePolicyVersion drv'' vid s1 = (None, d')"
    by (simp_all add: sqlite_policies.CreateVersion_ok sqlite_policies.ActivateVersion_ok)
  from sqlite_policies.publish[OF assms(1) this] show ?thesis by blast
qed

lemma seed_resources_frame:
  "seed_resources get (CreateResource drv now) rnd k seeds d = (r, d') \<Longrightarrow>
     store_step\<^sup>*\<^sup>* d d' \<and> db_versions d' = db_versions d \<and> db_rules d' = db_rules d"
proof (induction seeds arbitrary: k d)
  case (Cons res seeds)
  have c: "store_step\<^sup>*\<^sup>* d d1 \<and> db_versions d1 = db_versions d \<and> db_rules d1 = db_rules d"
    if "CreateResource drv now res' d = (x, d1)" for res' x d1
    using that call_steps(9)[OF that] by (auto simp: CreateResource_def split: option.splits if_splits)
  show ?case
    using Cons.prems by (auto simp: Let_def split: sum.splits prod.splits option.splits if_splits
        dest!: Cons.IH c intro: rtranclp_trans)
qed simp

lemma resource_seed_frame:
  "resource_SeedIfEmpty listing get (CreateResource drv now) rnd readFile unmarshal path d = (r, d') \<Longrightarrow>
     store_step\<^sup>*\<^sup>* d d' \<and> db_versions d' = db_versions d \<and> db_rules d' = db_rules d"
  by (auto simp: resource_SeedIfEmpty_def dest: seed_resources_frame split: if_splits sum.splits option.splits)

lemma active_policy_frame:
  "db_versions d' = db_versions d \<Longrightarrow> db_rules d' = db_rules d \<Longrightarrow> GetActivePolicy drv d' = GetActivePolicy drv d"
  unfolding GetActivePolicy_def by (simp only:)

text \<open>
  What the engine does with the files under \<open>migrations/\<close>: they hold only \<open>CREATE TABLE IF NOT EXISTS\<close>,
  \<open>CREATE INDEX IF NOT EXISTS\<close> and \<open>ALTER TABLE ... ADD COLUMN\<close> with the empty text as default, and such a statement changes
  no row (a column that is not there yet is the empty text in a row of the model).
\<close>

definition ddl_keeps_rows :: "(string \<Rightarrow> 'd \<Rightarrow> goerr + 'd) \<Rightarrow> dir_entry list \<Rightarrow> bool" where
  "ddl_keeps_rows exec entries \<longleftrightarrow> (\<forall>e\<in>set entries. \<forall>d d'. exec (en_data e) d = Inr d' \<longrightarrow> d' = d)"

lemma exec_all_rows:
  assumes "ddl_keeps_rows exec entries"
  shows "exec_all exec entries vs d = Some d' \<Longrightarrow> d' = d"
  using assms
proof (induction vs arbitrary: d)
  case (Cons v vs)
  then obtain e d1 where "find (\<lambda>e. en_name e = v) entries = Some e" "exec (en_data e) d = Inr d1" "exec_all exec entries vs d1 = Some d'"
    by (auto simp: migration_data_def split: option.splits sum.splits)
  moreover from this(1) have "e \<in> set entries" by (auto simp: find_Some_iff)
  ultimately have "e \<in> set entries" "exec (en_data e) d = Inr d1" "exec_all exec entries vs d1 = Some d'" by auto
  with Cons show ?case by (auto simp: ddl_keeps_rows_def)
qed simp

lemma sqlite_Open_None:
  assumes "sqlite_Open drv mdrv exec entries busy pragmas st = (None, st', b)"
  shows "pending entries (mg_applied st') = [] \<and> (\<exists>vs. exec_all exec entries vs (mg_db st) = Some (mg_db st'))"
proof -
  have m: "applyMigrations mdrv exec entries st = (None, st')"
    using assms by (auto simp: sqlite_Open_def split: option.splits prod.splits)
  obtain xs rest where "pending entries (mg_applied st) = xs @ rest" "mg_applied st' = mg_applied st @ xs"
    "exec_all exec entries xs (mg_db st) = Some (mg_db st')" "rest = []"
    using migration_run[of entries st mdrv exec] m by auto
  then show ?thesis using pending_done[of entries "mg_applied st"] by auto
qed

lemma app_seeds_Inr:
  assumes "app_seeds E cfg ssh ca w = (Inr p, w')" "db_wf (mg_db (wo_store w))"
  shows "wo_open w' = wo_open w \<and> mg_applied (wo_store w') = mg_applied (wo_store w)
     \<and> db_wf (mg_db (wo_store w'))
     \<and> (cg_policy_seed cfg \<noteq> [] \<longrightarrow> (\<exists>sn. GetActivePolicy no_fault (mg_db (wo_store w')) = Inr sn))
     \<and> server_New (ap_read_path E) (ap_pem_ok E) cfg all_dependencies = Inr (cn_servers p)"
proof -
  let ?seed = "SeedIfEmpty (GetActivePolicy (ap_drv E 2)) (CreatePolicyVersion (ap_drv E 3) (ap_now E))
       (ActivatePolicyVersion (ap_drv E 4)) (ap_read_policy E) (ap_parse_policy E) (cg_policy_seed cfg) (mg_db (wo_store w))"
  obtain d d' where d: "?seed = (None, d)"
    and r: "resource_SeedIfEmpty (ListResources (ap_drv E 5)) (GetResourceByName (ap_drv E 6))
             (CreateResource (ap_drv E 7) (ap_now E)) (ap_random E) (ap_read_resources E) (ap_parse_resources E)
             (cg_resource_seed cfg) d = (None, d')"
    and a: "app_servers E cfg ssh ca (set_db w d') = (Inr p, w')"
    using assms(1) by (auto simp: app_seeds_def split: prod.splits option.splits)
  have w': "w' = set_db w d'" and s: "server_New (ap_read_path E) (ap_pem_ok E) cfg all_dependencies = Inr (cn_servers p)"
    using app_servers_result[OF a] by simp_all
  have f: "store_step\<^sup>*\<^sup>* d d'" "db_versions d' = db_versions d" "db_rules d' = db_rules d"
    using resource_seed_frame[OF r] by simp_all
  have "store_step\<^sup>*\<^sup>* (mg_db (wo_store w)) d" using SeedIfEmpty_steps d by (metis snd_conv)
  with f(1) assms(2) have "db_wf d'" by (meson rtranclp_trans store_steps_wf)
  moreover have "\<exists>sn. GetActivePolicy no_fault d' = Inr sn" if "cg_policy_seed cfg \<noteq> []"
    using seed_active[OF assms(2) that d] active_policy_frame[OF f(2,3)] by simp
  ultimately show ?thesis using s by (simp add: w' set_db_def)
qed

subsection \<open>Properties\<close>

text \<open>C23: a control plane starts ready or not at all.  When the start fails, at whatever step, the database handle is
  closed; when it succeeds, every migration is applied, the database is well formed, a policy is in force if a seed
  file is configured, and in mTLS mode the gateways' server exists.  The database that is opened was well formed, and the migration
  files only define tables, indexes and columns, which changes no row.\<close>

theorem app_New_ready:
  assumes "app_New E cfg w = (r, w')" "db_wf (mg_db (wo_store w))"
    and "ddl_keeps_rows (ap_exec E) (ap_migrations E)"
  shows "case r of
      Inl _ \<Rightarrow> \<not> wo_open w'
    | Inr p \<Rightarrow> wo_open w' \<and> db_wf (mg_db (wo_store w')) \<and> pending (ap_migrations E) (mg_applied (wo_store w')) = []
        \<and> (cg_policy_seed cfg \<noteq> [] \<longrightarrow> (\<exists>sn. GetActivePolicy no_fault (mg_db (wo_store w')) = Inr sn))
        \<and> (pc_auth_mode (cg_pep cfg) = ''mtls'' \<longrightarrow> snd (cn_servers p) \<noteq> None)"
proof (cases r)
  case (Inl e)
  with assms(1) show ?thesis by (simp add: app_New_error)
next
  case (Inr p)
  let ?open = "sqlite_Open (ap_drv E 0) (ap_drv E 1) (ap_exec E) (ap_migrations E) (BusyTimeout cfg) (cg_pragmas cfg) (wo_store w)"
  obtain st b ssh ca fs where o: "?open = (None, st, b)"
    and s: "app_seeds E cfg ssh ca (w\<lparr>wo_store := st, wo_open := True, wo_files := fs\<rparr>) = (Inr p, w')"
    using assms(1) Inr by (auto simp: app_New_def Let_def split: prod.splits option.splits sum.splits)
  have "db_wf (mg_db st)" using sqlite_Open_None[OF o] exec_all_rows[OF assms(3)] assms(2) by metis
  then have "wo_open w'" "db_wf (mg_db (wo_store w'))" "mg_applied (wo_store w') = mg_applied st"
    and active: "cg_policy_seed cfg \<noteq> [] \<longrightarrow> (\<exists>sn. GetActivePolicy no_fault (mg_db (wo_store w')) = Inr sn)"
    and srv: "server_New (ap_read_path E) (ap_pem_ok E) cfg all_dependencies = Inr (cn_servers p)"
    using app_seeds_Inr[OF s] by simp_all
  moreover from srv have "pc_auth_mode (cg_pep cfg) = ''mtls'' \<longrightarrow> snd (cn_servers p) \<noteq> None"
    by (auto simp: server_New_def Let_def split: sum.splits dest!: arg_cong[of _ "cn_servers p" snd]) metis
  ultimately show ?thesis using sqlite_Open_None[OF o] Inr by simp
qed

text \<open>An engine for which a table can be defined, and dropped.\<close>

definition ex_exec :: "string \<Rightarrow> db \<Rightarrow> goerr + db" where
  "ex_exec sql d = (if HasPrefix sql ''CREATE TABLE'' then Inr d
     else if HasPrefix sql ''DROP TABLE'' then Inr (d\<lparr>db_versions := []\<rparr>) else Inl (Errorf ''near: syntax error''))"

definition ex_app :: "(string, string, string, string) app_env" where
  "ex_app = \<lparr>ap_drv = (\<lambda>_. no_fault), ap_exec = ex_exec,
     ap_migrations = [\<lparr>en_name = ''001.sql'', en_is_dir = False, en_data = ''CREATE TABLE x;''\<rparr>],
     ap_ssh_parse = Inr, ap_ssh_marshal = Inr, ap_ssh_read = None, ap_ssh_write = WriteOK, ap_ssh_gen = Inr ''ssh'',
     ap_ca = ex_ca_lib, ap_ca_faults = ex_ca_faults, ap_ca_gen = Inr ''k1'', ap_ca_serial = Inr 7, ap_now = ex_now,
     ap_read_policy = (\<lambda>_. Inr ''yaml''), ap_parse_policy = (\<lambda>_. Inr \<lparr>sf_created_by = [], sf_rules = [ex_raw_rule]\<rparr>),
     ap_read_resources = (\<lambda>_. Inr None), ap_parse_resources = (\<lambda>_. Inr []), ap_random = (\<lambda>_. []),
     ap_read_path = (\<lambda>_. Inr ''PEM''), ap_pem_ok = (\<lambda>_. True)\<rparr>"

definition ex_world_new :: world where
  "ex_world_new = \<lparr>wo_store = \<lparr>mg_applied = [], mg_db = empty_db\<rparr>, wo_files = Map.empty, wo_open = False\<rparr>"

lemma NewValidator_ok:
  "ParseDuration (cg_jwks_ttl cfg) \<noteq> None \<Longrightarrow> \<exists>v. NewValidator (\<lambda>_. Inr x) (\<lambda>_. True) cfg = Inr v"
proof -
  assume t: "ParseDuration (cg_jwks_ttl cfg) \<noteq> None"
  have "\<exists>c. buildJWKSHTTPClient (\<lambda>_. Inr x) (\<lambda>_. True) cfg = Inr c" by (simp add: buildJWKSHTTPClient_def)
  with t show ?thesis by (auto simp: NewValidator_def Let_def)
qed

lemma server_New_ok: "\<exists>srv. server_New (\<lambda>_. Inr x) (\<lambda>_. True) cfg D = Inr srv"
proof -
  have "\<exists>c. cp_buildTLSConfig (\<lambda>_. Inr x) (\<lambda>_. True) t force = Inr c" for t force
    by (simp add: cp_buildTLSConfig_def)
  then obtain f where "cp_buildTLSConfig (\<lambda>_. Inr x) (\<lambda>_. True) t force = Inr (f t force)" for t force by metis
  then show ?thesis by (simp add: server_New_def Let_def)
qed

theorem app_New_ready_witness:
  "\<exists>p w'. app_New ex_app (ex_cp_config\<lparr>cg_policy_seed := ''seed.yaml''\<rparr>) ex_world_new = (Inr p, w')
     \<and> (\<exists>sn. GetActivePolicy no_fault (mg_db (wo_store w')) = Inr sn) \<and> snd (cn_servers p) \<noteq> None"
proof -
  let ?cfg = "ex_cp_config\<lparr>cg_policy_seed := ''seed.yaml''\<rparr>"
  let ?seed = "SeedIfEmpty (GetActivePolicy no_fault) (CreatePolicyVersion no_fault ex_now) (ActivatePolicyVersion no_fault)
      (\<lambda>_. Inr ''yaml'') (\<lambda>_. Inr \<lparr>sf_created_by = [], sf_rules = [ex_raw_rule]\<rparr>) ''seed.yaml'' empty_db"
  have m: "applyMigrations no_fault ex_exec (ap_migrations ex_app) \<lparr>mg_applied = [], mg_db = empty_db\<rparr> =
      (None, \<lparr>mg_applied = [''001.sql''], mg_db = empty_db\<rparr>)"
    by code_simp
  have o: "sqlite_Open no_fault no_fault ex_exec (ap_migrations ex_app) (BusyTimeout ?cfg) (cg_pragmas ?cfg)
      \<lparr>mg_applied = [], mg_db = empty_db\<rparr> = (None, \<lparr>mg_applied = [''001.sql''], mg_db = empty_db\<rparr>, True)"
    by (simp add: sqlite_Open_def m)
  have "fst ?seed = None" by code_simp
  then obtain d where d: "?seed = (None, d)" by (cases ?seed) simp
  have "ParseDuration (cg_jwks_ttl ?cfg) \<noteq> None" by code_simp
  then obtain v where v: "NewValidator (\<lambda>_. Inr ''PEM'') (\<lambda>_. True) ?cfg = Inr v"
    using NewValidator_ok by blast
  obtain srv where srv: "server_New (\<lambda>_. Inr ''PEM'') (\<lambda>_. True) ?cfg all_dependencies = Inr srv"
    using server_New_ok by blast
  have "cg_resource_seed ?cfg = []" "cg_device_cert ?cfg \<noteq> cg_ssh_key ?cfg" "cg_device_key ?cfg \<noteq> cg_ssh_key ?cfg" by code_simp+
  with o d v srv have "\<exists>p w'. app_New ex_app ?cfg ex_world_new = (Inr p, w')"
    by (simp add: app_New_def ex_app_def ex_world_new_def Let_def sshca_LoadOrCreate_def read_file_def write_file_def
        marshalEd25519PrivateKey_def deviceca_LoadOrCreate_def ca_create_def ex_ca_lib_def ex_ca_faults_def ca_mkdirAll_def
        ca_writeFile_def app_seeds_def resource_SeedIfEmpty_def app_servers_def split: if_splits)
  then obtain p w' where r: "app_New ex_app ?cfg ex_world_new = (Inr p, w')" by blast
  have wf: "db_wf (mg_db (wo_store ex_world_new))" using empty_db_wf by (simp add: ex_world_new_def)
  have ex: "ddl_keeps_rows (ap_exec ex_app) (ap_migrations ex_app)"
    by (simp add: ddl_keeps_rows_def ex_app_def ex_exec_def HasPrefix_def)
  have "pc_auth_mode (cg_pep ?cfg) = ''mtls''" by code_simp
  with app_New_ready[OF r wf ex] r show ?thesis by auto
qed

end
