(* ===== verification/Gw_Lifecycle.thy ===== *)
theory Gw_Lifecycle
  imports Gw_Connect Gw_Crl Gw_Cache Gw_Sessions
begin

text \<open>
  Background loops, start and stop of the gateway: the tickers of
  \<open>infra/revocation/crl.go\<close>, \<open>infra/session/manager.go\<close> and \<open>infra/heartbeat/client.go\<close>, the accept loop of
  \<open>infra/mtls/listener.go\<close>, \<open>bootstrap/app.go\<close> and \<open>usecase/lifecycle/lifecycle.go\<close>.

  What a loop meets is a list: \<open>Some\<close> for a tick, with what happens at it, and
  \<open>None\<close> for the end of the context.  A list that ends before leaves the loop waiting: the flag of the
  result tells whether it returned.
\<close>

subsection \<open>Loops\<close>

fun ticker_loop :: "('e \<Rightarrow> 's \<Rightarrow> 's) \<Rightarrow> 'e option list \<Rightarrow> 's \<Rightarrow> 's \<times> bool" where
  "ticker_loop tick [] s = (s, False)"
| "ticker_loop tick (None # evs) s = (s, True)"
| "ticker_loop tick (Some e # evs) s = ticker_loop tick evs (tick e s)"

text \<open>\<open>StartAutoRefresh\<close>: off without a URL or a client; the first download is at once.  At each tick the
  transport and the instant are those of the tick.  Errors are only logged.  The loop alone refreshes, one tick after the other; what
  the connections do between the two halves of a refresh is \<open>gw_step\<close>.\<close>

definition StartAutoRefresh ::
    "crl_lib \<Rightarrow> bool \<Rightarrow> transport \<times> time \<Rightarrow> (transport \<times> time) option list \<Rightarrow> gateway_run \<Rightarrow> gateway_run \<times> bool" where
  "StartAutoRefresh L has_client first evs g =
     (let refresh = (\<lambda>(send, now) g. snd (crl_refresh L send now g)) in
      if c_url (r_crl g) = [] \<or> \<not> has_client then (g, True)
      else ticker_loop refresh evs (refresh first g))"

definition StartGarbageCollector :: "time option list \<Rightarrow> session_manager \<Rightarrow> session_manager \<times> bool" where
  "StartGarbageCollector evs m = ticker_loop reapExpired evs m"

text \<open>\<open>StartLoop\<close> of the heartbeat: the state is the list of what was logged.\<close>

definition StartLoop :: "transport option \<Rightarrow> gw_config \<Rightarrow> string \<Rightarrow> unit option list \<Rightarrow> beat_log list \<times> bool" where
  "StartLoop client cfg body evs =
     (case client of
        None \<Rightarrow> ([], True)
      | Some send \<Rightarrow>
          (let tick = (\<lambda>_ logs. logs @ [beat send cfg body]) in ticker_loop tick evs (tick () [])))"

text \<open>
  \<open>Listen\<close>: one event per return of \<open>Accept\<close>: an error, with whether the listener was closed or the context
  has ended, or a connection.  The result lists the connections that were handed to the handler.
\<close>

datatype accept_outcome = AcceptError bool | Accepted bool "client_cert list res"

fun Listen :: "(string \<Rightarrow> bool) option \<Rightarrow> accept_outcome list \<Rightarrow> client_cert list \<times> bool" where
  "Listen revoked [] = ([], False)"
| "Listen revoked (AcceptError ended # evs) = (if ended then ([], True) else Listen revoked evs)"
| "Listen revoked (Accepted is_tls handshake # evs) =
     (let (handled, ended) = Listen revoked evs in
      case listener_accept revoked is_tls handshake of
        AcceptClosed \<Rightarrow> (handled, ended)
      | AcceptHandled c \<Rightarrow> (c # handled, ended))"

subsection \<open>The stop of the application (\<open>App.Close\<close>)\<close>

text \<open>
  The connection handlers, the collector and the refresh go on during the stop: closing the listener ends only the acceptance.  They
  act on the table and on the cache, \<open>gw_shared\<close>.  An event of the drain is what they did since the last
  one, and whether the deadline was reached (else it is a tick).
\<close>

type_synonym gw_shared = "session_manager \<times> decision_cache"

fun drain :: "((gw_shared \<Rightarrow> gw_shared) \<times> bool) list \<Rightarrow> gw_shared \<Rightarrow> gw_shared option" where
  "drain [] s = None"
| "drain ((others, deadline) # evs) s =
     (let s' = others s in
      if deadline then Some s'
      else if ActiveCount (fst s') = 0 then Some s'
      else drain evs s')"

text \<open>The sessions that were listed are killed one by one; \<open>others k\<close> is what the rest of the gateway does before the \<open>k\<close>-th step.\<close>

fun kill_loop :: "(nat \<Rightarrow> gw_shared \<Rightarrow> gw_shared) \<Rightarrow> nat \<Rightarrow> gw_session list \<Rightarrow> gw_shared \<Rightarrow> gw_shared" where
  "kill_loop others k [] s = others k s"
| "kill_loop others k (x # xs) s =
     (case others k s of (m, c) \<Rightarrow> kill_loop others (Suc k) xs (snd (KillSession (gs_id x) m), c))"

text \<open>\<open>None\<close>: the drain still waits.  The error of the listener is logged, and the result is always nil.\<close>

definition gw_Close ::
    "goerr option \<Rightarrow> ((gw_shared \<Rightarrow> gw_shared) \<times> bool) list \<Rightarrow> (nat \<Rightarrow> gw_shared \<Rightarrow> gw_shared) \<Rightarrow> gw_shared
     \<Rightarrow> (goerr option \<times> gw_shared) option" where
  "gw_Close listener_close evs others s =
     (case (if ActiveCount (fst s) > 0 then drain evs s else Some s) of
        None \<Rightarrow> None
      | Some s0 \<Rightarrow>
          (let s1 = others 0 s0;
               (m, c) = kill_loop others 1 (ListActive (fst s1)) s1
           in Some (None, m, cache_Clear c)))"

subsection \<open>The orchestrator (\<open>lifecycle.go\<close>)\<close>

type_synonym 's component = "string \<times> ('s \<Rightarrow> goerr option \<times> 's)"

definition orch_Register :: "string \<Rightarrow> ('s \<Rightarrow> goerr option \<times> 's) \<Rightarrow> 's component list \<Rightarrow> 's component list" where
  "orch_Register name closer components = components @ [(name, closer)]"

fun shutdown_loop :: "'s component list \<Rightarrow> goerr option \<Rightarrow> 's \<Rightarrow> goerr option \<times> 's" where
  "shutdown_loop [] firstErr s = (firstErr, s)"
| "shutdown_loop ((name, close) # cs) firstErr s =
     (case close s of (r, s') \<Rightarrow>
      shutdown_loop cs (if r \<noteq> None \<and> firstErr = None then r else firstErr) s')"

definition Shutdown :: "'s component list \<Rightarrow> 's \<Rightarrow> goerr option \<times> 's" where
  "Shutdown components s = shutdown_loop (rev components) None s"

subsection \<open>Facts\<close>

definition live_ids :: "gw_shared \<Rightarrow> string set" where
  "live_ids s = fst ` set (m_sessions (fst s))"

lemma live_ids_listed: "sm_wf (fst s) \<Longrightarrow> live_ids s = gs_id ` set (ListActive (fst s))"
  by (force simp: live_ids_def ListActive_def sm_wf_def list_all_iff)

text \<open>What is left after the loop was registered since the listing.\<close>

definition late_ids :: "(nat \<Rightarrow> gw_shared \<Rightarrow> gw_shared) \<Rightarrow> string set" where
  "late_ids others = (\<Union>k. \<Union>s. live_ids (others (Suc k) s) - live_ids s)"

lemma others_ids:
  assumes "0 < k"
  shows "live_ids (others k s) \<subseteq> live_ids s \<union> late_ids others"
proof -
  obtain j where "k = Suc j" using assms by (cases k) simp_all
  moreover have "live_ids (others (Suc j) s) - live_ids s \<subseteq> late_ids others" unfolding late_ids_def by blast
  ultimately show ?thesis by blast
qed

lemma kill_loop_ids:
  assumes "0 < k" and "live_ids s \<subseteq> gs_id ` set xs \<union> late_ids others"
  shows "live_ids (kill_loop others k xs s) \<subseteq> late_ids others"
  using assms
proof (induction xs arbitrary: k s)
  case Nil
  then show ?case using others_ids[of k others s] by auto
next
  case (Cons x xs)
  obtain m c where o: "others k s = (m, c)" by (cases "others k s")
  have "live_ids (m, c) \<subseteq> live_ids s \<union> late_ids others" using others_ids[OF Cons.prems(1), of others s] o by simp
  then have "live_ids (snd (KillSession (gs_id x) m), c) \<subseteq> gs_id ` set xs \<union> late_ids others"
    using Cons.prems(2) by (auto simp: live_ids_def set_al_delete)
  with Cons.IH[of "Suc k" "(snd (KillSession (gs_id x) m), c)"] o show ?case by simp
qed

lemma drain_deadline:
  "list_ex snd evs \<Longrightarrow> drain evs s \<noteq> None"
  by (induction evs s rule: drain.induct) (auto simp: Let_def simp del: split_paired_Ex)

definition keeps_table :: "(gw_shared \<Rightarrow> gw_shared) \<Rightarrow> bool" where
  "keeps_table f \<longleftrightarrow> (\<forall>m c. sm_wf m \<longrightarrow> sm_wf (fst (f (m, c))))"

lemma keeps_tableD: "keeps_table f \<Longrightarrow> sm_wf (fst s) \<Longrightarrow> sm_wf (fst (f s))"
  by (cases s) (simp add: keeps_table_def)

lemma drain_wf:
  "drain evs s = Some s' \<Longrightarrow> sm_wf (fst s) \<Longrightarrow> list_all (\<lambda>(f, d). keeps_table f) evs \<Longrightarrow> sm_wf (fst s')"
proof (induction evs s rule: drain.induct)
  case (2 others deadline evs s)
  then have "sm_wf (fst (others s))" using keeps_tableD[of others s] by simp
  with 2 show ?case by (auto simp: Let_def split: if_splits)
qed simp

lemma gw_Close_result:
  assumes "gw_Close e evs others s = Some (r, m', c')" and "sm_wf (fst s)"
    and "list_all (\<lambda>(f, d). keeps_table f) evs" and "keeps_table (others 0)"
  shows "r = None \<and> live_ids (m', c') \<subseteq> late_ids others \<and> dc_items c' = []"
proof -
  obtain s0 where s0: "(if ActiveCount (fst s) > 0 then drain evs s else Some s) = Some s0"
    and r: "r = None" "(m', c') = apsnd cache_Clear (kill_loop others 1 (ListActive (fst (others 0 s0))) (others 0 s0))"
    using assms(1) by (auto simp: gw_Close_def Let_def split: option.splits prod.splits)
  have "sm_wf (fst s0)" using s0 drain_wf[OF _ assms(2,3)] assms(2) by (auto split: if_splits)
  then have "live_ids (others 0 s0) \<subseteq> gs_id ` set (ListActive (fst (others 0 s0))) \<union> late_ids others"
    using live_ids_listed[OF keeps_tableD[OF assms(4)]] by blast
  from kill_loop_ids[OF zero_less_one this] r show ?thesis
    by (cases "kill_loop others 1 (ListActive (fst (others 0 s0))) (others 0 s0)")
       (simp add: live_ids_def cache_Clear_def)
qed

lemma shutdown_loop_state:
  "snd (shutdown_loop cs e s) = fold (\<lambda>(name, close) s. snd (close s)) cs s"
  by (induction cs e s rule: shutdown_loop.induct) (auto split: prod.splits)

lemma shutdown_loop_error:
  "fst (shutdown_loop cs (Some e) s) = Some e"
  by (induction cs "Some e" s rule: shutdown_loop.induct) (auto split: prod.splits)

lemma GC_wf: "sm_wf m \<Longrightarrow> sm_wf (fst (StartGarbageCollector evs m))"
  unfolding StartGarbageCollector_def
  by (induction reapExpired evs m rule: ticker_loop.induct) (auto intro: reapExpired_wf)

text \<open>The order of the stop is the reverse of the registrations.\<close>

lemma Shutdown_Register:
  "Shutdown (orch_Register name close cs) s =
     (case close s of (r, s') \<Rightarrow> shutdown_loop (rev cs) r s')"
  by (auto simp: Shutdown_def orch_Register_def split: prod.splits)

subsection \<open>Properties\<close>



text \<open>A connection that was admitted before the stop can register after the listing, and its session is left.\<close>

lemma close_leaves_late_session:
  "\<exists>others m' c'. gw_Close None [] others (NewManager, new_cache 5) = Some (None, m', c') \<and> ListActive m' \<noteq> []"
proof -
  let ?others = "\<lambda>k. if k = 1 then apfst (\<lambda>m. snd (Register 0 (replicate 16 0) ex_gs m)) else (\<lambda>s. s)"
  have "\<exists>m' c'. gw_Close None [] ?others (NewManager, new_cache 5) = Some (None, m', c') \<and> ListActive m' \<noteq> []"
    by (simp add: gw_Close_def ListActive_def ActiveCount_def NewManager_def Register_def al_put_def Let_def)
  then show ?thesis by blast
qed

text \<open>The orchestrator stops every component, the last registered first, also after a failure, and
  reports the error of the first component that failed.\<close>

theorem Shutdown_lifo:
  "snd (Shutdown (orch_Register name close cs) s) = snd (Shutdown cs (snd (close s)))
   \<and> fst (Shutdown (orch_Register name close cs) s) =
       (case fst (close s) of Some e \<Rightarrow> Some e | None \<Rightarrow> fst (Shutdown cs (snd (close s))))"
proof (cases "close s")
  case (Pair r s')
  then show ?thesis
    by (cases r) (simp_all add: Shutdown_Register shutdown_loop_state shutdown_loop_error, simp_all add: Shutdown_def shutdown_loop_state)
qed

end
