(* ===== verification/Gw_App.thy ===== *)
theory Gw_App
  imports Gw_Lifecycle
begin

text \<open>
  The TLS settings of the gateway (\<open>gateway/internal/infra/tls/tlsutil.go\<close>, \<open>buildTLSConfig\<close> of
  \<open>infra/mtls/listener.go\<close>) and its construction (\<open>New\<close> of \<open>bootstrap/app.go\<close>).

  \<open>read_path\<close> is \<open>os.ReadFile\<close>, \<open>pem_ok\<close> is \<open>AppendCertsFromPEM\<close>, \<open>load_pair\<close> is \<open>tls.LoadX509KeyPair\<close>.
\<close>

subsection \<open>TLS helpers\<close>

record ('c) tls_files =
  tf_read_path :: "string \<Rightarrow> string res"
  tf_pem_ok :: "string \<Rightarrow> bool"
  tf_load_pair :: "string \<Rightarrow> string \<Rightarrow> 'c res"

definition LoadKeyPair :: "'c tls_files \<Rightarrow> string \<Rightarrow> string \<Rightarrow> 'c res" where
  "LoadKeyPair T certFile keyFile =
     (case tf_load_pair T certFile keyFile of
        Inl e \<Rightarrow> Inl (Wrapf ''charger cert/key TLS: '' e [])
      | Inr c \<Rightarrow> Inr c)"

definition LoadCertPoolFromPEMFile :: "'c tls_files \<Rightarrow> string \<Rightarrow> string res" where
  "LoadCertPoolFromPEMFile T pemFile =
     (case tf_read_path T pemFile of
        Inl e \<Rightarrow> Inl (Wrapf (''lire fichier CA '' @ pemFile @ '': '') e [])
      | Inr pemData \<Rightarrow>
          if \<not> tf_pem_ok T pemData then Inl (Errorf (''parser CA PEM depuis '' @ pemFile)) else Inr pemData)"

text \<open>The client of the control plane: the trusted authority, and the gateway's own certificate in mTLS mode.\<close>

record 'c cp_client =
  gk_timeout :: duration
  gk_min :: nat
  gk_insecure :: bool
  gk_roots :: "string option"
  gk_cert :: "'c option"

definition gw_NewControlPlaneHTTPClient :: "'c tls_files \<Rightarrow> gw_config \<Rightarrow> duration \<Rightarrow> 'c cp_client res" where
  "gw_NewControlPlaneHTTPClient T cfg timeout =
     (let timeout' = (if timeout \<le> 0 then 10 * Second else timeout) in
      case (if gc_insecure cfg then Inr None
            else if gc_ca_file cfg \<noteq> [] then
              (case LoadCertPoolFromPEMFile T (gc_ca_file cfg) of Inl e \<Rightarrow> Inl e | Inr pool \<Rightarrow> Inr (Some pool))
            else Inr None) of
        Inl e \<Rightarrow> Inl e
      | Inr roots \<Rightarrow>
          (let conf = \<lparr>gk_timeout = timeout', gk_min = 13, gk_insecure = gc_insecure cfg, gk_roots = roots, gk_cert = None\<rparr> in
           if gc_auth_mode cfg = ''mtls'' then
             (case LoadKeyPair T (gc_client_cert cfg) (gc_client_key cfg) of
                Inl e \<Rightarrow> Inl e
              | Inr cert \<Rightarrow> Inr (conf\<lparr>gk_cert := Some cert\<rparr>))
           else Inr conf))"

text \<open>The listener's settings.\<close>

record 'c listener_tls =
  lt_min :: nat
  lt_cert :: 'c
  lt_require_verified_client_cert :: bool
  lt_client_cas :: string

definition gw_buildTLSConfig :: "'c tls_files \<Rightarrow> gw_config \<Rightarrow> 'c listener_tls res" where
  "gw_buildTLSConfig T cfg =
     (case LoadKeyPair T (gc_cert_file cfg) (gc_key_file cfg) of
        Inl e \<Rightarrow> Inl (Wrapf ''impossible de charger le certificat serveur: '' e [])
      | Inr cert \<Rightarrow>
     (case LoadCertPoolFromPEMFile T (gc_client_ca cfg) of
        Inl e \<Rightarrow> Inl (Wrapf (''impossible de charger la CA client '' @ gc_client_ca cfg @ '': '') e [])
      | Inr cas \<Rightarrow> Inr \<lparr>lt_min = 13, lt_cert = cert, lt_require_verified_client_cert = True, lt_client_cas = cas\<rparr>))"

subsection \<open>Construction\<close>

text \<open>\<open>New\<close> never fails: without a client of the control plane the revocation list is not refreshed, and there is no
  heartbeat and no telemetry; the authorization and the resource client have made the same attempt.\<close>

record 'c gw_app =
  ga_handler :: gw_handler
  ga_client :: "'c cp_client option"
  ga_heartbeat :: bool
  ga_listener_crl :: "crl_store option"

definition gw_New :: "'c tls_files \<Rightarrow> gw_config \<Rightarrow> 'c gw_app" where
  "gw_New T cfg =
     (let client = (case gw_NewControlPlaneHTTPClient T cfg (10 * Second) of Inl _ \<Rightarrow> None | Inr c \<Rightarrow> Some c);
          h = app_handler cfg (client \<noteq> None) in
      \<lparr>ga_handler = h, ga_client = client, ga_heartbeat = (client \<noteq> None), ga_listener_crl = gh_crl h\<rparr>)"

text \<open>\<open>Run\<close>: the listener's part, after the loops were started.  \<open>opened\<close> is the outcome of \<open>tls.Listen\<close>.\<close>

definition gw_Run ::
    "'c tls_files \<Rightarrow> gw_config \<Rightarrow> (string \<Rightarrow> 'c listener_tls \<Rightarrow> goerr option) \<Rightarrow> (string \<Rightarrow> bool) option
     \<Rightarrow> accept_outcome list \<Rightarrow> goerr option \<times> client_cert list \<times> bool" where
  "gw_Run T cfg opened revoked evs =
     (case gw_buildTLSConfig T cfg of
        Inl e \<Rightarrow> (Some (Wrapf ''erreur de configuration TLS: '' e []), [], True)
      | Inr conf \<Rightarrow>
          (case opened (gc_listen cfg) conf of
             Some e \<Rightarrow> (Some (Wrapf (''impossible de d'' @ e_acute @ ''marrer le listener TLS sur '' @ gc_listen cfg @ '': '') e []), [], True)
           | None \<Rightarrow> (None, Listen revoked evs)))"

text \<open>\<open>App.Run\<close> starts the loops that go beside the listener, the heartbeat only where there is a client of the control plane.\<close>

datatype gw_loop = RevocationRefresh | SessionCollector | HeartbeatLoop

definition gw_App_Run ::
    "'c tls_files \<Rightarrow> gw_config \<Rightarrow> 'c gw_app \<Rightarrow> (string \<Rightarrow> 'c listener_tls \<Rightarrow> goerr option) \<Rightarrow> (string \<Rightarrow> bool) option
     \<Rightarrow> accept_outcome list \<Rightarrow> gw_loop list \<times> goerr option \<times> client_cert list \<times> bool" where
  "gw_App_Run T cfg application opened revoked evs =
     ([RevocationRefresh, SessionCollector] @ (if ga_heartbeat application then [HeartbeatLoop] else []),
      gw_Run T cfg opened revoked evs)"

subsection \<open>Facts\<close>

text \<open>A gateway beats exactly when it has a client to beat with.\<close>

lemma heartbeat_with_client:
  "HeartbeatLoop \<in> set (fst (gw_App_Run T cfg (gw_New T cfg) opened revoked evs)) \<longleftrightarrow>
     is_ok (gw_NewControlPlaneHTTPClient T cfg (10 * Second))"
  by (simp add: gw_App_Run_def gw_New_def Let_def split: sum.split)

lemma gw_buildTLSConfig_Inr:
  "gw_buildTLSConfig T cfg = Inr conf \<Longrightarrow>
     lt_min conf = 13 \<and> lt_require_verified_client_cert conf
     \<and> tf_read_path T (gc_client_ca cfg) = Inr (lt_client_cas conf) \<and> tf_pem_ok T (lt_client_cas conf)
     \<and> tf_load_pair T (gc_cert_file cfg) (gc_key_file cfg) = Inr (lt_cert conf)"
  by (auto simp: gw_buildTLSConfig_def LoadKeyPair_def LoadCertPoolFromPEMFile_def split: sum.splits if_splits)

lemma gw_client_Inr:
  "gw_NewControlPlaneHTTPClient T cfg timeout = Inr c \<Longrightarrow>
     gk_min c = 13 \<and> 0 < gk_timeout c \<and> (gk_insecure c \<longleftrightarrow> gc_insecure cfg)
     \<and> (gc_ca_file cfg \<noteq> [] \<and> \<not> gc_insecure cfg \<longrightarrow> gk_roots c \<noteq> None)
     \<and> (gc_auth_mode cfg = ''mtls'' \<longrightarrow> gk_cert c \<noteq> None)"
  by (auto simp: gw_NewControlPlaneHTTPClient_def Let_def split: sum.splits if_splits)

text \<open>Without a client of the control plane and without a cached decision nothing is admitted, and nothing is cached.\<close>

definition no_decisions :: "gw_handler \<Rightarrow> bool" where
  "no_decisions h = (case gh_cache h of None \<Rightarrow> True | Some c \<Rightarrow> dc_items c = [])"

lemma resolveDecision_degraded:
  assumes "ce_client E = None" "no_decisions h"
  shows "\<exists>e h'. resolveDecision E pick now subject action r ra h = (Inl e, h') \<and> no_decisions h'"
  using assms
  by (cases "gh_cache h") (auto simp: resolveDecision_def no_decisions_def cache_Get_def client_Authorize_def Let_def)

lemma resolve_target_no_decisions:
  "resolve_target E now r h = (x, h') \<Longrightarrow> no_decisions h \<Longrightarrow> no_decisions h'"
  using resolve_target_same(1)[of E now r h x h'] by (simp add: no_decisions_def)

lemma resolveDecision_no_decisions:
  "resolveDecision E pick now subject action r ra h = (y, h') \<Longrightarrow> ce_client E = None \<Longrightarrow> no_decisions h \<Longrightarrow> no_decisions h'"
  using resolveDecision_degraded[of E h pick now subject action r ra] by auto

lemma admit_no_decisions:
  "admit E pick clk cert ra input h = (x, h') \<Longrightarrow> ce_client E = None \<Longrightarrow> no_decisions h \<Longrightarrow> no_decisions h'"
  by (auto simp: admit_defs Let_def split: option.splits sum.splits prod.splits if_splits
      dest: resolve_target_no_decisions resolveDecision_no_decisions)

lemma admit_degraded:
  assumes "ce_client E = None" "no_decisions h"
  shows "\<exists>x h'. admit E pick clk cert ra input h = (Inl x, h') \<and> no_decisions h'"
proof (cases "admit E pick clk cert ra input h")
  case (Pair r h')
  have "no_decisions h'" using admit_no_decisions[OF Pair assms] .
  moreover have False if "r = Inr a" for a
    using Pair[unfolded that]
  proof (rule admit_Inr)
    fix req q h1
    assume "resolve_target E (clk 0) (cr_resource req) h = (Inr (fst (ad_target a), snd (ad_target a), q), h1)"
      and d: "resolveDecision E pick (clk 1) (ExtractSubjectFromCert cert) ''connect'' q ra h1 = (Inr (ad_decision a), h')"
    then have "no_decisions h1" using resolve_target_no_decisions assms(2) by blast
    from resolveDecision_degraded[OF assms(1) this, of pick "clk 1" "ExtractSubjectFromCert cert" "''connect''" q ra] d
    show False by simp
  qed
  ultimately show ?thesis using Pair by (cases r) auto
qed

lemma HandleConnection_degraded:
  assumes "ce_client E = None" "no_decisions h"
  shows "\<exists>reason d h'. HandleConnection E W cert ra input h = (ConnDenied reason d, h') \<and> no_decisions h'"
  using admit_degraded[OF assms, of "cw_pick W" "cw_clock W" cert ra input]
  by (auto simp: HandleConnection_def)

text \<open>The connections a gateway handles one after the other, from the state that \<open>New\<close> leaves.\<close>

fun handle_all ::
    "connect_env \<Rightarrow> (conn_world \<times> client_cert \<times> string \<times> string) list \<Rightarrow> gw_handler \<Rightarrow> conn_result list \<times> gw_handler" where
  "handle_all E [] h = ([], h)"
| "handle_all E ((W, cert, ra, input) # rest) h =
     (let (r, h') = HandleConnection E W cert ra input h; (rs, h'') = handle_all E rest h' in (r # rs, h''))"

lemma handle_all_degraded:
  "ce_client E = None \<Longrightarrow> no_decisions h \<Longrightarrow> list_all (\<lambda>r. relayed_target r = None) (fst (handle_all E cs h))"
proof (induction E cs h rule: handle_all.induct)
  case (2 E W cert ra input rest h)
  obtain r h' where p: "HandleConnection E W cert ra input h = (r, h')" by (cases "HandleConnection E W cert ra input h")
  with HandleConnection_degraded[OF 2(2,3), of W cert ra input]
  have h: "relayed_target r = None" "no_decisions h'" by (auto simp: relayed_target_def)
  then have "list_all (\<lambda>r. relayed_target r = None) (fst (handle_all E rest h'))" using 2(1)[OF p[symmetric] refl 2(2)] by simp
  with h p show ?case by (cases "handle_all E rest h'") simp
qed simp

lemma gw_New_no_decisions: "no_decisions (ga_handler (gw_New T cfg))"
  by (simp add: gw_New_def Let_def app_handler_eq NewHandler_def no_decisions_def new_cache_def)

subsection \<open>Properties\<close>

text \<open>C25: a degraded gateway relays nothing.  When the client of the control plane cannot be built (an unreadable authority
  or certificate), the gateway still starts and accepts connections, with a revocation list that is never filled and
  no heartbeat; but it refuses every connection it ever handles.\<close>

theorem degraded_gateway_closed:
  assumes "gw_NewControlPlaneHTTPClient T cfg (10 * Second) = Inl e"
    and "ce_client E = map_option (\<lambda>_. send) (ga_client (gw_New T cfg))"
  shows "\<not> ga_heartbeat (gw_New T cfg)
     \<and> map_option c_url (ga_listener_crl (gw_New T cfg)) = Some []
     \<and> list_all (\<lambda>r. relayed_target r = None) (fst (handle_all E cs (ga_handler (gw_New T cfg))))"
proof -
  have "ce_client E = None" using assms by (simp add: gw_New_def Let_def)
  then have "list_all (\<lambda>r. relayed_target r = None) (fst (handle_all E cs (ga_handler (gw_New T cfg))))"
    using gw_New_no_decisions by (rule handle_all_degraded)
  then show ?thesis
    using assms(1) by (simp add: gw_New_def Let_def app_handler_eq NewHandler_def NewStoreWithConfig_def)
qed

definition ex_tls_files :: "unit tls_files" where
  "ex_tls_files = \<lparr>tf_read_path = (\<lambda>_. Inl (Errorf ''no such file'')), tf_pem_ok = (\<lambda>_. True), tf_load_pair = (\<lambda>_ _. Inr ())\<rparr>"

theorem degraded_gateway_closed_witness:
  "fst (handle_all (ex_env\<lparr>ce_client := None\<rparr>) [(ex_world, ex_client_cert, ''192.0.2.1:5000'', ex_input)]
     (ga_handler (gw_New ex_tls_files (ex_gc\<lparr>gc_insecure := False, gc_ca_file := ''ca.crt''\<rparr>)))) \<noteq> []
   \<and> list_all (\<lambda>r. relayed_target r = None)
       (fst (handle_all (ex_env\<lparr>ce_client := None\<rparr>) [(ex_world, ex_client_cert, ''192.0.2.1:5000'', ex_input)]
          (ga_handler (gw_New ex_tls_files (ex_gc\<lparr>gc_insecure := False, gc_ca_file := ''ca.crt''\<rparr>)))))"
proof -
  let ?cfg = "ex_gc\<lparr>gc_insecure := False, gc_ca_file := ''ca.crt''\<rparr>"
  obtain e where e: "gw_NewControlPlaneHTTPClient ex_tls_files ?cfg (10 * Second) = Inl e"
    by (simp add: gw_NewControlPlaneHTTPClient_def LoadCertPoolFromPEMFile_def ex_tls_files_def Let_def)
  then have "ce_client (ex_env\<lparr>ce_client := None\<rparr>) = map_option (\<lambda>_. ex_send) (ga_client (gw_New ex_tls_files ?cfg))"
    by (simp add: gw_New_def Let_def)
  note d = degraded_gateway_closed[OF e this, of "[(ex_world, ex_client_cert, ''192.0.2.1:5000'', ex_input)]"]
  have "fst (handle_all E [c] h) \<noteq> []" for E c h by (cases c) (simp split: prod.split)
  with d show ?thesis by blast
qed

end
