(* ===== verification/Cl_App.thy ===== *)
theory Cl_App
  imports Cl_Usecases Go_Cli
begin

text \<open>
  The client as a program: its construction and its commands (\<open>client/internal/bootstrap/app.go\<close>), and the
  dispatch of the command line (\<open>client/cmd/ztna/main.go\<close>).

  The state is the directory of the client's files.  \<open>client_env\<close> holds what a command meets; a transport depends on the TLS
  settings of the HTTP client that uses it.  A command that waits has no result.
\<close>

subsection \<open>Construction\<close>

record client_env =
  cv_oidc :: oidc_env
  cv_tunnel :: tunnel_env
  cv_idp :: "cl_http_client \<Rightarrow> transport"
  cv_cp :: "cl_http_client \<Rightarrow> transport"
  cv_poll :: "cl_http_client \<Rightarrow> poll_world"
  cv_fuel :: nat
  cv_clock :: "nat \<Rightarrow> time"
  cv_is_ctx :: "goerr \<Rightarrow> bool"
  cv_keygen :: "goerr + (string \<times> string)"
  cv_mkdir :: "goerr option"
  cv_write_cert :: write_outcome
  cv_write_key :: write_outcome
  cv_write_ca :: write_outcome
  cv_read_cert :: "goerr option"
  cv_read_key :: "goerr option"
  cv_read_catalog :: "goerr option"
  cv_not_after :: "string \<Rightarrow> time option"
  cv_dial :: "nat \<Rightarrow> string \<Rightarrow> tls_conf \<Rightarrow> goerr + ((string \<Rightarrow> string) \<times> goerr option \<times> goerr option)"
  cv_listen :: "string \<Rightarrow> goerr option"
  cv_accepts :: "accept_event list"

record client_app =
  an_cfg :: cl_config
  an_oidc_http :: cl_http_client
  an_creds_http :: cl_http_client
  an_cp_http :: cl_http_client

definition client_New :: "client_env \<Rightarrow> cl_config \<Rightarrow> client_app" where
  "client_New V cfg =
     (let rp = te_read_path (cv_tunnel V); po = te_pem_ok (cv_tunnel V) in
      \<lparr>an_cfg = cfg, an_oidc_http = oidc_NewClient rp po cfg, an_creds_http = credentials_NewClient rp po cfg,
       an_cp_http = cpapi_NewClient rp po cfg\<rparr>)"

text \<open>The environments of the clients share the application's configuration.\<close>

definition app_oidc :: "client_env \<Rightarrow> client_app \<Rightarrow> oidc_env" where
  "app_oidc V A = (cv_oidc V)\<lparr>oe_cfg := an_cfg A\<rparr>"

definition app_tunnel :: "client_env \<Rightarrow> client_app \<Rightarrow> tunnel_env" where
  "app_tunnel V A = (cv_tunnel V)\<lparr>te_cfg := an_cfg A\<rparr>"

subsection \<open>Commands\<close>

definition adapt :: "time \<Rightarrow> token_set res \<times> files \<Rightarrow> login_result res \<times> files" where
  "adapt now p = (map_sum (\<lambda>e. e) (toLoginResult now) (fst p), snd p)"

definition app_RunLogin :: "client_env \<Rightarrow> client_app \<Rightarrow> files \<Rightarrow> (goerr option \<times> files) option" where
  "app_RunLogin V A fs =
     (case DeviceFlowLogin (cv_fuel V) (app_oidc V A) (cv_idp V (an_oidc_http A)) (cv_poll V (an_oidc_http A)) (cv_clock V 0) fs of
        None \<Rightarrow> None
      | Some p \<Rightarrow>
          Some (RunLogin (\<lambda>_. adapt (cv_clock V 1) p)
            (\<lambda>user password s. adapt (cv_clock V 1)
               (LoginPasswordGrantLAB (app_oidc V A) (cv_idp V (an_oidc_http A)) (cv_clock V 0) user password s))
            (cv_is_ctx V) fs))"

definition app_token :: "client_env \<Rightarrow> client_app \<Rightarrow> files \<Rightarrow> string res \<times> files" where
  "app_token V A = GetValidAccessToken (app_oidc V A) (cv_idp V (an_oidc_http A)) (cv_clock V)"

definition app_RunCert :: "client_env \<Rightarrow> client_app \<Rightarrow> files \<Rightarrow> goerr option \<times> files" where
  "app_RunCert V A fs =
     issuecert_Run (app_token V A)
       (\<lambda>token. RequestMTLSCertFromCP (app_tunnel V A) (cv_keygen V) (cv_cp V (an_creds_http A)) (cv_mkdir V)
          (cv_write_cert V) (cv_write_key V) (cv_write_ca V) token) fs"

definition app_creds :: "client_env \<Rightarrow> files \<Rightarrow> (string \<times> string) res" where
  "app_creds V fs = LoadCertAndKey (cv_not_after V) (cv_read_cert V) (cv_read_key V) (cv_clock V 0) fs"

definition app_RunConnect :: "client_env \<Rightarrow> client_app \<Rightarrow> string \<Rightarrow> files \<Rightarrow> goerr option \<times> (cl_response res \<times> conn_end) list" where
  "app_RunConnect V A resourceName fs =
     connect_Run (catalog_Resolve (te_parse (cv_tunnel V)) (cv_read_catalog V) fs) (app_creds V fs)
       (tunnel_Connect (app_tunnel V A) (cv_dial V 0) (cv_clock V 1)) resourceName"

text \<open>The table that is printed: a column is as wide as its format says, counted in code points.  The display name is
  computed and not printed.\<close>

definition runes :: "string \<Rightarrow> nat" where
  "runes s = length (filter (\<lambda>c. (of_char c :: nat) < 128 \<or> 192 \<le> (of_char c :: nat)) s)"

definition pad :: "nat \<Rightarrow> string \<Rightarrow> string" where
  "pad n s = s @ replicate (n - runes s) (CHR '' '')"

definition table_row :: "string \<Rightarrow> string \<Rightarrow> string \<Rightarrow> string \<Rightarrow> string" where
  "table_row a b c d = pad 20 a @ '' '' @ pad 8 b @ '' '' @ pad 15 c @ '' '' @ d"

definition resources_table :: "cl_published list \<Rightarrow> string list" where
  "resources_table rs =
     (if rs = [] then [''Aucune ressource disponible.'']
      else [table_row ''NOM'' ''TYPE'' (''ACC'' @ [CHR 0xC3, CHR 0x88] @ ''S'') ''DESCRIPTION'',
            table_row ''---'' ''----'' ''-----'' ''-----------'']
           @ map (\<lambda>r. table_row (cb_name r) (cb_type r) (cb_mode r) (cb_description r)) rs)"

definition app_RunResources :: "client_env \<Rightarrow> client_app \<Rightarrow> files \<Rightarrow> (goerr + string list) \<times> files" where
  "app_RunResources V A fs =
     (case listresources_Run (app_token V A) (cpapi_ListResources (app_tunnel V A) (cv_cp V (an_cp_http A))) fs of
        (Inl e, fs') \<Rightarrow> (Inl e, fs')
      | (Inr rs, fs') \<Rightarrow> (Inr (resources_table rs), fs'))"

definition app_RunAccess ::
    "client_env \<Rightarrow> client_app \<Rightarrow> string \<Rightarrow> string \<Rightarrow> files \<Rightarrow> goerr option option \<times> (cl_response res \<times> conn_end) list" where
  "app_RunAccess V A resourceName localAddr fs =
     access_Run (app_creds V fs) (cv_listen V localAddr)
       (\<lambda>n. tunnel_Connect (app_tunnel V A) (cv_dial V n) (cv_clock V (Suc n))) (cv_accepts V) resourceName localAddr"

subsection \<open>The program\<close>

text \<open>\<open>flag.Parse\<close> of a program with the one flag \<open>config\<close>: a request for help exits with 0, an error with 2.\<close>

definition parse_config_flag :: "string \<Rightarrow> string list \<Rightarrow> int + (string \<times> string list)" where
  "parse_config_flag dflt argv =
     (case flag_parse (\<lambda>_. None) [(''config'', FlagString)] argv of
        Inl e \<Rightarrow> Inl (if e = Errorf ''flag: help requested'' then 0 else 2)
      | Inr (vals, args) \<Rightarrow> Inr (flag_str vals ''config'' dflt, args))"

definition exit_of :: "goerr option \<Rightarrow> int" where
  "exit_of r = (if r = None then 0 else 1)"

text \<open>The subcommands: the exit code and the files, or \<open>None\<close> while the command waits.\<close>

definition client_command :: "client_env \<Rightarrow> client_app \<Rightarrow> string list \<Rightarrow> files \<Rightarrow> (int \<times> files) option" where
  "client_command V A args fs =
     (case args of
        [] \<Rightarrow> Some (1, fs)
      | cmd # rest \<Rightarrow>
          if cmd = ''login'' then map_option (\<lambda>(r, fs'). (exit_of r, fs')) (app_RunLogin V A fs)
          else if cmd = ''cert'' then (case app_RunCert V A fs of (r, fs') \<Rightarrow> Some (exit_of r, fs'))
          else if cmd = ''connect'' then
            (case rest of [] \<Rightarrow> Some (1, fs) | res # _ \<Rightarrow> Some (exit_of (fst (app_RunConnect V A res fs)), fs))
          else if cmd = ''resources'' then
            (case app_RunResources V A fs of (r, fs') \<Rightarrow> Some (if is_ok r then 0 else 1, fs'))
          else if cmd = ''access'' then
            (case rest of
               [] \<Rightarrow> Some (1, fs)
             | res # others \<Rightarrow>
                 map_option (\<lambda>r. (exit_of r, fs))
                   (fst (app_RunAccess V A res (case others of [] \<Rightarrow> ''127.0.0.1:0'' | addr # _ \<Rightarrow> addr) fs)))
          else Some (1, fs))"

definition client_main ::
    "client_env \<Rightarrow> (string \<Rightarrow> string res) \<Rightarrow> (string \<Rightarrow> cl_config res) \<Rightarrow> string list \<Rightarrow> files \<Rightarrow> (int \<times> files) option" where
  "client_main V read_config yaml argv fs =
     (case parse_config_flag ''config.yaml'' argv of
        Inl code \<Rightarrow> Some (code, fs)
      | Inr (cfgPath, args) \<Rightarrow>
          if args = [] then Some (1, fs)
          else (case cl_Load (read_config cfgPath) yaml of
              Inl _ \<Rightarrow> Some (1, fs)
            | Inr cfg \<Rightarrow> client_command V (client_New V cfg) args fs))"

subsection \<open>Which files a command changes\<close>

definition changes_only :: "string set \<Rightarrow> files \<Rightarrow> files \<Rightarrow> bool" where
  "changes_only S fs fs' \<longleftrightarrow> (\<forall>n. n \<notin> S \<longrightarrow> fs' n = fs n)"

lemma changes_only_refl [simp]: "changes_only S fs fs"
  by (simp add: changes_only_def)

lemma changes_only_trans: "changes_only S fs fs1 \<Longrightarrow> changes_only S fs1 fs2 \<Longrightarrow> changes_only S fs fs2"
  by (simp add: changes_only_def)

lemma changes_only_mono: "changes_only S fs fs' \<Longrightarrow> S \<subseteq> T \<Longrightarrow> changes_only T fs fs'"
  by (auto simp: changes_only_def)

lemma write_file_changes: "write_file w name c fs = (r, fs') \<Longrightarrow> changes_only {name} fs fs'"
  by (auto simp: changes_only_def dest: write_file_frame)

lemma tokens_Save_changes: "tokens_Save C mk w t fs = (r, fs') \<Longrightarrow> changes_only {tokenFileName} fs fs'"
  by (auto simp: tokens_Save_def dest: write_file_changes split: option.splits sum.splits prod.splits)

lemma accept_tokens_changes: "accept_tokens env a b adj now r fs = (x, fs') \<Longrightarrow> changes_only {tokenFileName} fs fs'"
  by (auto simp: accept_tokens_def Let_def dest: tokens_Save_changes split: if_splits prod.splits option.splits)

lemma poll_turn_changes: "poll_turn env answer now i fs = Inl (x, fs') \<Longrightarrow> changes_only {tokenFileName} fs fs'"
  by (auto simp: poll_turn_def dest: accept_tokens_changes split: http_result.splits sum.splits if_splits)

lemma poll_loop_changes:
  "poll_loop fuel env device P n now deadline i fs = Some (x, fs') \<Longrightarrow> changes_only {tokenFileName} fs fs'"
  by (induction fuel env device P n now deadline i fs rule: poll_loop.induct)
    (auto simp: Let_def dest: poll_turn_changes split: if_splits option.splits sum.splits)

lemma DeviceFlowLogin_changes:
  "DeviceFlowLogin fuel env send P now fs = Some (x, fs') \<Longrightarrow> changes_only {tokenFileName} fs fs'"
  by (auto simp: DeviceFlowLogin_def Let_def dest: poll_loop_changes split: http_result.splits sum.splits if_splits)

lemma RefreshAccessToken_changes: "RefreshAccessToken env send now fs = (x, fs') \<Longrightarrow> changes_only {tokenFileName} fs fs'"
  by (auto simp: RefreshAccessToken_def Let_def dest: accept_tokens_changes split: http_result.splits sum.splits if_splits)

lemma app_token_changes: "app_token V A fs = (x, fs') \<Longrightarrow> changes_only {tokenFileName} fs fs'"
  by (auto simp: app_token_def GetValidAccessToken_def dest: RefreshAccessToken_changes split: sum.splits if_splits prod.splits)

lemma app_RunLogin_changes: "app_RunLogin V A fs = Some (r, fs') \<Longrightarrow> changes_only {tokenFileName} fs fs'"
  by (auto simp: app_RunLogin_def RunLogin_def login_Run_def adapt_def dest!: DeviceFlowLogin_changes
      split: option.splits sum.splits prod.splits if_splits)

lemma app_RunResources_changes: "app_RunResources V A fs = (r, fs') \<Longrightarrow> changes_only {tokenFileName} fs fs'"
  by (auto simp: app_RunResources_def listresources_Run_def dest: app_token_changes split: sum.splits prod.splits)

text \<open>Every command but \<open>cert\<close> changes the tokens at most.\<close>

lemma client_command_changes:
  "client_command V A args fs = Some (code, fs') \<Longrightarrow> args = [] \<or> hd args \<noteq> ''cert'' \<Longrightarrow> changes_only {tokenFileName} fs fs'"
  by (auto simp: client_command_def dest: app_RunLogin_changes app_RunResources_changes
      split: list.splits if_splits prod.splits)

lemma creds_missing: "fs clientCertFileName = None \<or> fs clientKeyFileName = None \<Longrightarrow> \<exists>e. app_creds V fs = Inl e"
proof -
  assume a: "fs clientCertFileName = None \<or> fs clientKeyFileName = None"
  have "store_LoadCertAndKey r1 r2 fs \<noteq> Inr p" for r1 r2 p
    using a by (auto simp: store_LoadCertAndKey_def read_file_OK split: read_result.splits)
  then show ?thesis
    by (cases "store_LoadCertAndKey (cv_read_cert V) (cv_read_key V) fs") (auto simp: app_creds_def LoadCertAndKey_def)
qed

subsection \<open>Properties\<close>

text \<open>The commands of a user one after the other, each with what it meets.\<close>

fun client_session :: "(client_env \<times> client_app \<times> string list) list \<Rightarrow> files \<Rightarrow> files option" where
  "client_session [] fs = Some fs"
| "client_session ((V, A, args) # cmds) fs =
     (case client_command V A args fs of None \<Rightarrow> None | Some (_, fs') \<Rightarrow> client_session cmds fs')"

definition no_cert_command :: "client_env \<times> client_app \<times> string list \<Rightarrow> bool" where
  "no_cert_command c = (case c of (_, _, args) \<Rightarrow> args = [] \<or> hd args \<noteq> ''cert'')"

lemma client_session_changes:
  "client_session cmds fs = Some fs' \<Longrightarrow> list_all no_cert_command cmds \<Longrightarrow> changes_only {tokenFileName} fs fs'"
proof (induction cmds fs rule: client_session.induct)
  case (2 V A args cmds fs)
  from 2(2) obtain code fs1 where c: "client_command V A args fs = Some (code, fs1)" and r: "client_session cmds fs1 = Some fs'"
    by (auto split: option.splits)
  from 2(3) have "args = [] \<or> hd args \<noteq> ''cert''" "list_all no_cert_command cmds" by (simp_all add: no_cert_command_def[of "(V, A, args)"])
  with 2(1)[OF c refl r] client_command_changes[OF c] show ?case by (blast intro: changes_only_trans)
qed simp

text \<open>C36: without a certificate there is no tunnel.  Whatever commands a user runs and whatever they meet, as long as none of
  them is \<open>cert\<close> and no certificate with its key was stored before, \<open>connect\<close> and \<open>access\<close> end with an error and
  without an attempt to open a tunnel to the gateway.\<close>

theorem no_cert_no_tunnel:
  assumes "client_session cmds fs = Some fs'" "list_all no_cert_command cmds"
    and "fs clientCertFileName = None \<or> fs clientKeyFileName = None"
  shows "client_command V A (''connect'' # res # others) fs' = Some (1, fs')
     \<and> (\<exists>e. app_RunConnect V A res fs' = (Some e, []))
     \<and> (\<exists>e. app_RunAccess V A res localAddr fs' = (Some (Some e), []))"
proof -
  have "fs' n = fs n" if "n \<noteq> tokenFileName" for n
    using client_session_changes[OF assms(1,2)] that by (simp add: changes_only_def)
  then have "fs' clientCertFileName = None \<or> fs' clientKeyFileName = None"
    using assms(3) by (simp add: file_names)
  then obtain e where c: "app_creds V fs' = Inl e"
    using creds_missing by blast
  then have "\<exists>e. app_RunConnect V A res fs' = (Some e, [])"
    by (simp add: app_RunConnect_def connect_Run_def split: sum.splits option.splits)
  with c show ?thesis by (auto simp: client_command_def exit_of_def app_RunAccess_def access_Run_def)
qed

definition ex_client :: client_env where
  "ex_client = \<lparr>cv_oidc = ex_oidc, cv_tunnel = ex_tunnel_env, cv_idp = (\<lambda>_. ex_idp), cv_cp = (\<lambda>_ _. HttpResponse 201 (Inr ''json'')),
     cv_poll = (\<lambda>_. ex_poll 1), cv_fuel = 5, cv_clock = (\<lambda>_. 0), cv_is_ctx = (\<lambda>_. False), cv_keygen = Inr (''CSR'', ''KEY''),
     cv_mkdir = None, cv_write_cert = WriteOK, cv_write_key = WriteOK, cv_write_ca = WriteOK, cv_read_cert = None,
     cv_read_key = None, cv_read_catalog = None, cv_not_after = (\<lambda>_. None),
     cv_dial = (\<lambda>_ _ _. Inl (Errorf ''refused'')), cv_listen = (\<lambda>_. None), cv_accepts = [AcceptOK]\<rparr>"

abbreviation ex_client_app :: client_app where "ex_client_app \<equiv> client_New ex_client ex_cl_config"

theorem no_cert_no_tunnel_witness:
  "\<exists>fs'. client_session [(ex_client, ex_client_app, [''login'']), (ex_client, ex_client_app, [''resources''])] Map.empty = Some fs'
     \<and> client_command ex_client ex_client_app [''connect'', ''db''] fs' = Some (1, fs')
     \<and> snd (app_RunConnect ex_client ex_client_app ''db'' fs') = []"
proof -
  let ?cmds = "[(ex_client, ex_client_app, [''login'']), (ex_client, ex_client_app, [''resources''])]"
  have "client_session ?cmds Map.empty \<noteq> None" by code_simp
  then obtain fs' where s: "client_session ?cmds Map.empty = Some fs'" by blast
  have "list_all no_cert_command ?cmds" by (simp add: no_cert_command_def)
  from no_cert_no_tunnel[OF s this, of ex_client ex_client_app "''db''" "[]", where localAddr = "[]"] s show ?thesis
    by (intro exI[of _ fs']) auto
qed

end
