(* ===== verification/Loggers.thy ===== *)
theory Loggers
  imports Go_Strings
begin

text \<open>
  The loggers (\<open>control-plane/internal/logger/logger.go\<close>, \<open>observability/logger/logger.go\<close> of the gateway and of
  the client): the level and the format that the configuration chooses, and the values a request carries in its
  context.  What the handlers write is not modelled.  A context is the chain of its \<open>WithValue\<close>s, the innermost
  first; its keys have the type of the package that declares them, so the same text in two packages is two keys.
\<close>

datatype log_level = LevelDebug | LevelInfo | LevelWarn | LevelError

datatype log_format = TextHandler | JSONHandler

text \<open>\<open>slog.Level\<close> is an integer, and a handler is enabled from its level on: the levels are linearly ordered.\<close>

fun level_rank :: "log_level \<Rightarrow> int" where
  "level_rank LevelDebug = -4"
| "level_rank LevelInfo = 0"
| "level_rank LevelWarn = 4"
| "level_rank LevelError = 8"

instantiation log_level :: linorder
begin

definition less_eq_log_level :: "log_level \<Rightarrow> log_level \<Rightarrow> bool" where
  "less_eq_log_level a b \<longleftrightarrow> level_rank a \<le> level_rank b"

definition less_log_level :: "log_level \<Rightarrow> log_level \<Rightarrow> bool" where
  "less_log_level a b \<longleftrightarrow> level_rank a < level_rank b"

instance
proof
  fix a b :: log_level
  show "a \<le> b \<Longrightarrow> b \<le> a \<Longrightarrow> a = b" by (cases a; cases b) (auto simp: less_eq_log_level_def)
qed (auto simp: less_eq_log_level_def less_log_level_def)

end

definition log_enabled :: "log_level \<times> log_format \<Rightarrow> log_level \<Rightarrow> bool" where
  "log_enabled l at \<longleftrightarrow> fst l \<le> at"

definition level_of :: "string \<Rightarrow> log_level" where
  "level_of raw =
     (if raw = ''debug'' then LevelDebug
      else if raw = ''warn'' then LevelWarn
      else if raw = ''error'' then LevelError
      else LevelInfo)"

text \<open>The control plane's logger folds the case of both settings; the other two do not.\<close>

definition parseLevel :: "string \<Rightarrow> log_level" where
  "parseLevel raw = level_of (ToLower raw)"

definition cp_logger_New :: "string \<Rightarrow> string \<Rightarrow> log_level \<times> log_format" where
  "cp_logger_New level format =
     (parseLevel level, if ToLower format = ''text'' then TextHandler else JSONHandler)"

definition gw_logger_New :: "string \<Rightarrow> string \<Rightarrow> log_level \<times> log_format" where
  "gw_logger_New level format = (level_of level, if format = ''text'' then TextHandler else JSONHandler)"

definition cl_logger_New :: "string \<Rightarrow> string \<Rightarrow> log_level \<times> log_format" where
  "cl_logger_New level format = (level_of level, if format = ''text'' then TextHandler else JSONHandler)"

subsection \<open>The values of a context\<close>

datatype ctx_package = CPLogger | GwLogger | ClLogger | OtherPackage string

datatype ctx_value = CtxString string | CtxOther nat

type_synonym ctx_key = "ctx_package \<times> string"

type_synonym ctx = "(ctx_key \<times> ctx_value) list"

definition WithValue :: "ctx \<Rightarrow> ctx_key \<Rightarrow> ctx_value \<Rightarrow> ctx" where
  "WithValue c k v = (k, v) # c"

definition ctx_Value :: "ctx \<Rightarrow> ctx_key \<Rightarrow> ctx_value option" where
  "ctx_Value c k = map_of c k"

text \<open>\<open>ctx.Value(key).(string)\<close> with the empty string where there is none, or a value of another type.\<close>

definition ctx_string :: "ctx \<Rightarrow> ctx_key \<Rightarrow> string" where
  "ctx_string c k = (case ctx_Value c k of Some (CtxString s) \<Rightarrow> s | _ \<Rightarrow> [])"

definition cp_WithRequestID :: "ctx \<Rightarrow> string \<Rightarrow> ctx" where
  "cp_WithRequestID c v = WithValue c (CPLogger, ''request_id'') (CtxString v)"

definition cp_RequestIDFromContext :: "ctx \<Rightarrow> string" where
  "cp_RequestIDFromContext c = ctx_string c (CPLogger, ''request_id'')"

definition cp_WithPepID :: "ctx \<Rightarrow> string \<Rightarrow> ctx" where
  "cp_WithPepID c v = WithValue c (CPLogger, ''pep_id'') (CtxString v)"

definition cp_PepIDFromContext :: "ctx \<Rightarrow> string" where
  "cp_PepIDFromContext c = ctx_string c (CPLogger, ''pep_id'')"

definition gw_WithRequestID :: "ctx \<Rightarrow> string \<Rightarrow> ctx" where
  "gw_WithRequestID c v = WithValue c (GwLogger, ''request_id'') (CtxString v)"

definition gw_RequestIDFromContext :: "ctx \<Rightarrow> string" where
  "gw_RequestIDFromContext c = ctx_string c (GwLogger, ''request_id'')"

definition gw_WithSessionID :: "ctx \<Rightarrow> string \<Rightarrow> ctx" where
  "gw_WithSessionID c v = WithValue c (GwLogger, ''session_id'') (CtxString v)"

definition gw_SessionIDFromContext :: "ctx \<Rightarrow> string" where
  "gw_SessionIDFromContext c = ctx_string c (GwLogger, ''session_id'')"

definition gw_WithSubject :: "ctx \<Rightarrow> string \<Rightarrow> ctx" where
  "gw_WithSubject c v = WithValue c (GwLogger, ''subject'') (CtxString v)"

definition gw_SubjectFromContext :: "ctx \<Rightarrow> string" where
  "gw_SubjectFromContext c = ctx_string c (GwLogger, ''subject'')"

definition gw_WithPepID :: "ctx \<Rightarrow> string \<Rightarrow> ctx" where
  "gw_WithPepID c v = WithValue c (GwLogger, ''pep_id'') (CtxString v)"

definition gw_PepIDFromContext :: "ctx \<Rightarrow> string" where
  "gw_PepIDFromContext c = ctx_string c (GwLogger, ''pep_id'')"

definition cl_WithRequestID :: "ctx \<Rightarrow> string \<Rightarrow> ctx" where
  "cl_WithRequestID c v = WithValue c (ClLogger, ''request_id'') (CtxString v)"

definition cl_RequestIDFromContext :: "ctx \<Rightarrow> string" where
  "cl_RequestIDFromContext c = ctx_string c (ClLogger, ''request_id'')"

definition cl_WithResource :: "ctx \<Rightarrow> string \<Rightarrow> ctx" where
  "cl_WithResource c v = WithValue c (ClLogger, ''resource'') (CtxString v)"

definition cl_ResourceFromContext :: "ctx \<Rightarrow> string" where
  "cl_ResourceFromContext c = ctx_string c (ClLogger, ''resource'')"

subsection \<open>Facts\<close>

text \<open>A slot of the context: reading what was stored, and leaving every other key alone.\<close>

locale ctx_slot =
  fixes store :: "ctx \<Rightarrow> string \<Rightarrow> ctx" and load :: "ctx \<Rightarrow> string" and key :: ctx_key
  assumes load_store: "load (store c v) = v"
    and store_other: "k \<noteq> key \<Longrightarrow> ctx_Value (store c v) k = ctx_Value c k"
    and load_key: "load c = ctx_string c key"
begin

lemma slot_last_wins: "load (store (store c v) w) = w"
  by (rule load_store)

lemma slot_survives: "k \<noteq> key \<Longrightarrow> load (WithValue (store c v) k x) = v"
  using load_store[of c v] by (simp add: load_key ctx_string_def ctx_Value_def WithValue_def)

lemma slot_frame: "k \<noteq> key \<Longrightarrow> ctx_string (store c v) k = ctx_string c k"
  by (simp add: ctx_string_def store_other)

end

named_theorems ctx_ops

declare ctx_string_def [ctx_ops] ctx_Value_def [ctx_ops] WithValue_def [ctx_ops]
  cp_WithRequestID_def [ctx_ops] cp_RequestIDFromContext_def [ctx_ops] cp_WithPepID_def [ctx_ops] cp_PepIDFromContext_def [ctx_ops]
  gw_WithRequestID_def [ctx_ops] gw_RequestIDFromContext_def [ctx_ops] gw_WithSessionID_def [ctx_ops]
  gw_SessionIDFromContext_def [ctx_ops] gw_WithSubject_def [ctx_ops] gw_SubjectFromContext_def [ctx_ops]
  gw_WithPepID_def [ctx_ops] gw_PepIDFromContext_def [ctx_ops] cl_WithRequestID_def [ctx_ops]
  cl_RequestIDFromContext_def [ctx_ops] cl_WithResource_def [ctx_ops] cl_ResourceFromContext_def [ctx_ops]

interpretation cp_request_id: ctx_slot cp_WithRequestID cp_RequestIDFromContext "(CPLogger, ''request_id'')"
  by unfold_locales (auto simp: ctx_ops)

interpretation cp_pep_id: ctx_slot cp_WithPepID cp_PepIDFromContext "(CPLogger, ''pep_id'')"
  by unfold_locales (auto simp: ctx_ops)

interpretation gw_request_id: ctx_slot gw_WithRequestID gw_RequestIDFromContext "(GwLogger, ''request_id'')"
  by unfold_locales (auto simp: ctx_ops)

interpretation gw_session_id: ctx_slot gw_WithSessionID gw_SessionIDFromContext "(GwLogger, ''session_id'')"
  by unfold_locales (auto simp: ctx_ops)

interpretation gw_subject: ctx_slot gw_WithSubject gw_SubjectFromContext "(GwLogger, ''subject'')"
  by unfold_locales (auto simp: ctx_ops)

interpretation gw_pep_id: ctx_slot gw_WithPepID gw_PepIDFromContext "(GwLogger, ''pep_id'')"
  by unfold_locales (auto simp: ctx_ops)

interpretation cl_request_id: ctx_slot cl_WithRequestID cl_RequestIDFromContext "(ClLogger, ''request_id'')"
  by unfold_locales (auto simp: ctx_ops)

interpretation cl_resource: ctx_slot cl_WithResource cl_ResourceFromContext "(ClLogger, ''resource'')"
  by unfold_locales (auto simp: ctx_ops)

text \<open>What the handlers of the control plane read: the gateway's name survives the request's identifier, in either order.\<close>

lemma pep_id_beside_request_id:
  "cp_PepIDFromContext (cp_WithRequestID (cp_WithPepID c p) r) = p
   \<and> cp_RequestIDFromContext (cp_WithPepID (cp_WithRequestID c r) p) = r"
  using cp_pep_id.slot_survives[of "(CPLogger, ''request_id'')"] cp_request_id.slot_survives[of "(CPLogger, ''pep_id'')"]
  by (simp add: cp_WithRequestID_def cp_WithPepID_def)

text \<open>The gateway's key of the same name is another key: a value of one logger is not read by the other.\<close>

lemma packages_apart: "cp_PepIDFromContext (gw_WithPepID c p) = cp_PepIDFromContext c"
  using gw_pep_id.slot_frame[of "(CPLogger, ''pep_id'')"] by (simp add: cp_PepIDFromContext_def)

text \<open>An unknown level is the default one; and the same setting in capitals means less to the gateway than to the control plane.\<close>

lemma unknown_level: "raw \<notin> {''debug'', ''warn'', ''error''} \<Longrightarrow> level_of raw = LevelInfo"
  by (auto simp: level_of_def)

lemma capital_level: "fst (cp_logger_New ''DEBUG'' f) = LevelDebug \<and> fst (gw_logger_New ''DEBUG'' f) = LevelInfo"
  by (simp add: cp_logger_New_def gw_logger_New_def parseLevel_def) code_simp

text \<open>What is written at a level is written at every more severe one, and errors always are.\<close>

lemma log_enabled_mono: "log_enabled l a \<Longrightarrow> a \<le> b \<Longrightarrow> log_enabled l b"
  unfolding log_enabled_def by (rule order_trans)

lemma errors_always_logged: "log_enabled l LevelError"
  by (cases "fst l") (auto simp: log_enabled_def less_eq_log_level_def)

end
