(* ===== verification/Mains.thy ===== *)
theory Mains
  imports CP_App Gw_App Cl_App Loggers
begin

text \<open>
  The entry points of the two servers (\<open>control-plane/main.go\<close>, \<open>gateway/cmd/ztna-gateway/main.go\<close>): the flag, the
  configuration, the application, and the wait for a signal.  \<open>Stays\<close> is a process that still waits, with what its
  \<open>Run\<close> returned so far; \<open>Exited\<close> carries the exit code.
\<close>

datatype process = Exited int | Stays "goerr option"

subsection \<open>The control plane\<close>

text \<open>
  \<open>ends\<close>: how the servers ended so far, in that order; \<open>signal\<close>: whether SIGINT or SIGTERM arrived.  A failing \<open>Run\<close>
  calls \<open>stop\<close>, which ends the wait like the signal does.  A panic exits with 2.
\<close>

definition cp_main ::
    "('k, 'x, 's, 'p) app_env \<Rightarrow> (string \<Rightarrow> string res) \<Rightarrow> (string \<Rightarrow> cp_config res) \<Rightarrow> (string \<Rightarrow> bool)
     \<Rightarrow> goerr option list \<Rightarrow> bool \<Rightarrow> goerr option \<times> goerr option option \<times> goerr option
     \<Rightarrow> string list \<Rightarrow> world \<Rightarrow> process \<times> world" where
  "cp_main E read_config yaml exists ends signal closes argv w =
     (case parse_config_flag ''config.yaml'' argv of
        Inl code \<Rightarrow> (Exited code, w)
      | Inr (cfgPath, _) \<Rightarrow>
     (case cp_Load (read_config cfgPath) yaml exists of
        Inl _ \<Rightarrow> (Exited 2, w)
      | Inr cfg \<Rightarrow>
     (case app_New E cfg w of
        (Inl _, w') \<Rightarrow> (Exited 1, w')
      | (Inr application, w') \<Rightarrow>
          if signal \<or> app_Run ends \<noteq> None
          then (case closes of (public, pep, db_close) \<Rightarrow>
                  (case app_Close public pep db_close w' of (_, _, w'') \<Rightarrow> (Exited 0, w'')))
          else (Stays None, w'))))"

subsection \<open>The gateway\<close>

text \<open>
  \<open>work\<close> is what the handler of the connections did to the sessions and the decisions between the start and the
  signal, from the connections that were accepted; the error of the listener, \<open>drains\<close> and \<open>others\<close> belong to \<open>Close\<close>.  The
  error of \<open>Run\<close> is logged only, and nothing ends the wait but the signal.
\<close>

definition gw_main ::
    "'c tls_files \<Rightarrow> (string \<Rightarrow> string res) \<Rightarrow> (string \<Rightarrow> gw_config res)
     \<Rightarrow> (string \<Rightarrow> 'c listener_tls \<Rightarrow> goerr option) \<Rightarrow> (string \<Rightarrow> bool) option \<Rightarrow> accept_outcome list
     \<Rightarrow> (client_cert list \<Rightarrow> gw_handler \<Rightarrow> gw_shared)
     \<Rightarrow> (goerr option \<times> ((gw_shared \<Rightarrow> gw_shared) \<times> bool) list \<times> (nat \<Rightarrow> gw_shared \<Rightarrow> gw_shared)) option
     \<Rightarrow> string list \<Rightarrow> process \<times> gw_shared option" where
  "gw_main T read_config yaml opened revoked evs work signal argv =
     (case parse_config_flag ''config.lab.yaml'' argv of
        Inl code \<Rightarrow> (Exited code, None)
      | Inr (cfgPath, _) \<Rightarrow>
     (case gw_Load (read_config cfgPath) yaml of
        Inl _ \<Rightarrow> (Exited 1, None)
      | Inr cfg \<Rightarrow>
     (let application = gw_New T cfg;
          (_, run_end, accepted, _) = gw_App_Run T cfg application opened revoked evs;
          s = work accepted (ga_handler application) in
      case signal of
        None \<Rightarrow> (Stays run_end, Some s)
      | Some (listener_close, drains, others) \<Rightarrow>
          (case gw_Close listener_close drains others s of
             None \<Rightarrow> (Stays run_end, Some s)
           | Some (_, m, c) \<Rightarrow> (Exited 0, Some (m, c))))))"

subsection \<open>Facts\<close>

text \<open>Whatever ends the control plane, its database is closed, or was never opened.\<close>

lemma cp_main_closes:
  "cp_main E read_config yaml exists ends signal closes argv w = (Exited code, w') \<Longrightarrow> \<not> wo_open w \<Longrightarrow> \<not> wo_open w'"
  by (auto simp: cp_main_def app_Close_def split: sum.splits prod.splits if_splits dest: app_New_error)

text \<open>The exit code tells a failing start from an ordered stop: it is 0 exactly when help was asked for or the application was built.\<close>

lemma cp_main_code:
  assumes "cp_main E read_config yaml exists ends signal closes argv w = (Exited code, w')"
    and "parse_config_flag ''config.yaml'' argv = Inr (path, rest)"
  shows "code = 0 \<longleftrightarrow> (\<exists>cfg p w1. cp_Load (read_config path) yaml exists = Inr cfg \<and> app_New E cfg w = (Inr p, w1))"
  using assms by (auto simp: cp_main_def split: sum.splits prod.splits if_splits)

text \<open>A server that fails ends the process with the code of an ordered stop.\<close>

lemma cp_main_failed_server:
  assumes "parse_config_flag ''config.yaml'' argv = Inr (path, rest)" "cp_Load (read_config path) yaml exists = Inr cfg"
    and "app_New E cfg w = (Inr p, w1)" "app_Run ends = Some e"
  shows "fst (cp_main E read_config yaml exists ends signal closes argv w) = Exited 0"
  using assms by (simp add: cp_main_def split: prod.splits)

text \<open>A gateway whose listener cannot be opened does not exit: without a signal it stays, with no listener and no connection.\<close>

lemma gw_main_without_listener:
  assumes "parse_config_flag ''config.lab.yaml'' argv = Inr (path, rest)" "gw_Load (read_config path) yaml = Inr cfg"
    and "gw_buildTLSConfig T cfg = Inl e"
  shows "\<exists>e'. fst (gw_main T read_config yaml opened revoked evs work None argv) = Stays (Some e')"
  using assms by (simp add: gw_main_def gw_App_Run_def gw_Run_def)

text \<open>An ordered stop of the gateway leaves no decision, and no session but those registered late, provided the handlers kept the
  table well formed.\<close>

lemma gw_main_stops_clean:
  assumes "gw_main T read_config yaml opened revoked evs work signal argv = (Exited code, Some (m, c))"
    and "\<And>accepted h. sm_wf (fst (work accepted h))"
    and "\<And>lc drains others. signal = Some (lc, drains, others) \<Longrightarrow> list_all (\<lambda>(f, d). keeps_table f) drains \<and> keeps_table (others 0)"
  shows "code = 0 \<and> dc_items c = [] \<and> (\<exists>lc drains others. signal = Some (lc, drains, others) \<and> live_ids (m, c) \<subseteq> late_ids others)"
proof -
  obtain lc drains others s e where c: "code = 0" "signal = Some (lc, drains, others)" "sm_wf (fst s)"
    and g: "gw_Close lc drains others s = Some (e, m, c)"
    using assms(1,2) that
    by (auto simp: gw_main_def Let_def split: sum.splits prod.splits option.splits) (metis prod.collapse)
  from gw_Close_result[OF g c(3)] assms(3)[OF c(2)] c(1,2) show ?thesis by simp
qed

end
