(* ===== verification/Policy_History.thy ===== *)
theory Policy_History
  imports Policy_Service
begin

text \<open>
  What the tables of policies, their transactions and the decision service come to.  A call of the store that reports
  success to its caller is an event: a policy was published under a number, with its author and its rules, or a number was
  put in force.  The history of a list of events is the list of the published policies and the mark at the one in force.
  The tables are the history of the events, and the decision service is a pure function of the policy in force.
\<close>

subsection \<open>The abstract history\<close>

record policy_history =
  ph_versions :: "(int \<times> string \<times> policy_rule list) list"
  ph_active :: "int option"

definition empty_history :: policy_history where
  "empty_history = \<lparr>ph_versions = [], ph_active = None\<rparr>"

datatype policy_event =
    Published int string "policy_rule list"
  | Activated int

fun history_event :: "policy_event \<Rightarrow> policy_history \<Rightarrow> policy_history" where
  "history_event (Published i author rules) h = h\<lparr>ph_versions := ph_versions h @ [(i, author, rules)]\<rparr>"
| "history_event (Activated i) h = h\<lparr>ph_active := Some i\<rparr>"

definition replay :: "policy_event list \<Rightarrow> policy_history" where
  "replay evs = fold history_event evs empty_history"

text \<open>Numbers are used once, and a policy in force was published.\<close>

definition sound_history :: "policy_history \<Rightarrow> bool" where
  "sound_history h \<longleftrightarrow> distinct (map fst (ph_versions h))
     \<and> (case ph_active h of None \<Rightarrow> True | Some i \<Rightarrow> i \<in> fst ` set (ph_versions h))"

text \<open>The policy in force, and the decision it gives.\<close>

definition in_force :: "policy_history \<Rightarrow> (int \<times> policy_rule list) option" where
  "in_force h =
     (case ph_active h of None \<Rightarrow> None
      | Some i \<Rightarrow> map_option (\<lambda>(author, rules). (i, rules)) (map_of (ph_versions h) i))"

definition history_decides :: "policy_history \<Rightarrow> time \<Rightarrow> authorize_request \<Rightarrow> (int \<times> decision_effect) option" where
  "history_decides h now req =
     map_option (\<lambda>(i, rules). (i, fst (eval_rules now (ar_subject req) (ar_action req) (ar_resource req) (ar_context req) rules)))
       (in_force h)"

subsection \<open>The abstraction\<close>

text \<open>A rule without what the store adds to it.\<close>

definition plain_rule :: "policy_rule \<Rightarrow> policy_rule" where
  "plain_rule r = r\<lparr>r_id := 0, r_version_id := 0, r_created_at := 0\<rparr>"

definition rules_of :: "db \<Rightarrow> int \<Rightarrow> policy_rule list" where
  "rules_of d vid = map plain_rule (filter (\<lambda>r. r_version_id r = vid) (db_rules d))"

definition history_of :: "db \<Rightarrow> policy_history" where
  "history_of d =
     \<lparr>ph_versions = map (\<lambda>v. (pv_id v, pv_created_by v, rules_of d (pv_id v))) (db_versions d),
      ph_active = (case filter pv_active (db_versions d) of [] \<Rightarrow> None | v # _ \<Rightarrow> Some (pv_id v))\<rparr>"

lemma history_of_empty: "history_of empty_db = empty_history"
  by (simp add: history_of_def empty_history_def empty_db_def)

lemma history_of_cong: "db_versions d' = db_versions d \<Longrightarrow> db_rules d' = db_rules d \<Longrightarrow> history_of d' = history_of d"
  by (simp add: history_of_def rules_of_def)

lemma same_rule_plain: "same_rule (plain_rule r) r"
  by (simp add: same_rule_def plain_rule_def)

lemma plain_rules_decide:
  "fst (eval_rules now subj action res ctx (map plain_rule rules)) = fst (eval_rules now subj action res ctx rules)"
  by (rule same_rules_decide) (simp add: list_all2_conv_all_nth same_rule_plain)

lemma plain_stored_rules: "map plain_rule (stored_rules now vid seq rules) = map plain_rule rules"
  by (induction rules arbitrary: seq) (simp_all add: plain_rule_def)

subsection \<open>The simulation\<close>

lemma history_of_with_version:
  assumes "policies_wf d"
  shows "history_of (with_version now author rules d) = (history_of d)
    \<lparr>ph_versions := ph_versions (history_of d) @ [(db_seq_versions d + 1, author, map plain_rule rules)]\<rparr>"
proof -
  have new: "rules_of (with_version now author rules d) (db_seq_versions d + 1) = map plain_rule rules"
    using new_version_rules[OF assms] by (simp add: rules_of_def plain_stored_rules)
  have old: "rules_of (with_version now author rules d) (pv_id v) = rules_of d (pv_id v)" if "v \<in> set (db_versions d)" for v
  proof -
    have "pv_id v \<noteq> db_seq_versions d + 1" using assms that by (auto simp: policies_wf_def)
    then have "filter (\<lambda>r. r_version_id r = pv_id v) (stored_rules now (db_seq_versions d + 1) (db_seq_rules d) rules) = []"
      by (auto simp: filter_empty_conv dest: stored_rules_version)
    then show ?thesis by (simp add: rules_of_def with_version_def)
  qed
  have "db_versions (with_version now author rules d) = db_versions d @ [\<lparr>pv_id = db_seq_versions d + 1, pv_active = False,
      pv_created_at = rfc3339 now, pv_created_by = author\<rparr>]"
    by (simp add: with_version_def)
  then show ?thesis using new old by (simp add: history_of_def)
qed

lemma history_of_with_active:
  assumes "policies_wf d" "vid \<in> pv_id ` set (db_versions d)"
  shows "history_of (with_active vid d) = (history_of d)\<lparr>ph_active := Some vid\<rparr>"
proof -
  from assms(2) obtain v where v: "v \<in> set (db_versions d)" "vid = pv_id v" by auto
  have "filter pv_active (db_versions (with_active vid d)) = [v\<lparr>pv_active := True\<rparr>]"
    using filter_active_with_active[OF _ v(1)] assms(1) by (simp add: with_active_def policies_wf_def v(2))
  moreover have "rules_of (with_active vid d) i = rules_of d i" for i by (simp add: rules_of_def with_active_def)
  ultimately show ?thesis by (simp add: history_of_def v(2)) (simp add: with_active_def o_def)
qed

text \<open>The calls of the store, with what they report.\<close>

inductive other_call :: "db \<Rightarrow> db \<Rightarrow> bool" where
  "other_call d (snd (UpsertUser drv now subj d))"
| "other_call d (snd (InsertAuditEvent drv ev d))"
| "other_call d (snd (StoreDeviceCert drv cert d))"
| "other_call d (snd (RevokeDeviceCert drv now serial reason d))"
| "other_call d (snd (RegisterGateway drv now gw d))"
| "other_call d (snd (UpdateGatewayHeartbeat drv now gid version d))"
| "other_call d (snd (SetGatewayActive drv gid active d))"
| "other_call d (snd (CreateResource drv now res d))"
| "other_call d (snd (UpdateResource drv now res d))"
| "other_call d (snd (DeleteResource drv name d))"
| "other_call d (snd (CreateSession drv sess d))"
| "other_call d (snd (CompleteSession drv now sess d))"

inductive store_call :: "db \<Rightarrow> policy_event list \<Rightarrow> db \<Rightarrow> bool" where
  call_create: "CreatePolicyVersion drv now author rules d = (r, d') \<Longrightarrow>
     store_call d (case r of Inl _ \<Rightarrow> [] | Inr vid \<Rightarrow> [Published vid author (map plain_rule rules)]) d'"
| call_activate: "ActivatePolicyVersion drv vid d = (r, d') \<Longrightarrow>
     store_call d (case r of Some _ \<Rightarrow> [] | None \<Rightarrow> [Activated vid]) d'"
| call_other: "other_call d d' \<Longrightarrow> store_call d [] d'"

lemma call_create_of:
  "store_call d (case fst (CreatePolicyVersion drv now author rules d) of Inl _ \<Rightarrow> []
     | Inr vid \<Rightarrow> [Published vid author (map plain_rule rules)]) (snd (CreatePolicyVersion drv now author rules d))"
  by (rule call_create) simp

lemma call_activate_of:
  "store_call d (case fst (ActivatePolicyVersion drv vid d) of Some _ \<Rightarrow> [] | None \<Rightarrow> [Activated vid])
     (snd (ActivatePolicyVersion drv vid d))"
  by (rule call_activate) simp

lemma other_call_step: "other_call d d' \<Longrightarrow> store_step d d'"
  by (auto elim!: other_call.cases intro: store_step.intros)

lemma store_call_step: "store_call d es d' \<Longrightarrow> store_step d d'"
  by (erule store_call.cases) (metis step_create snd_conv, metis step_activate snd_conv, simp add: other_call_step)

lemma store_step_call: "store_step d d' \<Longrightarrow> \<exists>es. store_call d es d'"
  by (cases rule: store_step.cases) (auto intro: call_create_of call_activate_of call_other other_call.intros)

lemma other_call_history: "other_call d d' \<Longrightarrow> history_of d' = history_of d"
  by (rule history_of_cong; erule other_call.cases; simp add: store_defs Let_def split: option.splits)

lemma store_call_history:
  assumes "store_call d es d'" "db_wf d"
  shows "history_of d' = fold history_event es (history_of d)"
  using assms(1)
proof (cases rule: store_call.cases)
  case (call_create drv now author rules r)
  have "policies_wf d" using assms(2) by (simp add: db_wf_def)
  from history_of_with_version[OF this, of now author rules] CreatePolicyVersion_cases[of drv now author rules d] call_create
  show ?thesis by auto
next
  case (call_activate drv vid r)
  have "policies_wf d" using assms(2) by (simp add: db_wf_def)
  from history_of_with_active[OF this, of vid] ActivatePolicyVersion_cases[of drv vid d] call_activate
  show ?thesis by auto
qed (simp add: other_call_history)

interpretation history: simulation store_call db_wf history_of history_event
  by unfold_locales (auto intro: store_call_history dest: store_call_step store.keeps)

text \<open>Every reachable database is one of these runs.\<close>

lemma traced_reachable: "traced store_call empty_db evs d \<Longrightarrow> reachable_db d"
  unfolding reachable_db_def
  by (induction empty_db evs d rule: traced.induct) (auto dest: store_call_step intro: rtranclp.rtrancl_into_rtrancl)

lemma reachable_traced: "reachable_db d \<Longrightarrow> \<exists>evs. traced store_call empty_db evs d"
  unfolding reachable_db_def
  by (induction rule: rtranclp_induct) (blast intro: traced_refl, meson store_step_call traced_call)

lemma history_of_sound:
  assumes "db_wf d"
  shows "sound_history (history_of d)"
proof -
  have wf: "policies_wf d" using assms by (simp add: db_wf_def)
  have "distinct (map fst (ph_versions (history_of d)))" using wf by (simp add: history_of_def policies_wf_def o_def)
  moreover have "pv_id v \<in> fst ` set (ph_versions (history_of d))" if "filter pv_active (db_versions d) = v # vs" for v vs
  proof -
    have "v \<in> set (filter pv_active (db_versions d))" unfolding that by simp
    then show ?thesis by (force simp: history_of_def)
  qed
  ultimately show ?thesis by (auto simp: sound_history_def history_of_def split: list.split)
qed

subsection \<open>The decision\<close>

lemma GetActive_in_force:
  assumes "db_wf d"
  shows "(case in_force (history_of d) of
       None \<Rightarrow> GetActive (GetActivePolicy no_fault) d = Inl ErrNotFound
     | Some (i, rules) \<Rightarrow> \<exists>sn. GetActive (GetActivePolicy no_fault) d = Inr sn \<and> pv_id (sn_version sn) = i
         \<and> map plain_rule (sn_rules sn) = rules)"
proof -
  have wf: "policies_wf d" using assms by (simp add: db_wf_def)
  show ?thesis
  proof (cases rule: active_cases[OF wf])
    case 1
    then show ?thesis by (simp add: in_force_def history_of_def GetActive_def GetActivePolicy_none)
  next
    case (2 v)
    have "v \<in> set (filter pv_active (db_versions d))" unfolding 2 by simp
    then have v: "v \<in> set (db_versions d)" by (simp only: set_filter mem_Collect_eq)
    have "distinct (map fst (ph_versions (history_of d)))"
      using wf by (simp add: history_of_def policies_wf_def o_def)
    moreover have "(pv_id v, pv_created_by v, rules_of d (pv_id v)) \<in> set (ph_versions (history_of d))"
      using v by (auto simp: history_of_def)
    ultimately have "map_of (ph_versions (history_of d)) (pv_id v) = Some (pv_created_by v, rules_of d (pv_id v))"
      by (rule map_of_is_SomeI)
    moreover have "ph_active (history_of d) = Some (pv_id v)" using 2 by (simp add: history_of_def)
    moreover have "sorted (map r_id (db_rules d))" using wf by (simp add: policies_wf_def)
    ultimately show ?thesis
      using GetActivePolicy_unique[OF 2] by (simp add: in_force_def GetActive_def rules_of_def sort_key_sorted_filter)
  qed
qed

lemma Authorize_history:
  assumes "db_wf d"
  shows "map_sum (\<lambda>e. e) (\<lambda>dec. (d_policy_version dec, d_effect dec))
      (decision_Authorize (GetActivePolicy no_fault) ttl now uuid req d)
    = (case history_decides (history_of d) now req of None \<Rightarrow> Inl ErrNotFound | Some x \<Rightarrow> Inr x)"
  using GetActive_in_force[OF assms]
  by (auto simp: history_decides_def decision_Authorize_def Evaluate_def plain_rules_decide
      split: option.splits prod.splits)

subsection \<open>Properties\<close>

text \<open>C14: the store and the decision service are the history of the policies that were published.  After any calls of
  the store, whatever driver calls fail, the policy tables are exactly what the calls reported to their callers: each
  publication that succeeded, in its order, under a number of its own, with the author and the rules that it was given, and the
  mark at the last activation that succeeded.  So no later call changes or removes a policy, and a call that failed
  leaves no trace.  And the decision service answers as the policy in force decides: with its number and the effect that its
  rules give, or with an error when none is in force.\<close>

theorem policy_history_refined:
  assumes "traced store_call empty_db evs d"
  shows "history_of d = replay evs \<and> sound_history (replay evs)
    \<and> map_sum (\<lambda>e. e) (\<lambda>dec. (d_policy_version dec, d_effect dec))
        (decision_Authorize (GetActivePolicy no_fault) ttl now uuid req d)
      = (case history_decides (replay evs) now req of None \<Rightarrow> Inl ErrNotFound | Some x \<Rightarrow> Inr x)"
proof -
  have wf: "db_wf d" using history.traced_keeps[OF assms empty_db_wf] .
  have "history_of d = replay evs"
    using history.traced_abs[OF assms empty_db_wf] by (simp add: replay_def history_of_empty)
  with Authorize_history[OF wf] history_of_sound[OF wf] show ?thesis by simp
qed

text \<open>A rule is published and put in force; then a second publication fails at its second rule, and an activation of an
  unknown number.\<close>

definition ex_fault :: drv where
  "ex_fault k = (if k = 4 then Some (Errorf ''disk full'') else None)"

definition ex_db_kept :: db where
  "ex_db_kept = snd (ActivatePolicyVersion no_fault 9
     (snd (CreatePolicyVersion ex_fault ex_now ''eve'' [ex_rule, ex_rule]
       (snd (ActivatePolicyVersion no_fault 1
         (snd (CreatePolicyVersion no_fault ex_now ''root'' [ex_rule] empty_db)))))))"

definition ex_events :: "policy_event list" where
  "ex_events = [Published 1 ''root'' [plain_rule ex_rule], Activated 1]"

lemma ex_events_traced: "traced store_call empty_db ex_events ex_db_kept"
proof -
  let ?d1 = "snd (CreatePolicyVersion no_fault ex_now ''root'' [ex_rule] empty_db)"
  let ?d2 = "snd (ActivatePolicyVersion no_fault 1 ?d1)"
  let ?d3 = "snd (CreatePolicyVersion ex_fault ex_now ''eve'' [ex_rule, ex_rule] ?d2)"
  have r: "fst (CreatePolicyVersion no_fault ex_now ''root'' [ex_rule] empty_db) = Inr 1"
    "fst (ActivatePolicyVersion no_fault 1 ?d1) = None"
    "is_ok (fst (CreatePolicyVersion ex_fault ex_now ''eve'' [ex_rule, ex_rule] ?d2)) = False"
    "fst (ActivatePolicyVersion no_fault 9 ?d3) \<noteq> None"
    by code_simp+
  have 1: "store_call empty_db [Published 1 ''root'' [plain_rule ex_rule]] ?d1"
    using call_create_of[where drv = no_fault and now = ex_now and author = "''root''" and rules = "[ex_rule]" and d = empty_db] r(1) by simp
  have 2: "store_call ?d1 [Activated 1] ?d2"
    using call_activate_of[where drv = no_fault and vid = 1 and d = ?d1] r(2) by simp
  have 3: "store_call ?d2 [] ?d3"
    using call_create_of[where drv = ex_fault and now = ex_now and author = "''eve''" and rules = "[ex_rule, ex_rule]" and d = ?d2] r(3)
    by (simp add: is_ok_def split: sum.splits)
  have 4: "store_call ?d3 [] ex_db_kept"
    using call_activate_of[where drv = no_fault and vid = 9 and d = ?d3] r(4) by (auto simp: ex_db_kept_def split: option.splits)
  note step = traced_call[where call = store_call]
  from step[OF step[OF step[OF step[OF traced_refl 1] 2] 3] 4] show ?thesis by (simp add: ex_events_def)
qed

theorem policy_history_refined_witness:
  "history_of ex_db_kept = replay ex_events \<and> length (ph_versions (replay ex_events)) = 1 \<and> in_force (replay ex_events) \<noteq> None
   \<and> (\<exists>dec. decision_Authorize (GetActivePolicy no_fault) 60 ex_now ''u'' ex_request ex_db_kept = Inr dec
        \<and> d_policy_version dec = 1 \<and> d_effect dec = DecisionAllow)"
proof -
  have h: "history_decides (replay ex_events) ex_now ex_request = Some (1, DecisionAllow)"
    "length (ph_versions (replay ex_events)) = 1"
    by code_simp+
  from policy_history_refined[OF ex_events_traced, of 60 ex_now "''u''" ex_request]
  have p: "history_of ex_db_kept = replay ex_events"
    "map_sum (\<lambda>e. e) (\<lambda>dec. (d_policy_version dec, d_effect dec))
       (decision_Authorize (GetActivePolicy no_fault) 60 ex_now ''u'' ex_request ex_db_kept) = Inr (1, DecisionAllow)"
    unfolding h by simp_all
  then show ?thesis using h
    by (cases "decision_Authorize (GetActivePolicy no_fault) 60 ex_now ''u'' ex_request ex_db_kept")
      (auto simp: history_decides_def)
qed

end
