(* ===== verification/Wire.thy ===== *)
theory Wire
  imports CP_Api Gw_Connect Cl_Usecases
begin

text \<open>
  The messages between the three programs as JSON documents: what one side's struct tags
  write and the other side's read.  The gateway's authorization request and its answer
  (\<open>gateway/internal/infra/authz/client.go\<close>, \<open>control-plane/internal/api/handlers/pep_authorize.go\<close>), and the
  CONNECT handshake (\<open>gateway/internal/usecase/connect/connect.go\<close>).  The text of a document and its parser are
  the parameters \<open>render\<close> and \<open>parse\<close>.
\<close>

definition json_ok :: "(jval \<Rightarrow> string) \<Rightarrow> (string \<Rightarrow> jval res) \<Rightarrow> jval \<Rightarrow> bool" where
  "json_ok render parse v \<longleftrightarrow> parse (render v) = Inr v \<and> render v \<noteq> [] \<and> length (render v) \<le> MaxBody"

subsection \<open>Names of fields\<close>

text \<open>Which of the keys used below fall together without regard to case: none.\<close>

lemma keys_apart [simp]:
  "\<not> EqualFold ''username'' ''sub''" "\<not> EqualFold ''groups'' ''sub''" "\<not> EqualFold ''groups'' ''username''"
  "\<not> EqualFold ''name'' ''type''" "\<not> EqualFold ''host'' ''type''" "\<not> EqualFold ''port'' ''type''"
  "\<not> EqualFold ''host'' ''name''" "\<not> EqualFold ''port'' ''name''" "\<not> EqualFold ''port'' ''host''"
  "\<not> EqualFold ''name'' ''host''" "\<not> EqualFold ''name'' ''port''"
  "\<not> EqualFold ''action'' ''subject''" "\<not> EqualFold ''resource'' ''subject''" "\<not> EqualFold ''context'' ''subject''"
  "\<not> EqualFold ''resource'' ''action''" "\<not> EqualFold ''context'' ''action''" "\<not> EqualFold ''context'' ''resource''"
  "\<not> EqualFold ''effect'' ''decision''" "\<not> EqualFold ''effect'' ''ttl_seconds''" "\<not> EqualFold ''effect'' ''reason''"
  "\<not> EqualFold ''effect'' ''policy_version''" "\<not> EqualFold ''effect'' ''decision_id''"
  "\<not> EqualFold ''ttl_seconds'' ''decision''" "\<not> EqualFold ''reason'' ''decision''" "\<not> EqualFold ''reason'' ''ttl_seconds''"
  "\<not> EqualFold ''policy_version'' ''decision''" "\<not> EqualFold ''policy_version'' ''ttl_seconds''"
  "\<not> EqualFold ''policy_version'' ''reason''" "\<not> EqualFold ''decision_id'' ''decision''"
  "\<not> EqualFold ''decision_id'' ''ttl_seconds''" "\<not> EqualFold ''decision_id'' ''reason''"
  "\<not> EqualFold ''decision_id'' ''policy_version''" "\<not> EqualFold ''ttl_seconds'' ''reason''"
  "\<not> EqualFold ''ttl_seconds'' ''decision_id''"
  "\<not> EqualFold ''action'' ''protocol_version''" "\<not> EqualFold ''resource'' ''protocol_version''"
  "\<not> EqualFold ''context'' ''protocol_version''"
  "\<not> EqualFold ''timestamp'' ''src_ip''" "\<not> EqualFold ''timestamp'' ''device_info''"
  "\<not> EqualFold ''device_info'' ''src_ip''"
  by code_simp+

lemma json_values [simp]:
  "json_str (JStr s) old = Inr s" "in_int64 n \<Longrightarrow> json_int (JNum (Itoa n)) oldn = Inr n"
  "bind_res (Inr x) f = Inr (f x)"
  by (simp_all add: json_str_def json_int_def bind_res_def Atoi_Itoa)

subsection \<open>The authorization request and answer\<close>

definition strings_json :: "string list \<Rightarrow> jval" where
  "strings_json xs = JArr (map JStr xs)"

text \<open>\<open>json.Marshal\<close> of the gateway's \<open>AuthzRequest\<close>.\<close>

definition authz_json :: "authz_request \<Rightarrow> jval" where
  "authz_json q =
     (let s = aq_subject q; r = aq_resource q in
      JObj [(''subject'', JObj ([(''sub'', JStr (sr_sub s)), (''username'', JStr (sr_username s))]
               @ (if sr_groups s = [] then [] else [(''groups'', strings_json (sr_groups s))]))),
            (''action'', JStr (aq_action q)),
            (''resource'', JObj ([(''type'', JStr (rf_type r))] @ omit_empty ''name'' (rf_name r)
               @ [(''host'', JStr (rf_host r)), (''port'', JNum (Itoa (rf_port r)))])),
            (''context'', JObj (omit_empty ''src_ip'' (aq_source_ip q) @ omit_empty ''gateway_id'' (aq_gateway q)))])"

text \<open>The control plane's decoding of the body into \<open>authorizeRequest\<close>.\<close>

definition json_strs :: "jval \<Rightarrow> string list \<Rightarrow> string list res" where
  "json_strs v old = (case v of JNull \<Rightarrow> Inr [] | _ \<Rightarrow> json_array (\<lambda>x. json_str x []) v)"

definition put_subject :: "string \<Rightarrow> jval \<Rightarrow> subject \<Rightarrow> subject res" where
  "put_subject k v r =
     (if EqualFold k ''sub'' then bind_res (json_str v (s_sub r)) (\<lambda>x. r\<lparr>s_sub := x\<rparr>)
      else if EqualFold k ''username'' then bind_res (json_str v (s_username r)) (\<lambda>x. r\<lparr>s_username := x\<rparr>)
      else if EqualFold k ''groups'' then bind_res (json_strs v (s_groups r)) (\<lambda>x. r\<lparr>s_groups := x\<rparr>)
      else Inr r)"

definition put_host_port :: "string \<Rightarrow> jval \<Rightarrow> host_port \<Rightarrow> host_port res" where
  "put_host_port k v r =
     (if EqualFold k ''host'' then bind_res (json_str v (hp_host r)) (\<lambda>x. r\<lparr>hp_host := x\<rparr>)
      else if EqualFold k ''port'' then bind_res (json_int v (hp_port r)) (\<lambda>x. r\<lparr>hp_port := x\<rparr>)
      else Inr r)"

definition json_host_port :: "jval \<Rightarrow> host_port option \<Rightarrow> host_port option res" where
  "json_host_port v old =
     (case v of
        JNull \<Rightarrow> Inr None
      | _ \<Rightarrow> bind_res (json_object put_host_port
               (case old of Some hp \<Rightarrow> hp | None \<Rightarrow> \<lparr>hp_host = [], hp_port = 0\<rparr>) v) Some)"

definition put_resource :: "string \<Rightarrow> jval \<Rightarrow> resource_request \<Rightarrow> resource_request res" where
  "put_resource k v r =
     (if EqualFold k ''type'' then bind_res (json_str v (rr_type r)) (\<lambda>x. r\<lparr>rr_type := x\<rparr>)
      else if EqualFold k ''name'' then bind_res (json_str v (rr_name r)) (\<lambda>x. r\<lparr>rr_name := x\<rparr>)
      else if EqualFold k ''host'' then bind_res (json_str v (rr_host r)) (\<lambda>x. r\<lparr>rr_host := x\<rparr>)
      else if EqualFold k ''port'' then bind_res (json_int v (rr_port r)) (\<lambda>x. r\<lparr>rr_port := x\<rparr>)
      else if EqualFold k ''ssh'' then bind_res (json_host_port v (rr_ssh r)) (\<lambda>x. r\<lparr>rr_ssh := x\<rparr>)
      else if EqualFold k ''http'' then bind_res (json_host_port v (rr_http r)) (\<lambda>x. r\<lparr>rr_http := x\<rparr>)
      else Inr r)"

text \<open>A \<open>map[string]any\<close>.\<close>

definition json_any_map :: "jval \<Rightarrow> jmap option \<Rightarrow> jmap option res" where
  "json_any_map v old =
     (case v of
        JNull \<Rightarrow> Inr None
      | JObj kvs \<Rightarrow> Inr (Some ((case old of Some m \<Rightarrow> m | None \<Rightarrow> Map.empty) ++ map_of (rev kvs)))
      | _ \<Rightarrow> Inl (Errorf ''json: cannot unmarshal into map''))"

definition put_authorize :: "string \<Rightarrow> jval \<Rightarrow> authorize_body \<Rightarrow> authorize_body res" where
  "put_authorize k v r =
     (if EqualFold k ''subject'' then bind_res (json_object put_subject (ab_subject r) v) (\<lambda>x. r\<lparr>ab_subject := x\<rparr>)
      else if EqualFold k ''action'' then bind_res (json_str v (ab_action r)) (\<lambda>x. r\<lparr>ab_action := x\<rparr>)
      else if EqualFold k ''resource'' then bind_res (json_object put_resource (ab_resource r) v) (\<lambda>x. r\<lparr>ab_resource := x\<rparr>)
      else if EqualFold k ''context'' then bind_res (json_any_map v (ab_context r)) (\<lambda>x. r\<lparr>ab_context := x\<rparr>)
      else Inr r)"

definition authorize_zero :: authorize_body where
  "authorize_zero =
     \<lparr>ab_subject = \<lparr>s_sub = [], s_username = [], s_groups = []\<rparr>, ab_action = [],
      ab_resource = \<lparr>rr_type = [], rr_name = [], rr_host = [], rr_port = 0, rr_ssh = None, rr_http = None\<rparr>,
      ab_context = None\<rparr>"

definition authorize_decode :: "jval \<Rightarrow> authorize_body res" where
  "authorize_decode = json_object put_authorize authorize_zero"

text \<open>The control plane's \<open>authorizeResponse\<close>.\<close>

definition decision_json :: "decision \<Rightarrow> jval" where
  "decision_json d =
     JObj [(''effect'', JStr (effect_text (d_effect d))), (''ttl_seconds'', JNum (Itoa (d_ttl_seconds d))),
           (''reason'', JStr (d_reason d)), (''policy_version'', JNum (Itoa (d_policy_version d))),
           (''decision_id'', JStr (d_decision_id d))]"

text \<open>What the gateway's request becomes at the control plane.\<close>

definition request_context :: "authz_request \<Rightarrow> jmap" where
  "request_context q =
     map_of (omit_empty ''src_ip'' (aq_source_ip q) @ omit_empty ''gateway_id'' (aq_gateway q))"

definition body_of :: "authz_request \<Rightarrow> authorize_body" where
  "body_of q =
     \<lparr>ab_subject = \<lparr>s_sub = sr_sub (aq_subject q), s_username = sr_username (aq_subject q),
                   s_groups = sr_groups (aq_subject q)\<rparr>,
      ab_action = aq_action q,
      ab_resource = \<lparr>rr_type = rf_type (aq_resource q), rr_name = rf_name (aq_resource q),
                     rr_host = rf_host (aq_resource q), rr_port = rf_port (aq_resource q), rr_ssh = None, rr_http = None\<rparr>,
      ab_context = Some (request_context q)\<rparr>"

definition gw_decision :: "decision \<Rightarrow> authz_response" where
  "gw_decision d =
     \<lparr>az_decision = effect_text (d_effect d), az_ttl = d_ttl_seconds d, az_reason = d_reason d,
      az_version = d_policy_version d, az_id = d_decision_id d\<rparr>"

lemma json_list_strings [simp]: "json_list (\<lambda>x. json_str x []) (map JStr xs) = Inr xs"
  by (induction xs) auto

lemma request_context_rev: "map_of (rev (omit_empty ''src_ip'' a @ omit_empty ''gateway_id'' b)) =
    map_of (omit_empty ''src_ip'' a @ omit_empty ''gateway_id'' b)"
  by (auto simp: omit_empty_def)

lemma authorize_decode_json:
  "in_int64 (rf_port (aq_resource q)) \<Longrightarrow> authorize_decode (authz_json q) = Inr (body_of q)"
  by (auto simp: authorize_decode_def authz_json_def Let_def json_object_def put_authorize_def put_subject_def
      put_resource_def authorize_zero_def body_of_def omit_empty_def request_context_def json_any_map_def json_strs_def
      strings_json_def json_array_def)

lemma decode_decision_json:
  "in_int64 (d_ttl_seconds d) \<Longrightarrow> in_int64 (d_policy_version d) \<Longrightarrow> decode_authz (decision_json d) = Inr (gw_decision d)"
  by (auto simp: decode_authz_def decision_json_def json_object_def authz_put_def authz_zero_def effect_field_def
      gw_decision_def)

subsection \<open>The handshake\<close>

text \<open>The gateway's decoding of a \<open>ConnectRequest\<close>; of the context, which it reads and does not use, the timestamp
  is kept.\<close>

definition put_target :: "string \<Rightarrow> jval \<Rightarrow> resource_target \<Rightarrow> resource_target res" where
  "put_target k v r =
     (if EqualFold k ''type'' then bind_res (json_str v (rt_type r)) (\<lambda>x. r\<lparr>rt_type := x\<rparr>)
      else if EqualFold k ''host'' then bind_res (json_str v (rt_host r)) (\<lambda>x. r\<lparr>rt_host := x\<rparr>)
      else if EqualFold k ''port'' then bind_res (json_int v (rt_port r)) (\<lambda>x. r\<lparr>rt_port := x\<rparr>)
      else if EqualFold k ''name'' then bind_res (json_str v (rt_name r)) (\<lambda>x. r\<lparr>rt_name := x\<rparr>)
      else Inr r)"

definition put_context :: "string \<Rightarrow> jval \<Rightarrow> string \<Rightarrow> string res" where
  "put_context k v ts =
     (if EqualFold k ''src_ip'' then bind_res (json_str v []) (\<lambda>_. ts)
      else if EqualFold k ''device_info''
      then (case v of JNull \<Rightarrow> Inr ts
            | JObj kvs \<Rightarrow> bind_res (json_map (\<lambda>x. json_str x []) kvs Map.empty) (\<lambda>_. ts)
            | _ \<Rightarrow> Inl (Errorf ''json: cannot unmarshal into map''))
      else if EqualFold k ''timestamp'' then json_str v ts
      else Inr ts)"

definition put_request :: "string \<Rightarrow> jval \<Rightarrow> connect_request \<Rightarrow> connect_request res" where
  "put_request k v r =
     (if EqualFold k ''protocol_version'' then bind_res (json_int v (cr_version r)) (\<lambda>x. r\<lparr>cr_version := x\<rparr>)
      else if EqualFold k ''action'' then bind_res (json_str v (cr_action r)) (\<lambda>x. r\<lparr>cr_action := x\<rparr>)
      else if EqualFold k ''resource'' then bind_res (json_object put_target (cr_resource r) v) (\<lambda>x. r\<lparr>cr_resource := x\<rparr>)
      else if EqualFold k ''context'' then bind_res (json_object put_context (cr_timestamp r) v) (\<lambda>x. r\<lparr>cr_timestamp := x\<rparr>)
      else Inr r)"

definition connect_zero :: connect_request where
  "connect_zero = \<lparr>cr_version = 0, cr_action = [],
     cr_resource = \<lparr>rt_type = [], rt_host = [], rt_port = 0, rt_name = []\<rparr>, cr_timestamp = []\<rparr>"

definition decode_request :: "(string \<Rightarrow> jval res) \<Rightarrow> string \<Rightarrow> connect_request res" where
  "decode_request parse buf = (case parse buf of Inl e \<Rightarrow> Inl e | Inr v \<Rightarrow> json_object put_request connect_zero v)"

text \<open>\<open>json.Marshal\<close> of the gateway's \<open>ConnectResponse\<close>.\<close>

definition response_json :: "connect_response \<Rightarrow> jval" where
  "response_json r =
     JObj ([(''decision'', JStr (cp_decision r))] @ omit_empty ''reason'' (cp_reason r)
           @ omit_empty ''decision_id'' (cp_decision_id r)
           @ (if cp_ttl r = 0 then [] else [(''ttl_seconds'', JNum (Itoa (cp_ttl r)))]))"

text \<open>The same message on the other side.\<close>

definition request_of :: "cl_request \<Rightarrow> connect_request" where
  "request_of r =
     \<lparr>cr_version = cq_version r, cr_action = cq_action r,
      cr_resource = \<lparr>rt_type = ct_type (cq_resource r), rt_host = ct_host (cq_resource r),
                     rt_port = ct_port (cq_resource r), rt_name = ct_name (cq_resource r)\<rparr>,
      cr_timestamp = cx_timestamp (cq_context r)\<rparr>"

definition response_of :: "connect_response \<Rightarrow> cl_response" where
  "response_of r = \<lparr>cz_decision = cp_decision r, cz_reason = cp_reason r, cz_decision_id = cp_decision_id r, cz_ttl = cp_ttl r\<rparr>"

lemma json_map_strings:
  "\<exists>m'. json_map (\<lambda>x. json_str x []) (map (\<lambda>(k, v). (k, JStr v)) kvs) m = Inr m'"
  by (induction kvs arbitrary: m) auto

lemma decode_request_json:
  assumes "in_int64 (cq_version r)" "in_int64 (ct_port (cq_resource r))" and "parse buf = Inr (request_json r)"
  shows "decode_request parse buf = Inr (request_of r)"
proof -
  obtain m where "json_map (\<lambda>x. json_str x []) (map (\<lambda>(k, v). (k, JStr v)) (cx_device_info (cq_context r))) Map.empty = Inr m"
    using json_map_strings by blast
  with assms show ?thesis
    by (auto simp: decode_request_def request_json_def target_json_def context_json_def json_object_def put_request_def
        put_target_def put_context_def connect_zero_def request_of_def omit_empty_def)
qed

lemma decode_response_json:
  "in_int64 (cp_ttl r) \<Longrightarrow> te_parse T buf = Inr (response_json r) \<Longrightarrow> decode_response T buf = Inr (response_of r)"
  by (auto simp: decode_response_def response_json_def json_object_def response_put_def response_zero_def response_of_def
      omit_empty_def)

end
