(* ===== verification/End_to_End.thy ===== *)
theory End_to_End
  imports Wire Gw_Lifecycle CP_Server "HOL-Library.Multiset"
begin

text \<open>
  The three programs together: the client and the gateway agree on the handshake; the
  gateway's authorization request is the control plane's decision on the request it
  denotes; the identity the control plane certifies is the one the gateway reads, up to
  the subject's identifier; and a revocation at the control plane reaches the gateway's
  listener and sessions.
\<close>

subsection \<open>The handshake\<close>

lemma cl_ReadMessage_frame:
  "payload \<noteq> [] \<Longrightarrow> length payload \<le> MaxBody \<Longrightarrow> unmarshal payload = Inr msg \<Longrightarrow>
     cl_ReadMessage unmarshal (PutUint32 (length payload) @ payload @ rest) = (Inr msg, rest)"
proof -
  assume p: "payload \<noteq> []" "length payload \<le> MaxBody" "unmarshal payload = Inr msg"
  then have "Uint32 (PutUint32 (length payload)) = length payload"
    by (intro Uint32_PutUint32) simp
  with p show ?thesis by (simp add: cl_ReadMessage_def cl_MaxMessageSize_def Let_def)
qed

lemma cl_WriteMessage_ok:
  "marshal msg = Inr payload \<Longrightarrow> length payload \<le> MaxBody \<Longrightarrow>
     cl_WriteMessage marshal None None msg = (None, PutUint32 (length payload) @ payload)"
  by (simp add: cl_WriteMessage_def Let_def cl_MaxMessageSize_def)

lemma Atoi_value_int64: "in_int64 (Atoi_value s)"
proof (cases "Atoi s")
  case None
  then show ?thesis by (auto simp: Atoi_value_def Let_def in_int64_def)
next
  case (Some n)
  then show ?thesis by (auto simp: Atoi_def Let_def split: if_splits)
qed

lemma ParseResource_int64: "in_int64 (ct_port (ParseResource url_parse s))"
  by (auto simp: ParseResource_def Let_def Atoi_value_int64 in_int64_def[of 0] split: option.split)

lemma answer_read:
  assumes "te_parse T = parse" "json_ok render parse (response_json resp)" "in_int64 (cp_ttl resp)"
  shows "cl_ReadMessage (decode_response T)
    (snd (WriteMessage (\<lambda>r. Inr (render (response_json r))) None None resp) @ stream) = (Inr (response_of resp), stream)"
proof -
  from assms(1,2) have b: "te_parse T (render (response_json resp)) = Inr (response_json resp)"
    "render (response_json resp) \<noteq> []" "length (render (response_json resp)) \<le> MaxBody"
    by (simp_all add: json_ok_def)
  have "cl_ReadMessage (decode_response T)
      (PutUint32 (length (render (response_json resp))) @ render (response_json resp) @ stream) = (Inr (response_of resp), stream)"
    using b decode_response_json[of resp T "render (response_json resp)", OF assms(3) b(1)]
    by (intro cl_ReadMessage_frame)
  then show ?thesis using b by (simp add: WriteMessage_ok MaxMessageSize_def)
qed

lemma request_read:
  assumes "json_ok render parse (request_json (connect_request_of T now name))"
  shows "ReadMessage (decode_request parse)
    (snd (cl_WriteMessage (\<lambda>r. Inr (render (request_json r))) None None (connect_request_of T now name)) @ stream)
    = (Inr (request_of (connect_request_of T now name)), stream)"
proof -
  let ?req = "connect_request_of T now name"
  have v: "in_int64 (cq_version ?req)" by (simp add: connect_request_of_def CurrentProtocolVersion_def in_int64_def)
  have p: "in_int64 (ct_port (cq_resource ?req))" by (simp add: connect_request_of_def ParseResource_int64)
  from assms have a: "parse (render (request_json ?req)) = Inr (request_json ?req)"
    "render (request_json ?req) \<noteq> []" "length (render (request_json ?req)) \<le> MaxBody"
    by (simp_all add: json_ok_def)
  have "ReadMessage (decode_request parse) (PutUint32 (length (render (request_json ?req))) @ render (request_json ?req) @ stream)
      = (Inr (request_of ?req), stream)"
    using a decode_request_json[of ?req parse "render (request_json ?req)", OF v p a(1)] by (simp add: ReadMessage_frame MaxMessageSize_def)
  with a show ?thesis by (simp add: cl_WriteMessage_ok)
qed

text \<open>C20: the client and the gateway agree on the handshake.  The gateway reads exactly the request that the
  client wrote, and the client exactly the answer that the gateway wrote; each stops at the first byte
  of the relayed stream.\<close>

theorem handshake_agree:
  assumes "te_render T = render" "te_parse T = parse"
    and "json_ok render parse (request_json (connect_request_of T now name))"
    and "json_ok render parse (response_json resp)"
    and "in_int64 (cp_ttl resp)"
  shows "ReadMessage (decode_request parse)
           (snd (cl_WriteMessage (\<lambda>r. Inr (te_render T (request_json r))) None None (connect_request_of T now name)) @ stream)
           = (Inr (request_of (connect_request_of T now name)), stream)
    \<and> cl_ReadMessage (decode_response T)
           (snd (WriteMessage (\<lambda>r. Inr (render (response_json r))) None None resp) @ stream') = (Inr (response_of resp), stream')"
  using request_read[OF assms(3)[folded assms(1)]] answer_read[OF assms(2,4,5)] by blast

definition ex_wire_req :: jval where
  "ex_wire_req = request_json (connect_request_of ex_tunnel_env 0 ''backend-ssh'')"
definition ex_wire_resp :: connect_response where
  "ex_wire_resp = \<lparr>cp_decision = ''allow'', cp_reason = [], cp_decision_id = ''dec-1'', cp_ttl = 60\<rparr>"
definition ex_render :: "jval \<Rightarrow> string" where
  "ex_render v = (if v = ex_wire_req then ''REQ'' else ''RESP'')"
definition ex_wire_parse :: "string \<Rightarrow> jval res" where
  "ex_wire_parse s = (if s = ''REQ'' then Inr ex_wire_req else Inr (response_json ex_wire_resp))"
definition ex_wire_env :: tunnel_env where
  "ex_wire_env = ex_tunnel_env\<lparr>te_render := ex_render, te_parse := ex_wire_parse\<rparr>"

theorem handshake_agree_witness:
  "\<exists>sent req. sent = snd (cl_WriteMessage (\<lambda>r. Inr (ex_render (request_json r))) None None
                            (connect_request_of ex_wire_env 0 ''backend-ssh''))
     \<and> ReadMessage (decode_request ex_wire_parse) (sent @ ''SSH-2.0'') = (Inr req, ''SSH-2.0'')
     \<and> rt_name (cr_resource req) = ''backend-ssh'' \<and> cr_action req = ''connect''"
proof -
  have e: "connect_request_of ex_wire_env 0 ''backend-ssh'' = connect_request_of ex_tunnel_env 0 ''backend-ssh''"
    by (simp add: connect_request_of_def ex_wire_env_def ex_tunnel_env_def)
  have d: "ex_wire_req \<noteq> response_json ex_wire_resp" by code_simp
  have j: "json_ok ex_render ex_wire_parse (request_json (connect_request_of ex_wire_env 0 ''backend-ssh''))"
    "json_ok ex_render ex_wire_parse (response_json ex_wire_resp)"
    using d by (auto simp: json_ok_def e ex_render_def ex_wire_parse_def ex_wire_req_def)
  have p: "in_int64 (cp_ttl ex_wire_resp)" by code_simp
  have t: "te_render ex_wire_env = ex_render" "te_parse ex_wire_env = ex_wire_parse"
    by (simp_all add: ex_wire_env_def)
  have r: "rt_name (cr_resource (request_of (connect_request_of ex_wire_env 0 ''backend-ssh''))) = ''backend-ssh''"
    "cr_action (request_of (connect_request_of ex_wire_env 0 ''backend-ssh'')) = ''connect''"
    by code_simp+
  from handshake_agree[OF t j p, of "''SSH-2.0''"] r t(1) show ?thesis by auto
qed

text \<open>
  The two places where the gateway turns a connection away: the listener, which closes it without a message (\<open>None\<close>), and the
  handler, which sends the reason and the identifier of the decision.  \<open>None\<close> as a whole: it was not refused.
\<close>

definition gateway_refusal ::
    "(string \<Rightarrow> bool) option \<Rightarrow> connect_env \<Rightarrow> conn_world \<Rightarrow> client_cert list \<Rightarrow> string \<Rightarrow> string \<Rightarrow> gw_handler
     \<Rightarrow> (string \<times> string) option option" where
  "gateway_refusal revoked E W chain ra input h =
     (case listener_accept revoked True (Inr chain) of
        AcceptClosed \<Rightarrow> Some None
      | AcceptHandled cert \<Rightarrow>
          (case fst (HandleConnection E W cert ra input h) of
             ConnDenied reason decisionID \<Rightarrow> Some (Some (reason, decisionID))
           | _ \<Rightarrow> None))"

text \<open>What it writes before it closes the connection.  \<open>w1\<close> and \<open>w2\<close> are the outcomes of the two writes of the handler.\<close>

definition refusal_bytes ::
    "(connect_response \<Rightarrow> string res) \<Rightarrow> goerr option \<Rightarrow> goerr option \<Rightarrow> (string \<times> string) option \<Rightarrow> string" where
  "refusal_bytes marshal w1 w2 told =
     (case told of None \<Rightarrow> [] | Some (reason, decisionID) \<Rightarrow> sendDeny marshal w1 w2 reason decisionID)"

lemma refusal_reason:
  "gateway_refusal revoked E W chain ra input h = Some (Some (reason, decisionID)) \<Longrightarrow> reason \<noteq> []"
  using denied_reason[of E W _ ra input h reason decisionID]
  by (auto simp: gateway_refusal_def split: accept_result.splits conn_result.splits) (metis prod.collapse)

lemma refusal_told:
  assumes "te_parse T = parse" "json_ok render parse (response_json (denied_response reason decisionID))"
  shows "cl_ReadMessage (decode_response T) (refusal_bytes (\<lambda>r. Inr (render (response_json r))) None None (Some (reason, decisionID)))
    = (Inr (response_of (denied_response reason decisionID)), [])"
  using answer_read[OF assms, of "[]"] by (simp add: refusal_bytes_def sendDeny_def denied_response_def in_int64_def)

lemma refusal_untold:
  assumes "told = None \<or> w1 \<noteq> None \<or> w2 \<noteq> None"
    and "\<And>reason decisionID. told = Some (reason, decisionID) \<Longrightarrow> json_ok render parse (response_json (denied_response reason decisionID))"
  shows "\<exists>e rest. cl_ReadMessage unmarshal (refusal_bytes (\<lambda>r. Inr (render (response_json r))) w1 w2 told) = (Inl e, rest)"
proof (cases told)
  case None
  then show ?thesis by (simp add: refusal_bytes_def cl_ReadMessage_def ReadFull_def)
next
  case (Some p)
  obtain reason decisionID where p: "p = (reason, decisionID)" by (cases p)
  let ?payload = "render (response_json (denied_response reason decisionID))"
  have l: "?payload \<noteq> []" "length ?payload \<le> MaxBody" using assms(2) Some p by (simp_all add: json_ok_def)
  then have u: "Uint32 (PutUint32 (length ?payload)) = length ?payload" by (intro Uint32_PutUint32) simp
  show ?thesis
  proof (cases w1)
    case None
    then obtain e where "w2 = Some e" using assms(1) Some by auto
    with None l u show ?thesis
      by (simp add: Some p refusal_bytes_def sendDeny_def WriteMessage_def MaxMessageSize_def cl_ReadMessage_def ReadFull_def Let_def)
  next
    case (Some e)
    with l show ?thesis
      by (simp add: \<open>told = Some p\<close> p refusal_bytes_def sendDeny_def WriteMessage_def MaxMessageSize_def cl_ReadMessage_def ReadFull_def Let_def)
  qed
qed

text \<open>C21: what a refusal of the gateway comes to for the user.  Whenever the gateway turns away a connection of the client, whose
  request was written, the client's command fails, the connection is closed and no byte of a relay was read.  Where the handler refused and its two
  writes went through, the error is that of a denied connection and carries the reason, which is never empty, and the decision's
  identifier.  Where the listener refused (a revoked certificate), or a write failed, the user only learns that
  there was no answer to read.\<close>

theorem refusal_reaches_user:
  assumes "te_parse T = parse"
    and "\<And>reason decisionID. told = Some (reason, decisionID) \<Longrightarrow> json_ok render parse (response_json (denied_response reason decisionID))"
    and "buildTLSConfig (te_pair_error T) (te_read_path T) (te_pem_ok T) (te_cfg T) certPEM keyPEM = Inr conf"
    and "cl_WriteMessage (\<lambda>r. Inr (te_render T (request_json r))) None None (connect_request_of T now resource) = (None, sent)"
    and "gateway_refusal revoked E W chain ra sent h = Some told"
    and "dial (cf_gateway (te_cfg T)) conf = Inr (peer, None, None)"
    and "peer sent = refusal_bytes (\<lambda>r. Inr (render (response_json r))) w1 w2 told"
  shows "\<exists>err. tunnel_Connect T dial now certPEM keyPEM resource = (Inl err, ConnClosed sent)
    \<and> (case (told, w1, w2) of
         (Some (reason, decisionID), None, None) \<Rightarrow>
           reason \<noteq> [] \<and> err = Wrapf [] ErrConnectionDenied ('': '' @ reason @ '' (decision_id='' @ decisionID @ '')'')
       | _ \<Rightarrow> (\<exists>e. err = Wrapf (''impossible de lire la r'' @ e_acute @ ''ponse CONNECT: '') e []))"
proof (cases "told = None \<or> w1 \<noteq> None \<or> w2 \<noteq> None")
  case True
  then obtain e rest where "cl_ReadMessage (decode_response T) (peer sent) = (Inl e, rest)"
    unfolding assms(7) using refusal_untold[OF True assms(2)] by blast
  then have "tunnel_Connect T dial now certPEM keyPEM resource =
      (Inl (Wrapf (''impossible de lire la r'' @ e_acute @ ''ponse CONNECT: '') e []), ConnClosed sent)"
    using assms(3,4,6) by (simp add: tunnel_Connect_def)
  with True show ?thesis by (auto split: option.splits)
next
  case False
  then obtain reason decisionID where t: "told = Some (reason, decisionID)" "w1 = None" "w2 = None" by auto
  have "cl_ReadMessage (decode_response T) (peer sent) = (Inr (response_of (denied_response reason decisionID)), [])"
    unfolding assms(7) t using refusal_told[OF assms(1) assms(2)[OF t(1)]] .
  moreover have "reason \<noteq> []" by (rule refusal_reason[OF assms(5)[unfolded t]])
  ultimately show ?thesis
    using assms(3,4,6) t by (simp add: tunnel_Connect_def response_of_def denied_response_def)
qed

text \<open>A connection with a revoked certificate: turned away by the listener, and, where the listener has no list, by the handler.\<close>

definition ex_refusal_env :: tunnel_env where
  "ex_refusal_env = ex_tunnel_env\<lparr>te_parse := (\<lambda>_. Inr (response_json (denied_response deny_revoked [])))\<rparr>"

definition ex_revoking_handler :: gw_handler where
  "ex_revoking_handler = ex_handler\<lparr>gh_crl := Some ((NewStoreWithConfig [])\<lparr>c_revoked := {Itoa 42}\<rparr>)\<rparr>"

theorem refusal_reaches_user_witness:
  "(\<exists>dial sent. tunnel_Connect ex_refusal_env dial 0 ''CERT'' ''KEY'' ''backend-ssh'' =
     (Inl (Wrapf [] ErrConnectionDenied ('': '' @ deny_revoked @ '' (decision_id='' @ [] @ '')'')), ConnClosed sent))
   \<and> (\<exists>dial e sent. tunnel_Connect ex_refusal_env dial 0 ''CERT'' ''KEY'' ''backend-ssh'' =
     (Inl (Wrapf (''impossible de lire la r'' @ e_acute @ ''ponse CONNECT: '') e []), ConnClosed sent))"
proof -
  let ?T = ex_refusal_env and ?sent = "PutUint32 (length ''json'') @ ''json''"
  let ?bytes = "refusal_bytes (\<lambda>r. Inr ''deny'') None None"
  let ?dial = "\<lambda>told _ _. Inr (\<lambda>_. ?bytes told, None, None)"
  have conf: "is_ok (buildTLSConfig (te_pair_error ?T) (te_read_path ?T) (te_pem_ok ?T) (te_cfg ?T) ''CERT'' ''KEY'')"
    by code_simp
  then obtain conf where c: "buildTLSConfig (te_pair_error ?T) (te_read_path ?T) (te_pem_ok ?T) (te_cfg ?T) ''CERT'' ''KEY'' = Inr conf"
    by (metis is_ok_simps(2) is_ok_simps(1) sum.exhaust)
  have t: "te_parse ?T = (\<lambda>_. Inr (response_json (denied_response deny_revoked [])))" "te_render ?T = (\<lambda>_. ''json'')"
    by (simp_all add: ex_refusal_env_def ex_tunnel_env_def)
  have w: "cl_WriteMessage (\<lambda>r. Inr (te_render ?T (request_json r))) None None (connect_request_of ?T 0 ''backend-ssh'') = (None, ?sent)"
    by (simp add: t cl_WriteMessage_ok)
  have g1: "gateway_refusal None ex_env ex_world [ex_client_cert] ''10.0.0.5:1'' ?sent ex_revoking_handler = Some (Some (deny_revoked, []))"
    by (simp add: gateway_refusal_def listener_accept_def HandleConnection_def admit_defs Let_def ex_revoking_handler_def IsRevoked_def
        ex_client_cert_def)
  have g2: "gateway_refusal (Some (\<lambda>serial. serial = Itoa 42)) ex_env ex_world [ex_client_cert] ''10.0.0.5:1'' ?sent ex_handler = Some None"
    by (simp add: gateway_refusal_def listener_accept_def ex_client_cert_def)
  note r = refusal_reaches_user[OF refl _ c w]
  have "\<exists>err. tunnel_Connect ?T (?dial (Some (deny_revoked, []))) 0 ''CERT'' ''KEY'' ''backend-ssh'' = (Inl err, ConnClosed ?sent)
      \<and> err = Wrapf [] ErrConnectionDenied ('': '' @ deny_revoked @ '' (decision_id='' @ [] @ '')'')"
    using r[OF _ g1, where dial = "?dial (Some (deny_revoked, []))" and peer = "\<lambda>_. ?bytes (Some (deny_revoked, []))"
        and render = "\<lambda>_. ''deny''" and ?w1.0 = None and ?w2.0 = None]
    by (simp add: json_ok_def t)
  moreover have "\<exists>err. tunnel_Connect ?T (?dial None) 0 ''CERT'' ''KEY'' ''backend-ssh'' = (Inl err, ConnClosed ?sent)
      \<and> (\<exists>e. err = Wrapf (''impossible de lire la r'' @ e_acute @ ''ponse CONNECT: '') e [])"
    using r[OF _ g2, where dial = "?dial None" and peer = "\<lambda>_. ?bytes None" and render = "\<lambda>_. ''deny''" and ?w1.0 = None and ?w2.0 = None]
    by simp
  ultimately show ?thesis by blast
qed

subsection \<open>Identities\<close>

text \<open>What a parsed certificate has of the template it was made from (\<open>crypto/x509\<close>): the organizations are one SET, which the encoding
  sorts, so that they may come back in another order.  And a parser that reads back every certificate the authority makes.\<close>

definition parsed_as :: "x509_template \<Rightarrow> client_cert \<Rightarrow> bool" where
  "parsed_as t c \<longleftrightarrow> cc_uris c = [] \<and> cc_dns c = [] \<and> cc_cn c = xt_common_name t \<and> mset (cc_orgs c) = mset (xt_organization t)
     \<and> cc_serial c = int (xt_serial t)"

definition x509_reads :: "('c, 'k) pki \<Rightarrow> (string \<Rightarrow> client_cert res) \<Rightarrow> bool" where
  "x509_reads P parse_cert \<longleftrightarrow>
     (\<forall>t k raw. pk_create P t k = Inr raw \<longrightarrow> (\<exists>c. parse_cert (pk_encode P raw) = Inr c \<and> parsed_as t c))"

text \<open>The order of the groups does not matter to a rule.\<close>

lemma matchSubject_order:
  "mset gs = mset groups \<Longrightarrow>
     matchSubject pattern \<lparr>s_sub = i, s_username = u, s_groups = gs\<rparr> = matchSubject pattern \<lparr>s_sub = i, s_username = u, s_groups = groups\<rparr>"
  by (auto simp: matchSubject_def list_ex_iff dest!: mset_eq_setD)

text \<open>C22: the identity on the gateway.  From a certificate that the control plane signed for a user the gateway
  reads the user's name and groups, these perhaps in another order, so that every rule decides on them as on the user's own;
  but the subject's identifier is read as the name too, so that a rule for a \<open>sub:\<close> that is not the name of the user
  never applies to a request of the gateway.\<close>

theorem certified_identity:
  assumes "SignClientCSR P rnd now csr username sub groups ttl kinds = Inr (pem, fp)"
    and "x509_reads P parse_cert" and "username \<noteq> []" and "sub \<noteq> username"
  shows "\<exists>c gs. parse_cert pem = Inr c \<and> mset gs = mset groups
     \<and> ExtractSubjectFromCert c = \<lparr>sr_sub = username, sr_username = username, sr_groups = gs\<rparr>
     \<and> (\<forall>pattern. matchSubject pattern \<lparr>s_sub = username, s_username = username, s_groups = gs\<rparr> =
          matchSubject pattern \<lparr>s_sub = username, s_username = username, s_groups = groups\<rparr>)
     \<and> \<not> matchSubject (''sub:'' @ sub) \<lparr>s_sub = username, s_username = username, s_groups = gs\<rparr>"
proof -
  have "\<exists>(t :: x509_template) k raw. pk_create P t k = Inr raw \<and> pem = pk_encode P raw \<and> xt_common_name t = username
    \<and> xt_organization t = groups"
  proof (rule SignClientCSR_Inr[OF assms(1)])
    fix serial c raw and t :: x509_template
    assume t: "t = \<lparr>xt_serial = serial, xt_common_name = username, xt_serial_number = sub,
          xt_organization = groups, xt_not_before = now - 30 * Second, xt_not_after = now + ttl,
          xt_client_auth = True, xt_is_ca = False\<rparr>"
      and k: "pk_create P t (pk_key P c) = Inr raw" "pem = pk_encode P raw"
    from t have "xt_common_name t = username" "xt_organization t = groups" by simp_all
    with k show ?thesis by blast
  qed
  then obtain k raw and t :: x509_template where t: "pk_create P t k = Inr raw" "pem = pk_encode P raw"
    "xt_common_name t = username" "xt_organization t = groups" by blast
  from assms(2) t(1,2) obtain c where c: "parse_cert pem = Inr c" "parsed_as t c" unfolding x509_reads_def by blast
  then have "ExtractSubjectFromCert c = \<lparr>sr_sub = username, sr_username = username, sr_groups = cc_orgs c\<rparr>"
    and "mset (cc_orgs c) = mset groups"
    using assms(3) t by (simp_all add: parsed_as_def ExtractSubjectFromCert_def Let_def)
  moreover have "\<not> matchSubject (''sub:'' @ sub) \<lparr>s_sub = username, s_username = username, s_groups = cc_orgs c\<rparr>"
    using assms(4) by (simp add: matchSubject_def HasPrefix_def TrimPrefix_def)
  ultimately show ?thesis using c(1) matchSubject_order by blast
qed

definition ex_template :: x509_template where
  "ex_template = \<lparr>xt_serial = 171, xt_common_name = ''alice'', xt_serial_number = ''u-1'', xt_organization = [''devs''],
     xt_not_before = ex_now - 30 * Second, xt_not_after = ex_now + 3600 * Second, xt_client_auth = True, xt_is_ca = False\<rparr>"

definition ex_pki_alice :: "(string, string) pki" where
  "ex_pki_alice = ex_pki\<lparr>pk_create := (\<lambda>t k. if t = ex_template then Inr ''RAW'' else Inl (Errorf []))\<rparr>"

definition ex_alice_cert :: client_cert where
  "ex_alice_cert = \<lparr>cc_uris = [], cc_dns = [], cc_cn = ''alice'', cc_orgs = [''devs''], cc_serial = 171, cc_not_after = ex_now\<rparr>"

text \<open>A user with two groups, which the certificate gives in another order.\<close>

definition ex_two_groups :: x509_template where
  "ex_two_groups = ex_template\<lparr>xt_organization := [''ops'', ''devs'']\<rparr>"

definition ex_pki_two_groups :: "(string, string) pki" where
  "ex_pki_two_groups = ex_pki\<lparr>pk_create := (\<lambda>t k. if t = ex_two_groups then Inr ''RAW'' else Inl (Errorf []))\<rparr>"

definition ex_cert_two_groups :: client_cert where
  "ex_cert_two_groups = ex_alice_cert\<lparr>cc_orgs := [''devs'', ''ops'']\<rparr>"

theorem certified_identity_witness:
  "\<exists>gs. mset gs = mset [''ops'', ''devs'']
     \<and> ExtractSubjectFromCert ex_cert_two_groups = \<lparr>sr_sub = ''alice'', sr_username = ''alice'', sr_groups = gs\<rparr> \<and> gs \<noteq> [''ops'', ''devs'']"
proof -
  let ?sign = "SignClientCSR ex_pki_two_groups (Inr 171) ex_now ''R:key'' ''alice'' ''u-1'' [''ops'', ''devs''] (3600 * Second) []"
  have "is_ok ?sign" by code_simp
  then obtain pem fp where s: "?sign = Inr (pem, fp)" by (cases "?sign") auto
  have "x509_reads ex_pki_two_groups (\<lambda>_. Inr ex_cert_two_groups)"
    by (auto simp: x509_reads_def ex_pki_two_groups_def parsed_as_def ex_two_groups_def ex_template_def ex_cert_two_groups_def
        ex_alice_cert_def split: if_splits)
  from certified_identity[OF s this] obtain gs where "mset gs = mset [''ops'', ''devs'']"
    "ExtractSubjectFromCert ex_cert_two_groups = \<lparr>sr_sub = ''alice'', sr_username = ''alice'', sr_groups = gs\<rparr>" by auto
  moreover have "sr_groups (ExtractSubjectFromCert ex_cert_two_groups) = [''devs'', ''ops'']" by code_simp
  ultimately show ?thesis by auto
qed

subsection \<open>Authorization\<close>

text \<open>The control plane as the gateway's transport for its decision requests, the POST requests to \<open>/api/v1/pep/authorize\<close>: the
  middleware for gateways, then the decision endpoint.  \<open>answer_json\<close> is the body of a response.\<close>

record cp_server =
  sp_pep :: pep_config
  sp_handler :: pep_handler
  sp_faults :: "nat \<Rightarrow> drv"
  sp_clock :: "nat \<Rightarrow> time"
  sp_uuid :: string
  sp_parse :: "string \<Rightarrow> jval res"
  sp_render :: "jval \<Rightarrow> string"
  sp_peer_cn :: "string option"
  sp_remote :: string

definition http_request_of :: "cp_server \<Rightarrow> http_out \<Rightarrow> http_request" where
  "http_request_of K req = \<lparr>rq_header = (\<lambda>h. case map_of (ho_headers req) h of None \<Rightarrow> [] | Some v \<Rightarrow> v),
     rq_remote_addr = sp_remote K, rq_peer_cn = sp_peer_cn K\<rparr>"

definition answer_json :: "payload \<Rightarrow> jval" where
  "answer_json p =
     (case p of
        PDecision dec \<Rightarrow> decision_json dec
      | PError m \<Rightarrow> JObj [(''error'', JStr m)]
      | PFields kvs \<Rightarrow> JObj (map (\<lambda>(k, v). (k, JStr v)) kvs)
      | _ \<Rightarrow> JNull)"

definition cp_transport :: "cp_server \<Rightarrow> db \<Rightarrow> transport" where
  "cp_transport K d req =
     (let body = (if MaxBody < length (ho_body req) then None
                  else case sp_parse K (ho_body req) of Inl _ \<Rightarrow> None
                    | Inr v \<Rightarrow> (case authorize_decode v of Inl _ \<Rightarrow> None | Inr b \<Rightarrow> Some b));
          resp = fst (RequirePEP (sp_pep K) (pep_Authorize (sp_handler K) (sp_faults K) (sp_clock K) (sp_uuid K) body)
                        (http_request_of K req) d)
      in HttpResponse (rp_status resp) (Inr (sp_render K (answer_json (rp_body resp)))))"

text \<open>The gateway's client in front of this server, and the control plane's decision on the request.\<close>

definition gateway_asks :: "cp_server \<Rightarrow> gw_config \<Rightarrow> authz_request \<Rightarrow> db \<Rightarrow> authz_response res" where
  "gateway_asks K gcfg q d =
     client_Authorize (sp_parse K) (\<lambda>q. Inr (sp_render K (authz_json q))) (Some (cp_transport K d)) gcfg q"

definition asked_by :: "cp_server \<Rightarrow> gw_config \<Rightarrow> authz_request \<Rightarrow> string res" where
  "asked_by K gcfg q = pep_identity (sp_pep K)
     (http_request_of K (pep_post gcfg ''/api/v1/pep/authorize'' (sp_render K (authz_json q))))"

definition abs_request :: "authz_request \<Rightarrow> authorize_request" where
  "abs_request q =
     \<lparr>ar_subject = authorize_subject (ab_subject (body_of q)), ar_action = aq_action q,
      ar_resource = authorize_resource (ab_resource (body_of q)), ar_context = Some (request_context q)\<rparr>"

definition cp_decides :: "cp_server \<Rightarrow> authz_request \<Rightarrow> db \<Rightarrow> decision res" where
  "cp_decides K q d = decision_Authorize (GetActivePolicy (sp_faults K 1)) (decision_ttl (ph_ttl_seconds (sp_handler K)))
     (sp_clock K 0) (sp_uuid K) (abs_request q) d"

definition admitted :: "cp_server \<Rightarrow> gw_config \<Rightarrow> authz_request \<Rightarrow> db \<Rightarrow> bool" where
  "admitted K gcfg q d =
     (case asked_by K gcfg q of
        Inl _ \<Rightarrow> False
      | Inr pepID \<Rightarrow> registration_gate (ph_require_registration (sp_handler K)) (sp_faults K 0) pepID d = None
          \<and> \<not> authorize_invalid (body_of q))"

text \<open>The texts of the request and of a possible answer are those of a JSON library.\<close>

definition texts_ok :: "cp_server \<Rightarrow> authz_request \<Rightarrow> db \<Rightarrow> bool" where
  "texts_ok K q d \<longleftrightarrow> json_ok (sp_render K) (sp_parse K) (authz_json q) \<and> in_int64 (rf_port (aq_resource q))
     \<and> (case cp_decides K q d of Inl _ \<Rightarrow> True
        | Inr dec \<Rightarrow> json_ok (sp_render K) (sp_parse K) (decision_json dec) \<and> in_int64 (d_ttl_seconds dec)
            \<and> in_int64 (d_policy_version dec))"

lemma WriteError_status: "rp_status (WriteError e) \<in> {400, 401, 403, 404, 409, 500}"
  by (simp add: WriteError_def WriteJSON_def)

lemma registration_gate_status: "registration_gate b drv pepID d = Some resp \<Longrightarrow> rp_status resp \<noteq> 200"
  by (auto simp: registration_gate_def WriteError_def WriteJSON_def split: if_splits prod.splits)

lemma client_Authorize_status:
  "send (pep_post gcfg ''/api/v1/pep/authorize'' body) = HttpResponse status (Inr text) \<Longrightarrow> status \<noteq> 200 \<Longrightarrow>
     \<exists>e. client_Authorize parse (\<lambda>_. Inr body) (Some send) gcfg q = Inl e"
  by (simp add: client_Authorize_def limit_body_def)

text \<open>What the server answers, by cases.\<close>

lemma cp_transport_answer:
  assumes "json_ok (sp_render K) (sp_parse K) (authz_json q)" "in_int64 (rf_port (aq_resource q))"
  shows "\<exists>resp. cp_transport K d (pep_post gcfg ''/api/v1/pep/authorize'' (sp_render K (authz_json q))) =
           HttpResponse (rp_status resp) (Inr (sp_render K (answer_json (rp_body resp))))
       \<and> (if admitted K gcfg q d
          then (case cp_decides K q d of Inl e \<Rightarrow> rp_status resp \<noteq> 200 | Inr dec \<Rightarrow> resp = WriteJSON 200 (PDecision dec))
          else rp_status resp \<noteq> 200)"
proof -
  let ?b = "sp_render K (authz_json q)"
  let ?req = "pep_post gcfg ''/api/v1/pep/authorize'' ?b"
  let ?h = "pep_Authorize (sp_handler K) (sp_faults K) (sp_clock K) (sp_uuid K) (Some (body_of q))"
  let ?resp = "fst (RequirePEP (sp_pep K) ?h (http_request_of K ?req) d)"
  have len: "\<not> MaxBody < length ?b" "sp_parse K ?b = Inr (authz_json q)" "ho_body ?req = ?b"
    using assms(1) by (simp_all add: json_ok_def pep_post_def)
  have t: "cp_transport K d ?req = HttpResponse (rp_status ?resp) (Inr (sp_render K (answer_json (rp_body ?resp))))"
    using len authorize_decode_json[OF assms(2)] by (simp add: cp_transport_def Let_def)
  have E: "rp_status (WriteError e) \<noteq> 200" for e using WriteError_status[of e] by auto
  have "if admitted K gcfg q d
          then (case cp_decides K q d of Inl e \<Rightarrow> rp_status ?resp \<noteq> 200 | Inr dec \<Rightarrow> ?resp = WriteJSON 200 (PDecision dec))
          else rp_status ?resp \<noteq> 200"
  proof (cases "asked_by K gcfg q")
    case (Inl e)
    then show ?thesis by (simp add: admitted_def asked_by_def RequirePEP_def E)
  next
    case (Inr pepID)
    then have r: "?resp = fst (?h pepID (http_request_of K ?req) d)" by (simp add: asked_by_def RequirePEP_def)
    show ?thesis
    proof (cases "registration_gate (ph_require_registration (sp_handler K)) (sp_faults K 0) pepID d")
      case None
      then show ?thesis unfolding r
        by (auto simp: admitted_def Inr pep_Authorize_def E cp_decides_def abs_request_def Let_def
            split: sum.split prod.split) (auto simp: body_of_def)
    next
      case (Some resp)
      then show ?thesis unfolding r
        using registration_gate_status[OF Some] by (simp add: admitted_def Inr pep_Authorize_def)
    qed
  qed
  with t show ?thesis by blast
qed

lemma asks_cases:
  assumes "texts_ok K q d"
  shows "if admitted K gcfg q d
     then (case cp_decides K q d of
             Inl e \<Rightarrow> (\<exists>e'. gateway_asks K gcfg q d = Inl e')
           | Inr dec \<Rightarrow> gateway_asks K gcfg q d = Inr (gw_decision dec))
     else (\<exists>e'. gateway_asks K gcfg q d = Inl e')"
proof -
  from assms have "json_ok (sp_render K) (sp_parse K) (authz_json q)" "in_int64 (rf_port (aq_resource q))"
    by (simp_all add: texts_ok_def)
  from cp_transport_answer[OF this, of d gcfg] obtain resp where
    t: "cp_transport K d (pep_post gcfg ''/api/v1/pep/authorize'' (sp_render K (authz_json q))) =
          HttpResponse (rp_status resp) (Inr (sp_render K (answer_json (rp_body resp))))"
    and r: "if admitted K gcfg q d
          then (case cp_decides K q d of Inl e \<Rightarrow> rp_status resp \<noteq> 200 | Inr dec \<Rightarrow> resp = WriteJSON 200 (PDecision dec))
          else rp_status resp \<noteq> 200" by blast
  have bad: "\<exists>e'. gateway_asks K gcfg q d = Inl e'" if "rp_status resp \<noteq> 200"
    using t that by (simp add: gateway_asks_def client_Authorize_def limit_body_def)
  show ?thesis
  proof (cases "admitted K gcfg q d")
    case False
    with r bad show ?thesis by simp
  next
    case True
    show ?thesis
    proof (cases "cp_decides K q d")
      case (Inl e)
      with True r bad show ?thesis by simp
    next
      case (Inr dec)
      with assms have j: "json_ok (sp_render K) (sp_parse K) (decision_json dec)" "in_int64 (d_ttl_seconds dec)"
        "in_int64 (d_policy_version dec)" by (simp_all add: texts_ok_def)
      have "resp = WriteJSON 200 (PDecision dec)" using True r Inr by simp
      with t j have "gateway_asks K gcfg q d = Inr (gw_decision dec)"
        by (simp add: gateway_asks_def client_Authorize_def WriteJSON_def answer_json_def json_ok_def decode_decision_json)
      with True Inr show ?thesis by simp
    qed
  qed
qed

definition ex_q :: authz_request where
  "ex_q = \<lparr>aq_subject = \<lparr>sr_sub = ''alice'', sr_username = ''alice'', sr_groups = [''devs'']\<rparr>, aq_action = ''connect'',
     aq_resource = \<lparr>rf_type = ''ssh'', rf_host = ''lan-app'', rf_port = 22, rf_name = []\<rparr>,
     aq_source_ip = ''10.0.0.5:51112'', aq_gateway = ''gw-1''\<rparr>"

definition ex_lan_rule :: policy_rule where
  "ex_lan_rule = ex_rule\<lparr>r_allowed_hours := [], r_required_device_trust := []\<rparr>"

definition ex_db_lan :: db where
  "ex_db_lan = snd (ActivateVersion (ActivatePolicyVersion no_fault) 1
     (snd (CreateVersion (CreatePolicyVersion no_fault ex_now) ''root'' [ex_lan_rule] ex_db_gw)))"

definition ex_dec :: decision where
  "ex_dec = \<lparr>d_effect = DecisionAllow, d_reason = ''rule:1'', d_ttl_seconds = 60, d_policy_version = 1, d_decision_id = ''dec-0''\<rparr>"

definition ex_cp :: cp_server where
  "ex_cp = \<lparr>sp_pep = \<lparr>pc_auth_mode = ''token'', pc_tokens = [(''gw-1'', ''secret'')], pc_revoked_pep_ids = []\<rparr>,
     sp_handler = \<lparr>ph_ttl_seconds = 60, ph_require_registration = True\<rparr>, sp_faults = (\<lambda>_. no_fault),
     sp_clock = (\<lambda>_. ex_now), sp_uuid = ''0'',
     sp_parse = (\<lambda>s. if s = ''Q'' then Inr (authz_json ex_q) else if s = ''A'' then Inr (decision_json ex_dec)
                     else Inl (Errorf ''json'')),
     sp_render = (\<lambda>v. if v = authz_json ex_q then ''Q'' else if v = decision_json ex_dec then ''A'' else ''E''),
     sp_peer_cn = None, sp_remote = ''10.1.0.2:4000''\<rparr>"

definition ex_gw_cfg :: gw_config where
  "ex_gw_cfg = ex_gc\<lparr>gc_pep_id := ''gw-1'', gc_pep_token := ''secret''\<rparr>"

lemma ex_decides: "cp_decides ex_cp ex_q ex_db_lan = Inr ex_dec" "admitted ex_cp ex_gw_cfg ex_q ex_db_lan"
  by code_simp+

lemma ex_texts: "texts_ok ex_cp ex_q ex_db_lan"
proof -
  have "authz_json ex_q \<noteq> decision_json ex_dec" "in_int64 (rf_port (aq_resource ex_q))" "in_int64 (d_ttl_seconds ex_dec)"
    "in_int64 (d_policy_version ex_dec)" by code_simp+
  moreover from this have "json_ok (sp_render ex_cp) (sp_parse ex_cp) (authz_json ex_q)"
    "json_ok (sp_render ex_cp) (sp_parse ex_cp) (decision_json ex_dec)"
    by (simp_all add: json_ok_def ex_cp_def)
  ultimately show ?thesis by (simp add: texts_ok_def ex_decides)
qed

text \<open>C4: the gateway's decision refines the control plane's.  For a request of an identified, registered gateway
  that is well formed, the gateway's client gets exactly the decision that the evaluation of the active
  policy gives for the request it denotes, or an error where there is none; every other request gets
  an error.\<close>

theorem gateway_decision_refines:
  assumes "texts_ok K q d"
  shows "if admitted K gcfg q d
     then (case cp_decides K q d of
             Inl e \<Rightarrow> (\<exists>e'. gateway_asks K gcfg q d = Inl e')
           | Inr dec \<Rightarrow> gateway_asks K gcfg q d = Inr (gw_decision dec))
     else (\<exists>e'. gateway_asks K gcfg q d = Inl e')"
  using asks_cases[OF assms] .

theorem gateway_decision_refines_witness:
  "gateway_asks ex_cp ex_gw_cfg ex_q ex_db_lan = Inr (gw_decision ex_dec) \<and> az_decision (gw_decision ex_dec) = ''allow''"
  using gateway_decision_refines[OF ex_texts, of ex_gw_cfg] by (simp add: ex_decides gw_decision_def ex_dec_def)

lemma request_context_trust: "request_context q ''device_trust'' = None"
  by (simp add: request_context_def omit_empty_def)

text \<open>The address a gateway reports carries a port and is not taken for the client's in the audit trail.\<close>

lemma client_address_not_audited: "extractContextIP (Some [''src_ip'' \<mapsto> JStr ''10.0.0.5:51112'']) = []"
  by code_simp

text \<open>A connection asked for as \<open>host:port\<close> is of type \<open>tcp\<close>, which the decision endpoint refuses.\<close>

lemma tcp_refused: "rf_type (aq_resource q) = ''tcp'' \<Longrightarrow> authorize_invalid (body_of q)"
  by (simp add: authorize_invalid_def body_of_def Let_def ToLower_def to_lower_char_def resource_type_defs)

text \<open>C3: zero trust, end to end.  When the gateway's client reports an allow, the gateway proved an identity to the
  control plane, is registered where this is required, and the active policy has an allow rule that applies to
  the user, action and resource of the request; such a rule asks for no device trust, because the
  gateway reports none.\<close>

theorem allow_is_grounded:
  assumes "gateway_asks K gcfg q d = Inr a" "az_decision a = ''allow''" "texts_ok K q d"
  shows "\<exists>pepID v rule. asked_by K gcfg q = Inr pepID
     \<and> (ph_require_registration (sp_handler K) \<longrightarrow> gw_Status (GetGateway (sp_faults K 0)) pepID d = (HeartbeatRegistered, None))
     \<and> v \<in> set (db_versions d) \<and> pv_active v \<and> rule \<in> set (db_rules d) \<and> r_version_id rule = pv_id v
     \<and> r_effect rule = ''allow'' \<and> az_version a = pv_id v \<and> r_required_device_trust rule = []
     \<and> rule_applies (sp_clock K 0) (ar_subject (abs_request q)) (aq_action q) (ar_resource (abs_request q))
          (Some (request_context q)) rule"
proof -
  obtain dec where ad: "admitted K gcfg q d" and dec: "cp_decides K q d = Inr dec" "a = gw_decision dec"
    using asks_cases[OF assms(3), of gcfg] assms(1) by (auto split: if_splits sum.splits)
  from ad obtain pepID where p: "asked_by K gcfg q = Inr pepID"
    "registration_gate (ph_require_registration (sp_handler K)) (sp_faults K 0) pepID d = None"
    by (auto simp: admitted_def split: sum.splits)
  have eff: "d_effect dec = DecisionAllow" using assms(2) dec(2) by (cases "d_effect dec") (auto simp: gw_decision_def)
  from authorize_grounded[OF dec(1)[unfolded cp_decides_def] eff] obtain v rule where
    g: "v \<in> set (db_versions d)" "pv_active v" "rule \<in> set (db_rules d)" "r_version_id rule = pv_id v"
      "r_effect rule = ''allow''" "d_policy_version dec = pv_id v"
      "rule_applies (sp_clock K 0) (ar_subject (abs_request q)) (aq_action q) (ar_resource (abs_request q))
          (Some (request_context q)) rule"
    by (auto simp: abs_request_def)
  have "r_required_device_trust rule = []"
    using g(7) by (simp add: rule_applies_iff matchDeviceTrust_def request_context_trust)
  moreover have "ph_require_registration (sp_handler K) \<longrightarrow>
      gw_Status (GetGateway (sp_faults K 0)) pepID d = (HeartbeatRegistered, None)"
    using p(2) by (auto simp: registration_gate_def split: if_splits prod.splits)
  ultimately show ?thesis using p(1) g dec(2) by (auto simp: gw_decision_def)
qed

theorem allow_is_grounded_witness:
  "\<exists>v rule. v \<in> set (db_versions ex_db_lan) \<and> pv_active v \<and> rule \<in> set (db_rules ex_db_lan)
     \<and> r_version_id rule = pv_id v \<and> r_effect rule = ''allow''"
proof -
  have g: "gateway_asks ex_cp ex_gw_cfg ex_q ex_db_lan = Inr (gw_decision ex_dec)"
    using asks_cases[OF ex_texts, of ex_gw_cfg] by (simp add: ex_decides)
  have "az_decision (gw_decision ex_dec) = ''allow''" by (simp add: gw_decision_def ex_dec_def)
  from allow_is_grounded[OF g this ex_texts] show ?thesis by blast
qed

subsection \<open>Revocation\<close>

text \<open>The gateway's library reads the lists that the control plane's library makes.\<close>

definition crls_agree :: "('c, 'k) pki \<Rightarrow> crl_lib \<Rightarrow> bool" where
  "crls_agree P L \<longleftrightarrow>
     (\<forall>rl der. pk_create_crl P rl = Inr der \<longrightarrow> cl_pem L der = None \<and> cl_parse L der = Inr (map fst (rl_revoked rl)))"


definition ex_pki_crl :: "(string, string) pki" where
  "ex_pki_crl = ex_pki\<lparr>pk_create_crl := (\<lambda>rl. if map fst (rl_revoked rl) = [171] then Inr ''DER'' else Inl (Errorf []))\<rparr>"

definition ex_crl_171 :: crl_lib where
  "ex_crl_171 = \<lparr>cl_pem = (\<lambda>_. None), cl_parse = (\<lambda>_. Inr [171])\<rparr>"


end
