(* ===== verification/Whole_System.thy ===== *)
theory Whole_System
  imports End_to_End Gw_App
begin

text \<open>
  One control plane and any number of gateways as one transition system: the database of the control plane, and for each
  gateway the state its connections share and the connections that were admitted and have not registered their session
  yet.  A step is a request that anybody makes to the API of the control plane, or a step of one gateway: the admission of a
  connection (with the decision request that it makes, which the control plane answers and records), the registration of
  its session, what ends sessions, a refresh of the revocation list, or a restart.  Clocks, driver failures, configurations,
  certificates, inputs and the answers of all other endpoints are arbitrary at every step.
\<close>

subsection \<open>The two programs together\<close>

text \<open>The database after the control plane served a decision request.\<close>

definition cp_after :: "cp_server \<Rightarrow> http_out \<Rightarrow> db \<Rightarrow> db" where
  "cp_after K req d =
     (let body = (if MaxBody < length (ho_body req) then None
                  else case sp_parse K (ho_body req) of Inl _ \<Rightarrow> None
                    | Inr v \<Rightarrow> (case authorize_decode v of Inl _ \<Rightarrow> None | Inr b \<Rightarrow> Some b))
      in snd (RequirePEP (sp_pep K) (pep_Authorize (sp_handler K) (sp_faults K) (sp_clock K) (sp_uuid K) body)
                (http_request_of K req) d))"

text \<open>The gateway's environment when its decision requests go to this control plane; \<open>others\<close> answers its other requests.\<close>

definition cp_url :: "gw_config \<Rightarrow> string" where
  "cp_url gcfg = gc_base_url gcfg @ ''/api/v1/pep/authorize''"

definition gateway_env :: "cp_server \<Rightarrow> transport \<Rightarrow> connect_env \<Rightarrow> db \<Rightarrow> connect_env" where
  "gateway_env K others E d =
     E\<lparr>ce_parse := sp_parse K, ce_encode := (\<lambda>q. Inr (sp_render K (authz_json q))),
       ce_client := Some (\<lambda>req. if ho_url req = cp_url (ce_cfg E) then cp_transport K d req else others req)\<rparr>"

text \<open>The decision request that an admission sends, if it comes so far and the cache has no answer.\<close>

definition asks_cp :: "time \<Rightarrow> subject_ref \<Rightarrow> resource_target \<Rightarrow> gw_handler \<Rightarrow> bool" where
  "asks_cp now subject r h =
     (case gh_cache h of None \<Rightarrow> True
      | Some c \<Rightarrow> fst (cache_Get (cache_key (sr_sub subject) ''connect'' r) now c) = None)"

definition question ::
    "connect_env \<Rightarrow> (nat \<Rightarrow> time) \<Rightarrow> client_cert \<Rightarrow> string \<Rightarrow> string \<Rightarrow> gw_handler \<Rightarrow> authz_request option" where
  "question E clk cert ra input h =
     (if (case gh_crl h of None \<Rightarrow> False | Some st \<Rightarrow> IsRevoked st (Itoa (cc_serial cert))) then None
      else case fst (ReadMessage (ce_unmarshal E) input) of
        Inl _ \<Rightarrow> None
      | Inr req \<Rightarrow>
          (let r0 = cr_resource req in
           if cr_action req \<noteq> ''connect'' \<or> (rt_name r0 = [] \<and> (rt_host r0 = [] \<or> rt_port r0 \<le> 0 \<or> rt_type r0 = []))
           then None
           else case resolve_target E (clk 0) r0 h of
             (Inl _, _) \<Rightarrow> None
           | (Inr (_, _, r), h1) \<Rightarrow>
               if asks_cp (clk 1) (ExtractSubjectFromCert cert) r h1
               then Some (authz_req E (ExtractSubjectFromCert cert) ''connect'' r ra) else None))"

definition cp_served :: "cp_server \<Rightarrow> gw_config \<Rightarrow> authz_request option \<Rightarrow> db \<Rightarrow> db" where
  "cp_served K gcfg q d =
     (case q of None \<Rightarrow> d
      | Some q \<Rightarrow> cp_after K (pep_post gcfg ''/api/v1/pep/authorize'' (sp_render K (authz_json q))) d)"

text \<open>The state of a gateway.\<close>

record node =
  nd_gw :: gw_handler
  nd_pending :: "(admission \<times> string) list"

definition node_start :: "gw_config \<Rightarrow> bool \<Rightarrow> node" where
  "node_start gcfg has_client = \<lparr>nd_gw = app_handler gcfg has_client, nd_pending = []\<rparr>"

text \<open>The state of the system.  \<open>sy_unaudited\<close> is no state of the programs: it holds the questions whose audit event could not be
  written, for the control plane answers them all the same.\<close>

record system =
  sy_db :: db
  sy_nodes :: "nat \<Rightarrow> node"
  sy_unaudited :: "string set"

definition system_start :: "(nat \<Rightarrow> gw_config) \<Rightarrow> system" where
  "system_start gcfg = \<lparr>sy_db = empty_db, sy_nodes = (\<lambda>i. node_start (gcfg i) True), sy_unaudited = {}\<rparr>"

definition with_mgr :: "(session_manager \<Rightarrow> session_manager) \<Rightarrow> node \<Rightarrow> node" where
  "with_mgr f n = n\<lparr>nd_gw := (nd_gw n)\<lparr>gh_mgr := f (gh_mgr (nd_gw n))\<rparr>\<rparr>"

text \<open>The key under which a question is cached; and the questions that were decided and that the failing write of their audit event
  leaves unrecorded.\<close>

definition asked_key :: "authz_request \<Rightarrow> string" where
  "asked_key q = cache_key (sr_sub (aq_subject q)) ''connect''
     \<lparr>rt_type = rf_type (aq_resource q), rt_host = rf_host (aq_resource q), rt_port = rf_port (aq_resource q), rt_name = []\<rparr>"

definition unaudited :: "cp_server \<Rightarrow> gw_config \<Rightarrow> authz_request option \<Rightarrow> db \<Rightarrow> string set" where
  "unaudited K gcfg q d =
     (case q of None \<Rightarrow> {}
      | Some q \<Rightarrow>
          if admitted K gcfg q d \<and> is_ok (cp_decides K q d) \<and> sp_faults K 2 0 \<noteq> None then {asked_key q} else {})"

text \<open>The premise of an admission: the texts of its decision request are those of a JSON library.\<close>

definition served_well :: "cp_server \<Rightarrow> authz_request option \<Rightarrow> db \<Rightarrow> bool" where
  "served_well K q d = (case q of None \<Rightarrow> True | Some q \<Rightarrow> texts_ok K q d)"

text \<open>A step of one gateway: the new database, the new state of the gateway, and the questions that were not recorded.  The two
  halves of a refresh of the list, its replacement and the end of the sessions of a certificate, are steps of their own.\<close>

inductive node_step :: "db \<Rightarrow> node \<Rightarrow> db \<Rightarrow> node \<Rightarrow> string set \<Rightarrow> bool" where
  nd_refuse: "G = gateway_env K others E d \<Longrightarrow> q = question G clk cert ra input (nd_gw n) \<Longrightarrow>
     served_well K q d \<Longrightarrow> admit G pick clk cert ra input (nd_gw n) = (Inl reason, h') \<Longrightarrow>
     node_step d n (cp_served K (ce_cfg E) q d) (n\<lparr>nd_gw := h'\<rparr>) (unaudited K (ce_cfg E) q d)"
| nd_admit: "G = gateway_env K others E d \<Longrightarrow> q = question G clk cert ra input (nd_gw n) \<Longrightarrow>
     served_well K q d \<Longrightarrow> admit G pick clk cert ra input (nd_gw n) = (Inr a, h') \<Longrightarrow>
     node_step d n (cp_served K (ce_cfg E) q d) (n\<lparr>nd_gw := h', nd_pending := (a, ra) # nd_pending n\<rparr>) (unaudited K (ce_cfg E) q d)"
| nd_register: "(a, ra) \<in> set (nd_pending n) \<Longrightarrow>
     node_step d n d (with_mgr (\<lambda>m. snd (Register now bs (session_of a ra cx) m)) (n\<lparr>nd_pending := remove1 (a, ra) (nd_pending n)\<rparr>)) {}"
| nd_unregister: "node_step d n d (with_mgr (Unregister sid) n) {}"
| nd_kill: "node_step d n d (with_mgr (\<lambda>m. snd (KillSession sid m)) n) {}"
| nd_stats: "node_step d n d (with_mgr (SetEndStats sid bin bout why) n) {}"
| nd_reap: "node_step d n d (with_mgr (reapExpired now) n) {}"
| nd_replace: "gh_crl (nd_gw n) = Some st \<Longrightarrow> fetch_crl L send st = Inr serials \<Longrightarrow>
     node_step d n d (n\<lparr>nd_gw := (nd_gw n)\<lparr>gh_crl := Some ((Replace serials st)\<lparr>c_last_fetch := now\<rparr>)\<rparr>\<rparr>) {}"
| nd_revoke: "node_step d n d (with_mgr (\<lambda>m. snd (KillBySerial serial m)) n) {}"
| nd_restart: "node_step d n d (node_start gcfg has_client) {}"

inductive sys_step :: "system \<Rightarrow> system \<Rightarrow> bool" where
  sys_api: "api_step (sy_db s) d' \<Longrightarrow> sys_step s (s\<lparr>sy_db := d'\<rparr>)"
| sys_node: "node_step (sy_db s) (sy_nodes s i) d' n' L \<Longrightarrow>
     sys_step s (s\<lparr>sy_db := d', sy_nodes := (sy_nodes s)(i := n'), sy_unaudited := sy_unaudited s \<union> L\<rparr>)"

subsection \<open>What is on record\<close>

definition denoted :: "string \<Rightarrow> string \<Rightarrow> int \<Rightarrow> resource" where
  "denoted typ host port =
     authorize_resource \<lparr>rr_type = typ, rr_name = [], rr_host = host, rr_port = port, rr_ssh = None, rr_http = None\<rparr>"

text \<open>The control plane has an allow rule for this subject and address, and a record of an allow that it gave (unless the record
  was lost).\<close>

definition granted :: "db \<Rightarrow> bool \<Rightarrow> string \<Rightarrow> string \<Rightarrow> string \<Rightarrow> int \<Rightarrow> bool" where
  "granted d lost sub typ host port \<longleftrightarrow>
     (\<exists>rule t subj cx. s_sub subj = sub \<and> rule \<in> set (db_rules d) \<and> r_effect rule = ''allow''
        \<and> rule_applies t subj ''connect'' (denoted typ host port) cx rule
        \<and> (lost \<or> (\<exists>ev\<in>set (db_audit d). ae_decision ev = ''allow'' \<and> ae_action ev = ''connect''
              \<and> ae_subject ev = formatSubjectForAudit subj \<and> ae_resource ev = Canonical (denoted typ host port)
              \<and> ae_policy_version ev = r_version_id rule)))"

definition granted_key :: "db \<Rightarrow> string set \<Rightarrow> string \<Rightarrow> bool" where
  "granted_key d U key \<longleftrightarrow>
     (\<exists>sub r. key = cache_key sub ''connect'' r \<and> granted d (key \<in> U) sub (rt_type r) (rt_host r) (rt_port r))"

text \<open>The keys of the cache that hold an allow.\<close>

definition allow_keys :: "gw_handler \<Rightarrow> string set" where
  "allow_keys h = {k. \<exists>c e. gh_cache h = Some c \<and> (k, e) \<in> cache_entries c \<and> de_decision e = ''allow''}"

definition session_key :: "gw_session \<Rightarrow> string" where
  "session_key g = cache_key (gs_sub g) ''connect''
     \<lparr>rt_type = gs_type g, rt_host = gs_host g, rt_port = gs_port g, rt_name = gs_name g\<rparr>"

definition node_on_record :: "db \<Rightarrow> string set \<Rightarrow> node \<Rightarrow> bool" where
  "node_on_record d U n \<longleftrightarrow>
     sm_wf (gh_mgr (nd_gw n))
     \<and> (\<forall>k\<in>allow_keys (nd_gw n). granted_key d U k)
     \<and> (\<forall>(a, ra)\<in>set (nd_pending n). granted_key d U (cache_key (sr_sub (ad_subject a)) ''connect'' (ad_resource a)))
     \<and> (\<forall>(sid, g)\<in>set (m_sessions (gh_mgr (nd_gw n))). granted_key d U (session_key g))"

definition on_record :: "system \<Rightarrow> bool" where
  "on_record s \<longleftrightarrow> (\<forall>i. node_on_record (sy_db s) (sy_unaudited s) (sy_nodes s i))"

subsection \<open>Records stay\<close>

lemma store_step_rules:
  assumes "store_step d d'"
  shows "set (db_rules d) \<subseteq> set (db_rules d')"
  using assms
proof (cases rule: store_step.cases)
  case (step_create drv now createdBy rules)
  with CreatePolicyVersion_cases[of drv now createdBy rules d] show ?thesis by (auto simp: with_version_def)
next
  case (step_activate drv vid)
  with ActivatePolicyVersion_cases[of drv vid d] show ?thesis by (auto simp: with_active_def)
qed (auto simp: store_defs Let_def split: option.splits)

interpretation rule_table: growing store_step "\<lambda>d. set (db_rules d)"
  by unfold_locales (rule store_step_rules)

lemma granted_mono:
  "store_step\<^sup>*\<^sup>* d d' \<Longrightarrow> lost \<longrightarrow> lost' \<Longrightarrow> granted d lost sub typ host port \<Longrightarrow> granted d' lost' sub typ host port"
  using audit_log.steps_grow[of d d'] rule_table.steps_grow[of d d'] unfolding granted_def by blast

lemma granted_key_mono: "store_step\<^sup>*\<^sup>* d d' \<Longrightarrow> U \<subseteq> U' \<Longrightarrow> granted_key d U k \<Longrightarrow> granted_key d' U' k"
  unfolding granted_key_def using granted_mono[of d d' "k \<in> U" "k \<in> U'"] by blast

lemma cp_after_steps: "store_step\<^sup>*\<^sup>* d (cp_after K req d)"
  by (auto simp: cp_after_def Let_def RequirePEP_def intro: pep_Authorize_steps split: sum.splits)

lemma cp_served_steps: "store_step\<^sup>*\<^sup>* d (cp_served K gcfg q d)"
  by (simp add: cp_served_def cp_after_steps split: option.split)

subsection \<open>An allow is recorded\<close>

lemma pep_Authorize_decided:
  assumes "registration_gate (ph_require_registration h) (F 0) pepID d = None" "\<not> authorize_invalid req"
    and "decision_Authorize (GetActivePolicy (F 1)) (decision_ttl (ph_ttl_seconds h)) (clk 0) uuid
      \<lparr>ar_subject = authorize_subject (ab_subject req), ar_action = ab_action req,
       ar_resource = authorize_resource (ab_resource req), ar_context = ab_context req\<rparr> d = Inr dec"
  shows "snd (pep_Authorize h F clk uuid (Some req) pepID r d) =
    snd (audit_Append (InsertAuditEvent (F 2)) (clk 1)
      (authorize_event r pepID req (authorize_subject (ab_subject req)) (authorize_resource (ab_resource req)) dec) d)"
  using assms by (simp add: pep_Authorize_def Let_def case_prod_beta)

text \<open>The event of a decision request, as the endpoint writes it.\<close>

definition event_of :: "cp_server \<Rightarrow> http_request \<Rightarrow> string \<Rightarrow> authz_request \<Rightarrow> decision \<Rightarrow> audit_event" where
  "event_of K r pepID q dec =
     authorize_event r pepID (body_of q) (authorize_subject (ab_subject (body_of q))) (authorize_resource (ab_resource (body_of q))) dec"

lemma cp_after_event:
  assumes "gateway_asks K gcfg q d = Inr a" "az_decision a = ''allow''" "texts_ok K q d"
  obtains dec r pepID where "admitted K gcfg q d" "cp_decides K q d = Inr dec" "d_effect dec = DecisionAllow"
    "cp_served K gcfg (Some q) d = snd (audit_Append (InsertAuditEvent (sp_faults K 2)) (sp_clock K 1) (event_of K r pepID q dec) d)"
proof -
  let ?b = "sp_render K (authz_json q)"
  let ?req = "pep_post gcfg ''/api/v1/pep/authorize'' ?b"
  obtain dec where ad: "admitted K gcfg q d" and dec: "cp_decides K q d = Inr dec" "a = gw_decision dec"
    using asks_cases[OF assms(3), of gcfg] assms(1) by (auto split: if_splits sum.splits)
  from ad obtain pepID where p: "asked_by K gcfg q = Inr pepID"
    "registration_gate (ph_require_registration (sp_handler K)) (sp_faults K 0) pepID d = None"
    "\<not> authorize_invalid (body_of q)"
    by (auto simp: admitted_def split: sum.splits)
  have eff: "d_effect dec = DecisionAllow" using assms(2) dec(2) by (cases "d_effect dec") (auto simp: gw_decision_def)
  have json: "\<not> MaxBody < length ?b" "sp_parse K ?b = Inr (authz_json q)" "ho_body ?req = ?b"
    "authorize_decode (authz_json q) = Inr (body_of q)"
    using assms(3) authorize_decode_json by (auto simp: texts_ok_def json_ok_def pep_post_def)
  have after: "cp_served K gcfg (Some q) d = snd (pep_Authorize (sp_handler K) (sp_faults K) (sp_clock K) (sp_uuid K)
      (Some (body_of q)) pepID (http_request_of K ?req) d)"
    using json p(1) by (simp add: cp_served_def cp_after_def RequirePEP_def asked_by_def)
  have "decision_Authorize (GetActivePolicy (sp_faults K 1)) (decision_ttl (ph_ttl_seconds (sp_handler K))) (sp_clock K 0)
      (sp_uuid K) \<lparr>ar_subject = authorize_subject (ab_subject (body_of q)), ar_action = ab_action (body_of q),
        ar_resource = authorize_resource (ab_resource (body_of q)), ar_context = ab_context (body_of q)\<rparr> d = Inr dec"
    using dec(1) by (simp add: cp_decides_def abs_request_def body_of_def)
  from pep_Authorize_decided[where h = "sp_handler K" and F = "sp_faults K" and clk = "sp_clock K", OF p(2,3) this]
  show ?thesis by (intro that[OF ad dec(1) eff]) (simp add: after event_of_def)
qed

lemma event_of_allow:
  assumes "d_effect dec = DecisionAllow"
  shows "ae_decision (event_of K r pepID q dec) = ''allow''" "ae_action (event_of K r pepID q dec) = aq_action q"
    "ae_subject (event_of K r pepID q dec) = formatSubjectForAudit (authorize_subject (ab_subject (body_of q)))"
    "ae_resource (event_of K r pepID q dec) = Canonical (authorize_resource (ab_resource (body_of q)))"
    "ae_policy_version (event_of K r pepID q dec) = d_policy_version dec" "ae_ts (event_of K r pepID q dec) = None"
  using assms by (simp_all add: event_of_def authorize_event_def Let_def body_of_def)

lemma denoted_body:
  "authorize_resource (ab_resource (body_of q)) =
     denoted (rf_type (aq_resource q)) (rf_host (aq_resource q)) (rf_port (aq_resource q))"
  by (simp add: denoted_def authorize_resource_def resolvedHost_def resolvedPort_def body_of_def Let_def)

lemma cp_after_allow:
  assumes "gateway_asks K gcfg q d = Inr a" "az_decision a = ''allow''" "texts_ok K q d" "aq_action q = ''connect''"
  shows "granted (cp_served K gcfg (Some q) d) (asked_key q \<in> unaudited K gcfg (Some q) d) (sr_sub (aq_subject q))
           (rf_type (aq_resource q)) (rf_host (aq_resource q)) (rf_port (aq_resource q))"
proof -
  let ?subj = "authorize_subject (ab_subject (body_of q))"
  obtain dec r pepID where ad: "admitted K gcfg q d" and dec: "cp_decides K q d = Inr dec" "d_effect dec = DecisionAllow"
    and after: "cp_served K gcfg (Some q) d = snd (audit_Append (InsertAuditEvent (sp_faults K 2)) (sp_clock K 1) (event_of K r pepID q dec) d)"
    using cp_after_event[OF assms(1-3)] .
  from authorize_grounded[OF dec(1)[unfolded cp_decides_def] dec(2)] obtain rule where
    g: "rule \<in> set (db_rules d)" "r_version_id rule = d_policy_version dec" "r_effect rule = ''allow''"
      "rule_applies (sp_clock K 0) ?subj ''connect'' (denoted (rf_type (aq_resource q)) (rf_host (aq_resource q))
         (rf_port (aq_resource q))) (Some (request_context q)) rule"
    using assms(4) by (auto simp: abs_request_def denoted_body)
  have "db_rules (cp_served K gcfg (Some q) d) = db_rules d"
    by (simp add: after audit_Append_def InsertAuditEvent_def Let_def split: option.split)
  moreover have "asked_key q \<in> unaudited K gcfg (Some q) d \<or> (\<exists>ev\<in>set (db_audit (cp_served K gcfg (Some q) d)). ae_decision ev = ''allow''
       \<and> ae_action ev = ''connect'' \<and> ae_subject ev = formatSubjectForAudit ?subj
       \<and> ae_resource ev = Canonical (denoted (rf_type (aq_resource q)) (rf_host (aq_resource q)) (rf_port (aq_resource q)))
       \<and> ae_policy_version ev = r_version_id rule)"
    unfolding after using event_of_allow[OF dec(2), of K r pepID q] assms(4)
    by (cases "sp_faults K 2 0") (auto simp: audit_Append_def InsertAuditEvent_def denoted_body g(2) unaudited_def ad dec(1))
  moreover have "s_sub ?subj = sr_sub (aq_subject q)" by (simp add: authorize_subject_def body_of_def)
  ultimately show ?thesis using g unfolding granted_def by (metis (no_types, lifting))
qed

subsection \<open>Where an admission has its decision from\<close>

text \<open>A decision comes from an entry of the cache, or it is asked for; only an answer enters the cache.\<close>

lemma allow_keys_Get:
  "gh_cache h = Some c \<Longrightarrow> allow_keys (h\<lparr>gh_cache := Some (snd (cache_Get k now c))\<rparr>) \<subseteq> allow_keys h"
  using cached.get_frame[of k now c] by (auto simp: allow_keys_def)

lemma allow_keys_Put:
  "gh_cache h = Some c \<Longrightarrow> allow_keys (h\<lparr>gh_cache := Some (cache_Put p n k e t (snd (cache_Get k now c)))\<rparr>)
    \<subseteq> allow_keys h \<union> (if de_decision e = ''allow'' then {k} else {})"
  using cached.get_then_put[of p n k e t now c] by (auto simp: allow_keys_def)

lemma resolveDecision_cases:
  assumes "resolveDecision G pick now subject ''connect'' r ra h = (x, h')"
  defines "k \<equiv> cache_key (sr_sub subject) ''connect'' r"
    and "answer \<equiv> client_Authorize (ce_parse G) (ce_encode G) (ce_client G) (ce_cfg G) (authz_req G subject ''connect'' r ra)"
  obtains (cached) c e d where "\<not> asks_cp now subject r h" "gh_cache h = Some c" "fst (cache_Get k now c) = Some e"
      "x = Inr d" "az_decision d = de_decision e" "allow_keys h' \<subseteq> allow_keys h"
  | (failed) e where "asks_cp now subject r h" "x = Inl e" "allow_keys h' \<subseteq> allow_keys h"
  | (answered) d where "asks_cp now subject r h" "answer = Inr d" "x = Inr d"
      "allow_keys h' \<subseteq> allow_keys h \<union> (if az_decision d = ''allow'' then {k} else {})"
proof (cases "gh_cache h")
  case None
  then have asks: "asks_cp now subject r h" by (simp add: asks_cp_def)
  show ?thesis
  proof (cases answer)
    case (Inl e)
    then have "x = Inl e" "h' = h" using assms(1) None by (auto simp: resolveDecision_def Let_def answer_def)
    then show ?thesis using failed[OF asks] by simp
  next
    case (Inr d)
    then have "x = Inr d" "h' = h" using assms(1) None by (auto simp: resolveDecision_def Let_def answer_def)
    then show ?thesis using answered[OF asks Inr] by simp
  qed
next
  case (Some c)
  note get = allow_keys_Get[OF Some, of k now] and put = allow_keys_Put[OF Some, of _ _ k _ _ now]
  show ?thesis
  proof (cases "fst (cache_Get k now c)")
    case (Some e)
    with \<open>gh_cache h = Some c\<close> assms(1) get show ?thesis
      by (intro cached[of c e]) (auto simp: asks_cp_def resolveDecision_def Let_def k_def split: prod.splits)
  next
    case None
    with Some have asks: "asks_cp now subject r h" by (simp add: asks_cp_def k_def)
    show ?thesis
    proof (cases answer)
      case (Inl e)
      then have "\<exists>e'. x = Inl e'" "h' = h\<lparr>gh_cache := Some (snd (cache_Get k now c))\<rparr>"
        using assms(1) Some None by (auto simp: resolveDecision_def Let_def k_def answer_def split: prod.splits)
      then show ?thesis using failed[OF asks] get by auto
    next
      case (Inr d)
      then have "x = Inr d" "h' = h\<lparr>gh_cache := Some (snd (cache_Get k now c))\<rparr> \<or> (\<exists>t. h' = h\<lparr>gh_cache :=
          Some (cache_Put pick now k \<lparr>de_decision = az_decision d, de_reason = az_reason d, de_version = az_version d\<rparr> t
                  (snd (cache_Get k now c)))\<rparr>)"
        using assms(1) Some None
        by (auto simp: resolveDecision_def Let_def k_def answer_def split: prod.splits if_splits)
      moreover from this(2) have "allow_keys h' \<subseteq> allow_keys h \<union> (if az_decision d = ''allow'' then {k} else {})"
        using get put[of pick now "\<lparr>de_decision = az_decision d, de_reason = az_reason d, de_version = az_version d\<rparr>"]
        by (elim disjE exE) auto
      ultimately show ?thesis using answered[OF asks Inr] by blast
    qed
  qed
qed

definition asked :: "connect_env \<Rightarrow> authz_request \<Rightarrow> authz_response res" where
  "asked G q = client_Authorize (ce_parse G) (ce_encode G) (ce_client G) (ce_cfg G) q"

lemma asked_key_req: "asked_key (authz_req G subject action r ra) = cache_key (sr_sub subject) ''connect'' r"
  by (simp add: asked_key_def authz_req_def cache_key_def)

lemma authz_req_action [simp]: "aq_action (authz_req G subject action r ra) = action"
  by (simp add: authz_req_def)

lemma allow_keys_resolve: "resolve_target G now r h = (x, h') \<Longrightarrow> allow_keys h' = allow_keys h"
  using resolve_target_same(1) by (simp add: allow_keys_def)

text \<open>What an admission adds to the cache, and what backs its allow.\<close>

definition allowed_question :: "connect_env \<Rightarrow> authz_request option \<Rightarrow> string \<Rightarrow> bool" where
  "allowed_question G q k \<longleftrightarrow>
     (\<exists>q' d. q = Some q' \<and> aq_action q' = ''connect'' \<and> k = asked_key q' \<and> asked G q' = Inr d \<and> az_decision d = ''allow'')"

lemma admit_question:
  assumes "admit G pick clk cert ra input h = (x, h')"
  defines "sub \<equiv> ExtractSubjectFromCert cert"
  obtains (refused) "allow_keys h' = allow_keys h" "\<not> is_ok x"
  | (decided) r h1 z where "allow_keys h1 = allow_keys h" "resolveDecision G pick (clk 1) sub ''connect'' r ra h1 = (z, h')"
      "question G clk cert ra input h = (if asks_cp (clk 1) sub r h1 then Some (authz_req G sub ''connect'' r ra) else None)"
      "\<And>a. x = Inr a \<Longrightarrow> \<exists>d. z = Inr d \<and> az_decision d = ''allow'' \<and> ad_subject a = sub \<and> ad_resource a = r"
proof -
  let ?revoked = "case gh_crl h of None \<Rightarrow> False | Some st \<Rightarrow> IsRevoked st (Itoa (cc_serial cert))"
  let ?bad = "\<lambda>req. cr_action req \<noteq> ''connect'' \<or> (rt_name (cr_resource req) = []
    \<and> (rt_host (cr_resource req) = [] \<or> rt_port (cr_resource req) \<le> 0 \<or> rt_type (cr_resource req) = []))"
  consider "?revoked \<or> \<not> is_ok (fst (ReadMessage (ce_unmarshal G) input))"
    | req where "\<not> ?revoked" "fst (ReadMessage (ce_unmarshal G) input) = Inr req" "?bad req"
    | req t h1 where "\<not> ?revoked" "fst (ReadMessage (ce_unmarshal G) input) = Inr req" "\<not> ?bad req"
        "resolve_target G (clk 0) (cr_resource req) h = (t, h1)"
  proof (cases "?revoked \<or> \<not> is_ok (fst (ReadMessage (ce_unmarshal G) input))")
    case False
    then obtain req where r: "fst (ReadMessage (ce_unmarshal G) input) = Inr req"
      by (cases "fst (ReadMessage (ce_unmarshal G) input)") auto
    obtain t h1 where "resolve_target G (clk 0) (cr_resource req) h = (t, h1)"
      by (cases "resolve_target G (clk 0) (cr_resource req) h")
    with False r show ?thesis using that(2,3) by blast
  qed (rule that(1))
  then show ?thesis
  proof cases
    case 1
    then have "h' = h" "\<not> is_ok x" using assms(1) by (auto simp: admit_defs Let_def split: sum.splits if_splits)
    then show ?thesis by (intro refused) simp_all
  next
    case 2
    then show ?thesis using assms(1) by (intro refused) (auto simp: admit_defs Let_def split: if_splits)
  next
    case (3 req t h1)
    note same = allow_keys_resolve[OF 3(4)]
    show ?thesis
    proof (cases t)
      case (Inl reason)
      then have "h' = h1" "\<not> is_ok x" using assms(1) 3 by (auto simp: admit_defs Let_def)
      then show ?thesis using same by (intro refused) simp_all
    next
      case (Inr y)
      obtain host port r where y: "y = (host, port, r)" by (cases y)
      obtain z h2 where d: "resolveDecision G pick (clk 1) sub ''connect'' r ra h1 = (z, h2)"
        by (cases "resolveDecision G pick (clk 1) sub ''connect'' r ra h1")
      note run = assms(1)[unfolded admit_defs Let_def]
      show ?thesis
      proof (rule decided[OF same])
        show "resolveDecision G pick (clk 1) sub ''connect'' r ra h1 = (z, h')"
          using run 3 Inr y d by (auto simp: sub_def split: sum.splits if_splits)
        show "question G clk cert ra input h = (if asks_cp (clk 1) sub r h1 then Some (authz_req G sub ''connect'' r ra) else None)"
          using 3 Inr y by (auto simp: question_def Let_def sub_def)
        show "\<exists>d. z = Inr d \<and> az_decision d = ''allow'' \<and> ad_subject a = sub \<and> ad_resource a = r" if "x = Inr a" for a
          using run 3 Inr y d that by (auto simp: sub_def split: sum.splits if_splits)
      qed
    qed
  qed
qed

lemma allowed_questionI:
  "q = Some (authz_req G sub ''connect'' r ra) \<Longrightarrow> asked G (authz_req G sub ''connect'' r ra) = Inr d \<Longrightarrow>
     az_decision d = ''allow'' \<Longrightarrow> allowed_question G q (cache_key (sr_sub sub) ''connect'' r)"
  by (auto simp: allowed_question_def asked_key_req)

lemma decided_record:
  assumes "resolveDecision G pick now sub ''connect'' r ra h = (z, h')"
    and "q = (if asks_cp now sub r h then Some (authz_req G sub ''connect'' r ra) else None)"
  shows "\<forall>k\<in>allow_keys h'. k \<in> allow_keys h \<or> allowed_question G q k"
    and "z = Inr d \<Longrightarrow> az_decision d = ''allow'' \<Longrightarrow>
      cache_key (sr_sub sub) ''connect'' r \<in> allow_keys h \<or> allowed_question G q (cache_key (sr_sub sub) ''connect'' r)"
proof -
  show "\<forall>k\<in>allow_keys h'. k \<in> allow_keys h \<or> allowed_question G q k"
    using assms(1)
  proof (cases rule: resolveDecision_cases)
    case (answered d)
    then show ?thesis using assms(2) allowed_questionI[of q G sub r ra d] by (auto simp: asked_def split: if_splits)
  qed auto
  show "cache_key (sr_sub sub) ''connect'' r \<in> allow_keys h \<or> allowed_question G q (cache_key (sr_sub sub) ''connect'' r)"
    if "z = Inr d" "az_decision d = ''allow''"
    using assms(1)
  proof (cases rule: resolveDecision_cases)
    case (cached c e d')
    then show ?thesis using that cached.get_hit[OF cached(3)] by (auto simp: allow_keys_def)
  next
    case (answered d')
    then show ?thesis using that assms(2) allowed_questionI[of q G sub r ra d] by (simp add: asked_def)
  qed (use that in simp)
qed

lemma admit_record:
  assumes "admit G pick clk cert ra input h = (x, h')"
  defines "q \<equiv> question G clk cert ra input h"
  shows "\<forall>k\<in>allow_keys h'. k \<in> allow_keys h \<or> allowed_question G q k"
    and "x = Inr a \<Longrightarrow> cache_key (sr_sub (ad_subject a)) ''connect'' (ad_resource a) \<in> allow_keys h
           \<or> allowed_question G q (cache_key (sr_sub (ad_subject a)) ''connect'' (ad_resource a))"
proof -
  show "\<forall>k\<in>allow_keys h'. k \<in> allow_keys h \<or> allowed_question G q k"
    using assms(1)
  proof (cases rule: admit_question)
    case (decided r h1 z)
    then show ?thesis using decided_record(1)[OF decided(2,3)[folded q_def]] by simp
  qed simp
  show "cache_key (sr_sub (ad_subject a)) ''connect'' (ad_resource a) \<in> allow_keys h
       \<or> allowed_question G q (cache_key (sr_sub (ad_subject a)) ''connect'' (ad_resource a))" if x: "x = Inr a"
    using assms(1)
  proof (cases rule: admit_question)
    case (decided r h1 z)
    obtain d where "z = Inr d" "az_decision d = ''allow''" "ad_subject a = ExtractSubjectFromCert cert" "ad_resource a = r"
      using decided(4)[OF x] by blast
    with decided_record(2)[OF decided(2,3)[folded q_def]] decided(1) show ?thesis by simp
  qed (use x in simp)
qed

end
