(* ===== verification/Whole_Run.thy ===== *)
theory Whole_Run
  imports Whole_System
begin

text \<open>
  The invariant of the whole system: whatever a gateway may still act on (the allows in its cache, its admitted
  connections and its sessions) is on record at the control plane.
\<close>

subsection \<open>The invariant\<close>

lemma asked_gateway_env: "asked (gateway_env K others E d) q = gateway_asks K (ce_cfg E) q d"
  by (simp add: asked_def gateway_env_def gateway_asks_def client_Authorize_def cp_url_def pep_post_def)

lemma allowed_granted:
  assumes "allowed_question (gateway_env K others E d) q k" "served_well K q d"
  shows "granted_key (cp_served K (ce_cfg E) q d) (unaudited K (ce_cfg E) q d) k"
proof -
  from assms(1) obtain q' dn where q: "q = Some q'" "aq_action q' = ''connect''" "k = asked_key q'"
    "gateway_asks K (ce_cfg E) q' d = Inr dn" "az_decision dn = ''allow''"
    by (auto simp: allowed_question_def asked_gateway_env)
  have "granted (cp_served K (ce_cfg E) q d) (k \<in> unaudited K (ce_cfg E) q d) (sr_sub (aq_subject q')) (rf_type (aq_resource q'))
      (rf_host (aq_resource q')) (rf_port (aq_resource q'))"
    unfolding q(1,3) by (rule cp_after_allow[OF q(4,5) _ q(2)]) (use assms(2) q(1) in \<open>simp add: served_well_def\<close>)
  then show ?thesis unfolding granted_key_def
    by (intro exI[of _ "sr_sub (aq_subject q')"] exI[of _ "\<lparr>rt_type = rf_type (aq_resource q'), rt_host = rf_host (aq_resource q'),
        rt_port = rf_port (aq_resource q'), rt_name = []\<rparr>"]) (simp add: q(3) asked_key_def)
qed

text \<open>What keeps the records of a gateway: the database and the set of lost records only grow, and the rest stays or loses
  sessions.\<close>

lemma node_on_record_grows:
  assumes "node_on_record d U n" "store_step\<^sup>*\<^sup>* d d'" "U \<subseteq> U'" "sm_wf (gh_mgr (nd_gw n'))"
    and "\<And>k. k \<in> allow_keys (nd_gw n') \<Longrightarrow> k \<in> allow_keys (nd_gw n) \<or> granted_key d' U' k"
    and "\<And>a ra. (a, ra) \<in> set (nd_pending n') \<Longrightarrow> (a, ra) \<in> set (nd_pending n)
          \<or> granted_key d' U' (cache_key (sr_sub (ad_subject a)) ''connect'' (ad_resource a))"
    and "\<And>sid g. (sid, g) \<in> set (m_sessions (gh_mgr (nd_gw n'))) \<Longrightarrow>
          session_key g \<in> session_key ` snd ` set (m_sessions (gh_mgr (nd_gw n))) \<or> granted_key d' U' (session_key g)"
  shows "node_on_record d' U' n'"
proof -
  note mono = granted_key_mono[OF assms(2,3)]
  have "granted_key d' U' k" if "k \<in> allow_keys (nd_gw n')" for k
    using assms(5)[OF that] assms(1) mono by (auto simp: node_on_record_def)
  moreover have "granted_key d' U' (cache_key (sr_sub (ad_subject a)) ''connect'' (ad_resource a))"
    if "(a, ra) \<in> set (nd_pending n')" for a ra
    using assms(6)[OF that] assms(1) mono by (auto simp: node_on_record_def)
  moreover have "granted_key d' U' (session_key g)" if "(sid, g) \<in> set (m_sessions (gh_mgr (nd_gw n')))" for sid g
    using assms(7)[OF that] assms(1) mono by (auto simp: node_on_record_def)
  ultimately show ?thesis using assms(4) by (auto simp: node_on_record_def)
qed

lemma in_set_remove1D: "x \<in> set (remove1 y xs) \<Longrightarrow> x \<in> set xs"
  using set_remove1_subset by (rule subsetD)

lemma session_key_mem [intro]: "(sid, g) \<in> set xs \<Longrightarrow> session_key g \<in> session_key ` snd ` set xs"
  by force

lemma with_mgr_simps [simp]:
  "nd_pending (with_mgr f n) = nd_pending n" "allow_keys (nd_gw (with_mgr f n)) = allow_keys (nd_gw n)"
  "gh_mgr (nd_gw (with_mgr f n)) = f (gh_mgr (nd_gw n))"
  by (simp_all add: with_mgr_def allow_keys_def)

lemma node_on_record_wf: "node_on_record d U n \<Longrightarrow> sm_wf (gh_mgr (nd_gw n))"
  by (simp add: node_on_record_def)

lemma node_on_record_mgr:
  assumes "node_on_record d U n" "sm_wf (f (gh_mgr (nd_gw n)))"
    and "\<And>sid g. (sid, g) \<in> set (m_sessions (f (gh_mgr (nd_gw n)))) \<Longrightarrow>
          session_key g \<in> session_key ` snd ` set (m_sessions (gh_mgr (nd_gw n)))"
  shows "node_on_record d U (with_mgr f n)"
  by (rule node_on_record_grows[OF assms(1) rtranclp.rtrancl_refl order_refl]) (use assms(2,3) in auto)

lemma node_on_record_mgr_subset:
  "node_on_record d U n \<Longrightarrow> sm_wf (f (gh_mgr (nd_gw n))) \<Longrightarrow>
     set (m_sessions (f (gh_mgr (nd_gw n)))) \<subseteq> set (m_sessions (gh_mgr (nd_gw n))) \<Longrightarrow> node_on_record d U (with_mgr f n)"
  by (rule node_on_record_mgr) force+

lemma SetEndStats_keys:
  assumes "(sid', g) \<in> set (m_sessions (SetEndStats sid bin bout why m))"
  shows "session_key g \<in> session_key ` snd ` set (m_sessions m)"
proof (cases "map_of (m_sessions m) sid")
  case None
  then show ?thesis using assms by (force simp: SetEndStats_def)
next
  case (Some s)
  let ?s1 = "s\<lparr>gs_bytes_in := bin, gs_bytes_out := bout\<rparr>"
  have "session_key (if why \<noteq> [] then ?s1\<lparr>gs_end_reason := why\<rparr> else ?s1) = session_key s"
    by (simp add: session_key_def)
  moreover have "(sid, s) \<in> set (m_sessions m)" using Some by (rule map_of_SomeD)
  moreover obtain v where "(sid', v) \<in> set (m_sessions m)" "g = (if sid' = sid then
      (if why \<noteq> [] then ?s1\<lparr>gs_end_reason := why\<rparr> else ?s1) else v)"
    using assms Some by (auto simp: SetEndStats_def Let_def)
  ultimately show ?thesis by (cases "sid' = sid") (force simp: image_iff)+
qed

lemma session_key_of: "(sid, g) \<in> set (m_sessions (snd (Register now bs (session_of a ra cx) m))) \<Longrightarrow>
    (sid, g) \<in> set (m_sessions m) \<or> session_key g = cache_key (sr_sub (ad_subject a)) ''connect'' (ad_resource a)"
  by (auto simp: Register_def Let_def al_put_def set_al_delete session_key_def session_of_def cache_key_def split: if_splits)

lemma KillBySerial_subset: "sm_wf m \<Longrightarrow> set (m_sessions (snd (KillBySerial serial m))) \<subseteq> set (m_sessions m)"
  by (cases "serial = []") (auto simp: KillBySerial_sessions sm_wf_def KillBySerial_def[of "[]"])

lemma node_on_record_admission:
  assumes "node_on_record d U n" "G = gateway_env K others E d" "q = question G clk cert ra input (nd_gw n)"
    "served_well K q d" "admit G pick clk cert ra input (nd_gw n) = (x, h')"
  shows "node_on_record (cp_served K (ce_cfg E) q d) (U \<union> unaudited K (ce_cfg E) q d)
    (n\<lparr>nd_gw := h', nd_pending := (case x of Inl _ \<Rightarrow> [] | Inr a \<Rightarrow> [(a, ra)]) @ nd_pending n\<rparr>)"
proof -
  let ?d = "cp_served K (ce_cfg E) q d" and ?U = "U \<union> unaudited K (ce_cfg E) q d"
  let ?n = "n\<lparr>nd_gw := h', nd_pending := (case x of Inl _ \<Rightarrow> [] | Inr a \<Rightarrow> [(a, ra)]) @ nd_pending n\<rparr>"
  note steps = cp_served_steps[of d K "ce_cfg E" q]
  note rec = admit_record[OF assms(5), folded assms(3)]
  have g: "granted_key ?d ?U k" if "allowed_question G q k" for k
    using granted_key_mono[OF rtranclp.rtrancl_refl _ allowed_granted] that assms(2,4) by blast
  have old: "granted_key ?d ?U k" if "k \<in> allow_keys (nd_gw n)" for k
    using that assms(1) granted_key_mono[OF steps, of U ?U] by (auto simp: node_on_record_def)
  show ?thesis
  proof (rule node_on_record_grows[OF assms(1) steps])
    fix a ra' assume m: "(a, ra') \<in> set (nd_pending ?n)"
    show "(a, ra') \<in> set (nd_pending n) \<or> granted_key ?d ?U (cache_key (sr_sub (ad_subject a)) ''connect'' (ad_resource a))"
    proof (cases "(a, ra') \<in> set (nd_pending n)")
      case False
      with m have "x = Inr a" by (auto split: sum.splits)
      then show ?thesis using rec(2) g old by blast
    qed simp
  qed (use rec(1) g old node_on_record_wf[OF assms(1)] admit_mgr[OF assms(5)] in auto)
qed

lemma node_start_on_record: "node_on_record d U (node_start gcfg has_client)"
proof -
  have "m_sessions NewManager = []" "sm_wf NewManager" by (simp_all add: NewManager_def sm_wf_def al_distinct_def)
  then show ?thesis
    by (simp add: node_on_record_def node_start_def allow_keys_def app_handler_eq NewHandler_def)
qed

lemma node_on_record_register:
  assumes "node_on_record d U n" "(a, ra) \<in> set (nd_pending n)"
  shows "node_on_record d U (with_mgr (\<lambda>m. snd (Register now bs (session_of a ra cx) m)) (n\<lparr>nd_pending := remove1 (a, ra) (nd_pending n)\<rparr>))"
    (is "node_on_record d U ?n")
proof (rule node_on_record_grows[OF assms(1) rtranclp.rtrancl_refl order_refl])
  fix sid g assume "(sid, g) \<in> set (m_sessions (gh_mgr (nd_gw ?n)))"
  then have "(sid, g) \<in> set (m_sessions (gh_mgr (nd_gw n)))
    \<or> session_key g = cache_key (sr_sub (ad_subject a)) ''connect'' (ad_resource a)"
    using session_key_of by simp
  moreover have "granted_key d U (cache_key (sr_sub (ad_subject a)) ''connect'' (ad_resource a))"
    using assms by (auto simp: node_on_record_def)
  ultimately show "session_key g \<in> session_key ` snd ` set (m_sessions (gh_mgr (nd_gw n))) \<or> granted_key d U (session_key g)"
    by (force simp: image_iff)
qed (use assms node_on_record_wf Register_wf in \<open>auto dest: in_set_remove1D\<close>)

text \<open>A step of a gateway keeps its own records, and adds to the database and to the lost records only.\<close>

lemma node_step_db: "node_step d n d' n' L \<Longrightarrow> store_step\<^sup>*\<^sup>* d d'"
  by (induction rule: node_step.induct) (auto intro: cp_served_steps)

lemma node_step_on_record: "node_step d n d' n' L \<Longrightarrow> node_on_record d U n \<Longrightarrow> node_on_record d' (U \<union> L) n'"
proof (induction rule: node_step.induct)
  case (nd_refuse G K others E d q clk cert ra input n pick reason h')
  from node_on_record_admission[OF nd_refuse(5,1,2,3,4)] show ?case by simp
next
  case (nd_admit G K others E d q clk cert ra input n pick a h')
  from node_on_record_admission[OF nd_admit(5,1,2,3,4)] show ?case by simp
next
  case (nd_register a ra n d now bs cx)
  from node_on_record_register[OF nd_register(2,1)] show ?case by simp
next
  case (nd_unregister d n sid)
  then show ?case
    by (auto simp: set_al_delete intro!: node_on_record_mgr_subset intro: sm_wf_delete[of "gh_mgr (nd_gw n)"] node_on_record_wf)
next
  case (nd_kill d n sid)
  then show ?case
    by (auto simp: set_al_delete intro!: node_on_record_mgr_subset intro: sm_wf_delete[of "gh_mgr (nd_gw n)"] node_on_record_wf)
next
  case (nd_stats d n sid bin bout why)
  then show ?case by (auto intro!: node_on_record_mgr intro: SetEndStats_wf node_on_record_wf dest: SetEndStats_keys)
next
  case (nd_reap d n now)
  then have wf: "sm_wf (gh_mgr (nd_gw n))" by (rule node_on_record_wf)
  then have "al_distinct (m_sessions (gh_mgr (nd_gw n)))" by (simp add: sm_wf_def)
  with nd_reap wf show ?case
    by (auto simp: reapExpired_sessions intro!: node_on_record_mgr_subset intro: reapExpired_wf)
next
  case (nd_replace n st L send serials d now)
  then have "node_on_record d U (n\<lparr>nd_gw := (nd_gw n)\<lparr>gh_crl := Some ((Replace serials st)\<lparr>c_last_fetch := now\<rparr>)\<rparr>\<rparr>)"
    by (simp add: node_on_record_def allow_keys_def)
  then show ?case by simp
next
  case (nd_revoke d n serial)
  then have "sm_wf (gh_mgr (nd_gw n))" by (rule node_on_record_wf)
  with nd_revoke show ?case by (auto intro!: node_on_record_mgr_subset KillBySerial_wf dest: KillBySerial_subset[THEN subsetD])
qed (simp add: node_start_on_record)

text \<open>What is on record stays so while others act.\<close>

lemma node_on_record_mono:
  assumes "node_on_record d U n" "store_step\<^sup>*\<^sup>* d d'" "U \<subseteq> U'"
  shows "node_on_record d' U' n"
  by (rule node_on_record_grows[OF assms]) (use assms(1) in \<open>auto simp: node_on_record_def\<close>)

lemma on_record_step: "sys_step s s' \<Longrightarrow> on_record s \<Longrightarrow> on_record s'"
proof (induction rule: sys_step.induct)
  case (sys_api s d')
  then show ?case using node_on_record_mono[OF _ api_step_steps[OF sys_api(1)] order_refl] by (simp add: on_record_def)
next
  case (sys_node s i d' n' L)
  then show ?case
    using node_step_on_record[OF sys_node(1)]
      node_on_record_mono[OF _ node_step_db[OF sys_node(1)], of "sy_unaudited s" _ "sy_unaudited s \<union> L"]
    by (simp add: on_record_def)
qed

interpretation whole: started_system sys_step on_record "system_start gcfg" for gcfg
  by unfold_locales
    (rule on_record_step, assumption+, simp add: on_record_def system_start_def node_start_on_record)

subsection \<open>The keys of the cache\<close>

abbreviation bar :: char where "bar \<equiv> CHR ''|''"

lemma nat_digits_inj: "nat_digits i = nat_digits j \<Longrightarrow> i = j"
  by (metis nat_digits_val of_nat_eq_iff)

lemma nat_digits_no_minus: "nat_digits i \<noteq> CHR ''-'' # xs"
  using hd_nat_digits[of i] by blast

lemma Itoa_inj:
  assumes "Itoa m = Itoa n"
  shows "m = n"
proof (cases "m < 0")
  case True
  then have "n < 0" using assms nat_digits_no_minus unfolding Itoa_def by metis
  with True assms have "nat_digits (nat (- m)) = nat_digits (nat (- n))" by (simp only: Itoa_def if_True list.inject)
  with True \<open>n < 0\<close> show ?thesis by (auto dest!: nat_digits_inj)
next
  case False
  then have "\<not> n < 0" using assms nat_digits_no_minus unfolding Itoa_def by metis
  with False assms have "nat_digits (nat m) = nat_digits (nat n)" by (simp only: Itoa_def if_False)
  with False \<open>\<not> n < 0\<close> show ?thesis by (auto dest!: nat_digits_inj)
qed

lemma split_at_char:
  assumes "x @ c # y = x' @ c # y'" "c \<notin> set x" "c \<notin> set x'"
  shows "x = x' \<and> y = y'"
  using assms
proof (induction x arbitrary: x')
  case Nil
  then show ?case by (cases x') auto
next
  case (Cons a x)
  then show ?case by (cases x') auto
qed

lemma cache_key_bars:
  "count_list (cache_key sub ''connect'' r) bar =
     4 + count_list sub bar + count_list (rt_type r) bar + count_list (rt_host r) bar"
proof -
  have "count_list (Itoa (rt_port r)) bar = 0" "count_list ''connect'' bar = 0"
    by (rule count_notin, rule Itoa_no_sep(2)) simp
  then show ?thesis by (simp add: cache_key_def)
qed

text \<open>The key of a subject and an address without bars is the key of nothing else.\<close>

lemma cache_key_inj:
  assumes "cache_key sub ''connect'' r = cache_key sub' ''connect'' r'"
    and "bar \<notin> set sub \<union> set (rt_type r) \<union> set (rt_host r)"
  shows "sub = sub' \<and> rt_type r = rt_type r' \<and> rt_host r = rt_host r' \<and> rt_port r = rt_port r'"
proof -
  have "count_list sub bar = 0" "count_list (rt_type r) bar = 0" "count_list (rt_host r) bar = 0"
    using assms(2) by auto
  then have "count_list sub' bar = 0" "count_list (rt_type r') bar = 0" "count_list (rt_host r') bar = 0"
    using cache_key_bars[of sub r] cache_key_bars[of sub' r'] assms(1) by auto
  then have n: "bar \<notin> set sub'" "bar \<notin> set (rt_type r')" "bar \<notin> set (rt_host r')"
    by (simp_all add: count_list_0_iff)
  have e: "sub @ bar # (''connect'' @ bar # (rt_type r @ bar # (rt_host r @ bar # Itoa (rt_port r))))
      = sub' @ bar # (''connect'' @ bar # (rt_type r' @ bar # (rt_host r' @ bar # Itoa (rt_port r'))))"
    using assms(1) by (simp add: cache_key_def)
  have c: "bar \<notin> set ''connect''" by simp
  note s1 = split_at_char[OF e _ n(1)]
  have p: "sub = sub'" "''connect'' @ bar # (rt_type r @ bar # (rt_host r @ bar # Itoa (rt_port r)))
      = ''connect'' @ bar # (rt_type r' @ bar # (rt_host r' @ bar # Itoa (rt_port r')))"
    using s1 assms(2) by blast+
  have q: "rt_type r @ bar # (rt_host r @ bar # Itoa (rt_port r)) = rt_type r' @ bar # (rt_host r' @ bar # Itoa (rt_port r'))"
    using split_at_char[OF p(2) c c] by blast
  have "rt_type r = rt_type r'" "rt_host r @ bar # Itoa (rt_port r) = rt_host r' @ bar # Itoa (rt_port r')"
    using split_at_char[OF q _ n(2)] assms(2) by blast+
  moreover from this(2) have "rt_host r = rt_host r'" "Itoa (rt_port r) = Itoa (rt_port r')"
    using split_at_char[OF _ _ n(3)] assms(2) by blast+
  ultimately show ?thesis using p(1) Itoa_inj by blast
qed

lemma granted_key_granted:
  assumes "granted_key d U (cache_key sub ''connect'' r)" "bar \<notin> set sub \<union> set (rt_type r) \<union> set (rt_host r)"
  shows "granted d (cache_key sub ''connect'' r \<in> U) sub (rt_type r) (rt_host r) (rt_port r)"
  using assms cache_key_inj[OF _ assms(2)] unfolding granted_key_def by metis

subsection \<open>Properties\<close>

text \<open>C1: every session is on record, over the whole history of the system.  Whatever requests the control plane serves and
  whatever connections, refreshes, removals and restarts its gateways see, in any order: for a session of any gateway (whose
  subject, type and host have no bar) an allow rule is stored that applied at some instant to this subject and address, and the audit
  log of the control plane has the allow that it gave, also when the decision came from the cache of the gateway.  The
  event is missing only if a write of it to the audit log failed for this very question, since the control plane answers nevertheless.\<close>

theorem sessions_on_record:
  assumes "sys_step\<^sup>*\<^sup>* (system_start gcfg) s" "GetSession sid (gh_mgr (nd_gw (sy_nodes s i))) = Some g"
    and "bar \<notin> set (gs_sub g) \<union> set (gs_type g) \<union> set (gs_host g)"
  shows "\<exists>rule t subj cx. s_sub subj = gs_sub g \<and> rule \<in> set (db_rules (sy_db s)) \<and> r_effect rule = ''allow''
     \<and> rule_applies t subj ''connect'' (denoted (gs_type g) (gs_host g) (gs_port g)) cx rule
     \<and> (session_key g \<in> sy_unaudited s
        \<or> (\<exists>ev\<in>set (db_audit (sy_db s)). ae_decision ev = ''allow'' \<and> ae_action ev = ''connect''
            \<and> ae_subject ev = formatSubjectForAudit subj \<and> ae_resource ev = Canonical (denoted (gs_type g) (gs_host g) (gs_port g))
            \<and> ae_policy_version ev = r_version_id rule))"
proof -
  have "(sid, g) \<in> set (m_sessions (gh_mgr (nd_gw (sy_nodes s i))))" using assms(2) by (auto simp: GetSession_def dest: map_of_SomeD)
  then have "granted_key (sy_db s) (sy_unaudited s) (session_key g)"
    using whole.reached_inv[OF assms(1)] by (fastforce simp: on_record_def node_on_record_def)
  from granted_key_granted[OF this[unfolded session_key_def]] assms(3)
  have "granted (sy_db s) (session_key g \<in> sy_unaudited s) (gs_sub g) (gs_type g) (gs_host g) (gs_port g)"
    by (simp add: session_key_def)
  then show ?thesis unfolding granted_def .
qed

text \<open>A run: a gateway registers, a policy is published, a connection of alice is admitted and registered.\<close>

definition ex_admin_rq :: http_request where
  "ex_admin_rq = \<lparr>rq_header = (\<lambda>_. []), rq_remote_addr = ''10.0.0.1:99'', rq_peer_cn = None\<rparr>"

definition ex_sys_db :: db where
  "ex_sys_db = snd (admin_ActivateVersion (\<lambda>_. no_fault) (\<lambda>_. ex_now) ''1'' (Some ex_alice) ex_admin_rq
     (snd (admin_CreateVersion (\<lambda>_. no_fault) (\<lambda>_. ex_now) (Some [ex_lan_rule]) (Some ex_alice) ex_admin_rq
       (snd (pep_Register no_fault ex_now (Some \<lparr>rb_gateway_id = [], rb_name = [], rb_version = [], rb_fingerprint = []\<rparr>)
               ''gw-1'' empty_db)))))"

definition ex_raw_target :: resource_target where
  "ex_raw_target = \<lparr>rt_type = ''ssh'', rt_host = ''lan-app'', rt_port = 22, rt_name = []\<rparr>"

definition ex_sys_env :: connect_env where
  "ex_sys_env = ex_env\<lparr>ce_cfg := ex_gw_cfg, ce_unmarshal := (\<lambda>_. Inr \<lparr>cr_version = 1, cr_action = ''connect'',
     cr_resource = ex_raw_target, cr_timestamp = []\<rparr>)\<rparr>"

definition ex_sys_gateway :: connect_env where
  "ex_sys_gateway = gateway_env ex_cp (\<lambda>_. NoResponse (Errorf [])) ex_sys_env ex_sys_db"

definition ex_sys_handler :: gw_handler where
  "ex_sys_handler = app_handler ex_gw_cfg True"

definition ex_sys_admission :: admission where
  "ex_sys_admission = \<lparr>ad_subject = ExtractSubjectFromCert ex_alice_cert, ad_serial = Itoa 171, ad_resource = ex_raw_target,
     ad_target = (''10.0.0.5'', 22), ad_decision = gw_decision ex_dec\<rparr>"

lemma ex_sys_decides: "cp_decides ex_cp ex_q ex_sys_db = Inr ex_dec" "admitted ex_cp ex_gw_cfg ex_q ex_sys_db"
  by code_simp+

lemma ex_sys_texts: "texts_ok ex_cp ex_q ex_sys_db"
  using ex_texts by (simp add: texts_ok_def ex_decides ex_sys_decides)

lemma ex_sys_question_text:
  "authz_req ex_sys_gateway (ExtractSubjectFromCert ex_alice_cert) ''connect'' ex_raw_target ''10.0.0.5:51112'' = ex_q"
proof -
  have "authz_req ex_sys_env (ExtractSubjectFromCert ex_alice_cert) ''connect'' ex_raw_target ''10.0.0.5:51112'' = ex_q"
    by code_simp
  then show ?thesis by (simp add: authz_req_def ex_sys_gateway_def gateway_env_def)
qed

lemma ex_sys_target:
  "resolve_target ex_sys_gateway t ex_raw_target ex_sys_handler = (Inr (''10.0.0.5'', 22, ex_raw_target), ex_sys_handler)"
proof -
  have "gc_routes ex_gw_cfg \<noteq> []" "ResolveRoute ex_gw_cfg ''ssh'' (canonical_of ex_raw_target) = Some ''10.0.0.5:22''"
    "parse_backend deny_route_backend deny_port ''10.0.0.5:22'' = Inr (''10.0.0.5'', 22)"
    by code_simp+
  then show ?thesis
    by (simp add: resolve_target_def ex_sys_handler_def app_handler_eq) (simp add: ex_raw_target_def)
qed

lemma ex_sys_read:
  "fst (ReadMessage (ce_unmarshal ex_sys_gateway) ex_input) = Inr \<lparr>cr_version = 1, cr_action = ''connect'',
     cr_resource = ex_raw_target, cr_timestamp = []\<rparr>"
  unfolding ex_input_def
  by (subst ReadMessage_frame) (simp_all add: MaxMessageSize_def ex_sys_gateway_def gateway_env_def ex_sys_env_def)

lemma ex_sys_fresh: "asks_cp t subject r ex_sys_handler" "\<not> (case gh_crl ex_sys_handler of None \<Rightarrow> False | Some st \<Rightarrow> IsRevoked st x)"
  by (simp_all add: asks_cp_def ex_sys_handler_def app_handler_eq cache_Get_def new_cache_def Let_def IsRevoked_def
      NewStoreWithConfig_def)

lemma ex_sys_question:
  "question ex_sys_gateway (\<lambda>_. 0) ex_alice_cert ''10.0.0.5:51112'' ex_input ex_sys_handler = Some ex_q"
  using ex_sys_fresh ex_sys_question_text
  by (simp add: question_def ex_sys_read ex_sys_target Let_def) (simp add: ex_raw_target_def)

lemma ex_sys_admitted:
  "\<exists>h'. admit ex_sys_gateway 0 (\<lambda>_. 0) ex_alice_cert ''10.0.0.5:51112'' ex_input ex_sys_handler = (Inr ex_sys_admission, h')"
proof -
  have a: "client_Authorize (ce_parse ex_sys_gateway) (ce_encode ex_sys_gateway) (ce_client ex_sys_gateway) (ce_cfg ex_sys_gateway) ex_q
      = Inr (gw_decision ex_dec)"
  proof -
    have "ce_cfg ex_sys_env = ex_gw_cfg" by (simp add: ex_sys_env_def)
    then have "asked ex_sys_gateway ex_q = gateway_asks ex_cp ex_gw_cfg ex_q ex_sys_db"
      unfolding ex_sys_gateway_def asked_gateway_env by simp
    then show ?thesis using asks_cases[OF ex_sys_texts, of ex_gw_cfg] ex_sys_decides by (simp add: asked_def)
  qed
  have d: "\<exists>h'. resolveDecision ex_sys_gateway 0 0 (ExtractSubjectFromCert ex_alice_cert) ''connect'' ex_raw_target
      ''10.0.0.5:51112'' ex_sys_handler = (Inr (gw_decision ex_dec), h')"
    using a ex_sys_fresh(1)[of 0 "ExtractSubjectFromCert ex_alice_cert" ex_raw_target]
    by (auto simp: resolveDecision_def asks_cp_def ex_sys_question_text Let_def split: option.splits prod.splits)
  have "az_decision (gw_decision ex_dec) = ''allow''" "cc_serial ex_alice_cert = 171"
    by (simp_all add: gw_decision_def ex_dec_def ex_alice_cert_def)
  with d ex_sys_fresh(2) show ?thesis
    by (auto simp: admit_defs ex_sys_read ex_sys_target Let_def ex_sys_admission_def) (auto simp: ex_raw_target_def)
qed

text \<open>The states of the run: after the requests, after the admission at the first gateway, after the registration.\<close>

definition ex_run0 :: system where "ex_run0 = system_start (\<lambda>_. ex_gw_cfg)"
definition ex_run1 :: system where "ex_run1 = ex_run0\<lparr>sy_db := ex_sys_db\<rparr>"
definition ex_run2 :: "gw_handler \<Rightarrow> system" where
  "ex_run2 h = ex_run1\<lparr>sy_db := cp_served ex_cp (ce_cfg ex_sys_env) (Some ex_q) ex_sys_db,
     sy_nodes := (sy_nodes ex_run1)(0 := \<lparr>nd_gw = h, nd_pending = [(ex_sys_admission, ''10.0.0.5:51112'')]\<rparr>), sy_unaudited := {}\<rparr>"
definition ex_run3 :: "gw_handler \<Rightarrow> system" where
  "ex_run3 h = (ex_run2 h)\<lparr>sy_nodes := (sy_nodes (ex_run2 h))(0 := with_mgr (\<lambda>m. snd (Register 0 (replicate 16 0)
     (session_of ex_sys_admission ''10.0.0.5:51112'' 0) m)) \<lparr>nd_gw = h, nd_pending = []\<rparr>)\<rparr>"

lemma sys_api_steps: "api_step\<^sup>*\<^sup>* (sy_db s) d \<Longrightarrow> sys_step\<^sup>*\<^sup>* s (s\<lparr>sy_db := d\<rparr>)"
proof (induction rule: rtranclp_induct)
  case (step d1 d2)
  then show ?case using sys_api[of "s\<lparr>sy_db := d1\<rparr>" d2] by (auto intro: rtranclp.rtrancl_into_rtrancl)
qed simp

lemma ex_run_api: "sys_step\<^sup>*\<^sup>* ex_run0 ex_run1"
proof -
  have "api_step\<^sup>*\<^sup>* empty_db ex_sys_db"
    unfolding ex_sys_db_def
    by (rule rtranclp.rtrancl_into_rtrancl[of api_step], rule rtranclp.rtrancl_into_rtrancl[of api_step],
        rule rtranclp.rtrancl_into_rtrancl[of api_step], rule rtranclp.rtrancl_refl, rule api_register, rule api_policy_create,
        rule api_policy_activate)
  then show ?thesis unfolding ex_run1_def by (intro sys_api_steps) (simp add: ex_run0_def system_start_def)
qed

lemma ex_run_admit:
  assumes "admit ex_sys_gateway 0 (\<lambda>_. 0) ex_alice_cert ''10.0.0.5:51112'' ex_input ex_sys_handler = (Inr ex_sys_admission, h)"
  shows "sys_step ex_run1 (ex_run2 h)"
proof -
  have gw: "sy_nodes ex_run1 0 = \<lparr>nd_gw = ex_sys_handler, nd_pending = []\<rparr>" "sy_db ex_run1 = ex_sys_db" "sy_unaudited ex_run1 = {}"
    by (simp_all add: ex_run1_def ex_run0_def system_start_def node_start_def ex_sys_handler_def)
  have "unaudited ex_cp (ce_cfg ex_sys_env) (Some ex_q) ex_sys_db = {}" by (simp add: unaudited_def ex_cp_def no_fault_def)
  moreover have "node_step ex_sys_db (sy_nodes ex_run1 0) (cp_served ex_cp (ce_cfg ex_sys_env) (Some ex_q) ex_sys_db)
      ((sy_nodes ex_run1 0)\<lparr>nd_gw := h, nd_pending := (ex_sys_admission, ''10.0.0.5:51112'') # nd_pending (sy_nodes ex_run1 0)\<rparr>)
      (unaudited ex_cp (ce_cfg ex_sys_env) (Some ex_q) ex_sys_db)"
  proof (rule nd_admit)
    show "ex_sys_gateway = gateway_env ex_cp (\<lambda>_. NoResponse (Errorf [])) ex_sys_env ex_sys_db" by (simp add: ex_sys_gateway_def)
    show "Some ex_q = question ex_sys_gateway (\<lambda>_. 0) ex_alice_cert ''10.0.0.5:51112'' ex_input (nd_gw (sy_nodes ex_run1 0))"
      by (simp add: gw ex_sys_question)
    show "served_well ex_cp (Some ex_q) ex_sys_db" using ex_sys_texts by (simp add: served_well_def)
  qed (use assms gw in simp)
  ultimately show ?thesis
    using sys_node[of ex_run1 0] unfolding gw ex_run2_def by (simp add: gw)
qed

theorem sessions_on_record_witness:
  "\<exists>s sid g ev rule. sys_step\<^sup>*\<^sup>* (system_start (\<lambda>_. ex_gw_cfg)) s \<and> GetSession sid (gh_mgr (nd_gw (sy_nodes s 0))) = Some g
     \<and> gs_sub g = ''alice'' \<and> ev \<in> set (db_audit (sy_db s)) \<and> ae_decision ev = ''allow'' \<and> ae_resource ev = ''ssh:lan-app:22''
     \<and> rule \<in> set (db_rules (sy_db s)) \<and> r_effect rule = ''allow''"
proof -
  obtain h where h: "admit ex_sys_gateway 0 (\<lambda>_. 0) ex_alice_cert ''10.0.0.5:51112'' ex_input ex_sys_handler = (Inr ex_sys_admission, h)"
    using ex_sys_admitted by blast
  have n: "sy_nodes (ex_run2 h) 0 = \<lparr>nd_gw = h, nd_pending = [(ex_sys_admission, ''10.0.0.5:51112'')]\<rparr>" by (simp add: ex_run2_def)
  have "sys_step (ex_run2 h) (ex_run3 h)"
    using sys_node[of "ex_run2 h" 0, OF nd_register[of ex_sys_admission "''10.0.0.5:51112''" _ _ 0 "replicate 16 0" 0]]
    by (simp add: n ex_run3_def)
  with ex_run_api ex_run_admit[OF h] have r: "sys_step\<^sup>*\<^sup>* (system_start (\<lambda>_. ex_gw_cfg)) (ex_run3 h)"
    unfolding ex_run0_def by (meson rtranclp.rtrancl_into_rtrancl)
  have mgr: "gh_mgr h = NewManager" using admit_mgr[OF h] by (simp add: ex_sys_handler_def app_handler_eq NewHandler_def)
  obtain g where g: "GetSession (generateUUID (replicate 16 0)) (gh_mgr (nd_gw (sy_nodes (ex_run3 h) 0))) = Some g"
    "gs_sub g = ''alice''" "gs_type g = ''ssh''" "gs_host g = ''lan-app''" "gs_port g = 22"
    by (simp add: mgr ex_run3_def GetSession_def Register_def NewManager_def Let_def session_of_def ex_sys_admission_def ex_raw_target_def
        ExtractSubjectFromCert_def ex_alice_cert_def)
  have u: "sy_unaudited (ex_run3 h) = {}" by (simp add: ex_run3_def ex_run2_def ex_run1_def ex_run0_def system_start_def)
  have "Canonical (denoted ''ssh'' ''lan-app'' 22) = ''ssh:lan-app:22''" by code_simp
  with sessions_on_record[OF r g(1)] g u r show ?thesis by (fastforce simp: u)
qed

end
