(* ===== verification/Whole_Path.thy ===== *)
theory Whole_Path
  imports Whole_Run
begin

text \<open>
  The whole path of a connection, from the command of the user to the tables of the control plane: what the client sends
  and reads, what a gateway of the running system makes of it, and what the control plane has on record for it.
\<close>

subsection \<open>The gateway's answer on the wire\<close>

text \<open>The message that \<open>HandleConnection\<close> sends before it relays or closes.\<close>

definition gateway_response ::
    "connect_env \<Rightarrow> conn_world \<Rightarrow> client_cert \<Rightarrow> string \<Rightarrow> string \<Rightarrow> gw_handler \<Rightarrow> connect_response" where
  "gateway_response G W cert ra input h =
     (case admit G (cw_pick W) (cw_clock W) cert ra input h of
        (Inl (reason, decisionID), _) \<Rightarrow> denied_response reason decisionID
      | (Inr a, h') \<Rightarrow>
          (case fst (Register (cw_clock W 2) (cw_random W) (session_of a ra (cw_ctx W)) (gh_mgr h')) of
             Inl _ \<Rightarrow> denied_response deny_limit (az_id (ad_decision a))
           | Inr _ \<Rightarrow> allow_response a))"

definition gateway_reply ::
    "connect_env \<Rightarrow> conn_world \<Rightarrow> client_cert \<Rightarrow> string \<Rightarrow> string \<Rightarrow> gw_handler \<Rightarrow> string" where
  "gateway_reply G W cert ra input h = snd (WriteMessage (ce_marshal G) None None (gateway_response G W cert ra input h))"

lemma gateway_response_denied:
  "HandleConnection G W cert ra input h = (ConnDenied reason decisionID, h') \<Longrightarrow>
     gateway_response G W cert ra input h = denied_response reason decisionID"
  by (auto simp: HandleConnection_def gateway_response_def run_session_def Let_def
      split: sum.splits prod.splits option.splits if_splits)

lemma gateway_response_relayed:
  "relayed_target (fst (HandleConnection G W cert ra input h)) \<noteq> None \<Longrightarrow>
     cp_decision (gateway_response G W cert ra input h) = ''allow''"
  by (auto simp: HandleConnection_def gateway_response_def run_session_def relayed_target_def allow_response_def Let_def
      split: sum.splits prod.splits option.splits if_splits)

lemma gateway_response_allow:
  assumes "cp_decision (gateway_response G W cert ra input h) = ''allow''"
  obtains a h' where "admit G (cw_pick W) (cw_clock W) cert ra input h = (Inr a, h')"
  using assms by (auto simp: gateway_response_def denied_response_def split: sum.splits prod.splits)

subsection \<open>What the client accepts and the gateway admits\<close>

lemma tunnel_accepts:
  assumes "tunnel_Connect T dial now certPEM keyPEM name = (Inr resp, conn)"
  obtains conf peer w1 w2 sent rest where
    "dial (cf_gateway (te_cfg T)) conf = Inr (peer, w1, w2)"
    "cl_WriteMessage (\<lambda>r. Inr (te_render T (request_json r))) w1 w2 (connect_request_of T now name) = (None, sent)"
    "cl_ReadMessage (decode_response T) (peer sent) = (Inr resp, rest)" "cz_decision resp = ''allow''"
  using assms by (auto simp: tunnel_Connect_def split: sum.splits prod.splits option.splits if_splits)

text \<open>The resource of an admission is the one that was asked for: by its name, or the very address.\<close>

definition answers_to :: "resource_target \<Rightarrow> resource_target \<Rightarrow> bool" where
  "answers_to want r \<longleftrightarrow> rt_name r = rt_name want \<and> (rt_name want = [] \<longrightarrow> r = want)"

lemma resolve_target_answers:
  "resolve_target E now r h = (Inr (host, port, r'), h') \<Longrightarrow> answers_to r r'"
  by (auto simp: resolve_target_def answers_to_def Let_def split: option.splits prod.splits sum.splits if_splits)

lemma admit_answers:
  assumes "admit G pick clk cert ra input h = (Inr a, h')" "fst (ReadMessage (ce_unmarshal G) input) = Inr req"
  shows "answers_to (cr_resource req) (ad_resource a) \<and> ad_subject a = ExtractSubjectFromCert cert"
  using assms(1)
proof (rule admit_Inr)
  fix req' r h1
  assume r: "fst (ReadMessage (ce_unmarshal G) input) = Inr req'"
    "resolve_target G (clk 0) (cr_resource req') h = (Inr (fst (ad_target a), snd (ad_target a), r), h1)"
    "a = \<lparr>ad_subject = ExtractSubjectFromCert cert, ad_serial = Itoa (cc_serial cert), ad_resource = r,
          ad_target = ad_target a, ad_decision = ad_decision a\<rparr>"
  from r(1) assms(2) have "req' = req" by simp
  with resolve_target_answers[OF r(2)] arg_cong[OF r(3), of ad_resource] arg_cong[OF r(3), of ad_subject]
  show ?thesis by simp
qed

text \<open>An admission at a gateway of the system is on record.\<close>

lemma admission_on_record:
  assumes "on_record s" "G = gateway_env K others E (sy_db s)" "q = question G clk cert ra input (nd_gw (sy_nodes s i))"
    and "served_well K q (sy_db s)" "admit G pick clk cert ra input (nd_gw (sy_nodes s i)) = (Inr a, h')"
  shows "granted_key (cp_served K (ce_cfg E) q (sy_db s)) (sy_unaudited s \<union> unaudited K (ce_cfg E) q (sy_db s))
    (cache_key (sr_sub (ad_subject a)) ''connect'' (ad_resource a))"
  using node_on_record_admission[OF _ assms(2-5), where U = "sy_unaudited s"] assms(1)
  by (simp add: on_record_def node_on_record_def)

subsection \<open>Properties\<close>

text \<open>C2: a tunnel that the client gets is on record at the control plane.  When the client's command ends with a tunnel,
  answered by a gateway of the running system, then that gateway admitted the holder of the certificate to the resource that
  the user asked for (by its name, or the very address), and (unless the subject or the address has a bar) an allow rule for this subject and address is stored and the
  audit log has the allow, or a write of it failed; whether the decision came from the control plane or from the cache.\<close>

theorem tunnel_on_record:
  assumes "sys_step\<^sup>*\<^sup>* (system_start gcfg) s"
    and "G = gateway_env K others E (sy_db s)" "ce_unmarshal E = decode_request parse"
    and "ce_marshal E = (\<lambda>r. Inr (render (response_json r)))"
    and "sent = snd (cl_WriteMessage (\<lambda>r. Inr (te_render T (request_json r))) None None (connect_request_of T now name))"
    and "q = question G (cw_clock W) cert ra sent (nd_gw (sy_nodes s i))" "served_well K q (sy_db s)"
    and "json_ok (te_render T) parse (request_json (connect_request_of T now name))"
    and "json_ok render (te_parse T) (response_json (gateway_response G W cert ra sent (nd_gw (sy_nodes s i))))"
    and "in_int64 (cp_ttl (gateway_response G W cert ra sent (nd_gw (sy_nodes s i))))"
    and "\<And>conf. dial (cf_gateway (te_cfg T)) conf = Inr (\<lambda>input. gateway_reply G W cert ra input (nd_gw (sy_nodes s i)), None, None)"
    and "tunnel_Connect T dial now certPEM keyPEM name = (Inr resp, conn)"
  shows "\<exists>a h' r. admit G (cw_pick W) (cw_clock W) cert ra sent (nd_gw (sy_nodes s i)) = (Inr a, h')
     \<and> r = ad_resource a \<and> answers_to (cr_resource (request_of (connect_request_of T now name))) r
     \<and> (bar \<notin> set (sr_sub (ExtractSubjectFromCert cert)) \<union> set (rt_type r) \<union> set (rt_host r) \<longrightarrow>
          granted (cp_served K (ce_cfg E) q (sy_db s))
            (cache_key (sr_sub (ExtractSubjectFromCert cert)) ''connect'' r \<in> sy_unaudited s \<union> unaudited K (ce_cfg E) q (sy_db s))
            (sr_sub (ExtractSubjectFromCert cert)) (rt_type r) (rt_host r) (rt_port r))"
proof -
  let ?h = "nd_gw (sy_nodes s i)" and ?req = "connect_request_of T now name"
  have env: "ce_unmarshal G = decode_request parse" "ce_marshal G = (\<lambda>r. Inr (render (response_json r)))"
    using assms(3,4) by (simp_all add: assms(2) gateway_env_def)
  from assms(12) obtain conf peer w1 w2 sent' rest where
    p: "dial (cf_gateway (te_cfg T)) conf = Inr (peer, w1, w2)"
    "cl_WriteMessage (\<lambda>r. Inr (te_render T (request_json r))) w1 w2 ?req = (None, sent')"
    "cl_ReadMessage (decode_response T) (peer sent') = (Inr resp, rest)" "cz_decision resp = ''allow''"
    by (rule tunnel_accepts)
  with assms(5) assms(11)[of conf] have s: "sent' = sent" "peer sent = gateway_reply G W cert ra sent ?h" by auto
  have "resp = response_of (gateway_response G W cert ra sent ?h)"
    using answer_read[OF refl assms(9,10), of "[]"] p(3) by (simp add: s gateway_reply_def env)
  with p(4) obtain a h' where a: "admit G (cw_pick W) (cw_clock W) cert ra sent ?h = (Inr a, h')"
    by (auto simp: response_of_def intro: gateway_response_allow)
  have "fst (ReadMessage (ce_unmarshal G) sent) = Inr (request_of ?req)"
    using request_read[OF assms(8), of "[]"] by (simp add: assms(5) env)
  from admit_answers[OF a this] have n: "answers_to (cr_resource (request_of ?req)) (ad_resource a)"
    "ad_subject a = ExtractSubjectFromCert cert" by simp_all
  from granted_key_granted[OF admission_on_record[OF whole.reached_inv[OF assms(1)] assms(2,6,7) a], unfolded n(2)]
  have "bar \<notin> set (sr_sub (ExtractSubjectFromCert cert)) \<union> set (rt_type (ad_resource a)) \<union> set (rt_host (ad_resource a)) \<longrightarrow>
      granted (cp_served K (ce_cfg E) q (sy_db s))
        (cache_key (sr_sub (ExtractSubjectFromCert cert)) ''connect'' (ad_resource a) \<in> sy_unaudited s \<union> unaudited K (ce_cfg E) q (sy_db s))
        (sr_sub (ExtractSubjectFromCert cert)) (rt_type (ad_resource a)) (rt_host (ad_resource a)) (rt_port (ad_resource a))"
    by auto
  with a n(1) show ?thesis by blast
qed

text \<open>Alice's client at the first gateway of the run above.\<close>

definition ex_path_env :: tunnel_env where
  "ex_path_env = ex_tunnel_env\<lparr>te_render := (\<lambda>_. ''x''),
     te_url_parse := (\<lambda>_. Some \<lparr>pu_scheme = ''ssh'', pu_hostname = ''lan-app'', pu_port = ''22''\<rparr>),
     te_parse := (\<lambda>_. Inr (response_json \<lparr>cp_decision = ''allow'', cp_reason = [],
       cp_decision_id = az_id (gw_decision ex_dec), cp_ttl = az_ttl (gw_decision ex_dec)\<rparr>))\<rparr>"

definition ex_path_world :: conn_world where
  "ex_path_world = ex_world\<lparr>cw_clock := (\<lambda>_. 0)\<rparr>"

lemma ex_path_request:
  "request_of (connect_request_of ex_path_env 0 ''ssh://lan-app'') =
     \<lparr>cr_version = 1, cr_action = ''connect'', cr_resource = ex_raw_target, cr_timestamp = []\<rparr>"
  by code_simp

lemma ex_path_codec:
  "ce_unmarshal ex_sys_env = decode_request (\<lambda>_. Inr (request_json (connect_request_of ex_path_env 0 ''ssh://lan-app'')))"
  "ce_marshal ex_sys_env = (\<lambda>r. Inr ''y'')"
proof
  fix buf
  have "in_int64 (cq_version (connect_request_of ex_path_env 0 ''ssh://lan-app''))"
    by (simp add: connect_request_of_def CurrentProtocolVersion_def in_int64_def)
  moreover have "in_int64 (ct_port (cq_resource (connect_request_of ex_path_env 0 ''ssh://lan-app'')))"
    by (simp add: connect_request_of_def ParseResource_int64)
  ultimately have "decode_request (\<lambda>_. Inr (request_json (connect_request_of ex_path_env 0 ''ssh://lan-app''))) buf
      = Inr (request_of (connect_request_of ex_path_env 0 ''ssh://lan-app''))"
    by (rule decode_request_json) simp
  then show "ce_unmarshal ex_sys_env buf
      = decode_request (\<lambda>_. Inr (request_json (connect_request_of ex_path_env 0 ''ssh://lan-app''))) buf"
    by (simp add: ex_path_request ex_sys_env_def)
qed (simp add: ex_sys_env_def ex_env_def)

lemma ex_path_response:
  "gateway_response ex_sys_gateway ex_path_world ex_alice_cert ''10.0.0.5:51112'' ex_input ex_sys_handler =
     \<lparr>cp_decision = ''allow'', cp_reason = [], cp_decision_id = az_id (gw_decision ex_dec), cp_ttl = az_ttl (gw_decision ex_dec)\<rparr>"
proof -
  obtain h where h: "admit ex_sys_gateway 0 (\<lambda>_. 0) ex_alice_cert ''10.0.0.5:51112'' ex_input ex_sys_handler = (Inr ex_sys_admission, h)"
    using ex_sys_admitted by blast
  then have "gh_mgr h = NewManager"
    using admit_mgr[OF h] by (simp add: ex_sys_handler_def app_handler_eq NewHandler_def)
  with h show ?thesis
    by (simp add: gateway_response_def ex_path_world_def ex_world_def ex_sys_admission_def allow_response_def Register_def NewManager_def Let_def)
qed

theorem tunnel_on_record_witness:
  "\<exists>dial resp conn d lost r. tunnel_Connect ex_path_env dial 0 ''CERT'' ''KEY'' ''ssh://lan-app'' = (Inr resp, conn)
     \<and> r = ex_raw_target \<and> granted d lost ''alice'' (rt_type r) (rt_host r) (rt_port r)"
proof -
  let ?ra = "''10.0.0.5:51112''" and ?name = "''ssh://lan-app''" and ?T = ex_path_env
  let ?dial = "\<lambda>_ _. Inr (\<lambda>input. gateway_reply ex_sys_gateway ex_path_world ex_alice_cert ?ra input (nd_gw (sy_nodes ex_run1 0)), None, None)"
  have gw: "nd_gw (sy_nodes ex_run1 0) = ex_sys_handler" "sy_db ex_run1 = ex_sys_db"
    by (simp_all add: ex_run1_def ex_run0_def system_start_def node_start_def ex_sys_handler_def)
  have G: "ex_sys_gateway = gateway_env ex_cp (\<lambda>_. NoResponse (Errorf [])) ex_sys_env (sy_db ex_run1)"
    by (simp add: gw ex_sys_gateway_def)
  have sent: "ex_input = snd (cl_WriteMessage (\<lambda>r. Inr (te_render ?T (request_json r))) None None (connect_request_of ?T 0 ?name))"
    by (simp add: ex_path_env_def ex_input_def cl_WriteMessage_ok)
  have q: "Some ex_q = question ex_sys_gateway (cw_clock ex_path_world) ex_alice_cert ?ra ex_input (nd_gw (sy_nodes ex_run1 0))"
    by (simp add: gw ex_path_world_def ex_sys_question)
  have sw: "served_well ex_cp (Some ex_q) (sy_db ex_run1)" using ex_sys_texts by (simp add: gw served_well_def)
  have j: "json_ok (te_render ?T) (\<lambda>_. Inr (request_json (connect_request_of ?T 0 ?name))) (request_json (connect_request_of ?T 0 ?name))"
    "json_ok (\<lambda>_. ''y'') (te_parse ?T) (response_json (gateway_response ex_sys_gateway ex_path_world ex_alice_cert ?ra ex_input
       (nd_gw (sy_nodes ex_run1 0))))"
    "in_int64 (cp_ttl (gateway_response ex_sys_gateway ex_path_world ex_alice_cert ?ra ex_input (nd_gw (sy_nodes ex_run1 0))))"
    by (simp_all add: json_ok_def gw ex_path_response) (simp_all add: ex_path_env_def gw_decision_def ex_dec_def in_int64_def)
  have env: "ce_marshal ex_sys_gateway = (\<lambda>r. Inr ''y'')"
    by (simp add: ex_sys_gateway_def gateway_env_def ex_path_codec)
  have "is_ok (buildTLSConfig (te_pair_error ?T) (te_read_path ?T) (te_pem_ok ?T) (te_cfg ?T) ''CERT'' ''KEY'')" by code_simp
  then obtain conf where c: "buildTLSConfig (te_pair_error ?T) (te_read_path ?T) (te_pem_ok ?T) (te_cfg ?T) ''CERT'' ''KEY'' = Inr conf"
    by (metis is_ok_simps(2) sum.exhaust)
  have "cl_ReadMessage (decode_response ?T) (gateway_reply ex_sys_gateway ex_path_world ex_alice_cert ?ra ex_input
      (nd_gw (sy_nodes ex_run1 0))) = (Inr (response_of (gateway_response ex_sys_gateway ex_path_world ex_alice_cert ?ra ex_input
      (nd_gw (sy_nodes ex_run1 0)))), [])"
    using answer_read[OF refl j(2,3), of "[]"] by (simp add: gateway_reply_def env)
  moreover have "cl_WriteMessage (\<lambda>r. Inr (te_render ?T (request_json r))) None None (connect_request_of ?T 0 ?name) = (None, ex_input)"
    using sent by (simp add: ex_path_env_def cl_WriteMessage_ok)
  ultimately obtain resp conn where t: "tunnel_Connect ?T ?dial 0 ''CERT'' ''KEY'' ?name = (Inr resp, conn)"
    using c by (simp add: tunnel_Connect_def gw ex_path_response response_of_def)
  have run: "sys_step\<^sup>*\<^sup>* (system_start (\<lambda>_. ex_gw_cfg)) ex_run1" using ex_run_api by (simp add: ex_run0_def)
  have name: "sr_sub (ExtractSubjectFromCert ex_alice_cert) = ''alice''"
    "bar \<notin> set ''alice'' \<union> set (rt_type ex_raw_target) \<union> set (rt_host ex_raw_target)" "rt_name ex_raw_target = []"
    by code_simp+
  have m: "ce_marshal ex_sys_env = (\<lambda>r. Inr ((\<lambda>_. ''y'') (response_json r)))" by (simp add: ex_path_codec)
  from tunnel_on_record[OF run G ex_path_codec(1) m sent q sw j refl t] obtain r where
    "answers_to ex_raw_target r" "bar \<notin> set ''alice'' \<union> set (rt_type r) \<union> set (rt_host r) \<longrightarrow>
       granted (cp_served ex_cp (ce_cfg ex_sys_env) (Some ex_q) (sy_db ex_run1))
         (cache_key ''alice'' ''connect'' r \<in> sy_unaudited ex_run1 \<union> unaudited ex_cp (ce_cfg ex_sys_env) (Some ex_q) (sy_db ex_run1))
         ''alice'' (rt_type r) (rt_host r) (rt_port r)"
    by (auto simp: ex_path_request name(1) simp del: Un_iff)
  with t name show ?thesis unfolding answers_to_def by blast
qed

end
